(* ===== verification/Prelude.thy ===== *)
theory Prelude
  imports Main "HOL-Library.Word"
begin

text \<open>
  What every other theory of the development shares: the machine integer types, the errors a Go
  function of the service can return, the calling convention of a Go function that acts on the
  outside world (a state transformer whose result is an error or a value), the combinators that
  sequence such calls the way \<open>if err != nil { return err }\<close> does, and the relational
  lifting rules from which the frame and invariant lemmas of the components are composed.
\<close>

section \<open>Machine integers and time\<close>

type_synonym u64 = "64 word"
type_synonym i64 = "64 word"
type_synonym i32 = "32 word"

text \<open>
  A \<open>time.Time\<close> is its count of nanoseconds since the Unix epoch. A \<open>time.Duration\<close> is an
  \<open>int64\<close> of nanoseconds, read with \<open>sint\<close>.
\<close>

type_synonym gotime = int

section \<open>Errors\<close>

text \<open>
  A Go \<open>error\<close> value. The service compares errors with \<open>errors.Is\<close> against its sentinel variables
  only, so each sentinel is a constructor of its own and every other error is kept as its text
  (\<open>ErrText\<close>) or, for the MySQL driver's error type that \<open>errors.As\<close> looks for, as its
  number and message.
\<close>

datatype error =
    ErrText string
  | ErrMySQL nat string
  | ErrRecordNotFound
  | ErrRedisNil
  | ErrCredentialNotFound
  | ErrProfileNotFound
  | ErrPlatformAccountMismatch
  | ErrActionScopeDenied
  | ErrBindingScopeDenied
  | ErrProfileScopeDenied
  | ErrGrantVersionRevoked
  | ErrDefaultProfileAlreadyExists

section \<open>Calls that act on the world\<close>

text \<open>A use case or a repository returns an \<open>error\<close> (\<open>io\<close>), a gRPC handler a status error;
  the combinators are the same for both.\<close>

type_synonym ('w, 'e, 'a) call = "'w \<Rightarrow> ('e + 'a) \<times> 'w"
type_synonym ('w, 'a) io = "('w, error, 'a) call"

definition ret :: "'a \<Rightarrow> ('w, 'e, 'a) call" where
  "ret x = (\<lambda>w. (Inr x, w))"

definition fail :: "'e \<Rightarrow> ('w, 'e, 'a) call" where
  "fail e = (\<lambda>w. (Inl e, w))"

definition bind_io :: "('w, 'e, 'a) call \<Rightarrow> ('a \<Rightarrow> ('w, 'e, 'b) call) \<Rightarrow> ('w, 'e, 'b) call" where
  "bind_io m f = (\<lambda>w. case m w of (Inl e, w') \<Rightarrow> (Inl e, w') | (Inr x, w') \<Rightarrow> f x w')"

text \<open>\<open>then_io\<close> is a call whose only result is its error; \<open>lift_res\<close> embeds a call that does
  not touch the world; \<open>ignore_err\<close> is \<open>_ = call()\<close>; \<open>attempt\<close> hands the error to
  the caller's own code, for the places that look at it instead of returning it.\<close>

definition then_io :: "('w, 'e, 'a) call \<Rightarrow> ('w, 'e, 'b) call \<Rightarrow> ('w, 'e, 'b) call" where
  "then_io m k = bind_io m (\<lambda>_. k)"

definition lift_res :: "'e + 'a \<Rightarrow> ('w, 'e, 'a) call" where
  "lift_res r = (\<lambda>w. (r, w))"

definition attempt :: "('w, 'e, 'a) call \<Rightarrow> ('w, 'f, 'e + 'a) call" where
  "attempt m = (\<lambda>w. case m w of (r, w') \<Rightarrow> (Inr r, w'))"

definition ignore_err :: "('w, 'e, 'a) call \<Rightarrow> ('w, 'e, unit) call" where
  "ignore_err m = bind_io (attempt m) (\<lambda>_. ret ())"

fun foreach :: "('a \<Rightarrow> ('w, 'e, unit) call) \<Rightarrow> 'a list \<Rightarrow> ('w, 'e, unit) call" where
  "foreach f [] = ret ()"
| "foreach f (x # xs) = then_io (f x) (foreach f xs)"

text \<open>\<open>defer func() { if rollback { ... } }()\<close>: the deferred calls run exactly when the guarded
  body returns an error, and the body's error is what the function returns.\<close>

definition on_error :: "('w, 'e, 'a) call \<Rightarrow> ('w, 'f, unit) call \<Rightarrow> ('w, 'e, 'a) call" where
  "on_error body cleanup = (\<lambda>w. case body w of
      (Inr x, w') \<Rightarrow> (Inr x, w')
    | (Inl e, w') \<Rightarrow> (Inl e, snd (cleanup w')))"

text \<open>A caller that turns the error of a call into its own.\<close>

definition map_error :: "('e \<Rightarrow> 'f) \<Rightarrow> ('w, 'e, 'a) call \<Rightarrow> ('w, 'f, 'a) call" where
  "map_error f m = bind_io (attempt m) (\<lambda>r. case r of Inl e \<Rightarrow> fail (f e) | Inr x \<Rightarrow> ret x)"

lemma ret_apply [simp]: "ret x w = (Inr x, w)"
  by (simp add: ret_def)

lemma fail_apply [simp]: "fail e w = (Inl e, w)"
  by (simp add: fail_def)

lemma lift_res_apply [simp]: "lift_res r w = (r, w)"
  by (simp add: lift_res_def)

lemma bind_io_apply:
  "bind_io m f w = (case m w of (Inl e, w') \<Rightarrow> (Inl e, w') | (Inr x, w') \<Rightarrow> f x w')"
  by (simp add: bind_io_def)

lemma bind_io_Inl [simp]: "m w = (Inl e, w') \<Longrightarrow> bind_io m f w = (Inl e, w')"
  by (simp add: bind_io_def)

lemma bind_io_Inr [simp]: "m w = (Inr x, w') \<Longrightarrow> bind_io m f w = f x w'"
  by (simp add: bind_io_def)

lemma then_io_apply:
  "then_io m k w = (case m w of (Inl e, w') \<Rightarrow> (Inl e, w') | (Inr x, w') \<Rightarrow> k w')"
  by (simp add: then_io_def bind_io_def)

lemma bind_io_ret [simp]: "bind_io (ret x) f = f x"
  by (simp add: bind_io_def fun_eq_iff)

lemma bind_io_fail [simp]: "bind_io (fail e) f = fail e"
  by (simp add: bind_io_def fun_eq_iff)

lemma bind_io_lift_Inl [simp]: "bind_io (lift_res (Inl e)) f = fail e"
  by (simp add: bind_io_def fun_eq_iff)

lemma bind_io_lift_Inr [simp]: "bind_io (lift_res (Inr x)) f = f x"
  by (simp add: bind_io_def fun_eq_iff)

lemma then_io_lift_Inl [simp]: "then_io (lift_res (Inl e)) k = fail e"
  by (simp add: then_io_def)

lemma then_io_lift_Inr [simp]: "then_io (lift_res (Inr x)) k = k"
  by (simp add: then_io_def)

lemma attempt_apply: "attempt m w = (Inr (fst (m w)), snd (m w))"
  by (simp add: attempt_def split: prod.split)

lemma ignore_err_apply: "ignore_err m w = (Inr (), snd (m w))"
  by (simp add: ignore_err_def bind_io_def attempt_apply)

lemma map_error_apply: "map_error f m w = (map_sum f id (fst (m w)), snd (m w))"
  by (cases "m w"; cases "fst (m w)") (simp_all add: map_error_def bind_io_def attempt_apply)

lemma map_error_okE:
  assumes "map_error f m w = (Inr x, w')"
  shows "m w = (Inr x, w')"
  using assms by (cases "m w"; cases "fst (m w)") (auto simp: map_error_apply)

lemma bind_io_okE:
  assumes "bind_io m f w = (Inr y, w'')"
  obtains x w' where "m w = (Inr x, w')" and "f x w' = (Inr y, w'')"
  using assms by (auto simp: bind_io_def split: prod.splits sum.splits)

lemma then_io_okE:
  assumes "then_io m k w = (Inr y, w'')"
  obtains x w' where "m w = (Inr x, w')" and "k w' = (Inr y, w'')"
  using assms unfolding then_io_def by (rule bind_io_okE)

section \<open>Contracts of calls\<close>

text \<open>
  A call keeps a contract when, started in a world that satisfies the invariant \<open>I\<close>, it ends in a
  world that satisfies it, the worlds before and after are related by \<open>R\<close>, and a value it returns
  satisfies \<open>Q\<close>. The frame conditions (\<open>rows of other bindings are unchanged\<close>) and the invariants of
  the components are instances; the rules below build the contract of a function from those of the
  calls it makes.
\<close>

definition keeps :: "('w \<Rightarrow> bool) \<Rightarrow> ('w \<Rightarrow> 'w \<Rightarrow> bool) \<Rightarrow> ('a \<Rightarrow> bool) \<Rightarrow> ('w, 'e, 'a) call \<Rightarrow> bool" where
  "keeps I R Q m \<longleftrightarrow> (\<forall>w. I w \<longrightarrow>
     I (snd (m w)) \<and> R w (snd (m w)) \<and> (\<forall>x. fst (m w) = Inr x \<longrightarrow> Q x))"

lemma keepsI:
  assumes "\<And>w r w'. I w \<Longrightarrow> m w = (r, w') \<Longrightarrow> I w' \<and> R w w' \<and> (\<forall>x. r = Inr x \<longrightarrow> Q x)"
  shows "keeps I R Q m"
  unfolding keeps_def using assms by (metis prod.collapse)

lemma keepsD:
  assumes "keeps I R Q m" "I w" "m w = (r, w')"
  shows "I w'" "R w w'" "r = Inr x \<Longrightarrow> Q x"
  using assms unfolding keeps_def by (metis fst_conv snd_conv)+

lemma keeps_weaken: "keeps I R P m \<Longrightarrow> (\<And>x. P x \<Longrightarrow> Q x) \<Longrightarrow> keeps I R Q m"
  by (auto simp: keeps_def)

lemma keeps_any: "keeps I R P m \<Longrightarrow> keeps I R (\<lambda>_. True) m"
  by (auto simp: keeps_def)

locale world_contract =
  fixes I :: "'w \<Rightarrow> bool" and R :: "'w \<Rightarrow> 'w \<Rightarrow> bool"
  assumes R_refl: "I w \<Longrightarrow> R w w"
    and R_trans: "R w w' \<Longrightarrow> R w' w'' \<Longrightarrow> R w w''"
begin

lemma io_ret: "Q x \<Longrightarrow> keeps I R Q (ret x)"
  by (simp add: keeps_def R_refl)

lemma io_fail: "keeps I R Q (fail e)"
  by (simp add: keeps_def R_refl)

lemma io_lift: "(\<And>x. r = Inr x \<Longrightarrow> Q x) \<Longrightarrow> keeps I R Q (lift_res r)"
  by (simp add: keeps_def R_refl)

lemma io_bind: "keeps I R P m \<Longrightarrow> (\<And>x. P x \<Longrightarrow> keeps I R Q (f x)) \<Longrightarrow> keeps I R Q (bind_io m f)"
  unfolding keeps_def bind_io_def
  by (auto split: prod.splits sum.splits) (metis R_trans fst_conv snd_conv)+

lemma io_then: "keeps I R P m \<Longrightarrow> keeps I R Q k \<Longrightarrow> keeps I R Q (then_io m k)"
  unfolding then_io_def by (rule io_bind)

lemma io_attempt: "keeps I R P m \<Longrightarrow> keeps I R (\<lambda>r. \<forall>x. r = Inr x \<longrightarrow> P x) (attempt m)"
  by (simp add: keeps_def attempt_apply)

lemma io_ignore: "keeps I R P m \<Longrightarrow> keeps I R (\<lambda>_. True) (ignore_err m)"
  by (simp add: keeps_def ignore_err_apply)

lemma io_map_error: "keeps I R Q m \<Longrightarrow> keeps I R Q (map_error f m)"
  by (auto simp: keeps_def map_error_apply map_sum_def split: sum.splits)

lemma io_loop:
  "(\<And>x. x \<in> set xs \<Longrightarrow> keeps I R (\<lambda>_. True) (f x)) \<Longrightarrow> keeps I R (\<lambda>_. True) (foreach f xs)"
  by (induction xs) (auto intro: io_then io_ret)

lemma io_deferred: "keeps I R Q m \<Longrightarrow> keeps I R P c \<Longrightarrow> keeps I R Q (on_error m c)"
  unfolding keeps_def on_error_def
  by (auto split: prod.splits sum.splits) (metis R_trans fst_conv snd_conv)+

text \<open>A computation that does not touch the world, in front of the rest.\<close>

lemma io_lifted: "(\<And>x. r = Inr x \<Longrightarrow> keeps I R Q (f x)) \<Longrightarrow> keeps I R Q (bind_io (lift_res r) f)"
  by (cases r) (auto simp: io_fail)

lemma io_guard: "(g = Inr () \<Longrightarrow> keeps I R Q k) \<Longrightarrow> keeps I R Q (then_io (lift_res g) k)"
  by (cases g) (auto simp: io_fail)

lemma io_mapped_lifted:
  "(\<And>x. r = Inr x \<Longrightarrow> keeps I R Q (k x)) \<Longrightarrow> keeps I R Q (bind_io (map_error f (lift_res r)) k)"
  by (rule io_bind[OF io_map_error[OF io_lift[where Q = "\<lambda>x. r = Inr x"]]]) simp_all

lemma io_mapped_guard:
  "(g = Inr () \<Longrightarrow> keeps I R Q k) \<Longrightarrow> keeps I R Q (then_io (map_error f (lift_res g)) k)"
  unfolding then_io_def by (rule io_mapped_lifted) simp

end

section \<open>What a call that returns has established\<close>

text \<open>Partial correctness of a call over the worlds before and after it: started where \<open>P\<close> holds, if it
  returns a value then \<open>Q\<close> holds of the value and the world it leaves.\<close>

definition establishes :: "('w \<Rightarrow> bool) \<Rightarrow> ('w, 'e, 'a) call \<Rightarrow> ('a \<Rightarrow> 'w \<Rightarrow> bool) \<Rightarrow> bool" where
  "establishes P m Q \<longleftrightarrow> (\<forall>w x w'. P w \<longrightarrow> m w = (Inr x, w') \<longrightarrow> Q x w')"

lemma establishesD: "establishes P m Q \<Longrightarrow> P w \<Longrightarrow> m w = (Inr x, w') \<Longrightarrow> Q x w'"
  by (auto simp: establishes_def)

lemma est_weaken:
  "establishes P m Q \<Longrightarrow> (\<And>w. P' w \<Longrightarrow> P w) \<Longrightarrow> (\<And>x w. Q x w \<Longrightarrow> Q' x w) \<Longrightarrow> establishes P' m Q'"
  unfolding establishes_def by blast

lemma est_ret: "(\<And>w. P w \<Longrightarrow> Q x w) \<Longrightarrow> establishes P (ret x) Q"
  by (simp add: establishes_def)

lemma est_fail: "establishes P (fail e) Q"
  by (simp add: establishes_def)

lemma est_bind:
  assumes "establishes P m Q" "\<And>x. establishes (Q x) (f x) S"
  shows "establishes P (bind_io m f) S"
  using assms unfolding establishes_def by (metis bind_io_okE)

lemma est_then:
  assumes "establishes P m (\<lambda>_. Q)" "establishes Q k S"
  shows "establishes P (then_io m k) S"
  unfolding then_io_def using assms by (rule est_bind)

lemma est_map_error: "establishes P m Q \<Longrightarrow> establishes P (map_error f m) Q"
  unfolding establishes_def using map_error_okE by metis

lemma est_on_error: "establishes P m Q \<Longrightarrow> establishes P (on_error m c) Q"
  by (auto simp: establishes_def on_error_def split: prod.splits sum.splits)

lemma est_loop:
  assumes "\<And>x. x \<in> set xs \<Longrightarrow> establishes P (f x) (\<lambda>_. P)"
  shows "establishes P (foreach f xs) (\<lambda>_. P)"
  using assms by (induction xs) (auto intro: est_then est_ret)

end
