(* ===== verification/GoStrings.thy ===== *)
theory GoStrings
  imports Prelude
begin

text \<open>
  The functions of Go's standard library on strings and numbers that the service calls, over byte
  strings (a Go \<open>string\<close> is a byte sequence, a HOL \<open>string\<close> a list of 8-bit characters):
  \<open>strings.HasPrefix\<close>, \<open>TrimPrefix\<close>, \<open>IndexByte\<close>, \<open>Contains\<close>, \<open>ToLower\<close>,
  \<open>strconv.ParseUint(s, 10, 64)\<close> with its overflow tests on \<open>uint64\<close>, the \<open>%d\<close> and \<open>%q\<close>
  verbs, and the text of an error. \<open>ToLower\<close> and \<open>%q\<close> are modelled on ASCII; other bytes
  pass through. The lemmas give the decimal round trip that the platform account key rests on.
\<close>

section \<open>Package strings\<close>

definition has_prefix :: "string \<Rightarrow> string \<Rightarrow> bool" where
  "has_prefix s p \<longleftrightarrow> take (length p) s = p"

definition trim_prefix :: "string \<Rightarrow> string \<Rightarrow> string" where
  "trim_prefix s p = (if has_prefix s p then drop (length p) s else s)"

fun index_byte :: "string \<Rightarrow> char \<Rightarrow> int" where
  "index_byte [] c = -1"
| "index_byte (x # xs) c =
     (if x = c then 0 else (let i = index_byte xs c in if i < 0 then -1 else i + 1))"

fun str_contains :: "string \<Rightarrow> string \<Rightarrow> bool" where
  "str_contains [] sub = (sub = [])"
| "str_contains (c # cs) sub = (has_prefix (c # cs) sub \<or> str_contains cs sub)"

definition byte_code :: "char \<Rightarrow> nat" where
  "byte_code c = of_char c"

definition lower_byte :: "char \<Rightarrow> char" where
  "lower_byte c = (if 65 \<le> byte_code c \<and> byte_code c \<le> 90 then char_of (byte_code c + 32) else c)"

definition to_lower :: "string \<Rightarrow> string" where
  "to_lower = map lower_byte"

section \<open>Package strconv and the formatting verbs\<close>

definition digit_byte :: "nat \<Rightarrow> char" where
  "digit_byte d = char_of (48 + d)"

definition is_digit :: "char \<Rightarrow> bool" where
  "is_digit c \<longleftrightarrow> 48 \<le> byte_code c \<and> byte_code c \<le> 57"

definition digit_value :: "char \<Rightarrow> nat" where
  "digit_value c = byte_code c - 48"

fun show_nat :: "nat \<Rightarrow> string" where
  "show_nat n = (if n < 10 then [digit_byte n] else show_nat (n div 10) @ [digit_byte (n mod 10)])"

declare show_nat.simps [simp del]

definition show_u64 :: "u64 \<Rightarrow> string" where
  "show_u64 x = show_nat (unat x)"

datatype num_error = ErrSyntax | ErrRange

text \<open>
  The loop of \<open>ParseUint\<close> for base 10 and 64 bits: \<open>cutoff\<close> is the least number whose tenfold
  overflows, and the addition of the digit is tested for wrap-around.
\<close>

definition parse_cutoff :: u64 where
  "parse_cutoff = 1844674407370955162"

fun parse_uint_loop :: "u64 \<Rightarrow> string \<Rightarrow> num_error + u64" where
  "parse_uint_loop n [] = Inr n"
| "parse_uint_loop n (c # cs) =
     (if \<not> is_digit c then Inl ErrSyntax
      else if parse_cutoff \<le> n then Inl ErrRange
      else let m = n * 10; n1 = m + of_nat (digit_value c)
           in if n1 < m then Inl ErrRange else parse_uint_loop n1 cs)"

definition parse_uint :: "string \<Rightarrow> num_error + u64" where
  "parse_uint s = (if s = [] then Inl ErrSyntax else parse_uint_loop 0 s)"

definition hex_digit :: "nat \<Rightarrow> char" where
  "hex_digit d = (if d < 10 then char_of (48 + d) else char_of (87 + d))"

definition quote_byte :: "char \<Rightarrow> string" where
  "quote_byte c = (let n = byte_code c in
     if n = 34 \<or> n = 92 then [char_of (92::nat), c]
     else if n = 7 then [char_of (92::nat), CHR ''a'']
     else if n = 8 then [char_of (92::nat), CHR ''b'']
     else if n = 9 then [char_of (92::nat), CHR ''t'']
     else if n = 10 then [char_of (92::nat), CHR ''n'']
     else if n = 11 then [char_of (92::nat), CHR ''v'']
     else if n = 12 then [char_of (92::nat), CHR ''f'']
     else if n = 13 then [char_of (92::nat), CHR ''r'']
     else if n < 32 \<or> n = 127 then [char_of (92::nat), CHR ''x'', hex_digit (n div 16), hex_digit (n mod 16)]
     else [c])"

definition go_quote :: "string \<Rightarrow> string" where
  "go_quote s = [char_of (34::nat)] @ concat (map quote_byte s) @ [char_of (34::nat)]"

definition num_error_text :: "string \<Rightarrow> num_error \<Rightarrow> string" where
  "num_error_text s e = ''strconv.ParseUint: parsing '' @ go_quote s @
     (case e of ErrSyntax \<Rightarrow> '': invalid syntax'' | ErrRange \<Rightarrow> '': value out of range'')"

text \<open>The driver prints the number of a server error with its \<open>SQLSTATE\<close>.\<close>

definition sql_state :: "nat \<Rightarrow> string" where
  "sql_state n =
     (if n = 1062 then ''23000'' else if n = 1406 then ''22001'' else if n = 1264 then ''22003'' else ''HY000'')"

fun error_text :: "error \<Rightarrow> string" where
  "error_text (ErrText s) = s"
| "error_text (ErrMySQL n m) = ''Error '' @ show_nat n @ '' ('' @ sql_state n @ ''): '' @ m"
| "error_text ErrRecordNotFound = ''record not found''"
| "error_text ErrRedisNil = ''redis: nil''"
| "error_text ErrCredentialNotFound = ''credential not found''"
| "error_text ErrProfileNotFound = ''profile not found''"
| "error_text ErrPlatformAccountMismatch = ''platform account does not match requested credential''"
| "error_text ErrActionScopeDenied = ''action is outside ticket scope''"
| "error_text ErrBindingScopeDenied = ''binding is outside ticket scope''"
| "error_text ErrProfileScopeDenied = ''profile is outside ticket scope''"
| "error_text ErrGrantVersionRevoked = ''service ticket grant version revoked''"
| "error_text ErrDefaultProfileAlreadyExists = ''default profile already exists for binding''"

section \<open>Facts about the string functions\<close>

lemma has_prefix_append [simp]: "has_prefix (p @ s) p"
  by (simp add: has_prefix_def)

lemma trim_prefix_append [simp]: "trim_prefix (p @ s) p = s"
  by (simp add: trim_prefix_def)

lemma has_prefixE:
  assumes "has_prefix s p"
  obtains t where "s = p @ t"
  using assms unfolding has_prefix_def by (metis append_take_drop_id)

lemma index_byte_notin: "c \<notin> set xs \<Longrightarrow> index_byte xs c = -1"
  by (induction xs) auto

lemma index_byte_append_notin:
  "c \<notin> set xs \<Longrightarrow> index_byte (xs @ c # ys) c = int (length xs)"
  by (induction xs) auto

lemma index_byte_nonneg_split:
  assumes "0 \<le> index_byte xs c"
  shows "\<exists>ys zs. xs = ys @ c # zs \<and> c \<notin> set ys \<and> nat (index_byte xs c) = length ys"
  using assms
proof (induction xs)
  case Nil
  then show ?case by simp
next
  case (Cons x xs)
  show ?case
  proof (cases "x = c")
    case True
    then show ?thesis by (intro exI[of _ "[]"] exI[of _ xs]) simp
  next
    case False
    with Cons.prems have nonneg: "0 \<le> index_byte xs c"
      by (auto simp: Let_def split: if_splits)
    then obtain ys zs where "xs = ys @ c # zs" "c \<notin> set ys" "nat (index_byte xs c) = length ys"
      using Cons.IH by blast
    with False nonneg show ?thesis
      by (intro exI[of _ "x # ys"] exI[of _ zs]) (auto simp: Let_def)
  qed
qed

lemma str_contains_iff: "str_contains s sub \<longleftrightarrow> (\<exists>ps ss. s = ps @ sub @ ss)"
proof (induction s)
  case Nil
  then show ?case by simp
next
  case (Cons c cs)
  have "(\<exists>ps ss. c # cs = ps @ sub @ ss) \<longleftrightarrow>
      (\<exists>ss. c # cs = sub @ ss) \<or> (\<exists>ps ss. cs = ps @ sub @ ss)"
    by (metis append_Cons append_Nil append_eq_Cons_conv)
  moreover have "has_prefix (c # cs) sub \<longleftrightarrow> (\<exists>ss. c # cs = sub @ ss)"
    by (metis has_prefixE has_prefix_append)
  ultimately show ?case using Cons.IH by simp
qed

section \<open>Decimal round trip\<close>

lemma byte_code_digit: "d < 10 \<Longrightarrow> byte_code (digit_byte d) = 48 + d"
  by (simp add: byte_code_def digit_byte_def)

lemma is_digit_digit [simp]: "d < 10 \<Longrightarrow> is_digit (digit_byte d)"
  by (simp add: is_digit_def byte_code_digit)

lemma digit_value_digit [simp]: "d < 10 \<Longrightarrow> digit_value (digit_byte d) = d"
  by (simp add: digit_value_def byte_code_digit)

lemma digit_value_less: "is_digit c \<Longrightarrow> digit_value c < 10"
  by (auto simp: is_digit_def digit_value_def)

lemma show_nat_digits: "\<forall>c \<in> set (show_nat n). is_digit c"
proof (induction n rule: show_nat.induct)
  case (1 n)
  show ?case by (subst show_nat.simps) (use 1 in \<open>auto simp: not_less\<close>)
qed

lemma show_nat_nonempty [simp]: "show_nat n \<noteq> []"
  by (subst show_nat.simps) simp

lemma underscore_not_digit [simp]: "\<not> is_digit CHR ''_''"
  by (simp add: is_digit_def byte_code_def)

lemma colon_not_digit [simp]: "\<not> is_digit CHR '':''"
  by (simp add: is_digit_def byte_code_def)

lemma show_nat_no_sep: "\<not> is_digit c \<Longrightarrow> c \<notin> set (show_nat n)"
  using show_nat_digits by blast

text \<open>The mathematical value of a digit string, and the loop of \<open>ParseUint\<close> against it.\<close>

fun dec_value :: "nat \<Rightarrow> string \<Rightarrow> nat" where
  "dec_value n [] = n"
| "dec_value n (c # cs) = dec_value (n * 10 + digit_value c) cs"

lemma dec_value_append: "dec_value n (xs @ ys) = dec_value (dec_value n xs) ys"
  by (induction xs arbitrary: n) auto

lemma dec_value_mono: "n \<le> dec_value n cs"
proof (induction cs arbitrary: n)
  case Nil
  then show ?case by simp
next
  case (Cons c cs)
  have "n \<le> n * 10 + digit_value c" by simp
  also have "\<dots> \<le> dec_value (n * 10 + digit_value c) cs" by (rule Cons.IH)
  finally show ?case by simp
qed

lemma dec_value_show: "dec_value 0 (show_nat n) = n"
proof (induction n rule: show_nat.induct)
  case (1 n)
  show ?case
    by (subst show_nat.simps) (use 1 in \<open>auto simp: dec_value_append not_less\<close>)
qed

lemma parse_step_no_wrap:
  fixes n :: u64
  assumes "\<not> parse_cutoff \<le> n" and d: "d < 10"
  shows "unat (n * 10) = unat n * 10"
    and "n * 10 + of_nat d < n * 10 \<longleftrightarrow> 2 ^ 64 \<le> unat n * 10 + d"
    and "unat n * 10 + d < 2 ^ 64 \<Longrightarrow> unat (n * 10 + of_nat d) = unat n * 10 + d"
proof -
  have lt: "unat n < 1844674407370955162"
    using assms(1) by (simp add: parse_cutoff_def word_le_nat_alt)
  show m: "unat (n * 10) = unat n * 10"
    using lt by (simp add: unat_word_ariths)
  have du: "unat (of_nat d :: u64) = d"
    using d by (simp add: unat_of_nat)
  have s: "unat (n * 10 + of_nat d) = (unat n * 10 + d) mod 2 ^ 64"
    by (simp only: unat_word_ariths m[unfolded unat_word_ariths] du) (use m in \<open>simp add: unat_word_ariths\<close>)
  show "n * 10 + of_nat d < n * 10 \<longleftrightarrow> 2 ^ 64 \<le> unat n * 10 + d"
  proof (cases "unat n * 10 + d < 2 ^ 64")
    case True
    then show ?thesis by (simp add: word_less_nat_alt s m)
  next
    case False
    with lt d have "(unat n * 10 + d) mod 2 ^ 64 = unat n * 10 + d - 2 ^ 64"
      by (simp add: mod_if)
    with False d show ?thesis by (simp add: word_less_nat_alt s m)
  qed
  show "unat n * 10 + d < 2 ^ 64 \<Longrightarrow> unat (n * 10 + of_nat d) = unat n * 10 + d"
    by (simp add: s)
qed

lemma parse_uint_loop_ok:
  "parse_uint_loop n s = Inr v \<longleftrightarrow>
     (\<forall>c \<in> set s. is_digit c) \<and> dec_value (unat n) s < 2 ^ 64 \<and> unat v = dec_value (unat n) s"
proof (induction s arbitrary: n)
  case Nil
  then show ?case using unsigned_less[of n, where ?'a = nat] by (auto dest: unsigned_word_eqI)
next
  case (Cons c cs)
  show ?case
  proof (cases "is_digit c \<and> \<not> parse_cutoff \<le> n")
    case True
    note step = parse_step_no_wrap[OF conjunct2[OF True] digit_value_less[OF conjunct1[OF True]]]
    show ?thesis
    proof (cases "unat n * 10 + digit_value c < 2 ^ 64")
      case True': True
      then show ?thesis using True step Cons.IH by (simp add: Let_def)
    next
      case False
      have "unat n * 10 + digit_value c \<le> dec_value (unat n * 10 + digit_value c) cs"
        by (rule dec_value_mono)
      with False step True show ?thesis by (auto simp: Let_def)
    qed
  next
    case False
    have "2 ^ 64 \<le> dec_value (unat n) (c # cs)" if "parse_cutoff \<le> n"
    proof -
      have "1844674407370955162 \<le> unat n"
        using that by (simp add: parse_cutoff_def word_le_nat_alt)
      then have "2 ^ 64 \<le> unat n * 10 + digit_value c" by simp
      also have "\<dots> \<le> dec_value (unat n * 10 + digit_value c) cs" by (rule dec_value_mono)
      finally show ?thesis by simp
    qed
    with False show ?thesis by auto
  qed
qed

lemma parse_uint_ok:
  "parse_uint s = Inr v \<longleftrightarrow>
     s \<noteq> [] \<and> (\<forall>c \<in> set s. is_digit c) \<and> dec_value 0 s < 2 ^ 64 \<and> unat v = dec_value 0 s"
  by (auto simp: parse_uint_def parse_uint_loop_ok)

lemma parse_uint_show [simp]: "parse_uint (show_u64 x) = Inr x"
  using show_nat_digits unsigned_less[of x, where ?'a = nat]
  by (auto simp: parse_uint_ok show_u64_def dec_value_show)

lemma show_u64_inject [simp]: "show_u64 x = show_u64 y \<longleftrightarrow> x = y"
  by (metis parse_uint_show sum.inject(2))

end
