(* ===== verification/PlatformAccountKey.thy ===== *)
theory PlatformAccountKey
  imports GoStrings
begin

text \<open>
  \<open>internal/usecase/platform_account_key.go\<close>: the account key \<open>binding_<id>_<account>\<close> that
  credentials, devices, profiles and artifacts carry, and the parser that recovers the binding id
  from it, also from the legacy form \<open>hoyo_ref_<id>_<account>\<close>.
\<close>

definition binding_prefix :: string where
  "binding_prefix = ''binding_''"

definition hoyo_prefix :: string where
  "hoyo_prefix = ''hoyo_ref_''"

definition FormatPlatformAccountID :: "u64 \<Rightarrow> string \<Rightarrow> string" where
  "FormatPlatformAccountID bindingID accountID = binding_prefix @ show_u64 bindingID @ ''_'' @ accountID"

definition invalid_format :: "string \<Rightarrow> error" where
  "invalid_format s = ErrText (''parse binding id from platform account id: invalid format '' @ go_quote s)"

definition binding_part :: "string \<Rightarrow> string \<Rightarrow> error + string" where
  "binding_part platformAccountID p =
     (let rest = trim_prefix platformAccountID p;
          separator = index_byte rest CHR ''_''
      in if separator \<le> 0 then Inl (invalid_format platformAccountID)
         else Inr (take (nat separator) rest))"

definition BindingIDFromPlatformAccountID :: "string \<Rightarrow> error + u64" where
  "BindingIDFromPlatformAccountID platformAccountID =
     (case (if has_prefix platformAccountID binding_prefix then binding_part platformAccountID binding_prefix
            else if has_prefix platformAccountID hoyo_prefix then binding_part platformAccountID hoyo_prefix
            else Inl (invalid_format platformAccountID)) of
        Inl e \<Rightarrow> Inl e
      | Inr bindingIDPart \<Rightarrow>
          (case parse_uint bindingIDPart of
             Inl ne \<Rightarrow> Inl (ErrText (''parse binding id from platform account id: '' @ num_error_text bindingIDPart ne))
           | Inr bindingID \<Rightarrow> Inr bindingID))"

text \<open>The binding an account key belongs to, when it names one.\<close>

definition key_binding :: "string \<Rightarrow> u64 option" where
  "key_binding paid = (case BindingIDFromPlatformAccountID paid of Inl _ \<Rightarrow> None | Inr b \<Rightarrow> Some b)"

section \<open>What the parser accepts\<close>

lemma binding_part_show:
  "binding_part (p @ show_u64 b @ ''_'' @ rest) p = Inr (show_u64 b)"
proof -
  have "CHR ''_'' \<notin> set (show_u64 b)"
    by (simp add: show_u64_def show_nat_no_sep)
  then have "index_byte (show_u64 b @ ''_'' @ rest) CHR ''_'' = int (length (show_u64 b))"
    by (simp add: index_byte_append_notin)
  moreover have "show_u64 b \<noteq> []" by (simp add: show_u64_def)
  ultimately show ?thesis by (simp add: binding_part_def Let_def)
qed

lemma binding_part_ok:
  "binding_part (p @ t) p = Inr ds \<longleftrightarrow>
     (\<exists>rest. t = ds @ ''_'' @ rest) \<and> ds \<noteq> [] \<and> CHR ''_'' \<notin> set ds"
proof
  assume ok: "binding_part (p @ t) p = Inr ds"
  then have pos: "0 < index_byte t CHR ''_''" and ds: "ds = take (nat (index_byte t CHR ''_'')) t"
    by (auto simp: binding_part_def Let_def split: if_splits)
  obtain ys zs where "t = ys @ CHR ''_'' # zs" "CHR ''_'' \<notin> set ys"
    "nat (index_byte t CHR ''_'') = length ys"
    using index_byte_nonneg_split[of t "CHR ''_''"] pos by auto
  with pos ds show "(\<exists>rest. t = ds @ ''_'' @ rest) \<and> ds \<noteq> [] \<and> CHR ''_'' \<notin> set ds" by auto
next
  assume "(\<exists>rest. t = ds @ ''_'' @ rest) \<and> ds \<noteq> [] \<and> CHR ''_'' \<notin> set ds"
  then show "binding_part (p @ t) p = Inr ds"
    by (auto simp: binding_part_def Let_def index_byte_append_notin)
qed

lemma not_both_prefixes: "has_prefix s hoyo_prefix \<Longrightarrow> \<not> has_prefix s binding_prefix"
  by (elim has_prefixE) (simp add: has_prefix_def binding_prefix_def hoyo_prefix_def)

lemma parse_part_ok:
  "(case binding_part (p @ t) p of Inl e \<Rightarrow> Inl e | Inr ds \<Rightarrow>
      (case parse_uint ds of Inl ne \<Rightarrow> Inl (f ds ne) | Inr b \<Rightarrow> Inr b)) = Inr b \<longleftrightarrow>
   (\<exists>ds rest. t = ds @ ''_'' @ rest \<and> parse_uint ds = Inr b)"
proof
  assume "(case binding_part (p @ t) p of Inl e \<Rightarrow> Inl e | Inr ds \<Rightarrow>
      (case parse_uint ds of Inl ne \<Rightarrow> Inl (f ds ne) | Inr b \<Rightarrow> Inr b)) = Inr b"
  then obtain ds where "binding_part (p @ t) p = Inr ds" "parse_uint ds = Inr b"
    by (auto split: sum.splits)
  then show "\<exists>ds rest. t = ds @ ''_'' @ rest \<and> parse_uint ds = Inr b"
    by (auto simp: binding_part_ok)
next
  assume "\<exists>ds rest. t = ds @ ''_'' @ rest \<and> parse_uint ds = Inr b"
  then obtain ds rest where t: "t = ds @ ''_'' @ rest" and p: "parse_uint ds = Inr b" by blast
  from p have "ds \<noteq> []" "CHR ''_'' \<notin> set ds"
    by (auto simp: parse_uint_ok)
  with t have "binding_part (p @ t) p = Inr ds"
    by (simp add: binding_part_ok)
  with p show "(case binding_part (p @ t) p of Inl e \<Rightarrow> Inl e | Inr ds \<Rightarrow>
      (case parse_uint ds of Inl ne \<Rightarrow> Inl (f ds ne) | Inr b \<Rightarrow> Inr b)) = Inr b" by simp
qed

lemma parse_key_ok:
  "BindingIDFromPlatformAccountID s = Inr b \<longleftrightarrow>
     (\<exists>ds rest. (s = binding_prefix @ ds @ ''_'' @ rest \<or> s = hoyo_prefix @ ds @ ''_'' @ rest)
        \<and> parse_uint ds = Inr b)"
proof -
  consider (b) t where "s = binding_prefix @ t" | (h) t where "s = hoyo_prefix @ t"
    | (n) "\<not> has_prefix s binding_prefix" "\<not> has_prefix s hoyo_prefix"
    by (metis has_prefixE)
  then show ?thesis
  proof cases
    case b
    have "BindingIDFromPlatformAccountID s = Inr b \<longleftrightarrow>
        (\<exists>ds rest. t = ds @ ''_'' @ rest \<and> parse_uint ds = Inr b)"
      unfolding BindingIDFromPlatformAccountID_def b
      by (simp only: has_prefix_append if_True parse_part_ok)
    then show ?thesis by (auto simp: b binding_prefix_def hoyo_prefix_def)
  next
    case h
    have np: "\<not> has_prefix (hoyo_prefix @ t) binding_prefix"
      by (rule not_both_prefixes) (rule has_prefix_append)
    have "BindingIDFromPlatformAccountID s = Inr b \<longleftrightarrow>
        (\<exists>ds rest. t = ds @ ''_'' @ rest \<and> parse_uint ds = Inr b)"
      unfolding BindingIDFromPlatformAccountID_def h
      by (simp only: np has_prefix_append if_True if_False parse_part_ok)
    then show ?thesis by (auto simp: h binding_prefix_def hoyo_prefix_def)
  next
    case n
    then show ?thesis by (auto simp: BindingIDFromPlatformAccountID_def)
  qed
qed

lemma parse_format [simp]:
  "BindingIDFromPlatformAccountID (FormatPlatformAccountID b acc) = Inr b"
  unfolding parse_key_ok FormatPlatformAccountID_def using parse_uint_show by blast

lemma key_binding_format [simp]: "key_binding (FormatPlatformAccountID b acc) = Some b"
  by (simp add: key_binding_def)

lemma format_key_inject [simp]:
  "FormatPlatformAccountID b acc = FormatPlatformAccountID b' acc' \<longleftrightarrow> b = b' \<and> acc = acc'"
proof
  assume eq: "FormatPlatformAccountID b acc = FormatPlatformAccountID b' acc'"
  have "BindingIDFromPlatformAccountID (FormatPlatformAccountID b acc) = Inr b'"
    by (simp only: eq parse_format)
  then have b: "b = b'" by simp
  with eq show "b = b' \<and> acc = acc'" by (simp add: FormatPlatformAccountID_def)
qed simp

text \<open>The account key round trip. For every binding id (the whole range of uint64) and every
  upstream account id, also one that itself contains underscores, the parser recovers the binding
  id from the key that FormatPlatformAccountID built, and two keys are equal only if both their
  binding ids and their account ids are.\<close>

theorem account_key_roundtrip:
  "BindingIDFromPlatformAccountID (FormatPlatformAccountID b acc) = Inr b \<and>
   (FormatPlatformAccountID b acc = FormatPlatformAccountID b' acc' \<longleftrightarrow> b = b' \<and> acc = acc')"
  by (simp only: parse_format format_key_inject)

end
