(* ===== verification/ScopeGuard.thy ===== *)
theory ScopeGuard
  imports PlatformAccountKey
begin

text \<open>
  \<open>internal/usecase/scope_guard.go\<close>: the actions a service ticket can allow and the guard that every
  handler derives from the ticket and asks before it touches a binding. A nil error is \<open>Inr ()\<close>;
  \<open>map[string]struct{}\<close> is the set of its keys.
\<close>

definition ActionStatusRead :: string where "ActionStatusRead = ''mihomo.status.read''"
definition ActionProfileRead :: string where "ActionProfileRead = ''mihomo.profile.read''"
definition ActionProfileWrite :: string where "ActionProfileWrite = ''mihomo.profile.write''"
definition ActionAuthKeyIssue :: string where "ActionAuthKeyIssue = ''mihomo.authkey.issue''"
definition ActionCredentialBind :: string where "ActionCredentialBind = ''mihomo.credential.bind''"
definition ActionDeviceUpdate :: string where "ActionDeviceUpdate = ''mihomo.device.update''"
definition ActionCredentialRead :: string where "ActionCredentialRead = ''mihomo.credential.read_meta''"
definition ActionCredentialUpdate :: string where "ActionCredentialUpdate = ''mihomo.credential.update''"
definition ActionCredentialRefresh :: string where "ActionCredentialRefresh = ''mihomo.credential.refresh''"
definition ActionCredentialDelete :: string where "ActionCredentialDelete = ''mihomo.credential.delete''"

record ScopeGuard =
  sg_AllowedActions :: "string set"
  sg_BindingID :: u64
  sg_ProfileID :: u64

definition RequireAction :: "ScopeGuard \<Rightarrow> string \<Rightarrow> error + unit" where
  "RequireAction g action =
     (if action \<notin> sg_AllowedActions g then Inl ErrActionScopeDenied else Inr ())"

definition RequirePlatformAccountID :: "ScopeGuard \<Rightarrow> string \<Rightarrow> error + unit" where
  "RequirePlatformAccountID g platformAccountID =
     (case BindingIDFromPlatformAccountID platformAccountID of
        Inl _ \<Rightarrow> Inl ErrBindingScopeDenied
      | Inr bindingID \<Rightarrow>
          if bindingID = 0 \<or> sg_BindingID g \<noteq> bindingID then Inl ErrBindingScopeDenied else Inr ())"

definition RequireBindingWide :: "ScopeGuard \<Rightarrow> error + unit" where
  "RequireBindingWide g = (if sg_ProfileID g \<noteq> 0 then Inl ErrProfileScopeDenied else Inr ())"

definition RequireProfile :: "ScopeGuard \<Rightarrow> u64 \<Rightarrow> u64 \<Rightarrow> error + unit" where
  "RequireProfile g bindingID profileID =
     (if sg_BindingID g = 0 \<or> sg_BindingID g \<noteq> bindingID then Inl ErrBindingScopeDenied
      else if sg_ProfileID g \<noteq> 0 \<and> sg_ProfileID g \<noteq> profileID then Inl ErrProfileScopeDenied
      else Inr ())"

lemma RequireAction_ok [simp]: "RequireAction g a = Inr u \<longleftrightarrow> a \<in> sg_AllowedActions g"
  by (simp add: RequireAction_def)

lemma RequirePlatformAccountID_ok [simp]:
  "RequirePlatformAccountID g s = Inr u \<longleftrightarrow>
     sg_BindingID g \<noteq> 0 \<and> key_binding s = Some (sg_BindingID g)"
  by (auto simp: RequirePlatformAccountID_def key_binding_def split: sum.splits)

lemma RequireBindingWide_ok [simp]: "RequireBindingWide g = Inr u \<longleftrightarrow> sg_ProfileID g = 0"
  by (simp add: RequireBindingWide_def)

lemma RequireProfile_ok [simp]:
  "RequireProfile g b p = Inr u \<longleftrightarrow>
     sg_BindingID g \<noteq> 0 \<and> b = sg_BindingID g \<and> (sg_ProfileID g = 0 \<or> p = sg_ProfileID g)"
  by (auto simp: RequireProfile_def)

lemma RequireAction_err: "RequireAction g a = Inl e \<Longrightarrow> e = ErrActionScopeDenied"
  by (auto simp: RequireAction_def split: if_splits)

lemma RequirePlatformAccountID_err: "RequirePlatformAccountID g s = Inl e \<Longrightarrow> e = ErrBindingScopeDenied"
  by (auto simp: RequirePlatformAccountID_def split: if_splits sum.splits)

lemma RequireBindingWide_err: "RequireBindingWide g = Inl e \<Longrightarrow> e = ErrProfileScopeDenied"
  by (auto simp: RequireBindingWide_def split: if_splits)

lemma RequireProfile_err: "RequireProfile g b p = Inl e \<Longrightarrow> e \<in> {ErrBindingScopeDenied, ErrProfileScopeDenied}"
  by (auto simp: RequireProfile_def split: if_splits)

lemmas guard_errs = RequireAction_err RequirePlatformAccountID_err RequireBindingWide_err RequireProfile_err

text \<open>A guard lets an account key through only for its own binding. RequirePlatformAccountID
  accepts a key exactly when the guard's binding id is not 0 and the key is one of the two written
  forms, binding_ or hoyo_ref_, followed by a decimal number with that value (leading zeros
  allowed), an underscore and any account text.\<close>

theorem guard_accepts_own_keys:
  "RequirePlatformAccountID g s = Inr () \<longleftrightarrow>
     sg_BindingID g \<noteq> 0 \<and>
     (\<exists>ds rest. (s = binding_prefix @ ds @ ''_'' @ rest \<or> s = hoyo_prefix @ ds @ ''_'' @ rest)
        \<and> ds \<noteq> [] \<and> list_all is_digit ds \<and> dec_value 0 ds = unat (sg_BindingID g))"
proof -
  have "key_binding s = Some b \<longleftrightarrow> BindingIDFromPlatformAccountID s = Inr b" for b
    by (auto simp: key_binding_def split: sum.splits)
  then show ?thesis
    using unsigned_less[of "sg_BindingID g", where ?'a = nat]
    by (simp only: RequirePlatformAccountID_ok parse_key_ok parse_uint_ok list_all_iff) auto
qed

end
