(* ===== verification/Sql.thy ===== *)
theory Sql
  imports Prelude
begin

text \<open>
  The SQL statements the repositories issue through gorm, over one table at a time: a table is its
  rows in ascending order of their \<open>AUTO_INCREMENT\<close> id, with the next id, and its unique keys are
  relations between the contents of two rows. \<open>SELECT\<close> is \<open>sql_find\<close>, \<open>sql_first\<close>,
  \<open>sql_take\<close> and \<open>sql_count\<close>; \<open>INSERT\<close> is \<open>sql_insert\<close>; an insert with gorm's
  \<open>clause.OnConflict\<close> is \<open>sql_upsert\<close>, in the two documented readings of that clause;
  \<open>UPDATE ... WHERE\<close> is \<open>sql_update\<close>, \<open>DELETE ... WHERE\<close> is \<open>sql_delete\<close>.
  What the documentation leaves open (the row a \<open>LIMIT 1\<close> without \<open>ORDER BY\<close> returns, the row
  MySQL updates when several conflict) is an argument \<open>k\<close> that chooses it.
\<close>

section \<open>Tables and unique keys\<close>

record 'r sqltable =
  tb_next :: nat
  tb_rows :: "(u64 \<times> 'r) list"

definition empty_table :: "'r sqltable" where
  "empty_table = \<lparr> tb_next = 1, tb_rows = [] \<rparr>"

type_synonym 'r ukey = "string \<times> ('r \<Rightarrow> 'r \<Rightarrow> bool)"

text \<open>\<open>DuplicateKey name\<close> is MySQL's error 1062 (SQLite's constraint error) for the unique key
  \<open>name\<close>; \<open>IdsExhausted\<close> is the error of an insert when the 64-bit counter is used up; the others are
  MySQL's errors 1406, 1366 and 1264 for a value that its column does not take, in strict mode.\<close>

datatype sql_error =
    DuplicateKey string
  | IdsExhausted
  | DataTooLong string
  | IncorrectString string
  | OutOfRangeValue string

definition clash_key :: "'r ukey list \<Rightarrow> 'r \<Rightarrow> (u64 \<times> 'r) list \<Rightarrow> string option" where
  "clash_key ks r rows =
     map_option fst (List.find (\<lambda>(n, cl). \<exists>x \<in> set rows. cl r (snd x)) ks)"

definition clashes :: "'r ukey list \<Rightarrow> 'r \<Rightarrow> 'r \<Rightarrow> bool" where
  "clashes ks r r' \<longleftrightarrow> (\<exists>k \<in> set ks. snd k r r')"

definition pick_row :: "nat \<Rightarrow> 'a list \<Rightarrow> 'a option" where
  "pick_row k xs = (if xs = [] then None else Some (xs ! (k mod length xs)))"

section \<open>Statements\<close>

definition sql_find :: "('r \<Rightarrow> bool) \<Rightarrow> 'r sqltable \<Rightarrow> (u64 \<times> 'r) list" where
  "sql_find p t = filter (\<lambda>x. p (snd x)) (tb_rows t)"

definition sql_first :: "('r \<Rightarrow> bool) \<Rightarrow> 'r sqltable \<Rightarrow> (u64 \<times> 'r) option" where
  "sql_first p t = List.find (\<lambda>x. p (snd x)) (tb_rows t)"

definition sql_take :: "nat \<Rightarrow> ('r \<Rightarrow> bool) \<Rightarrow> 'r sqltable \<Rightarrow> (u64 \<times> 'r) option" where
  "sql_take k p t = pick_row k (sql_find p t)"

definition sql_count :: "(u64 \<Rightarrow> 'r \<Rightarrow> bool) \<Rightarrow> 'r sqltable \<Rightarrow> nat" where
  "sql_count p t = length (filter (\<lambda>x. p (fst x) (snd x)) (tb_rows t))"

definition sql_delete :: "('r \<Rightarrow> bool) \<Rightarrow> 'r sqltable \<Rightarrow> 'r sqltable" where
  "sql_delete p t = t\<lparr> tb_rows := filter (\<lambda>x. \<not> p (snd x)) (tb_rows t) \<rparr>"

definition sql_delete_id :: "u64 \<Rightarrow> 'r sqltable \<Rightarrow> 'r sqltable" where
  "sql_delete_id i t = t\<lparr> tb_rows := filter (\<lambda>x. fst x \<noteq> i) (tb_rows t) \<rparr>"

definition sql_insert :: "'r ukey list \<Rightarrow> 'r \<Rightarrow> 'r sqltable \<Rightarrow> sql_error + 'r sqltable" where
  "sql_insert ks r t =
     (case clash_key ks r (tb_rows t) of
        Some n \<Rightarrow> Inl (DuplicateKey n)
      | None \<Rightarrow>
          if 2 ^ 64 \<le> tb_next t then Inl IdsExhausted
          else Inr \<lparr> tb_next = Suc (tb_next t), tb_rows = tb_rows t @ [(of_nat (tb_next t), r)] \<rparr>)"

text \<open>
  \<open>UPDATE\<close> rewrites the matching rows one after the other; a row that would break a unique key
  fails the statement, which then changes nothing.
\<close>

fun update_rows :: "'r ukey list \<Rightarrow> (u64 \<Rightarrow> 'r \<Rightarrow> bool) \<Rightarrow> ('r \<Rightarrow> 'r) \<Rightarrow>
    (u64 \<times> 'r) list \<Rightarrow> (u64 \<times> 'r) list \<Rightarrow> sql_error + (u64 \<times> 'r) list" where
  "update_rows ks p f done [] = Inr done"
| "update_rows ks p f done (x # xs) =
     (if p (fst x) (snd x)
      then (case clash_key ks (f (snd x)) (done @ xs) of
              Some n \<Rightarrow> Inl (DuplicateKey n)
            | None \<Rightarrow> update_rows ks p f (done @ [(fst x, f (snd x))]) xs)
      else update_rows ks p f (done @ [x]) xs)"

definition sql_update :: "'r ukey list \<Rightarrow> (u64 \<Rightarrow> 'r \<Rightarrow> bool) \<Rightarrow> ('r \<Rightarrow> 'r) \<Rightarrow>
    'r sqltable \<Rightarrow> sql_error + (nat \<times> 'r sqltable)" where
  "sql_update ks p f t =
     (case update_rows ks p f [] (tb_rows t) of
        Inl e \<Rightarrow> Inl e
      | Inr rows \<Rightarrow> Inr (sql_count p t, t\<lparr> tb_rows := rows \<rparr>))"

text \<open>
  \<open>INSERT\<close> with \<open>clause.OnConflict{Columns, DoUpdates}\<close>. The MySQL driver renders it as
  \<open>ON DUPLICATE KEY UPDATE\<close>, which ignores the columns: a conflict on any unique key turns the
  insert into an update of one conflicting row. The SQLite driver renders it as
  \<open>ON CONFLICT(columns) DO UPDATE\<close>: only a conflict on that key does, any other fails.
  \<open>upd new old\<close> is the row with the assigned columns replaced.
\<close>

datatype dialect = MySQL | SQLite

definition conflicting :: "dialect \<Rightarrow> 'r ukey list \<Rightarrow> string \<Rightarrow> 'r \<Rightarrow> 'r \<Rightarrow> bool" where
  "conflicting d ks target r r' \<longleftrightarrow>
     (case d of MySQL \<Rightarrow> clashes ks r r' | SQLite \<Rightarrow> clashes (filter (\<lambda>k. fst k = target) ks) r r')"

definition sql_upsert :: "nat \<Rightarrow> dialect \<Rightarrow> 'r ukey list \<Rightarrow> string \<Rightarrow> ('r \<Rightarrow> 'r \<Rightarrow> 'r) \<Rightarrow>
    'r \<Rightarrow> 'r sqltable \<Rightarrow> sql_error + 'r sqltable" where
  "sql_upsert k d ks target upd r t =
     (case pick_row k (sql_find (conflicting d ks target r) t) of
        None \<Rightarrow> sql_insert ks r t
      | Some x \<Rightarrow> map_sum id snd (sql_update ks (\<lambda>i _. i = fst x) (upd r) t))"

section \<open>Well-formed tables\<close>

text \<open>
  Ids are positive, ascending and below the counter, and no two rows clash on a unique key. This is
  what the database engine maintains; every statement above keeps it.
\<close>

definition ids_ok :: "'r sqltable \<Rightarrow> bool" where
  "ids_ok t \<longleftrightarrow> 0 < tb_next t \<and> sorted_wrt (\<lambda>x y. unat (fst x) < unat (fst y)) (tb_rows t) \<and>
     (\<forall>x \<in> set (tb_rows t). 0 < unat (fst x) \<and> unat (fst x) < tb_next t)"

definition unique_ok :: "'r ukey list \<Rightarrow> 'r sqltable \<Rightarrow> bool" where
  "unique_ok ks t \<longleftrightarrow> sorted_wrt (\<lambda>x y. \<not> clashes ks (snd x) (snd y)) (tb_rows t)"

definition table_ok :: "'r ukey list \<Rightarrow> 'r sqltable \<Rightarrow> bool" where
  "table_ok ks t \<longleftrightarrow> ids_ok t \<and> unique_ok ks t"

definition keys_sym :: "'r ukey list \<Rightarrow> bool" where
  "keys_sym ks \<longleftrightarrow> (\<forall>k \<in> set ks. \<forall>r r'. snd k r r' \<longrightarrow> snd k r' r)"

lemma table_ok_empty [simp]: "table_ok ks empty_table"
  by (simp add: table_ok_def ids_ok_def unique_ok_def empty_table_def)

lemma clash_key_None: "clash_key ks r rows = None \<longleftrightarrow> (\<forall>x \<in> set rows. \<not> clashes ks r (snd x))"
  by (fastforce simp: clash_key_def clashes_def find_None_iff)

lemma clash_key_Some:
  assumes "clash_key ks r rows = Some n"
  shows "\<exists>x \<in> set rows. \<exists>cl. (n, cl) \<in> set ks \<and> cl r (snd x)"
proof -
  obtain k where "List.find (\<lambda>(n, cl). \<exists>x \<in> set rows. cl r (snd x)) ks = Some k" "n = fst k"
    using assms by (auto simp: clash_key_def)
  then show ?thesis
    by (auto simp: find_Some_iff split: prod.splits) (metis nth_mem prod.collapse)
qed

lemma pick_row_Some: "pick_row k xs = Some x \<Longrightarrow> x \<in> set xs"
  by (auto simp: pick_row_def split: if_splits)

lemma pick_row_None [simp]: "pick_row k xs = None \<longleftrightarrow> xs = []"
  by (simp add: pick_row_def)

lemma pick_row_Nil [simp]: "pick_row k [] = None"
  by simp

lemma pick_row_single [simp]: "pick_row k [x] = Some x"
  by (simp add: pick_row_def)

lemma clashes_sym: "keys_sym ks \<Longrightarrow> clashes ks r r' \<longleftrightarrow> clashes ks r' r"
  by (auto simp: keys_sym_def clashes_def)

lemma set_sql_find: "x \<in> set (sql_find p t) \<longleftrightarrow> x \<in> set (tb_rows t) \<and> p (snd x)"
  by (auto simp: sql_find_def)

lemma sql_take_Some: "sql_take k p t = Some x \<Longrightarrow> x \<in> set (tb_rows t) \<and> p (snd x)"
  unfolding sql_take_def by (drule pick_row_Some) (simp add: set_sql_find)

lemma sql_take_None: "sql_take k p t = None \<longleftrightarrow> (\<forall>x \<in> set (tb_rows t). \<not> p (snd x))"
  by (auto simp: sql_take_def sql_find_def filter_empty_conv)

lemma sql_first_Some: "sql_first p t = Some x \<Longrightarrow> x \<in> set (tb_rows t) \<and> p (snd x)"
  by (auto simp: sql_first_def find_Some_iff)

lemma sql_first_None: "sql_first p t = None \<longleftrightarrow> (\<forall>x \<in> set (tb_rows t). \<not> p (snd x))"
  by (auto simp: sql_first_def find_None_iff)

lemma sorted_wrt_same:
  assumes "sorted_wrt P xs" "x \<in> set xs" "y \<in> set xs"
  shows "x = y \<or> P x y \<or> P y x"
  using assms by (induction xs) auto

lemma ids_ok_inj:
  assumes "ids_ok t" "x \<in> set (tb_rows t)" "y \<in> set (tb_rows t)" "fst x = fst y"
  shows "x = y"
  using sorted_wrt_same[of _ "tb_rows t" x y] assms unfolding ids_ok_def by fastforce

lemma unique_ok_inj:
  assumes "unique_ok ks t" "keys_sym ks" "x \<in> set (tb_rows t)" "y \<in> set (tb_rows t)"
    "clashes ks (snd x) (snd y)"
  shows "x = y"
  using sorted_wrt_same[of _ "tb_rows t" x y] assms clashes_sym[OF assms(2)]
  unfolding unique_ok_def by blast

section \<open>Statements keep tables well-formed\<close>

lemma table_ok_delete [simp]: "table_ok ks t \<Longrightarrow> table_ok ks (sql_delete p t)"
  by (auto simp: table_ok_def ids_ok_def unique_ok_def sql_delete_def sorted_wrt_filter)

lemma table_ok_delete_id [simp]: "table_ok ks t \<Longrightarrow> table_ok ks (sql_delete_id i t)"
  by (auto simp: table_ok_def ids_ok_def unique_ok_def sql_delete_id_def sorted_wrt_filter)

lemma sql_insert_rows:
  assumes "sql_insert ks r t = Inr t'"
  shows "tb_rows t' = tb_rows t @ [(of_nat (tb_next t), r)]" "tb_next t' = Suc (tb_next t)"
    "tb_next t < 2 ^ 64" "\<forall>x \<in> set (tb_rows t). \<not> clashes ks r (snd x)"
  using assms by (auto simp: sql_insert_def clash_key_None split: option.splits if_splits)

lemma sql_insert_ok_iff:
  "(\<exists>t'. sql_insert ks r t = Inr t') \<longleftrightarrow>
     tb_next t < 2 ^ 64 \<and> (\<forall>x \<in> set (tb_rows t). \<not> clashes ks r (snd x))"
  by (auto simp: sql_insert_def clash_key_None[symmetric] split: option.splits)

lemma table_ok_insert:
  assumes ok: "table_ok ks t" and sym: "keys_sym ks" and ins: "sql_insert ks r t = Inr t'"
  shows "table_ok ks t'"
proof -
  note rows = sql_insert_rows[OF ins]
  have u: "unat (of_nat (tb_next t) :: u64) = tb_next t"
    using rows(3) by (simp add: unat_of_nat)
  show ?thesis
    using ok rows u clashes_sym[OF sym]
    by (auto simp: table_ok_def ids_ok_def unique_ok_def sorted_wrt_append less_Suc_eq)
qed

lemma update_rows_ok:
  assumes "update_rows ks p f done xs = Inr rows" and "keys_sym ks"
    and "sorted_wrt (\<lambda>x y. \<not> clashes ks (snd x) (snd y)) (done @ xs)"
  shows "sorted_wrt (\<lambda>x y. \<not> clashes ks (snd x) (snd y)) rows"
  using assms
proof (induction ks p f "done" xs rule: update_rows.induct)
  case (1 ks p f "done")
  then show ?case by simp
next
  case (2 ks p f "done" x xs)
  show ?case
  proof (cases "p (fst x) (snd x)")
    case False
    with 2 show ?thesis by simp
  next
    case True
    with "2.prems"(1) have none: "clash_key ks (f (snd x)) (done @ xs) = None"
      and rec: "update_rows ks p f (done @ [(fst x, f (snd x))]) xs = Inr rows"
      by (auto split: option.splits)
    have "sorted_wrt (\<lambda>x y. \<not> clashes ks (snd x) (snd y)) ((done @ [(fst x, f (snd x))]) @ xs)"
      using "2.prems"(3) none clashes_sym[OF "2.prems"(2)]
      by (auto simp: sorted_wrt_append clash_key_None)
    with "2.IH"(1)[OF True none rec "2.prems"(2)] show ?thesis by simp
  qed
qed

lemma update_rows_result:
  "update_rows ks p f done xs = Inr rows \<Longrightarrow>
     rows = done @ map (\<lambda>x. if p (fst x) (snd x) then (fst x, f (snd x)) else x) xs"
  by (induction ks p f "done" xs rule: update_rows.induct) (auto split: if_splits option.splits)

lemma sql_update_rows:
  assumes "sql_update ks p f t = Inr (n, t')"
  shows "tb_rows t' = map (\<lambda>x. if p (fst x) (snd x) then (fst x, f (snd x)) else x) (tb_rows t)"
    and "tb_next t' = tb_next t" and "n = sql_count p t"
  using assms by (auto simp: sql_update_def dest!: update_rows_result split: sum.splits)

lemma sorted_ids_map:
  "sorted_wrt (\<lambda>x y. unat (fst x) < unat (fst y)) (map (\<lambda>x. if p (fst x) (snd x) then (fst x, f (snd x)) else x) xs)
     = sorted_wrt (\<lambda>x y. unat (fst x) < unat (fst y)) xs"
  by (simp add: sorted_wrt_map if_distrib[of fst] cong: if_cong)

lemma table_ok_update:
  assumes ok: "table_ok ks t" and sym: "keys_sym ks" and upd: "sql_update ks p f t = Inr (n, t')"
  shows "table_ok ks t'"
proof -
  have "unique_ok ks t'"
    using upd ok sym update_rows_ok[of ks p f "[]" "tb_rows t"]
    by (auto simp: sql_update_def table_ok_def unique_ok_def split: sum.splits)
  moreover have "ids_ok t'"
    using ok by (auto simp: table_ok_def ids_ok_def sql_update_rows[OF upd] sorted_ids_map)
  ultimately show ?thesis by (simp add: table_ok_def)
qed

lemma sql_upsert_cases:
  assumes "sql_upsert k d ks target upd r t = Inr t'"
  obtains (insert) "\<forall>x \<in> set (tb_rows t). \<not> conflicting d ks target r (snd x)" "sql_insert ks r t = Inr t'"
  | (update) x n where "x \<in> set (tb_rows t)" "conflicting d ks target r (snd x)"
      "sql_update ks (\<lambda>i _. i = fst x) (upd r) t = Inr (n, t')"
proof (cases "pick_row k (sql_find (conflicting d ks target r) t)")
  case None
  with assms that(1) show ?thesis
    by (auto simp: sql_upsert_def sql_find_def filter_empty_conv)
next
  case (Some x)
  moreover obtain n where "sql_update ks (\<lambda>i _. i = fst x) (upd r) t = Inr (n, t')"
    using assms Some by (auto simp: sql_upsert_def map_sum_def split: sum.splits)
  moreover have "x \<in> set (tb_rows t)" "conflicting d ks target r (snd x)"
    using pick_row_Some[OF Some] by (auto simp: set_sql_find)
  ultimately show ?thesis using that(2) by blast
qed

lemma table_ok_upsert:
  assumes ok: "table_ok ks t" and sym: "keys_sym ks" and ups: "sql_upsert k d ks target upd r t = Inr t'"
  shows "table_ok ks t'"
  using ups
proof (cases rule: sql_upsert_cases)
  case insert
  then show ?thesis using table_ok_insert[OF ok sym] by blast
next
  case (update x n)
  then show ?thesis using table_ok_update[OF ok sym] by blast
qed

section \<open>What a statement leaves behind\<close>

lemma update_result:
  assumes "sql_update ks p f t = Inr (n, t')" "x \<in> set (tb_rows t)"
  shows "(if p (fst x) (snd x) then (fst x, f (snd x)) else x) \<in> set (tb_rows t')"
  using assms(2) by (auto simp: sql_update_rows(1)[OF assms(1)])

lemma upsert_result:
  assumes "sql_upsert k d ks target upd r t = Inr t'"
  shows "(\<exists>i. (i, r) \<in> set (tb_rows t')) \<or>
    (\<exists>i old. (i, old) \<in> set (tb_rows t) \<and> conflicting d ks target r old \<and> (i, upd r old) \<in> set (tb_rows t'))"
  using assms
proof (cases rule: sql_upsert_cases)
  case insert
  then show ?thesis by (auto simp: sql_insert_rows(1))
next
  case (update x n)
  obtain i old where x: "x = (i, old)" by (cases x)
  then have "(i, upd r old) \<in> set (tb_rows t')" using update_result[OF update(3) update(1)] by simp
  then show ?thesis using update(1,2) x by auto
qed

text \<open>A row that is there stays, possibly rewritten.\<close>

lemma rows_after_upsert:
  assumes "sql_upsert k d ks target upd r t = Inr t'" "y \<in> set (tb_rows t)"
  shows "y \<in> set (tb_rows t') \<or> (fst y, upd r (snd y)) \<in> set (tb_rows t')"
  using assms(1)
proof (cases rule: sql_upsert_cases)
  case insert
  then show ?thesis using assms(2) by (simp add: sql_insert_rows(1))
next
  case (update x n)
  then show ?thesis using update_result[OF update(3) assms(2)] by (simp split: if_splits)
qed

lemma rows_after_delete: "x \<in> set (tb_rows t) \<Longrightarrow> \<not> p (snd x) \<Longrightarrow> x \<in> set (tb_rows (sql_delete p t))"
  by (simp add: sql_delete_def)

end
