(* ===== verification/Schema.thy ===== *)
theory Schema
  imports Sql
begin

text \<open>
  \<open>internal/data/model\<close> and the migrations \<open>initialize/migrate/sql\<close>: the contents of a row of each
  table (its id is kept beside it by \<open>sqltable\<close>; \<open>created_at\<close> and \<open>updated_at\<close>, which no code
  reads, are left out), the unique keys in force after the last migration, and the database as the
  record of its tables.
\<close>

record CredentialRecord =
  cd_BindingID :: u64
  cd_PlatformAccountID :: string
  cd_Platform :: string
  cd_AccountID :: string
  cd_Region :: string
  cd_CredentialBlob :: string
  cd_CredentialVersion :: string
  cd_Status :: string
  cd_LastValidatedAt :: "gotime option"
  cd_LastRefreshedAt :: "gotime option"
  cd_ExpiresAt :: "gotime option"

record DeviceRecord =
  dr_BindingID :: u64
  dr_PlatformAccountID :: string
  dr_DeviceID :: string
  dr_DeviceFP :: string
  dr_DeviceName :: "string option"
  dr_IsValid :: bool
  dr_LastSeenAt :: "gotime option"

record AccountProfile =
  ap_BindingID :: u64
  ap_PlatformAccountID :: string
  ap_GameBiz :: string
  ap_Region :: string
  ap_PlayerID :: string
  ap_Nickname :: string
  ap_Level :: i64
  ap_IsDefault :: bool
  ap_DiscoveredAt :: gotime

record RuntimeArtifact =
  ra_BindingID :: u64
  ra_PlatformAccountID :: string
  ra_ArtifactType :: string
  ra_ArtifactValue :: string
  ra_ScopeKey :: string
  ra_ExpiresAt :: gotime

record ConsumerGrantInvalidation =
  gi_BindingID :: u64
  gi_Consumer :: string
  gi_MinimumGrantVersion :: u64
  gi_InvalidatedAt :: gotime

text \<open>The stored generated column \<open>default_profile_marker\<close>: 1 for a default profile, else NULL.\<close>

definition DefaultProfileMarker :: "AccountProfile \<Rightarrow> nat option" where
  "DefaultProfileMarker r = (if ap_IsDefault r then Some 1 else None)"

definition credential_keys :: "CredentialRecord ukey list" where
  "credential_keys =
     [(''uniq_platform_account_id'', \<lambda>a b. cd_PlatformAccountID a = cd_PlatformAccountID b),
      (''uniq_platform_account'', \<lambda>a b. cd_Platform a = cd_Platform b \<and> cd_AccountID a = cd_AccountID b),
      (''uniq_credential_binding_id'', \<lambda>a b. cd_BindingID a = cd_BindingID b)]"

definition device_keys :: "DeviceRecord ukey list" where
  "device_keys =
     [(''uniq_device_record_binding'', \<lambda>a b. dr_BindingID a = dr_BindingID b \<and> dr_DeviceID a = dr_DeviceID b)]"

text \<open>A NULL marker never equals another, so only two default rows of a binding can clash.\<close>

definition profile_keys :: "AccountProfile ukey list" where
  "profile_keys =
     [(''uniq_profile_binding_player_region'', \<lambda>a b. ap_BindingID a = ap_BindingID b \<and>
         ap_PlayerID a = ap_PlayerID b \<and> ap_Region a = ap_Region b),
      (''uniq_default_profile_per_binding'', \<lambda>a b. ap_BindingID a = ap_BindingID b \<and>
         DefaultProfileMarker a \<noteq> None \<and> DefaultProfileMarker a = DefaultProfileMarker b)]"

definition artifact_keys :: "RuntimeArtifact ukey list" where
  "artifact_keys =
     [(''uniq_runtime_artifact_binding'', \<lambda>a b. ra_BindingID a = ra_BindingID b \<and>
         ra_ArtifactType a = ra_ArtifactType b \<and> ra_ScopeKey a = ra_ScopeKey b)]"

definition invalidation_keys :: "ConsumerGrantInvalidation ukey list" where
  "invalidation_keys =
     [(''uk_consumer_grant_invalidations_binding_consumer'', \<lambda>a b. gi_BindingID a = gi_BindingID b \<and>
         gi_Consumer a = gi_Consumer b)]"

lemmas schema_keys = credential_keys_def device_keys_def profile_keys_def artifact_keys_def
  invalidation_keys_def

lemma keys_sym_schema [simp]:
  "keys_sym credential_keys" "keys_sym device_keys" "keys_sym profile_keys"
  "keys_sym artifact_keys" "keys_sym invalidation_keys"
  by (auto simp: keys_sym_def schema_keys DefaultProfileMarker_def)

lemma clashes_credential: "clashes credential_keys a b \<longleftrightarrow>
    cd_PlatformAccountID a = cd_PlatformAccountID b \<or>
    (cd_Platform a = cd_Platform b \<and> cd_AccountID a = cd_AccountID b) \<or>
    cd_BindingID a = cd_BindingID b"
  by (simp add: clashes_def credential_keys_def)

lemma clashes_device: "clashes device_keys a b \<longleftrightarrow>
    dr_BindingID a = dr_BindingID b \<and> dr_DeviceID a = dr_DeviceID b"
  by (simp add: clashes_def device_keys_def)

lemma clashes_profile: "clashes profile_keys a b \<longleftrightarrow> ap_BindingID a = ap_BindingID b \<and>
    ((ap_PlayerID a = ap_PlayerID b \<and> ap_Region a = ap_Region b) \<or> (ap_IsDefault a \<and> ap_IsDefault b))"
  by (auto simp: clashes_def profile_keys_def DefaultProfileMarker_def)

lemma clashes_artifact: "clashes artifact_keys a b \<longleftrightarrow> ra_BindingID a = ra_BindingID b \<and>
    ra_ArtifactType a = ra_ArtifactType b \<and> ra_ScopeKey a = ra_ScopeKey b"
  by (simp add: clashes_def artifact_keys_def)

lemma clashes_invalidation: "clashes invalidation_keys a b \<longleftrightarrow>
    gi_BindingID a = gi_BindingID b \<and> gi_Consumer a = gi_Consumer b"
  by (simp add: clashes_def invalidation_keys_def)

lemmas schema_clashes = clashes_credential clashes_device clashes_profile clashes_artifact
  clashes_invalidation

section \<open>The database\<close>

record database =
  db_credentials :: "CredentialRecord sqltable"
  db_devices :: "DeviceRecord sqltable"
  db_profiles :: "AccountProfile sqltable"
  db_artifacts :: "RuntimeArtifact sqltable"
  db_invalidations :: "ConsumerGrantInvalidation sqltable"

definition empty_database :: database where
  "empty_database = \<lparr> db_credentials = empty_table, db_devices = empty_table,
     db_profiles = empty_table, db_artifacts = empty_table, db_invalidations = empty_table \<rparr>"

definition database_ok :: "database \<Rightarrow> bool" where
  "database_ok d \<longleftrightarrow> table_ok credential_keys (db_credentials d) \<and> table_ok device_keys (db_devices d) \<and>
     table_ok profile_keys (db_profiles d) \<and> table_ok artifact_keys (db_artifacts d) \<and>
     table_ok invalidation_keys (db_invalidations d)"

lemma database_ok_empty [simp]: "database_ok empty_database"
  by (simp add: database_ok_def empty_database_def)

end
