(* ===== verification/Utf8.thy ===== *)
theory Utf8
  imports GoStrings
begin

text \<open>
  UTF-8 as \<open>unicode/utf8\<close> reads and writes it, over bytes: the size of the next rune, valid texts, the
  replacement of what is not valid, and the number of characters of a text.
\<close>

section \<open>Reading and writing\<close>

text \<open>The size of the rune that \<open>utf8.DecodeRune\<close> reads, and 0 where it finds no valid encoding.\<close>

definition continuation :: "nat \<Rightarrow> nat \<Rightarrow> char \<Rightarrow> bool" where
  "continuation lo hi c \<longleftrightarrow> lo \<le> byte_code c \<and> byte_code c \<le> hi"

fun rune_size :: "string \<Rightarrow> nat" where
  "rune_size [] = 0"
| "rune_size (c # cs) = (let n = byte_code c in
     if n < 0x80 then 1
     else if 0xC2 \<le> n \<and> n \<le> 0xDF then
       (case cs of c1 # _ \<Rightarrow> if continuation 0x80 0xBF c1 then 2 else 0 | _ \<Rightarrow> 0)
     else if 0xE0 \<le> n \<and> n \<le> 0xEF then
       (case cs of c1 # c2 # _ \<Rightarrow>
          if continuation (if n = 0xE0 then 0xA0 else 0x80) (if n = 0xED then 0x9F else 0xBF) c1 \<and>
             continuation 0x80 0xBF c2 then 3 else 0
        | _ \<Rightarrow> 0)
     else if 0xF0 \<le> n \<and> n \<le> 0xF4 then
       (case cs of c1 # c2 # c3 # _ \<Rightarrow>
          if continuation (if n = 0xF0 then 0x90 else 0x80) (if n = 0xF4 then 0x8F else 0xBF) c1 \<and>
             continuation 0x80 0xBF c2 \<and> continuation 0x80 0xBF c3 then 4 else 0
        | _ \<Rightarrow> 0)
     else 0)"

definition replacement :: string where
  "replacement = [CHR 0xEF, CHR 0xBF, CHR 0xBD]"

text \<open>\<open>utf8.AppendRune\<close>: a surrogate half or a number beyond U+10FFFF is U+FFFD.\<close>

definition encode_rune :: "nat \<Rightarrow> string" where
  "encode_rune r =
     (if r < 0x80 then [char_of r]
      else if r < 0x800 then [char_of (0xC0 + r div 64), char_of (0x80 + r mod 64)]
      else if 0xD800 \<le> r \<and> r < 0xE000 \<or> 0x110000 \<le> r then replacement
      else if r < 0x10000 then
        [char_of (0xE0 + r div 4096), char_of (0x80 + r div 64 mod 64), char_of (0x80 + r mod 64)]
      else [char_of (0xF0 + r div 262144), char_of (0x80 + r div 4096 mod 64),
            char_of (0x80 + r div 64 mod 64), char_of (0x80 + r mod 64)])"

fun valid_utf8 :: "string \<Rightarrow> bool" where
  "valid_utf8 [] = True"
| "valid_utf8 (c # cs) = (0 < rune_size (c # cs) \<and> valid_utf8 (drop (rune_size (c # cs) - 1) cs))"

text \<open>\<open>strings.ToValidUTF8(s, "\uFFFD")\<close>, byte by byte.\<close>

fun to_valid :: "string \<Rightarrow> string" where
  "to_valid [] = []"
| "to_valid (c # cs) = (let k = rune_size (c # cs) in
     if k = 0 then replacement @ to_valid cs else take k (c # cs) @ to_valid (drop (k - 1) cs))"

text \<open>The characters of a valid text: its bytes but the continuation bytes.\<close>

definition char_count :: "string \<Rightarrow> nat" where
  "char_count s = length (filter (\<lambda>c. \<not> continuation 0x80 0xBF c) s)"

section \<open>Runes\<close>

lemma rune_size_le: "rune_size s \<le> length s"
  by (cases s) (auto simp: Let_def split: list.split)

lemma rune_size_ascii: "rune_size (c # cs) = 1 \<longleftrightarrow> byte_code c < 128"
  by (auto simp: Let_def split: list.split)

lemma rune_size_ascii_pos: "byte_code c < 128 \<Longrightarrow> rune_size (c # cs) = 1"
  by (simp add: rune_size_ascii)

lemma rune_size_cases:
  assumes "0 < rune_size s"
  obtains (one) c cs where "s = c # cs" "byte_code c < 128"
  | (two) c d cs where "s = c # d # cs" "\<forall>x \<in> {c, d}. 128 \<le> byte_code x" "\<And>t. rune_size (c # d # t) = 2"
  | (three) c d e cs where "s = c # d # e # cs" "\<forall>x \<in> {c, d, e}. 128 \<le> byte_code x" "\<And>t. rune_size (c # d # e # t) = 3"
  | (four) c d e f cs where "s = c # d # e # f # cs" "\<forall>x \<in> {c, d, e, f}. 128 \<le> byte_code x" "\<And>t. rune_size (c # d # e # f # t) = 4"
proof (cases s)
  case (Cons c cs)
  show thesis
  proof (cases "byte_code c < 128")
    case True
    then show thesis using one Cons by blast
  next
    case False
    then have c: "byte_code c \<ge> 128" by simp
    from assms False have "cs \<noteq> []" by (auto simp: Cons Let_def split: if_splits)
    then obtain d ds where d: "cs = d # ds" by (cases cs) auto
    show thesis
    proof (cases "0xC2 \<le> byte_code c \<and> byte_code c \<le> 0xDF")
      case True
      then have "rune_size (c # d # t) = 2" for t using assms False by (simp add: Cons d split: if_splits)
      moreover have "128 \<le> byte_code d" using True assms False by (simp add: Cons d continuation_def split: if_splits)
      ultimately show thesis using two[of c d ds] Cons d c by simp
    next
      case no2: False
      with assms False obtain e es where e: "ds = e # es" by (cases ds) (auto simp: Cons d Let_def split: if_splits)
      show thesis
      proof (cases "0xE0 \<le> byte_code c \<and> byte_code c \<le> 0xEF")
        case True
        then have "rune_size (c # d # e # t) = 3" for t
          using assms False by (simp add: Cons d e Let_def split: if_splits)
        moreover have "128 \<le> byte_code d \<and> 128 \<le> byte_code e"
          using True assms False by (auto simp: Cons d e Let_def continuation_def split: if_splits)
        ultimately show thesis using three[of c d e es] Cons d e c by simp
      next
        case no3: False
        with no2 assms False have c4: "0xF0 \<le> byte_code c" "byte_code c \<le> 0xF4" by (auto simp: Cons Let_def split: if_splits)
        with no2 no3 assms False obtain f fs where f: "es = f # fs" by (cases es) (auto simp: Cons d e Let_def split: if_splits)
        from c4 have "rune_size (c # d # e # f # t) = 4" for t
          using assms False by (simp add: Cons d e f Let_def split: if_splits)
        moreover have "128 \<le> byte_code d \<and> 128 \<le> byte_code e \<and> 128 \<le> byte_code f"
          using c4 assms False by (auto simp: Cons d e f Let_def continuation_def split: if_splits)
        ultimately show thesis using four[of c d e f fs] Cons d e f c by simp
      qed
    qed
  qed
qed (use assms in simp)

lemma rune_size_take: "0 < rune_size s \<Longrightarrow> rune_size (take (rune_size s) s @ t) = rune_size s"
  by (erule rune_size_cases) (simp_all add: rune_size_ascii_pos del: rune_size.simps)

lemma to_valid_rune: "0 < rune_size s \<Longrightarrow> to_valid s = take (rune_size s) s @ to_valid (drop (rune_size s) s)"
  by (cases s) (simp_all add: Let_def drop_Cons' del: rune_size.simps)

lemma to_valid_id: "valid_utf8 s \<Longrightarrow> to_valid s = s"
proof (induction s rule: valid_utf8.induct)
  case (2 c cs)
  have "drop (rune_size (c # cs) - 1) cs = drop (rune_size (c # cs)) (c # cs)" if "0 < rune_size (c # cs)"
    using that by (simp add: drop_Cons')
  then show ?case using 2 to_valid_rune[of "c # cs"] append_take_drop_id[of "rune_size (c # cs)" "c # cs"]
    by (simp del: rune_size.simps to_valid.simps append_take_drop_id)
qed simp

lemma valid_ascii: "list_all (\<lambda>c. byte_code c < 128) s \<Longrightarrow> valid_utf8 s"
  by (induction s) (simp_all add: Let_def)

lemma char_count_le: "char_count s \<le> length s"
  by (simp add: char_count_def)

lemma char_count_append [simp]: "char_count (s @ t) = char_count s + char_count t"
  by (simp add: char_count_def)

end
