(* ===== verification/Columns.thy ===== *)
theory Columns
  imports Schema Utf8
begin

text \<open>
  The types of the columns, as the tags of \<open>internal/data/model\<close> and the migrations
  \<open>initialize/migrate/sql\<close> give them: what MySQL in strict mode refuses to store. A text must be UTF-8 and
  fit, in characters for \<open>VARCHAR\<close> and in bytes for \<open>TEXT\<close>; \<open>level\<close> is an \<open>INT\<close>. Columns of other types take
  every value the code has for them. A text that is too long by trailing spaces only, which MySQL cuts
  off, is refused here like any other.
\<close>

datatype column =
    VarChar nat string
  | Text string
  | Int32 i64

fun column_error :: "string \<Rightarrow> column \<Rightarrow> sql_error option" where
  "column_error name (VarChar n s) =
     (if \<not> valid_utf8 s then Some (IncorrectString name) else if n < char_count s then Some (DataTooLong name) else None)"
| "column_error name (Text s) =
     (if \<not> valid_utf8 s then Some (IncorrectString name) else if 65535 < length s then Some (DataTooLong name) else None)"
| "column_error name (Int32 v) =
     (if sint v < - (2 ^ 31) \<or> 2 ^ 31 \<le> sint v then Some (OutOfRangeValue name) else None)"

text \<open>The first column, in the order of the statement, that does not take its value.\<close>

fun row_error :: "(string \<times> column) list \<Rightarrow> sql_error option" where
  "row_error [] = None"
| "row_error ((name, c) # cs) = (case column_error name c of Some e \<Rightarrow> Some e | None \<Rightarrow> row_error cs)"

definition credential_columns :: "CredentialRecord \<Rightarrow> (string \<times> column) list" where
  "credential_columns r =
     [(''platform_account_id'', VarChar 64 (cd_PlatformAccountID r)), (''platform'', VarChar 32 (cd_Platform r)),
      (''account_id'', VarChar 64 (cd_AccountID r)), (''region'', VarChar 32 (cd_Region r)),
      (''credential_blob'', Text (cd_CredentialBlob r)), (''credential_version'', VarChar 32 (cd_CredentialVersion r)),
      (''status'', VarChar 32 (cd_Status r))]"

text \<open>A NULL name is stored as it is.\<close>

definition device_columns :: "DeviceRecord \<Rightarrow> (string \<times> column) list" where
  "device_columns r =
     [(''platform_account_id'', VarChar 64 (dr_PlatformAccountID r)), (''device_id'', VarChar 64 (dr_DeviceID r)),
      (''device_fp'', VarChar 64 (dr_DeviceFP r))] @
     (case dr_DeviceName r of None \<Rightarrow> [] | Some name \<Rightarrow> [(''device_name'', VarChar 128 name)])"

definition profile_columns :: "AccountProfile \<Rightarrow> (string \<times> column) list" where
  "profile_columns r =
     [(''platform_account_id'', VarChar 64 (ap_PlatformAccountID r)), (''game_biz'', VarChar 64 (ap_GameBiz r)),
      (''region'', VarChar 32 (ap_Region r)), (''player_id'', VarChar 64 (ap_PlayerID r)),
      (''nickname'', VarChar 255 (ap_Nickname r)), (''level'', Int32 (ap_Level r))]"

definition artifact_columns :: "RuntimeArtifact \<Rightarrow> (string \<times> column) list" where
  "artifact_columns r =
     [(''platform_account_id'', VarChar 64 (ra_PlatformAccountID r)), (''artifact_type'', VarChar 64 (ra_ArtifactType r)),
      (''artifact_value'', Text (ra_ArtifactValue r)), (''scope_key'', VarChar 128 (ra_ScopeKey r))]"

definition invalidation_columns :: "ConsumerGrantInvalidation \<Rightarrow> (string \<times> column) list" where
  "invalidation_columns r = [(''consumer'', VarChar 64 (gi_Consumer r))]"

declare column_error.simps [simp del] row_error.simps [simp del]

lemma row_error_None: "row_error cs = None \<longleftrightarrow> list_all (\<lambda>(n, c). column_error n c = None) cs"
  by (induction cs rule: row_error.induct) (auto simp: row_error.simps split: option.split)

text \<open>Texts that fit.\<close>

definition varchar_fits :: "nat \<Rightarrow> string \<Rightarrow> bool" where
  "varchar_fits n s \<longleftrightarrow> valid_utf8 s \<and> char_count s \<le> n"

lemma column_fits:
  "column_error name (VarChar n s) = None \<longleftrightarrow> varchar_fits n s"
  "column_error name (Text s) = None \<longleftrightarrow> valid_utf8 s \<and> length s \<le> 65535"
  "column_error name (Int32 v) = None \<longleftrightarrow> - (2 ^ 31) \<le> sint v \<and> sint v < 2 ^ 31"
  by (auto simp: column_error.simps varchar_fits_def)

lemma ascii_fits: "list_all (\<lambda>c. byte_code c < 128) s \<Longrightarrow> length s \<le> n \<Longrightarrow> varchar_fits n s"
  using char_count_le[of s] by (simp add: varchar_fits_def valid_ascii)

lemma row_fits: "row_error cs = None \<longleftrightarrow> (\<forall>(n, c) \<in> set cs. column_error n c = None)"
  by (simp add: row_error_None list_all_iff)

end
