(* ===== verification/Biz.thy ===== *)
theory Biz
  imports Prelude
begin

text \<open>
  \<open>internal/biz\<close>: the domain records and the repository interfaces the use cases are written against,
  and \<open>internal/platform/mihomo\<close>: the upstream client interface with its two implementations in the
  repository. A Go interface is a record of its methods over the world type \<open>'w\<close>; a pointer field
  or result that may be nil is an \<open>option\<close>. The context argument says whether it carries a
  transaction (\<open>internal/data/tx_context.go\<close>).
\<close>

datatype ctx = Background | WithTx

record Credential =
  cr_BindingID :: u64
  cr_PlatformAccountID :: string
  cr_Platform :: string
  cr_AccountID :: string
  cr_Region :: string
  cr_CredentialBlob :: string
  cr_CredentialVersion :: string
  cr_Status :: string
  cr_LastValidatedAt :: "gotime option"
  cr_LastRefreshedAt :: "gotime option"
  cr_ExpiresAt :: "gotime option"

record Device =
  dv_BindingID :: u64
  dv_PlatformAccountID :: string
  dv_DeviceID :: string
  dv_DeviceFP :: string
  dv_DeviceName :: "string option"
  dv_IsValid :: bool
  dv_LastSeenAt :: "gotime option"

record ProfileIdentity =
  pi_PlayerID :: string
  pi_Region :: string

text \<open>\<open>Level\<close> is a Go \<open>int\<close>, 64 bits wide on the service's platforms.\<close>

record Profile =
  pf_ID :: u64
  pf_BindingID :: u64
  pf_PlatformAccountID :: string
  pf_GameBiz :: string
  pf_Region :: string
  pf_PlayerID :: string
  pf_Nickname :: string
  pf_Level :: i64
  pf_IsDefault :: bool
  pf_DiscoveredAt :: gotime

record Artifact =
  af_BindingID :: u64
  af_PlatformAccountID :: string
  af_ArtifactType :: string
  af_ArtifactValue :: string
  af_ScopeKey :: string
  af_ExpiresAt :: gotime

record ServiceTicketClaims =
  tc_ActorType :: string
  tc_ActorID :: string
  tc_OwnerUserID :: u64
  tc_BindingID :: u64
  tc_Platform :: string
  tc_PlatformAccountID :: string
  tc_Consumer :: string
  tc_GrantVersion :: u64
  tc_ProfileID :: u64
  tc_Scopes :: "string list"
  tc_Audience :: string
  tc_BotID :: string
  tc_UserID :: u64
  tc_PlatformServiceKey :: string
  tc_PlatformAccountRefID :: u64

section \<open>Repository interfaces\<close>

text \<open>
  \<open>WithinTransaction\<close> is the optional interface \<open>bindTransactioner\<close> that \<open>runInTransaction\<close> looks
  for with a type assertion; the closure's captured output variable is its result.
\<close>

record ('w, 'o) CredentialRepository =
  crepo_Save :: "ctx \<Rightarrow> Credential \<Rightarrow> ('w, unit) io"
  crepo_GetByBindingID :: "ctx \<Rightarrow> u64 \<Rightarrow> ('w, Credential option) io"
  crepo_GetByPlatformAccountID :: "ctx \<Rightarrow> string \<Rightarrow> ('w, Credential option) io"
  crepo_DeleteByPlatformAccountID :: "ctx \<Rightarrow> string \<Rightarrow> ('w, unit) io"
  crepo_WithinTransaction :: "(ctx \<Rightarrow> (ctx \<Rightarrow> ('w, 'o) io) \<Rightarrow> ('w, 'o) io) option"

record 'w DeviceRepository =
  drepo_Save :: "ctx \<Rightarrow> Device \<Rightarrow> ('w, unit) io"
  drepo_ListByBindingID :: "ctx \<Rightarrow> u64 \<Rightarrow> ('w, Device list) io"
  drepo_ListByPlatformAccountID :: "ctx \<Rightarrow> string \<Rightarrow> ('w, Device list) io"
  drepo_DeleteByBindingID :: "ctx \<Rightarrow> u64 \<Rightarrow> ('w, unit) io"
  drepo_DeleteByPlatformAccountID :: "ctx \<Rightarrow> string \<Rightarrow> ('w, unit) io"

record 'w ProfileRepository =
  prepo_Save :: "ctx \<Rightarrow> Profile \<Rightarrow> ('w, unit) io"
  prepo_SetDefaultByBindingAndPlayerID :: "ctx \<Rightarrow> u64 \<Rightarrow> string \<Rightarrow> string \<Rightarrow> ('w, unit) io"
  prepo_ListByBindingID :: "ctx \<Rightarrow> u64 \<Rightarrow> ('w, Profile list) io"
  prepo_ListByPlatformAccountID :: "ctx \<Rightarrow> string \<Rightarrow> ('w, Profile list) io"
  prepo_DeleteMissingByBindingID :: "ctx \<Rightarrow> u64 \<Rightarrow> ProfileIdentity list \<Rightarrow> ('w, unit) io"
  prepo_DeleteByPlatformAccountID :: "ctx \<Rightarrow> string \<Rightarrow> ('w, unit) io"
  prepo_DeleteMissingByPlatformAccountID :: "ctx \<Rightarrow> string \<Rightarrow> ProfileIdentity list \<Rightarrow> ('w, unit) io"

record 'w ArtifactRepository =
  arepo_Put :: "ctx \<Rightarrow> Artifact \<Rightarrow> ('w, unit) io"
  arepo_GetByBindingID :: "ctx \<Rightarrow> u64 \<Rightarrow> string \<Rightarrow> string \<Rightarrow> ('w, Artifact option) io"
  arepo_Get :: "ctx \<Rightarrow> string \<Rightarrow> string \<Rightarrow> string \<Rightarrow> ('w, Artifact option) io"
  arepo_DeleteByBindingID :: "ctx \<Rightarrow> u64 \<Rightarrow> ('w, unit) io"
  arepo_DeleteByPlatformAccountID :: "ctx \<Rightarrow> string \<Rightarrow> ('w, unit) io"

record 'w CredentialManagementRepository =
  mrepo_DeleteCredentialGraph :: "ctx \<Rightarrow> string \<Rightarrow> ('w, unit) io"
  mrepo_DeleteCredentialGraphByBindingID :: "ctx \<Rightarrow> u64 \<Rightarrow> ('w, unit) io"

section \<open>The upstream client\<close>

record DiscoveredProfile =
  dp_GameBiz :: string
  dp_Region :: string
  dp_PlayerID :: string
  dp_Nickname :: string
  dp_Level :: i32

record 'w Client =
  cl_ValidateAndDiscover ::
    "ctx \<Rightarrow> string \<Rightarrow> string \<Rightarrow> ('w, string \<times> string \<times> DiscoveredProfile list) io"
  cl_IssueAuthKey :: "ctx \<Rightarrow> string \<Rightarrow> string \<Rightarrow> ('w, string \<times> i64) io"

definition StubClient :: "'w Client" where
  "StubClient = \<lparr>
     cl_ValidateAndDiscover = (\<lambda>ctx cookieBundleJSON regionHint.
       ret (''10001'', ''cn_gf01'',
         [\<lparr> dp_GameBiz = ''hk4e_cn'', dp_Region = ''cn_gf01'', dp_PlayerID = ''1008611'',
            dp_Nickname = ''Traveler'', dp_Level = 60 \<rparr>])),
     cl_IssueAuthKey = (\<lambda>ctx cookieBundleJSON playerID. ret (''stub-authkey'', 300)) \<rparr>"

definition UnconfiguredClient :: "'w Client" where
  "UnconfiguredClient = \<lparr>
     cl_ValidateAndDiscover = (\<lambda>ctx cookieBundleJSON regionHint.
       fail (ErrText ''mihomo upstream client not configured'')),
     cl_IssueAuthKey = (\<lambda>ctx cookieBundleJSON playerID.
       fail (ErrText ''mihomo upstream client not configured'')) \<rparr>"

end
