(* ===== verification/World.thy ===== *)
theory World
  imports Columns Biz
begin

text \<open>
  The world the service acts on, and what is outside the repository. The world is the committed
  database, the database as the open transaction sees it, the Redis keys with their expiry, and a
  counter of the interactions so far. What the repository does not determine is the environment
  \<open>env\<close>: the clock and the random source by interaction number, which interactions fail (the
  server may have done the work before the connection failed: \<open>FailAfter\<close>), the row choices SQL
  leaves open, the SQL dialect, the text of a duplicate-key error and the TTL
  Redis applies. \<open>internal/data/tx_context.go\<close> is \<open>db_view\<close>.
\<close>

section \<open>The environment\<close>

datatype fault = FailBefore error | FailAfter error

record env =
  clock :: "nat \<Rightarrow> gotime"
  rand :: "nat \<Rightarrow> nat \<Rightarrow> error + string"
  fault :: "nat \<Rightarrow> fault option"
  pick :: "nat \<Rightarrow> nat"
  dialect :: dialect
  dup_text :: "string \<Rightarrow> string"
  bad_text :: "string \<Rightarrow> string"
  ttl_round :: "int \<Rightarrow> int"

text \<open>The part of a world the Go runtime needs; a repository implementation adds its own state.\<close>

record base_world =
  ticks :: nat

definition next_tick :: "'z base_world_scheme \<Rightarrow> 'z base_world_scheme" where
  "next_tick w = w\<lparr> ticks := Suc (ticks w) \<rparr>"

text \<open>\<open>time.Now()\<close> and \<open>io.ReadFull(rand.Reader, buf)\<close> for a buffer of \<open>n\<close> bytes.\<close>

definition time_now :: "env \<Rightarrow> ('z base_world_scheme, gotime) io" where
  "time_now E = (\<lambda>w. (Inr (clock E (ticks w)), next_tick w))"

definition rand_read :: "env \<Rightarrow> nat \<Rightarrow> ('z base_world_scheme, string) io" where
  "rand_read E n = (\<lambda>w. (rand E (ticks w) n, next_tick w))"

lemma ticks_next_tick [simp]: "ticks (next_tick w) = Suc (ticks w)"
  by (simp add: next_tick_def)

section \<open>The world of the MySQL and Redis repositories\<close>

record world = base_world +
  w_db :: database
  w_tx :: "database option"
  w_redis :: "string \<rightharpoonup> string \<times> gotime"

lemma next_tick_world [simp]:
  "w_db (next_tick w) = w_db w" "w_tx (next_tick w) = w_tx w" "w_redis (next_tick w) = w_redis w"
  by (simp_all add: next_tick_def)

text \<open>\<open>dbFromContext(ctx, r.db)\<close>: the open transaction if the context carries one, else the pool.\<close>

definition db_view :: "ctx \<Rightarrow> world \<Rightarrow> database" where
  "db_view ctx w = (case ctx of
      WithTx \<Rightarrow> (case w_tx w of Some tx \<Rightarrow> tx | None \<Rightarrow> w_db w)
    | Background \<Rightarrow> w_db w)"

definition put_view :: "ctx \<Rightarrow> database \<Rightarrow> world \<Rightarrow> world" where
  "put_view ctx d w = (case ctx of
      WithTx \<Rightarrow> (case w_tx w of Some _ \<Rightarrow> w\<lparr> w_tx := Some d \<rparr> | None \<Rightarrow> w\<lparr> w_db := d \<rparr>)
    | Background \<Rightarrow> w\<lparr> w_db := d \<rparr>)"

text \<open>One interaction with a server: it may fail before or after the server did its part.\<close>

definition interact :: "env \<Rightarrow> (nat \<Rightarrow> world \<Rightarrow> (error + 'a) \<times> world) \<Rightarrow> (world, 'a) io" where
  "interact E f = (\<lambda>w. let n = ticks w; w1 = next_tick w in
     case fault E n of
       None \<Rightarrow> f n w1
     | Some (FailBefore e) \<Rightarrow> (Inl e, w1)
     | Some (FailAfter e) \<Rightarrow> (Inl e, snd (f n w1)))"

text \<open>A call that only reads leaves the databases and the cache as they are.\<close>

definition same_store :: "world \<Rightarrow> world \<Rightarrow> bool" where
  "same_store w w' \<longleftrightarrow> w_db w' = w_db w \<and> w_tx w' = w_tx w \<and> w_redis w' = w_redis w"

lemma same_store_refl [simp]: "same_store w w" "same_store w (next_tick w)"
  by (simp_all add: same_store_def)

lemma same_store_trans: "same_store w w' \<Longrightarrow> same_store w' w'' \<Longrightarrow> same_store w w''"
  by (simp add: same_store_def)

lemma db_view_same: "same_store w w' \<Longrightarrow> db_view ctx w' = db_view ctx w"
  by (cases "w_tx w") (auto simp: same_store_def db_view_def split: ctx.split)

lemma db_view_next_tick [simp]: "db_view ctx (next_tick w) = db_view ctx w"
  by (rule db_view_same) simp

definition sql_error_of :: "env \<Rightarrow> sql_error \<Rightarrow> error" where
  "sql_error_of E se = (case se of
      DuplicateKey n \<Rightarrow> (case dialect E of MySQL \<Rightarrow> ErrMySQL 1062 (dup_text E n)
                                       | SQLite \<Rightarrow> ErrText (dup_text E n))
    | IdsExhausted \<Rightarrow> (case dialect E of
          MySQL \<Rightarrow> ErrMySQL 1467 ''Failed to read auto-increment value from storage engine''
        | SQLite \<Rightarrow> ErrText ''database or disk is full'')
    | DataTooLong n \<Rightarrow> ErrMySQL 1406 (''Data too long for column '' @ [CHR 0x27] @ n @ [CHR 0x27] @ '' at row 1'')
    | IncorrectString n \<Rightarrow> ErrMySQL 1366 (bad_text E n)
    | OutOfRangeValue n \<Rightarrow> ErrMySQL 1264 (''Out of range value for column '' @ [CHR 0x27] @ n @ [CHR 0x27] @ '' at row 1''))"

text \<open>MySQL checks the values of a row before it writes it; SQLite, the database of the tests, takes any.\<close>

definition fits :: "env \<Rightarrow> (string \<times> column) list \<Rightarrow> bool" where
  "fits E cs \<longleftrightarrow> (dialect E = MySQL \<longrightarrow> row_error cs = None)"

definition row_checked :: "env \<Rightarrow> (string \<times> column) list \<Rightarrow> ('t \<Rightarrow> sql_error + 'a) \<Rightarrow> 't \<Rightarrow> sql_error + 'a" where
  "row_checked E cs stmt t =
     (case (case dialect E of MySQL \<Rightarrow> row_error cs | SQLite \<Rightarrow> None) of Some e \<Rightarrow> Inl e | None \<Rightarrow> stmt t)"

lemma row_checked_ok [simp]: "row_checked E cs stmt t = Inr x \<longleftrightarrow> fits E cs \<and> stmt t = Inr x"
  by (auto simp: row_checked_def fits_def split: dialect.split option.split)

lemma row_checked_fits: "fits E cs \<Longrightarrow> row_checked E cs stmt = stmt"
  by (auto simp: row_checked_def fits_def fun_eq_iff split: dialect.split)

text \<open>A statement that reads, and one that writes, the database the context selects.\<close>

definition sql_query :: "env \<Rightarrow> ctx \<Rightarrow> (nat \<Rightarrow> database \<Rightarrow> 'a) \<Rightarrow> (world, 'a) io" where
  "sql_query E ctx f = interact E (\<lambda>n w. (Inr (f (pick E n) (db_view ctx w)), w))"

definition sql_exec :: "env \<Rightarrow> ctx \<Rightarrow> (nat \<Rightarrow> database \<Rightarrow> sql_error + ('a \<times> database)) \<Rightarrow> (world, 'a) io" where
  "sql_exec E ctx f = interact E (\<lambda>n w.
     case f (pick E n) (db_view ctx w) of
       Inl se \<Rightarrow> (Inl (sql_error_of E se), w)
     | Inr (x, d) \<Rightarrow> (Inr x, put_view ctx d w))"

text \<open>
  gorm's finishers: \<open>Take\<close> (\<open>LIMIT 1\<close>), \<open>Take\<close> after \<open>Order("id asc")\<close> and \<open>First\<close> return
  \<open>gorm.ErrRecordNotFound\<close> when no row matches; \<open>Find\<close> returns the matching rows, in id order.
  \<open>sel\<close> selects the table.
\<close>

definition gorm_take :: "env \<Rightarrow> ctx \<Rightarrow> (database \<Rightarrow> 'r sqltable) \<Rightarrow> ('r \<Rightarrow> bool) \<Rightarrow> (world, u64 \<times> 'r) io" where
  "gorm_take E ctx sel p = interact E (\<lambda>n w.
     case sql_take (pick E n) p (sel (db_view ctx w)) of
       None \<Rightarrow> (Inl ErrRecordNotFound, w) | Some x \<Rightarrow> (Inr x, w))"

definition gorm_first :: "env \<Rightarrow> ctx \<Rightarrow> (database \<Rightarrow> 'r sqltable) \<Rightarrow> ('r \<Rightarrow> bool) \<Rightarrow> (world, u64 \<times> 'r) io" where
  "gorm_first E ctx sel p = interact E (\<lambda>n w.
     case sql_first p (sel (db_view ctx w)) of
       None \<Rightarrow> (Inl ErrRecordNotFound, w) | Some x \<Rightarrow> (Inr x, w))"

definition gorm_find :: "env \<Rightarrow> ctx \<Rightarrow> (database \<Rightarrow> 'r sqltable) \<Rightarrow> ('r \<Rightarrow> bool) \<Rightarrow> (world, (u64 \<times> 'r) list) io" where
  "gorm_find E ctx sel p = sql_query E ctx (\<lambda>_ d. sql_find p (sel d))"

text \<open>\<open>if errors.Is(err, gorm.ErrRecordNotFound) { return nil, nil }\<close>.\<close>

definition catch_not_found :: "(world, 'a) io \<Rightarrow> (world, 'a option) io" where
  "catch_not_found m = bind_io (attempt m) (\<lambda>r. case r of
      Inl e \<Rightarrow> if e = ErrRecordNotFound then ret None else fail e
    | Inr x \<Rightarrow> ret (Some x))"

lemma reads_store:
  "sql_query E ctx f w = (r, w') \<Longrightarrow> same_store w w'"
  "gorm_take E ctx sel p w = (r2, w') \<Longrightarrow> same_store w w'"
  "gorm_first E ctx sel p w = (r2, w') \<Longrightarrow> same_store w w'"
  "gorm_find E ctx sel p w = (r3, w') \<Longrightarrow> same_store w w'"
  by (auto simp: sql_query_def gorm_take_def gorm_first_def gorm_find_def interact_def Let_def
      split: option.splits fault.splits)

lemma catch_not_found_store: "(\<And>r w'. m w = (r, w') \<Longrightarrow> same_store w w') \<Longrightarrow>
    catch_not_found m w = (r2, w2) \<Longrightarrow> same_store w w2"
  by (cases "m w") (auto simp: catch_not_found_def bind_io_def attempt_apply split: sum.splits if_splits)

lemma catch_not_found_okD: "catch_not_found m w = (Inr (Some x), w') \<Longrightarrow> m w = (Inr x, w')"
  by (cases "m w") (auto simp: catch_not_found_def bind_io_def attempt_apply split: sum.splits if_splits)

lemma read_results:
  "gorm_take E ctx sel p w = (Inr x, w') \<Longrightarrow> x \<in> set (tb_rows (sel (db_view ctx w))) \<and> p (snd x)"
  "gorm_first E ctx sel p w = (Inr x, w') \<Longrightarrow> x \<in> set (tb_rows (sel (db_view ctx w))) \<and> p (snd x)"
  "gorm_find E ctx sel p w = (Inr xs, w') \<Longrightarrow> xs = sql_find p (sel (db_view ctx w))"
  "sql_query E ctx f w = (Inr y, w') \<Longrightarrow> \<exists>k. y = f k (db_view ctx w)"
  by (auto simp: sql_query_def gorm_take_def gorm_first_def gorm_find_def interact_def Let_def
      split: option.splits fault.splits dest!: sql_take_Some sql_first_Some)

text \<open>
  A field with a \<open>default\<close> tag whose value is Go's zero value is left out of the insert, so the
  column's default is stored instead (\<open>gorm.io/docs/create.html\<close>, Default Values).
\<close>

definition create_default :: "'a \<Rightarrow> 'a \<Rightarrow> 'a \<Rightarrow> 'a" where
  "create_default zero dflt v = (if v = zero then dflt else v)"

text \<open>A write of one table, as a write of the database.\<close>

definition on_credentials where
  "on_credentials f d = map_sum id (\<lambda>t. ((), d\<lparr> db_credentials := t \<rparr>)) (f (db_credentials d) :: sql_error + _)"

definition on_devices where
  "on_devices f d = map_sum id (\<lambda>t. ((), d\<lparr> db_devices := t \<rparr>)) (f (db_devices d) :: sql_error + _)"

definition on_profiles where
  "on_profiles f d = map_sum id (\<lambda>t. ((), d\<lparr> db_profiles := t \<rparr>)) (f (db_profiles d) :: sql_error + _)"

definition on_artifacts where
  "on_artifacts f d = map_sum id (\<lambda>t. ((), d\<lparr> db_artifacts := t \<rparr>)) (f (db_artifacts d) :: sql_error + _)"

definition on_invalidations where
  "on_invalidations f d = map_sum id (\<lambda>t. ((), d\<lparr> db_invalidations := t \<rparr>)) (f (db_invalidations d) :: sql_error + _)"

lemma on_table_ok:
  "on_credentials f1 d = Inr x \<longleftrightarrow> (\<exists>t. f1 (db_credentials d) = Inr t \<and> x = ((), d\<lparr> db_credentials := t \<rparr>))"
  "on_devices f2 d = Inr x \<longleftrightarrow> (\<exists>t. f2 (db_devices d) = Inr t \<and> x = ((), d\<lparr> db_devices := t \<rparr>))"
  "on_profiles f3 d = Inr x \<longleftrightarrow> (\<exists>t. f3 (db_profiles d) = Inr t \<and> x = ((), d\<lparr> db_profiles := t \<rparr>))"
  "on_artifacts f4 d = Inr x \<longleftrightarrow> (\<exists>t. f4 (db_artifacts d) = Inr t \<and> x = ((), d\<lparr> db_artifacts := t \<rparr>))"
  "on_invalidations f5 d = Inr x \<longleftrightarrow> (\<exists>t. f5 (db_invalidations d) = Inr t \<and> x = ((), d\<lparr> db_invalidations := t \<rparr>))"
  by (auto simp: on_credentials_def on_devices_def on_profiles_def on_artifacts_def on_invalidations_def map_sum_def split: sum.splits)

lemmas on_table_defs = on_credentials_def on_devices_def on_profiles_def on_artifacts_def on_invalidations_def

section \<open>Transactions\<close>

text \<open>
  gorm's \<open>db.Transaction(fc)\<close> on the pool: \<open>BEGIN\<close>, the closure, then \<open>ROLLBACK\<close> when the closure
  returned an error and \<open>COMMIT\<close> otherwise. On a session that is already in a transaction it is a
  savepoint.
\<close>

definition tx_commit :: "env \<Rightarrow> database option \<Rightarrow> 'a \<Rightarrow> (world, 'a) io" where
  "tx_commit E outer x = (\<lambda>w.
     let d = db_view WithTx w; kept = (next_tick w)\<lparr> w_tx := outer \<rparr>; done = kept\<lparr> w_db := d \<rparr> in
     case fault E (ticks w) of
       None \<Rightarrow> (Inr x, done)
     | Some (FailBefore e) \<Rightarrow> (Inl e, kept)
     | Some (FailAfter e) \<Rightarrow> (Inl e, done))"

definition begin_tx :: "env \<Rightarrow> (ctx \<Rightarrow> (world, 'a) io) \<Rightarrow> (world, 'a) io" where
  "begin_tx E body = (\<lambda>w.
     case fault E (ticks w) of
       Some (FailBefore e) \<Rightarrow> (Inl e, next_tick w)
     | Some (FailAfter e) \<Rightarrow> (Inl e, next_tick w)
     | None \<Rightarrow>
         (case body WithTx ((next_tick w)\<lparr> w_tx := Some (w_db w) \<rparr>) of
            (Inl e, w2) \<Rightarrow> (Inl e, (next_tick w2)\<lparr> w_tx := w_tx w \<rparr>)
          | (Inr x, w2) \<Rightarrow> tx_commit E (w_tx w) x w2))"

definition savepoint :: "env \<Rightarrow> (ctx \<Rightarrow> (world, 'a) io) \<Rightarrow> (world, 'a) io" where
  "savepoint E body = (\<lambda>w.
     case fault E (ticks w) of
       Some (FailBefore e) \<Rightarrow> (Inl e, next_tick w)
     | Some (FailAfter e) \<Rightarrow> (Inl e, next_tick w)
     | None \<Rightarrow>
         (case body WithTx (next_tick w) of
            (Inr x, w2) \<Rightarrow> (Inr x, w2)
          | (Inl e, w2) \<Rightarrow>
              (case fault E (ticks w2) of
                 Some (FailBefore _) \<Rightarrow> (Inl e, next_tick w2)
               | _ \<Rightarrow> (Inl e, (next_tick w2)\<lparr> w_tx := w_tx w \<rparr>))))"

definition transaction :: "env \<Rightarrow> ctx \<Rightarrow> (ctx \<Rightarrow> (world, 'a) io) \<Rightarrow> (world, 'a) io" where
  "transaction E ctx body = (\<lambda>w.
     if ctx = WithTx \<and> w_tx w \<noteq> None then savepoint E body w else begin_tx E body w)"

section \<open>Redis\<close>

definition redis_get :: "env \<Rightarrow> string \<Rightarrow> (world, string) io" where
  "redis_get E key = interact E (\<lambda>n w.
     case w_redis w key of
       Some (v, expiry) \<Rightarrow> (if clock E n < expiry then (Inr v, w) else (Inl ErrRedisNil, w))
     | None \<Rightarrow> (Inl ErrRedisNil, w))"

definition redis_del :: "env \<Rightarrow> string list \<Rightarrow> (world, unit) io" where
  "redis_del E ks = interact E (\<lambda>n w.
     (Inr (), w\<lparr> w_redis := (\<lambda>k. if k \<in> set ks then None else w_redis w k) \<rparr>))"

definition redis_set :: "env \<Rightarrow> string \<Rightarrow> string \<Rightarrow> int \<Rightarrow> (world, unit) io" where
  "redis_set E key v ttl = interact E (\<lambda>n w.
     (Inr (), w\<lparr> w_redis := (w_redis w)(key \<mapsto> (v, clock E n + ttl_round E ttl)) \<rparr>))"

section \<open>A concrete environment\<close>

text \<open>An environment in which nothing fails, the clock counts interactions and the random bytes are
  all r: the instance at which the properties are applied to concrete inputs.\<close>

definition sample_env :: "dialect \<Rightarrow> env" where
  "sample_env d = \<lparr> clock = int, rand = (\<lambda>t n. Inr (replicate n CHR ''r'')), fault = (\<lambda>_. None), pick = (\<lambda>_. 0),
     dialect = d, dup_text = id, bad_text = id, ttl_round = id \<rparr>"

definition empty_world :: world where
  "empty_world = \<lparr> ticks = 0, w_db = empty_database, w_tx = None, w_redis = Map.empty \<rparr>"

lemma sample_env_simps [simp]:
  "clock (sample_env d) = int" "fault (sample_env d) = (\<lambda>_. None)" "pick (sample_env d) = (\<lambda>_. 0)"
  "dialect (sample_env d) = d" "rand (sample_env d) = (\<lambda>t n. Inr (replicate n CHR ''r''))"
  "dup_text (sample_env d) = id" "bad_text (sample_env d) = id" "ttl_round (sample_env d) = id"
  by (simp_all add: sample_env_def)

lemma empty_world_simps [simp]:
  "ticks empty_world = 0" "w_db empty_world = empty_database" "w_tx empty_world = None"
  "w_redis empty_world = Map.empty"
  by (simp_all add: empty_world_def)

section \<open>Calls inside an open transaction\<close>

text \<open>\<open>in_tx A w\<close>: a transaction is open on a database with property \<open>A\<close>.\<close>

definition in_tx :: "(database \<Rightarrow> bool) \<Rightarrow> world \<Rightarrow> bool" where
  "in_tx A w \<longleftrightarrow> (\<exists>t. w_tx w = Some t \<and> A t)"

lemma in_tx_same: "same_store w w' \<Longrightarrow> in_tx A w \<Longrightarrow> in_tx A w'"
  by (simp add: in_tx_def same_store_def)

lemma est_exec:
  assumes "\<And>k t x t'. A t \<Longrightarrow> f k t = Inr (x, t') \<Longrightarrow> B x t'"
  shows "establishes (in_tx A) (sql_exec E WithTx f) (\<lambda>x. in_tx (B x))"
  unfolding establishes_def
proof (intro allI impI)
  fix w x w'
  assume "in_tx A w" and run: "sql_exec E WithTx f w = (Inr x, w')"
  then obtain t where t: "w_tx w = Some t" "A t" by (auto simp: in_tx_def)
  then have view: "db_view WithTx w = t" by (simp add: db_view_def)
  from run view t obtain t' where "f (pick E (ticks w)) t = Inr (x, t')" "w_tx w' = Some t'"
    by (auto simp: sql_exec_def interact_def Let_def put_view_def split: option.splits fault.splits sum.splits)
  then show "in_tx (B x) w'" using assms t(2) by (auto simp: in_tx_def)
qed

lemma est_deletes:
  "establishes (in_tx (\<lambda>t. t = d)) (sql_exec E WithTx (\<lambda>_. on_credentials (\<lambda>t. Inr (sql_delete p t))))
     (\<lambda>_. in_tx (\<lambda>t. t = d\<lparr> db_credentials := sql_delete p (db_credentials d) \<rparr>))"
  "establishes (in_tx (\<lambda>t. t = d)) (sql_exec E WithTx (\<lambda>_. on_devices (\<lambda>t. Inr (sql_delete q t))))
     (\<lambda>_. in_tx (\<lambda>t. t = d\<lparr> db_devices := sql_delete q (db_devices d) \<rparr>))"
  "establishes (in_tx (\<lambda>t. t = d)) (sql_exec E WithTx (\<lambda>_. on_profiles (\<lambda>t. Inr (sql_delete r t))))
     (\<lambda>_. in_tx (\<lambda>t. t = d\<lparr> db_profiles := sql_delete r (db_profiles d) \<rparr>))"
  "establishes (in_tx (\<lambda>t. t = d)) (sql_exec E WithTx (\<lambda>_. on_artifacts (\<lambda>t. Inr (sql_delete s t))))
     (\<lambda>_. in_tx (\<lambda>t. t = d\<lparr> db_artifacts := sql_delete s (db_artifacts d) \<rparr>))"
  by (rule est_exec; simp add: on_table_defs)+

lemma est_read:
  assumes "\<And>w r w'. m w = (r, w') \<Longrightarrow> same_store w w'"
  shows "establishes (in_tx A) m (\<lambda>_. in_tx A)"
  unfolding establishes_def using assms in_tx_same by blast

lemma est_redis:
  "establishes (in_tx A) (redis_del E ks) (\<lambda>_. in_tx A)"
  "establishes (in_tx A) (redis_set E key v ttl) (\<lambda>_. in_tx A)"
  by (auto simp: establishes_def in_tx_def redis_del_def redis_set_def interact_def Let_def
      split: option.splits fault.splits)

lemma est_now: "establishes (in_tx A) (time_now E) (\<lambda>_. in_tx A)"
  by (rule est_read) (auto simp: time_now_def)

end
