(* ===== verification/Contracts.thy ===== *)
theory Contracts
  imports World PlatformAccountKey
begin

text \<open>
  The contracts between the use cases and the interfaces of \<open>Biz\<close>, as locales. They are parametrised
  by an invariant \<open>I\<close> and a relation \<open>R\<close> on worlds (\<open>world_contract\<close>) and by what the caller may
  touch: the bindings \<open>mine\<close>, the pairs \<open>owns b k\<close> of a binding and an account key, the upstream
  accounts \<open>acct\<close>, the contexts \<open>in_ctx\<close>, and whether it may write. A repository promises that an
  operation within these bounds keeps the contract and that what it reads stays within them. The
  use cases and handlers are shown once, against these promises, to keep the contract; each
  interpretation on the MySQL and Redis repositories then gives one property of the whole service.
\<close>

section \<open>The runtime\<close>

locale runtime = world_contract I R
  for I :: "'z base_world_scheme \<Rightarrow> bool" and R :: "'z base_world_scheme \<Rightarrow> 'z base_world_scheme \<Rightarrow> bool" +
  assumes tick_keeps: "I w \<Longrightarrow> I (next_tick w) \<and> R w (next_tick w)"
begin

lemma now_keeps: "keeps I R (\<lambda>_. True) (time_now E)"
  by (simp add: keeps_def time_now_def tick_keeps)

lemma rand_keeps: "keeps I R (\<lambda>_. True) (rand_read E n)"
  by (simp add: keeps_def rand_read_def tick_keeps)

end

section \<open>Repositories\<close>

locale binding_scope = runtime I R
  for I :: "'z base_world_scheme \<Rightarrow> bool" and R :: "'z base_world_scheme \<Rightarrow> 'z base_world_scheme \<Rightarrow> bool" +
  fixes mine :: "u64 \<Rightarrow> bool" and owns :: "u64 \<Rightarrow> string \<Rightarrow> bool" and acct :: "string \<Rightarrow> string \<Rightarrow> bool"
    and in_ctx :: "ctx \<Rightarrow> bool" and writes :: bool
  assumes owns_mine: "owns b k \<Longrightarrow> mine b"
    and mine_owns: "mine b \<Longrightarrow> key_binding k = Some b \<Longrightarrow> owns b k"

locale credential_contract = binding_scope I R mine owns acct in_ctx writes
  for I :: "'z base_world_scheme \<Rightarrow> bool" and R mine owns acct in_ctx writes +
  fixes creds :: "('z base_world_scheme, 'o) CredentialRepository"
  assumes cred_save: "\<lbrakk> writes; in_ctx ctx; owns (cr_BindingID c) (cr_PlatformAccountID c);
        acct (cr_Platform c) (cr_AccountID c) \<rbrakk> \<Longrightarrow> keeps I R (\<lambda>_. True) (crepo_Save creds ctx c)"
    and cred_get: "\<lbrakk> in_ctx ctx; mine b \<rbrakk> \<Longrightarrow> keeps I R (\<lambda>r. \<forall>c. r = Some c \<longrightarrow> cr_BindingID c = b \<and>
        owns b (cr_PlatformAccountID c) \<and> acct (cr_Platform c) (cr_AccountID c)) (crepo_GetByBindingID creds ctx b)"
    and cred_lookup: "\<lbrakk> in_ctx ctx; owns b k \<rbrakk> \<Longrightarrow> keeps I R (\<lambda>r. \<forall>c. r = Some c \<longrightarrow> cr_PlatformAccountID c = k \<and>
        owns (cr_BindingID c) k \<and> acct (cr_Platform c) (cr_AccountID c)) (crepo_GetByPlatformAccountID creds ctx k)"
    and cred_delete: "\<lbrakk> writes; in_ctx ctx; owns b k \<rbrakk> \<Longrightarrow>
        keeps I R (\<lambda>_. True) (crepo_DeleteByPlatformAccountID creds ctx k)"

locale device_contract = binding_scope I R mine owns acct in_ctx writes
  for I :: "'z base_world_scheme \<Rightarrow> bool" and R mine owns acct in_ctx writes +
  fixes devs :: "'z base_world_scheme DeviceRepository"
  assumes dev_save: "\<lbrakk> writes; in_ctx ctx; owns (dv_BindingID d) (dv_PlatformAccountID d) \<rbrakk> \<Longrightarrow>
        keeps I R (\<lambda>_. True) (drepo_Save devs ctx d)"
    and dev_list: "\<lbrakk> in_ctx ctx; mine b \<rbrakk> \<Longrightarrow> keeps I R (\<lambda>_. True) (drepo_ListByBindingID devs ctx b)"
    and dev_list_key: "\<lbrakk> in_ctx ctx; owns b k \<rbrakk> \<Longrightarrow> keeps I R (\<lambda>_. True) (drepo_ListByPlatformAccountID devs ctx k)"
    and dev_delete: "\<lbrakk> writes; in_ctx ctx; owns b k \<rbrakk> \<Longrightarrow>
        keeps I R (\<lambda>_. True) (drepo_DeleteByPlatformAccountID devs ctx k)"

locale profile_contract = binding_scope I R mine owns acct in_ctx writes
  for I :: "'z base_world_scheme \<Rightarrow> bool" and R mine owns acct in_ctx writes +
  fixes profs :: "'z base_world_scheme ProfileRepository"
  assumes prof_save: "\<lbrakk> writes; in_ctx ctx; owns (pf_BindingID p) (pf_PlatformAccountID p) \<rbrakk> \<Longrightarrow>
        keeps I R (\<lambda>_. True) (prepo_Save profs ctx p)"
    and prof_list: "\<lbrakk> in_ctx ctx; mine b \<rbrakk> \<Longrightarrow> keeps I R (\<lambda>ps. \<forall>p \<in> set ps. pf_BindingID p = b)
        (prepo_ListByBindingID profs ctx b)"
    and prof_list_key: "\<lbrakk> in_ctx ctx; owns b k \<rbrakk> \<Longrightarrow> keeps I R (\<lambda>ps. \<forall>p \<in> set ps. owns (pf_BindingID p) k)
        (prepo_ListByPlatformAccountID profs ctx k)"
    and prof_delete: "\<lbrakk> writes; in_ctx ctx; owns b k \<rbrakk> \<Longrightarrow>
        keeps I R (\<lambda>_. True) (prepo_DeleteByPlatformAccountID profs ctx k)"
    and prof_delete_missing: "\<lbrakk> writes; in_ctx ctx; mine b \<rbrakk> \<Longrightarrow>
        keeps I R (\<lambda>_. True) (prepo_DeleteMissingByBindingID profs ctx b keep)"

locale artifact_contract = binding_scope I R mine owns acct in_ctx writes
  for I :: "'z base_world_scheme \<Rightarrow> bool" and R mine owns acct in_ctx writes +
  fixes arts :: "'z base_world_scheme ArtifactRepository"
  assumes art_delete: "\<lbrakk> writes; in_ctx ctx; mine b \<rbrakk> \<Longrightarrow> keeps I R (\<lambda>_. True) (arepo_DeleteByBindingID arts ctx b)"

text \<open>What the part of a binding that runs inside a transaction uses.\<close>

locale bind_contract =
  credential_contract I R mine owns acct in_ctx writes creds +
  device_contract I R mine owns acct in_ctx writes devs +
  profile_contract I R mine owns acct in_ctx writes profs +
  artifact_contract I R mine owns acct in_ctx writes arts
  for I :: "'z base_world_scheme \<Rightarrow> bool" and R mine owns acct in_ctx writes
    and creds :: "('z base_world_scheme, 'o) CredentialRepository" and devs profs arts

section \<open>Everything the use cases rely on\<close>

locale usecase_contract = bind_contract I R mine owns acct in_ctx writes creds devs profs arts
  for I :: "'z base_world_scheme \<Rightarrow> bool" and R mine owns acct in_ctx writes
    and creds :: "('z base_world_scheme, 'o) CredentialRepository" and devs profs arts +
  fixes mgmt :: "'z base_world_scheme CredentialManagementRepository"
    and client :: "'z base_world_scheme Client"
    and within :: "ctx \<Rightarrow> (ctx \<Rightarrow> ('z base_world_scheme, 'o) io) \<Rightarrow> ('z base_world_scheme, 'o) io"
  assumes offers_transactions: "crepo_WithinTransaction creds = Some within"
    and within_keeps: "\<lbrakk> in_ctx ctx; writes; \<And>tx. in_ctx tx \<Longrightarrow> keeps I R Q (fn tx) \<rbrakk> \<Longrightarrow> keeps I R Q (within ctx fn)"
    and prof_set_default: "\<lbrakk> writes; in_ctx ctx; mine b \<rbrakk> \<Longrightarrow>
        keeps I R (\<lambda>_. True) (prepo_SetDefaultByBindingAndPlayerID profs ctx b k player)"
    and art_get: "\<lbrakk> writes; in_ctx ctx; mine b \<rbrakk> \<Longrightarrow> keeps I R (\<lambda>_. True) (arepo_GetByBindingID arts ctx b ty sc)"
    and art_put: "\<lbrakk> writes; in_ctx ctx; owns (af_BindingID a) (af_PlatformAccountID a) \<rbrakk> \<Longrightarrow>
        keeps I R (\<lambda>_. True) (arepo_Put arts ctx a)"
    and delete_graph_key: "\<lbrakk> writes; in_ctx ctx; owns b k \<rbrakk> \<Longrightarrow>
        keeps I R (\<lambda>_. True) (mrepo_DeleteCredentialGraph mgmt ctx k)"
    and delete_graph: "\<lbrakk> writes; in_ctx ctx; mine b \<rbrakk> \<Longrightarrow>
        keeps I R (\<lambda>_. True) (mrepo_DeleteCredentialGraphByBindingID mgmt ctx b)"
    and discover: "keeps I R (\<lambda>(a, _, _). acct ''mihomo'' a) (cl_ValidateAndDiscover client ctx cookies hint)"
    and issue: "keeps I R (\<lambda>_. True) (cl_IssueAuthKey client ctx cookies player)"

end
