(* ===== verification/Api.thy ===== *)
theory Api
  imports Prelude
begin

text \<open>
  \<open>api/mihomo/v1\<close>: the messages of the account service (the structs protoc-gen-go generates from
  \<open>mihomo_account.proto\<close>), with message fields that may be absent as \<open>option\<close>, and the gRPC
  status a handler returns as its error. A \<open>google.protobuf.Timestamp\<close> is the time it was made from.
\<close>

datatype CredentialStatus =
    CREDENTIAL_STATUS_UNSPECIFIED
  | CREDENTIAL_STATUS_ACTIVE
  | CREDENTIAL_STATUS_EXPIRED
  | CREDENTIAL_STATUS_INVALID
  | CREDENTIAL_STATUS_CHALLENGE_REQUIRED

text \<open>The enum numbers of the wire format, and the order of the enum they give.\<close>

fun credential_status_number :: "CredentialStatus \<Rightarrow> nat" where
  "credential_status_number CREDENTIAL_STATUS_UNSPECIFIED = 0"
| "credential_status_number CREDENTIAL_STATUS_ACTIVE = 1"
| "credential_status_number CREDENTIAL_STATUS_EXPIRED = 2"
| "credential_status_number CREDENTIAL_STATUS_INVALID = 3"
| "credential_status_number CREDENTIAL_STATUS_CHALLENGE_REQUIRED = 4"

lemma credential_status_number_inj: "credential_status_number a = credential_status_number b \<Longrightarrow> a = b"
  by (cases a; cases b) simp_all

instantiation CredentialStatus :: linorder
begin

definition less_eq_CredentialStatus :: "CredentialStatus \<Rightarrow> CredentialStatus \<Rightarrow> bool" where
  "less_eq_CredentialStatus a b \<longleftrightarrow> credential_status_number a \<le> credential_status_number b"

definition less_CredentialStatus :: "CredentialStatus \<Rightarrow> CredentialStatus \<Rightarrow> bool" where
  "less_CredentialStatus a b \<longleftrightarrow> credential_status_number a < credential_status_number b"

instance
  by standard
    (auto simp: less_eq_CredentialStatus_def less_CredentialStatus_def intro: credential_status_number_inj)

end

record DeviceInfo =
  di_DeviceId :: string
  di_DeviceFp :: string
  di_DeviceName :: string

record DeviceSummary =
  ds_DeviceId :: string
  ds_DeviceFp :: string
  ds_DeviceName :: string
  ds_IsValid :: bool
  ds_LastSeenAt :: "gotime option"

record ProfileSummary =
  ps_Id :: u64
  ps_PlatformAccountId :: string
  ps_GameBiz :: string
  ps_Region :: string
  ps_PlayerId :: string
  ps_Nickname :: string
  ps_Level :: i32
  ps_IsDefault :: bool

record CredentialSummary =
  cs_PlatformAccountId :: string
  cs_Status :: CredentialStatus
  cs_LastValidatedAt :: "gotime option"
  cs_LastRefreshedAt :: "gotime option"
  cs_Devices :: "DeviceSummary list"
  cs_Profiles :: "ProfileSummary list"

record BindCredentialRequest =
  bcr_ServiceTicket :: string
  bcr_CookieBundleJson :: string
  bcr_Device :: "DeviceInfo option"
  bcr_RegionHint :: string

record BindCredentialResponse =
  bcs_PlatformAccountId :: string
  bcs_Status :: CredentialStatus
  bcs_Profiles :: "ProfileSummary list"

record UpsertDeviceRequest =
  udr_ServiceTicket :: string
  udr_PlatformAccountId :: string
  udr_Device :: "DeviceInfo option"

text \<open>The requests that carry a ticket and an account key only: status, validate, refresh, list
  profiles, primary profile, summary and delete.\<close>

record AccountRequest =
  acr_ServiceTicket :: string
  acr_PlatformAccountId :: string

text \<open>The requests that carry a player id too: confirm the primary profile, get the auth key.\<close>

record PlayerRequest =
  plr_ServiceTicket :: string
  plr_PlatformAccountId :: string
  plr_PlayerId :: string

record GetCredentialStatusResponse =
  gcs_Status :: CredentialStatus
  gcs_LastValidatedAt :: "gotime option"

record ValidateCredentialResponse =
  vcs_Status :: CredentialStatus
  vcs_ErrorCode :: string

record RefreshCredentialResponse =
  rcs_Status :: CredentialStatus
  rcs_RefreshedAt :: "gotime option"

record GetAuthKeyResponse =
  gak_Authkey :: string
  gak_ExpiresAt :: "gotime option"

record UpdateCredentialRequest =
  ucr_ServiceTicket :: string
  ucr_PlatformAccountId :: string
  ucr_CookieBundleJson :: string
  ucr_Device :: "DeviceInfo option"
  ucr_RegionHint :: string

section \<open>gRPC status errors\<close>

text \<open>\<open>GoPanic\<close> is no code of gRPC: it marks a handler that dereferenced nil, which the recovery
  middleware of the server turns into an answer of its own.\<close>

datatype grpc_code = GoPanic | InvalidArgument | NotFound | PermissionDenied | Internal | Unauthenticated

record Status =
  st_code :: grpc_code
  st_message :: string

definition status_error :: "grpc_code \<Rightarrow> string \<Rightarrow> Status" where
  "status_error c m = \<lparr> st_code = c, st_message = m \<rparr>"

end
