(* ===== verification/ProfileUsecase.thy ===== *)
theory ProfileUsecase
  imports ScopeGuard Contracts Api
begin

text \<open>
  \<open>internal/usecase/profile_usecase.go\<close>: listing the profiles of an account, choosing its primary
  profile and confirming another one, each with the scope guard of the ticket.
\<close>

record 'w ProfileUsecase =
  pu_profileRepo :: "'w ProfileRepository"

definition NewProfileUsecase :: "'w ProfileRepository \<Rightarrow> 'w ProfileUsecase" where
  "NewProfileUsecase profileRepo = \<lparr> pu_profileRepo = profileRepo \<rparr>"

text \<open>\<open>int32(profile.Level)\<close> keeps the low 32 bits.\<close>

definition toProfileSummary :: "Profile \<Rightarrow> ProfileSummary" where
  "toProfileSummary p = \<lparr>
     ps_Id = pf_ID p, ps_PlatformAccountId = pf_PlatformAccountID p, ps_GameBiz = pf_GameBiz p,
     ps_Region = pf_Region p, ps_PlayerId = pf_PlayerID p, ps_Nickname = pf_Nickname p,
     ps_Level = unsigned (pf_Level p), ps_IsDefault = pf_IsDefault p \<rparr>"

definition ListProfiles :: "'w ProfileUsecase \<Rightarrow> ctx \<Rightarrow> string \<Rightarrow> ('w, ProfileSummary list) io" where
  "ListProfiles uc ctx platformAccountID =
     bind_io (prepo_ListByPlatformAccountID (pu_profileRepo uc) ctx platformAccountID)
       (\<lambda>profiles. ret (map toProfileSummary profiles))"

text \<open>The loop of the two primary profile queries: the first default profile, else the first one.\<close>

definition primary_profile :: "Profile list \<Rightarrow> Profile option" where
  "primary_profile profiles =
     (case profiles of [] \<Rightarrow> None
      | p # _ \<Rightarrow> (case List.find pf_IsDefault profiles of Some q \<Rightarrow> Some q | None \<Rightarrow> Some p))"

definition listScopedProfiles :: "'w ProfileUsecase \<Rightarrow> ctx \<Rightarrow> ScopeGuard \<Rightarrow> string \<Rightarrow> ('w, Profile list) io" where
  "listScopedProfiles uc ctx guard platformAccountID =
     then_io (lift_res (RequirePlatformAccountID guard platformAccountID))
     (bind_io (prepo_ListByBindingID (pu_profileRepo uc) ctx (sg_BindingID guard)) (\<lambda>all.
      let profiles = filter (\<lambda>p. pf_PlatformAccountID p = platformAccountID) all in
      if sg_ProfileID guard = 0 then ret profiles
      else let filtered = filter (\<lambda>p. RequireProfile guard (pf_BindingID p) (pf_ID p) = Inr ()) profiles in
           if filtered = [] then fail ErrProfileScopeDenied else ret filtered))"

definition ListProfilesWithScope ::
    "'w ProfileUsecase \<Rightarrow> ctx \<Rightarrow> ScopeGuard \<Rightarrow> string \<Rightarrow> ('w, ProfileSummary list) io" where
  "ListProfilesWithScope uc ctx guard platformAccountID =
     bind_io (listScopedProfiles uc ctx guard platformAccountID) (\<lambda>profiles. ret (map toProfileSummary profiles))"

definition GetPrimaryProfile :: "'w ProfileUsecase \<Rightarrow> ctx \<Rightarrow> string \<Rightarrow> ('w, ProfileSummary option) io" where
  "GetPrimaryProfile uc ctx platformAccountID =
     bind_io (prepo_ListByPlatformAccountID (pu_profileRepo uc) ctx platformAccountID)
       (\<lambda>profiles. ret (map_option toProfileSummary (primary_profile profiles)))"

definition GetPrimaryProfileWithScope ::
    "'w ProfileUsecase \<Rightarrow> ctx \<Rightarrow> ScopeGuard \<Rightarrow> string \<Rightarrow> ('w, ProfileSummary option) io" where
  "GetPrimaryProfileWithScope uc ctx guard platformAccountID =
     bind_io (listScopedProfiles uc ctx guard platformAccountID)
       (\<lambda>profiles. ret (map_option toProfileSummary (primary_profile profiles)))"

definition findProfileByPlayerID ::
    "'w ProfileUsecase \<Rightarrow> ctx \<Rightarrow> string \<Rightarrow> string \<Rightarrow> ('w, Profile list \<times> Profile) io" where
  "findProfileByPlayerID uc ctx platformAccountID playerID =
     bind_io (prepo_ListByPlatformAccountID (pu_profileRepo uc) ctx platformAccountID) (\<lambda>profiles.
     case List.find (\<lambda>p. pf_PlayerID p = playerID) profiles of
       Some p \<Rightarrow> ret (profiles, p) | None \<Rightarrow> fail ErrProfileNotFound)"

text \<open>The loop does not stop at the first match, so the last matching profile is selected.\<close>

definition findProfileByBindingAndPlayerID ::
    "'w ProfileUsecase \<Rightarrow> ctx \<Rightarrow> u64 \<Rightarrow> string \<Rightarrow> string \<Rightarrow> ('w, Profile list \<times> Profile) io" where
  "findProfileByBindingAndPlayerID uc ctx bindingID platformAccountID playerID =
     bind_io (prepo_ListByBindingID (pu_profileRepo uc) ctx bindingID) (\<lambda>profiles.
     let filtered = filter (\<lambda>p. pf_PlatformAccountID p = platformAccountID) profiles;
         selected = foldl (\<lambda>sel p. if pf_PlayerID p = playerID then Some p else sel) None filtered
     in case selected of Some p \<Rightarrow> ret (filtered, p) | None \<Rightarrow> fail ErrProfileNotFound)"

definition ConfirmPrimaryProfile ::
    "'w ProfileUsecase \<Rightarrow> ctx \<Rightarrow> string \<Rightarrow> string \<Rightarrow> ('w, ProfileSummary) io" where
  "ConfirmPrimaryProfile uc ctx platformAccountID playerID =
     bind_io (prepo_ListByPlatformAccountID (pu_profileRepo uc) ctx platformAccountID) (\<lambda>profiles.
     case List.find (\<lambda>p. pf_PlayerID p = playerID) profiles of
       None \<Rightarrow> fail ErrProfileNotFound
     | Some selected \<Rightarrow>
         then_io (prepo_SetDefaultByBindingAndPlayerID (pu_profileRepo uc) ctx
                    (pf_BindingID selected) platformAccountID playerID)
           (ret (toProfileSummary (selected\<lparr> pf_IsDefault := True \<rparr>))))"

definition ConfirmPrimaryProfileWithScope ::
    "'w ProfileUsecase \<Rightarrow> ctx \<Rightarrow> ScopeGuard \<Rightarrow> string \<Rightarrow> string \<Rightarrow> ('w, ProfileSummary) io" where
  "ConfirmPrimaryProfileWithScope uc ctx guard platformAccountID playerID =
     then_io (lift_res (RequirePlatformAccountID guard platformAccountID))
     (then_io (lift_res (RequireBindingWide guard))
     (bind_io (findProfileByBindingAndPlayerID uc ctx (sg_BindingID guard) platformAccountID playerID)
       (\<lambda>(_, selected).
        then_io (lift_res (RequireProfile guard (pf_BindingID selected) (pf_ID selected)))
        (then_io (prepo_SetDefaultByBindingAndPlayerID (pu_profileRepo uc) ctx
                    (pf_BindingID selected) platformAccountID playerID)
           (ret (toProfileSummary (selected\<lparr> pf_IsDefault := True \<rparr>)))))))"

definition RequireProfileAccessByPlayerID ::
    "'w ProfileUsecase \<Rightarrow> ctx \<Rightarrow> ScopeGuard \<Rightarrow> string \<Rightarrow> string \<Rightarrow> ('w, unit) io" where
  "RequireProfileAccessByPlayerID uc ctx guard platformAccountID playerID =
     then_io (lift_res (RequirePlatformAccountID guard platformAccountID))
     (bind_io (findProfileByPlayerID uc ctx platformAccountID playerID) (\<lambda>(_, selected).
        lift_res (RequireProfile guard (pf_BindingID selected) (pf_ID selected))))"

lemma last_match_set:
  assumes "foldl (\<lambda>sel p. if P p then Some p else sel) init xs = Some q"
  shows "init = Some q \<or> q \<in> set xs"
  using assms by (induction xs arbitrary: init) (auto split: if_splits)

section \<open>Against any profile repository\<close>

text \<open>\<open>profile_uc\<close> is the use case over the repository of the contract. The guard's own check of the account
  key is what brings the key into the scope.\<close>

context profile_contract
begin

abbreviation profile_uc :: "'z base_world_scheme ProfileUsecase" where
  "profile_uc \<equiv> \<lparr> pu_profileRepo = profs \<rparr>"

lemma list_profiles_keeps:
  assumes "in_ctx ctx" "owns b k"
  shows "keeps I R (\<lambda>_. True) (ListProfiles profile_uc ctx k)"
  unfolding ListProfiles_def using assms by (auto intro!: io_bind[OF prof_list_key] io_ret)

lemma primary_keeps:
  assumes "in_ctx ctx" "owns b k"
  shows "keeps I R (\<lambda>_. True) (GetPrimaryProfile profile_uc ctx k)"
  unfolding GetPrimaryProfile_def using assms by (auto intro!: io_bind[OF prof_list_key] io_ret)

lemma list_scoped_keeps:
  assumes "in_ctx ctx" "mine (sg_BindingID g)"
  shows "keeps I R (\<lambda>_. True) (listScopedProfiles profile_uc ctx g k)"
  unfolding listScopedProfiles_def Let_def using assms
  by (auto intro!: io_guard io_bind[OF prof_list] io_ret io_fail)

lemma list_profiles_scoped_keeps:
  assumes "in_ctx ctx" "mine (sg_BindingID g)"
  shows "keeps I R (\<lambda>_. True) (ListProfilesWithScope profile_uc ctx g k)"
  unfolding ListProfilesWithScope_def using assms by (intro io_bind[OF list_scoped_keeps] io_ret) auto

lemma primary_scoped_keeps:
  assumes "in_ctx ctx" "mine (sg_BindingID g)"
  shows "keeps I R (\<lambda>_. True) (GetPrimaryProfileWithScope profile_uc ctx g k)"
  unfolding GetPrimaryProfileWithScope_def using assms by (intro io_bind[OF list_scoped_keeps] io_ret) auto

lemma find_player_keeps:
  assumes "in_ctx ctx" "owns b k"
  shows "keeps I R (\<lambda>(_, p). owns (pf_BindingID p) k) (findProfileByPlayerID profile_uc ctx k player)"
  unfolding findProfileByPlayerID_def using assms
  by (auto intro!: io_bind[OF prof_list_key] io_ret io_fail split: option.split simp: find_Some_iff)

lemma access_keeps:
  assumes "in_ctx ctx" "mine (sg_BindingID g)"
  shows "keeps I R (\<lambda>_. True) (RequireProfileAccessByPlayerID profile_uc ctx g k player)"
  unfolding RequireProfileAccessByPlayerID_def using assms mine_owns
  by (auto intro!: io_guard io_bind[OF find_player_keeps] io_lift)

end

context usecase_contract
begin

lemma find_binding_player_keeps:
  assumes "in_ctx ctx" "mine b"
  shows "keeps I R (\<lambda>(_, p). pf_BindingID p = b) (findProfileByBindingAndPlayerID profile_uc ctx b k player)"
  unfolding findProfileByBindingAndPlayerID_def Let_def ProfileUsecase.select_convs
proof (rule io_bind[OF prof_list[OF assms]])
  fix ps :: "Profile list"
  assume ps: "\<forall>p \<in> set ps. pf_BindingID p = b"
  let ?found = "foldl (\<lambda>sel p. if pf_PlayerID p = player then Some p else sel) None
      (filter (\<lambda>p. pf_PlatformAccountID p = k) ps)"
  have "pf_BindingID p = b" if "?found = Some p" for p
    using last_match_set[OF that] ps by auto
  then show "keeps I R (\<lambda>(_, p). pf_BindingID p = b)
      (case ?found of None \<Rightarrow> fail ErrProfileNotFound
       | Some p \<Rightarrow> ret (filter (\<lambda>p. pf_PlatformAccountID p = k) ps, p))"
    by (cases ?found) (simp_all add: io_ret io_fail)
qed

lemma confirm_keeps:
  assumes "in_ctx ctx" "owns b k" writes
  shows "keeps I R (\<lambda>_. True) (ConfirmPrimaryProfile profile_uc ctx k player)"
  unfolding ConfirmPrimaryProfile_def using assms owns_mine
  by (auto intro!: io_bind[OF prof_list_key] io_then[OF prof_set_default] io_ret io_fail
      split: option.split simp: find_Some_iff) (metis nth_mem)

lemma confirm_scoped_keeps:
  assumes "in_ctx ctx" "mine (sg_BindingID g)" writes
  shows "keeps I R (\<lambda>_. True) (ConfirmPrimaryProfileWithScope profile_uc ctx g k player)"
  unfolding ConfirmPrimaryProfileWithScope_def using assms
  by (auto intro!: io_guard io_bind[OF find_binding_player_keeps] io_then[OF prof_set_default] io_ret)

end

end
