(* ===== verification/Base64.thy ===== *)
theory Base64
  imports Prelude
begin

text \<open>
  \<open>encoding/base64\<close>'s \<open>StdEncoding\<close>, as \<open>internal/crypto/blob.go\<close> uses it: encoding with padding,
  and decoding that skips line breaks, wants whole quanta and accepts padding in the last one only.
  A byte is a character; the arithmetic is on its code.
\<close>

definition b64_alphabet :: string where
  "b64_alphabet = ''ABCDEFGHIJKLMNOPQRSTUVWXYZabcdefghijklmnopqrstuvwxyz0123456789+/''"

definition b64_char :: "nat \<Rightarrow> char" where
  "b64_char n = b64_alphabet ! n"

definition pad_char :: char where
  "pad_char = CHR ''=''"

fun index_of :: "char \<Rightarrow> string \<Rightarrow> nat option" where
  "index_of c [] = None"
| "index_of c (x # xs) = (if x = c then Some 0 else map_option Suc (index_of c xs))"

definition b64_value :: "char \<Rightarrow> nat option" where
  "b64_value c = index_of c b64_alphabet"

definition byte_val :: "char \<Rightarrow> nat" where
  "byte_val c = of_char c"

definition val_byte :: "nat \<Rightarrow> char" where
  "val_byte n = char_of n"

fun b64_encode :: "string \<Rightarrow> string" where
  "b64_encode [] = []"
| "b64_encode [a] =
     [b64_char (byte_val a div 4), b64_char (byte_val a mod 4 * 16), pad_char, pad_char]"
| "b64_encode [a, b] =
     [b64_char (byte_val a div 4), b64_char (byte_val a mod 4 * 16 + byte_val b div 16),
      b64_char (byte_val b mod 16 * 4), pad_char]"
| "b64_encode (a # b # c # rest) =
     [b64_char (byte_val a div 4), b64_char (byte_val a mod 4 * 16 + byte_val b div 16),
      b64_char (byte_val b mod 16 * 4 + byte_val c div 64), b64_char (byte_val c mod 64)] @ b64_encode rest"

fun b64_quanta :: "string \<Rightarrow> string option" where
  "b64_quanta [] = Some []"
| "b64_quanta (p # q # r # s # rest) =
     (case (b64_value p, b64_value q) of
        (Some x, Some y) \<Rightarrow>
          (if r = pad_char
           then (if s = pad_char \<and> rest = [] then Some [val_byte (x * 4 + y div 16)] else None)
           else (case b64_value r of
                   None \<Rightarrow> None
                 | Some z \<Rightarrow>
                     (if s = pad_char
                      then (if rest = []
                            then Some [val_byte (x * 4 + y div 16), val_byte (y mod 16 * 16 + z div 4)]
                            else None)
                      else (case b64_value s of
                              None \<Rightarrow> None
                            | Some u \<Rightarrow>
                                map_option (\<lambda>bs. [val_byte (x * 4 + y div 16), val_byte (y mod 16 * 16 + z div 4),
                                                  val_byte (z mod 4 * 64 + u)] @ bs) (b64_quanta rest)))))
      | _ \<Rightarrow> None)"
| "b64_quanta _ = None"

definition newline_free :: "string \<Rightarrow> string" where
  "newline_free = filter (\<lambda>c. byte_val c \<noteq> 10 \<and> byte_val c \<noteq> 13)"

definition b64_decode :: "string \<Rightarrow> error + string" where
  "b64_decode s = (case b64_quanta (newline_free s) of
      None \<Rightarrow> Inl (ErrText ''illegal base64 data'') | Some bs \<Rightarrow> Inr bs)"

section \<open>Decoding inverts encoding\<close>

lemma b64_value_char_all: "\<forall>n \<in> set [0..<64]. b64_value (b64_char n) = Some n \<and> b64_char n \<noteq> pad_char \<and>
    byte_val (b64_char n) \<noteq> 10 \<and> byte_val (b64_char n) \<noteq> 13"
  by code_simp

lemma b64_value_char: "n < 64 \<Longrightarrow> b64_value (b64_char n) = Some n"
  and b64_char_pad: "n < 64 \<Longrightarrow> b64_char n \<noteq> pad_char"
  and b64_char_nl: "n < 64 \<Longrightarrow> byte_val (b64_char n) \<noteq> 10 \<and> byte_val (b64_char n) \<noteq> 13"
  using b64_value_char_all by (auto simp: Ball_def)

lemma byte_val_less [simp]: "byte_val c < 256"
  unfolding byte_val_def by (rule nat_of_char_less_256)

lemma val_byte_val [simp]: "val_byte (byte_val c) = c"
  by (simp add: val_byte_def byte_val_def)

lemma sextet_bounds:
  fixes a b c :: nat
  assumes "a < 256" "b < 256" "c < 256"
  shows "a div 4 < 64" "a mod 4 * 16 + b div 16 < 64" "b mod 16 * 4 + c div 64 < 64" "c mod 64 < 64"
    "a mod 4 * 16 < 64" "b mod 16 * 4 < 64"
proof -
  have "a mod 4 \<le> 3" "b mod 16 \<le> 15" "b div 16 < 16" "c div 64 < 4"
    using assms mod_less_divisor[of 4 a] mod_less_divisor[of 16 b] by linarith+
  then show "a mod 4 * 16 + b div 16 < 64" "b mod 16 * 4 + c div 64 < 64" "a mod 4 * 16 < 64"
    "b mod 16 * 4 < 64" by linarith+
  show "a div 4 < 64" "c mod 64 < 64" using assms by linarith+
qed

lemma high_nibble [simp]: "byte_val b div 16 div 16 = 0" "byte_val b div 16 mod 16 = byte_val b div 16"
proof -
  have "byte_val b div 16 < 16" using byte_val_less[of b] by linarith
  then show "byte_val b div 16 div 16 = 0" "byte_val b div 16 mod 16 = byte_val b div 16" by simp_all
qed

lemma high_bits [simp]: "byte_val c div 64 div 4 = 0" "byte_val c div 64 mod 4 = byte_val c div 64"
proof -
  have "byte_val c div 64 < 4" using byte_val_less[of c] by linarith
  then show "byte_val c div 64 div 4 = 0" "byte_val c div 64 mod 4 = byte_val c div 64" by simp_all
qed

lemma b64_quanta_encode: "b64_quanta (b64_encode bs) = Some bs"
proof (induction bs rule: b64_encode.induct)
  case 1
  show ?case by simp
next
  case (2 a)
  note s = sextet_bounds[of "byte_val a" 0 0, simplified]
  show ?case using s by (simp add: b64_value_char)
next
  case (3 a b)
  note s = sextet_bounds[of "byte_val a" "byte_val b" 0]
  show ?case using s by (simp add: b64_value_char b64_char_pad)
next
  case (4 a b c rest)
  note s = sextet_bounds[of "byte_val a" "byte_val b" "byte_val c"]
  show ?case using s "4.IH" by (simp add: b64_value_char b64_char_pad)
qed

lemma newline_free_encode: "newline_free (b64_encode bs) = b64_encode bs"
proof (induction bs rule: b64_encode.induct)
  case (4 a b c rest)
  note s = sextet_bounds[of "byte_val a" "byte_val b" "byte_val c"]
  show ?case using s "4.IH" by (simp add: newline_free_def b64_char_nl)
next
  case (3 a b)
  note s = sextet_bounds[of "byte_val a" "byte_val b" 0]
  show ?case using s by (simp add: newline_free_def b64_char_nl) (simp add: pad_char_def byte_val_def)
next
  case (2 a)
  note s = sextet_bounds[of "byte_val a" 0 0, simplified]
  show ?case using s by (simp add: newline_free_def b64_char_nl) (simp add: pad_char_def byte_val_def)
qed (simp add: newline_free_def)

lemma b64_decode_encode [simp]: "b64_decode (b64_encode bs) = Inr bs"
  by (simp add: b64_decode_def newline_free_encode b64_quanta_encode)

end
