(* ===== verification/Aes.thy ===== *)
theory Aes
  imports GoStrings
begin

text \<open>
  \<open>crypto/aes\<close> for encryption: the AES block cipher of FIPS 197 on bytes. A block and a round key are
  16 bytes, the state read column by column; a word of the key schedule is 4 bytes. The key is one of
  the three legal lengths (\<open>aes.NewCipher\<close> refuses any other).
\<close>

section \<open>Bytes\<close>

fun xor_byte :: "char \<Rightarrow> char \<Rightarrow> char" where
  "xor_byte (Char a0 a1 a2 a3 a4 a5 a6 a7) (Char b0 b1 b2 b3 b4 b5 b6 b7) =
     Char (a0 \<noteq> b0) (a1 \<noteq> b1) (a2 \<noteq> b2) (a3 \<noteq> b3) (a4 \<noteq> b4) (a5 \<noteq> b5) (a6 \<noteq> b6) (a7 \<noteq> b7)"

definition xor_bytes :: "string \<Rightarrow> string \<Rightarrow> string" where
  "xor_bytes = map2 xor_byte"

lemma xor_byte_twice [simp]: "xor_byte (xor_byte a b) b = a"
  by (cases a; cases b) auto

lemma length_xor_bytes [simp]: "length (xor_bytes s t) = min (length s) (length t)"
  by (simp add: xor_bytes_def)

lemma xor_bytes_twice: "length s \<le> length k \<Longrightarrow> xor_bytes (xor_bytes s k) k = s"
  by (induction s k rule: list_induct2') (auto simp: xor_bytes_def)

text \<open>Groups of four: the columns of a block, the words of a round key.\<close>

fun fours :: "'a list \<Rightarrow> 'a list list" where
  "fours (a # b # c # d # xs) = [a, b, c, d] # fours xs"
| "fours _ = []"

lemma in_fours: "g \<in> set (fours xs) \<Longrightarrow> \<exists>a b c d. g = [a, b, c, d] \<and> a \<in> set xs \<and> b \<in> set xs \<and> c \<in> set xs \<and> d \<in> set xs"
  by (induction xs rule: fours.induct) auto

lemma length_fours [simp]: "length (fours xs) = length xs div 4"
  by (induction xs rule: fours.induct) auto

section \<open>The cipher\<close>

definition sbox :: "char list list" where
  "sbox = map (map char_of) [
     [0x63, 0x7c, 0x77, 0x7b, 0xf2, 0x6b, 0x6f, 0xc5, 0x30, 0x01, 0x67, 0x2b, 0xfe, 0xd7, 0xab, 0x76],
     [0xca, 0x82, 0xc9, 0x7d, 0xfa, 0x59, 0x47, 0xf0, 0xad, 0xd4, 0xa2, 0xaf, 0x9c, 0xa4, 0x72, 0xc0],
     [0xb7, 0xfd, 0x93, 0x26, 0x36, 0x3f, 0xf7, 0xcc, 0x34, 0xa5, 0xe5, 0xf1, 0x71, 0xd8, 0x31, 0x15],
     [0x04, 0xc7, 0x23, 0xc3, 0x18, 0x96, 0x05, 0x9a, 0x07, 0x12, 0x80, 0xe2, 0xeb, 0x27, 0xb2, 0x75],
     [0x09, 0x83, 0x2c, 0x1a, 0x1b, 0x6e, 0x5a, 0xa0, 0x52, 0x3b, 0xd6, 0xb3, 0x29, 0xe3, 0x2f, 0x84],
     [0x53, 0xd1, 0x00, 0xed, 0x20, 0xfc, 0xb1, 0x5b, 0x6a, 0xcb, 0xbe, 0x39, 0x4a, 0x4c, 0x58, 0xcf],
     [0xd0, 0xef, 0xaa, 0xfb, 0x43, 0x4d, 0x33, 0x85, 0x45, 0xf9, 0x02, 0x7f, 0x50, 0x3c, 0x9f, 0xa8],
     [0x51, 0xa3, 0x40, 0x8f, 0x92, 0x9d, 0x38, 0xf5, 0xbc, 0xb6, 0xda, 0x21, 0x10, 0xff, 0xf3, 0xd2],
     [0xcd, 0x0c, 0x13, 0xec, 0x5f, 0x97, 0x44, 0x17, 0xc4, 0xa7, 0x7e, 0x3d, 0x64, 0x5d, 0x19, 0x73],
     [0x60, 0x81, 0x4f, 0xdc, 0x22, 0x2a, 0x90, 0x88, 0x46, 0xee, 0xb8, 0x14, 0xde, 0x5e, 0x0b, 0xdb],
     [0xe0, 0x32, 0x3a, 0x0a, 0x49, 0x06, 0x24, 0x5c, 0xc2, 0xd3, 0xac, 0x62, 0x91, 0x95, 0xe4, 0x79],
     [0xe7, 0xc8, 0x37, 0x6d, 0x8d, 0xd5, 0x4e, 0xa9, 0x6c, 0x56, 0xf4, 0xea, 0x65, 0x7a, 0xae, 0x08],
     [0xba, 0x78, 0x25, 0x2e, 0x1c, 0xa6, 0xb4, 0xc6, 0xe8, 0xdd, 0x74, 0x1f, 0x4b, 0xbd, 0x8b, 0x8a],
     [0x70, 0x3e, 0xb5, 0x66, 0x48, 0x03, 0xf6, 0x0e, 0x61, 0x35, 0x57, 0xb9, 0x86, 0xc1, 0x1d, 0x9e],
     [0xe1, 0xf8, 0x98, 0x11, 0x69, 0xd9, 0x8e, 0x94, 0x9b, 0x1e, 0x87, 0xe9, 0xce, 0x55, 0x28, 0xdf],
     [0x8c, 0xa1, 0x89, 0x0d, 0xbf, 0xe6, 0x42, 0x68, 0x41, 0x99, 0x2d, 0x0f, 0xb0, 0x54, 0xbb, 0x16] :: nat list]"

fun bits_value :: "bool \<Rightarrow> bool \<Rightarrow> bool \<Rightarrow> bool \<Rightarrow> nat" where
  "bits_value b3 b2 b1 b0 = 8 * of_bool b3 + 4 * of_bool b2 + 2 * of_bool b1 + of_bool b0"

fun sub_byte :: "char \<Rightarrow> char" where
  "sub_byte (Char b0 b1 b2 b3 b4 b5 b6 b7) = sbox ! bits_value b7 b6 b5 b4 ! bits_value b3 b2 b1 b0"

text \<open>Multiplication by \<open>x\<close> modulo the polynomial of AES.\<close>

fun xtime :: "char \<Rightarrow> char" where
  "xtime (Char b0 b1 b2 b3 b4 b5 b6 b7) =
     (if b7 then xor_byte (Char False b0 b1 b2 b3 b4 b5 b6) CHR 0x1B else Char False b0 b1 b2 b3 b4 b5 b6)"

definition shift_rows :: "string \<Rightarrow> string" where
  "shift_rows s = map ((!) s) [0, 5, 10, 15, 4, 9, 14, 3, 8, 13, 2, 7, 12, 1, 6, 11]"

definition mix_byte :: "char \<Rightarrow> char \<Rightarrow> char \<Rightarrow> char \<Rightarrow> char" where
  "mix_byte a b c d = xor_byte (xor_byte (xtime a) (xor_byte (xtime b) b)) (xor_byte c d)"

fun mix_column :: "string \<Rightarrow> string" where
  "mix_column [a, b, c, d] = [mix_byte a b c d, mix_byte b c d a, mix_byte c d a b, mix_byte d a b c]"
| "mix_column s = s"

definition mix_columns :: "string \<Rightarrow> string" where
  "mix_columns s = concat (map mix_column (fours s))"

definition round_step :: "string \<Rightarrow> string \<Rightarrow> string" where
  "round_step k s = xor_bytes (mix_columns (shift_rows (map sub_byte s))) k"

definition last_step :: "string \<Rightarrow> string \<Rightarrow> string" where
  "last_step k s = xor_bytes (shift_rows (map sub_byte s)) k"

section \<open>The key schedule\<close>

definition rcon :: "nat \<Rightarrow> string" where
  "rcon i = [(xtime ^^ (i - 1)) CHR 0x01, CHR 0x00, CHR 0x00, CHR 0x00]"

definition next_word :: "nat \<Rightarrow> string list \<Rightarrow> string" where
  "next_word nk ws = (let i = length ws; prev = last ws;
       t = (if i mod nk = 0 then xor_bytes (map sub_byte (rotate1 prev)) (rcon (i div nk))
            else if 6 < nk \<and> i mod nk = 4 then map sub_byte prev
            else prev)
     in xor_bytes (ws ! (i - nk)) t)"

primrec extend_key :: "nat \<Rightarrow> nat \<Rightarrow> string list \<Rightarrow> string list" where
  "extend_key nk 0 ws = ws"
| "extend_key nk (Suc n) ws = extend_key nk n (ws @ [next_word nk ws])"

definition round_keys :: "string \<Rightarrow> string list" where
  "round_keys key = (let nk = length key div 4; words = 4 * (nk + 7)
     in map concat (fours (extend_key nk (words - nk) (fours key))))"

definition aes_Encrypt :: "string \<Rightarrow> string \<Rightarrow> string" where
  "aes_Encrypt key block = (let ks = round_keys key
     in last_step (last ks) (fold round_step (butlast (tl ks)) (xor_bytes block (hd ks))))"

section \<open>Lengths\<close>

lemma length_shift_rows [simp]: "length (shift_rows s) = 16"
  by (simp add: shift_rows_def)

definition key_words :: "string list \<Rightarrow> bool" where
  "key_words ws \<longleftrightarrow> list_all (\<lambda>w. length w = 4) ws"

lemma next_word_length:
  assumes "key_words ws" "0 < nk" "nk \<le> length ws"
  shows "length (next_word nk ws) = 4"
proof -
  have "ws \<noteq> []" using assms by auto
  then have "length (last ws) = 4" "length (ws ! (length ws - nk)) = 4"
    using assms by (auto simp: key_words_def list_all_iff)
  then show ?thesis by (simp add: next_word_def Let_def rcon_def)
qed

lemma extend_key_words:
  assumes "key_words ws" "0 < nk" "nk \<le> length ws"
  shows "key_words (extend_key nk n ws) \<and> length (extend_key nk n ws) = length ws + n"
  using assms
proof (induction n arbitrary: ws)
  case (Suc n)
  then have "key_words (ws @ [next_word nk ws])" by (simp add: key_words_def next_word_length)
  then show ?case using Suc.IH[of "ws @ [next_word nk ws]"] Suc.prems by simp
qed simp

lemma round_key_length: "key_words ws \<Longrightarrow> k \<in> set (map concat (fours ws)) \<Longrightarrow> length k = 16"
  by (auto simp: key_words_def list_all_iff dest!: in_fours)

lemma round_keys_ok:
  assumes "length key \<in> {16, 24, 32}"
  shows "length (round_keys key) = length key div 4 + 7" "\<forall>k \<in> set (round_keys key). length k = 16"
proof -
  let ?nk = "length key div 4"
  let ?ws = "extend_key ?nk (4 * (?nk + 7) - ?nk) (fours key)"
  have ws: "key_words ?ws" "length ?ws = 4 * (?nk + 7)"
    using extend_key_words[of "fours key" ?nk "4 * (?nk + 7) - ?nk"] in_fours[of _ key] assms
    by (fastforce simp: key_words_def list_all_iff)+
  show "length (round_keys key) = ?nk + 7" unfolding round_keys_def Let_def length_map length_fours ws(2) by simp
  show "\<forall>k \<in> set (round_keys key). length k = 16"
    unfolding round_keys_def Let_def using round_key_length[OF ws(1)] by blast
qed

lemma length_aes_Encrypt [simp]:
  assumes "length key \<in> {16, 24, 32}"
  shows "length (aes_Encrypt key block) = 16"
proof -
  have "round_keys key \<noteq> []" using round_keys_ok(1)[OF assms] by auto
  then have "length (last (round_keys key)) = 16" using round_keys_ok(2)[OF assms] by simp
  then show ?thesis by (simp add: aes_Encrypt_def Let_def last_step_def)
qed

end
