(* ===== verification/Gcm.thy ===== *)
theory Gcm
  imports Aes
begin

text \<open>
  \<open>crypto/cipher\<close>'s \<open>NewGCM\<close> over AES (NIST SP 800-38D) with the standard 12-byte nonce, the 16-byte tag
  and no additional data, as \<open>internal/crypto/blob.go\<close> uses it. Field elements are their 128 bits, most
  significant first. A text of more than \<open>(2 ^ 32 - 2) * 16\<close> bytes, for which \<open>Seal\<close> panics, cannot reach
  the service and is not treated. What is proved: \<open>Open\<close> returns what \<open>Seal\<close> was given, and whatever
  \<open>Open\<close> accepts is exactly the sealing of the text it returns.
\<close>

section \<open>GHASH\<close>

fun byte_bits :: "char \<Rightarrow> bool list" where
  "byte_bits (Char b0 b1 b2 b3 b4 b5 b6 b7) = [b7, b6, b5, b4, b3, b2, b1, b0]"

definition bits_of :: "string \<Rightarrow> bool list" where
  "bits_of s = concat (map byte_bits s)"

fun bytes_of :: "bool list \<Rightarrow> string" where
  "bytes_of (b7 # b6 # b5 # b4 # b3 # b2 # b1 # b0 # bs) = Char b0 b1 b2 b3 b4 b5 b6 b7 # bytes_of bs"
| "bytes_of _ = []"

definition xor_bits :: "bool list \<Rightarrow> bool list \<Rightarrow> bool list" where
  "xor_bits = map2 (\<noteq>)"

definition gf_zero :: "bool list" where
  "gf_zero = replicate 128 False"

definition gf_reduce :: "bool list" where
  "gf_reduce = [True, True, True, False, False, False, False, True] @ replicate 120 False"

definition gf_shift :: "bool list \<Rightarrow> bool list" where
  "gf_shift v = (if last v then xor_bits (False # butlast v) gf_reduce else False # butlast v)"

fun gf_loop :: "bool list \<Rightarrow> bool list \<Rightarrow> bool list \<Rightarrow> bool list" where
  "gf_loop [] z v = z"
| "gf_loop (x # xs) z v = gf_loop xs (if x then xor_bits z v else z) (gf_shift v)"

definition gf_mult :: "bool list \<Rightarrow> bool list \<Rightarrow> bool list" where
  "gf_mult x y = gf_loop x gf_zero y"

fun blocks16 :: "string \<Rightarrow> string list" where
  "blocks16 [] = []"
| "blocks16 (c # cs) = take 16 (c # cs) # blocks16 (drop 15 cs)"

definition pad_block :: "string \<Rightarrow> string" where
  "pad_block b = b @ replicate (16 - length b) CHR 0x00"

text \<open>The \<open>k\<close> low bytes of a number, big endian.\<close>

fun be_bytes :: "nat \<Rightarrow> nat \<Rightarrow> string" where
  "be_bytes 0 n = []"
| "be_bytes (Suc k) n = be_bytes k (n div 256) @ [char_of (n mod 256)]"

definition ghash :: "string \<Rightarrow> string \<Rightarrow> string" where
  "ghash h c = bytes_of (foldl (\<lambda>y x. gf_mult (xor_bits y (bits_of x)) (bits_of h)) gf_zero
     (map pad_block (blocks16 c) @ [be_bytes 8 0 @ be_bytes 8 (8 * length c)]))"

section \<open>Sealing and opening\<close>

definition gcm_tag_size :: nat where
  "gcm_tag_size = 16"

definition counter_block :: "string \<Rightarrow> nat \<Rightarrow> string" where
  "counter_block nonce i = nonce @ be_bytes 4 i"

definition key_stream :: "string \<Rightarrow> string \<Rightarrow> nat \<Rightarrow> string" where
  "key_stream key nonce n = concat (map (\<lambda>i. aes_Encrypt key (counter_block nonce (i + 2))) [0..<n])"

definition gcm_crypt :: "string \<Rightarrow> string \<Rightarrow> string \<Rightarrow> string" where
  "gcm_crypt key nonce p = xor_bytes p (key_stream key nonce ((length p + 15) div 16))"

definition gcm_tag :: "string \<Rightarrow> string \<Rightarrow> string \<Rightarrow> string" where
  "gcm_tag key nonce c =
     xor_bytes (aes_Encrypt key (counter_block nonce 1)) (ghash (aes_Encrypt key (replicate 16 CHR 0x00)) c)"

definition gcm_seal :: "string \<Rightarrow> string \<Rightarrow> string \<Rightarrow> string" where
  "gcm_seal key nonce p = (let c = gcm_crypt key nonce p in c @ gcm_tag key nonce c)"

definition gcm_auth_failed :: error where
  "gcm_auth_failed = ErrText ''cipher: message authentication failed''"

definition gcm_open :: "string \<Rightarrow> string \<Rightarrow> string \<Rightarrow> error + string" where
  "gcm_open key nonce data =
     (if length data < gcm_tag_size then Inl gcm_auth_failed
      else let n = length data - gcm_tag_size; c = take n data in
           if drop n data = gcm_tag key nonce c then Inr (gcm_crypt key nonce c) else Inl gcm_auth_failed)"

section \<open>Lengths\<close>

lemma length_byte_bits [simp]: "length (byte_bits c) = 8"
  by (cases c) simp

lemma length_bits_of [simp]: "length (bits_of s) = 8 * length s"
  by (induction s) (simp_all add: bits_of_def)

lemma length_bytes_of [simp]: "length (bytes_of bs) = length bs div 8"
  by (induction bs rule: bytes_of.induct) auto

lemma length_xor_bits [simp]: "length (xor_bits u v) = min (length u) (length v)"
  by (simp add: xor_bits_def)

lemma length_gf_shift [simp]: "length v = 128 \<Longrightarrow> length (gf_shift v) = 128"
  by (simp add: gf_shift_def gf_reduce_def)

lemma length_gf_loop: "length z = 128 \<Longrightarrow> length v = 128 \<Longrightarrow> length (gf_loop xs z v) = 128"
  by (induction xs z v rule: gf_loop.induct) auto

lemma length_ghash:
  assumes "length h = 16"
  shows "length (ghash h c) = 16"
proof -
  have mult: "length (gf_mult x (bits_of h)) = 128" for x
    using assms by (simp add: gf_mult_def length_gf_loop gf_zero_def)
  then have "length (foldl (\<lambda>y x. gf_mult (xor_bits y (bits_of x)) (bits_of h)) y xs) = 128" if "length y = 128" for y xs
    using that by (induction xs arbitrary: y) auto
  then have "length (foldl (\<lambda>y x. gf_mult (xor_bits y (bits_of x)) (bits_of h)) gf_zero xs) = 128" for xs
    by (simp add: gf_zero_def)
  then show ?thesis unfolding ghash_def length_bytes_of by (simp del: foldl_append)
qed

lemma length_key_stream:
  "length key \<in> {16, 24, 32} \<Longrightarrow> length (key_stream key nonce n) = 16 * n"
  by (induction n) (simp_all add: key_stream_def)

lemma length_gcm_crypt [simp]: "length key \<in> {16, 24, 32} \<Longrightarrow> length (gcm_crypt key nonce p) = length p"
  by (simp add: gcm_crypt_def length_key_stream)

lemma length_gcm_tag [simp]: "length key \<in> {16, 24, 32} \<Longrightarrow> length (gcm_tag key nonce c) = gcm_tag_size"
  by (simp add: gcm_tag_def length_ghash gcm_tag_size_def)

section \<open>Opening is the inverse of sealing\<close>

lemma gcm_crypt_twice:
  assumes "length key \<in> {16, 24, 32}"
  shows "gcm_crypt key nonce (gcm_crypt key nonce p) = p"
proof -
  have "length p \<le> length (key_stream key nonce ((length p + 15) div 16))"
    using assms by (simp add: length_key_stream)
  then show ?thesis
    using length_gcm_crypt[OF assms, of nonce p] by (simp add: gcm_crypt_def[of key nonce "gcm_crypt key nonce p"])
      (simp add: gcm_crypt_def xor_bytes_twice)
qed

lemma gcm_open_seal [simp]:
  "length key \<in> {16, 24, 32} \<Longrightarrow> gcm_open key nonce (gcm_seal key nonce p) = Inr p"
  by (simp add: gcm_open_def gcm_seal_def Let_def gcm_crypt_twice)

lemma gcm_open_canonical:
  assumes "length key \<in> {16, 24, 32}" "gcm_open key nonce data = Inr p"
  shows "data = gcm_seal key nonce p"
proof -
  let ?n = "length data - gcm_tag_size"
  have "drop ?n data = gcm_tag key nonce (take ?n data)" "p = gcm_crypt key nonce (take ?n data)"
    using assms(2) by (auto simp: gcm_open_def Let_def split: if_splits)
  then show ?thesis using gcm_crypt_twice[OF assms(1)] append_take_drop_id[of ?n data] by (simp add: gcm_seal_def Let_def)
qed

end
