(* ===== verification/Crypto.thy ===== *)
theory Crypto
  imports Base64 World Gcm
begin

text \<open>
  \<open>internal/crypto/blob.go\<close>: credential blobs are AES-GCM with a random 12-byte nonce in front of the
  ciphertext, in base64. What the code relies on of the random source is the law below, the documented
  behaviour of \<open>io.ReadFull\<close>.
\<close>

definition gcm_nonce_size :: nat where
  "gcm_nonce_size = 12"

definition aes_NewCipher :: "string \<Rightarrow> error + unit" where
  "aes_NewCipher key =
     (if length key = 16 \<or> length key = 24 \<or> length key = 32 then Inr ()
      else Inl (ErrText (''crypto/aes: invalid key size '' @ show_nat (length key))))"

definition EncryptString :: "env \<Rightarrow> string \<Rightarrow> string \<Rightarrow> ('z base_world_scheme, string) io" where
  "EncryptString E key plaintext =
     then_io (lift_res (aes_NewCipher key))
     (bind_io (rand_read E gcm_nonce_size) (\<lambda>nonce.
      let ciphertext = nonce @ gcm_seal key nonce plaintext in
      ret (b64_encode ciphertext)))"

definition DecryptString :: "string \<Rightarrow> string \<Rightarrow> error + string" where
  "DecryptString key encoded =
     (case b64_decode encoded of
        Inl e \<Rightarrow> Inl e
      | Inr data \<Rightarrow>
          (case aes_NewCipher key of
             Inl e \<Rightarrow> Inl e
           | Inr _ \<Rightarrow>
               if length data < gcm_nonce_size then Inl (ErrText ''ciphertext too short'')
               else gcm_open key (take gcm_nonce_size data) (drop gcm_nonce_size data)))"

definition rand_law :: "env \<Rightarrow> bool" where
  "rand_law E \<longleftrightarrow> (\<forall>t n bs. rand E t n = Inr bs \<longrightarrow> length bs = n)"

lemma aes_NewCipher_ok: "aes_NewCipher key = Inr u \<longleftrightarrow> length key \<in> {16, 24, 32}"
  by (auto simp: aes_NewCipher_def)

lemma EncryptString_ok:
  assumes "EncryptString E key p w = (Inr blob, w')"
  obtains nonce where "rand E (ticks w) gcm_nonce_size = Inr nonce" "length key \<in> {16, 24, 32}"
    "blob = b64_encode (nonce @ gcm_seal key nonce p)" "w' = next_tick w"
  using assms
  by (auto simp: EncryptString_def rand_read_def Let_def aes_NewCipher_ok
      elim!: bind_io_okE then_io_okE)

lemma EncryptString_succeeds:
  assumes "length key \<in> {16, 24, 32}" "rand E (ticks w) gcm_nonce_size = Inr nonce"
  shows "EncryptString E key p w = (Inr (b64_encode (nonce @ gcm_seal key nonce p)), next_tick w)"
proof -
  have "aes_NewCipher key = Inr ()" using assms(1) by (simp add: aes_NewCipher_ok)
  then show ?thesis using assms(2) by (simp add: EncryptString_def rand_read_def bind_io_apply Let_def)
qed

text \<open>The blobs that decrypt are the sealed texts, and nothing else.\<close>

lemma DecryptString_ok:
  "DecryptString key blob = Inr p \<longleftrightarrow> length key \<in> {16, 24, 32} \<and>
     (\<exists>nonce. length nonce = gcm_nonce_size \<and> b64_decode blob = Inr (nonce @ gcm_seal key nonce p))"
proof
  assume "DecryptString key blob = Inr p"
  then obtain data u where "b64_decode blob = Inr data" "aes_NewCipher key = Inr u" "gcm_nonce_size \<le> length data"
    "gcm_open key (take gcm_nonce_size data) (drop gcm_nonce_size data) = Inr p"
    by (auto simp: DecryptString_def split: sum.splits if_splits)
  then show "length key \<in> {16, 24, 32} \<and>
      (\<exists>nonce. length nonce = gcm_nonce_size \<and> b64_decode blob = Inr (nonce @ gcm_seal key nonce p))"
    using gcm_open_canonical[of key "take gcm_nonce_size data" "drop gcm_nonce_size data" p]
      append_take_drop_id[of gcm_nonce_size data]
    by (intro conjI exI[of _ "take gcm_nonce_size data"]) (simp_all add: aes_NewCipher_ok)
next
  assume "length key \<in> {16, 24, 32} \<and>
      (\<exists>nonce. length nonce = gcm_nonce_size \<and> b64_decode blob = Inr (nonce @ gcm_seal key nonce p))"
  then obtain nonce where key: "length key \<in> {16, 24, 32}" and nonce: "length nonce = gcm_nonce_size"
    and blob: "b64_decode blob = Inr (nonce @ gcm_seal key nonce p)" by blast
  have "aes_NewCipher key = Inr ()" using key by (simp add: aes_NewCipher_ok)
  then show "DecryptString key blob = Inr p"
    using gcm_open_seal[OF key, of nonce p] nonce blob by (simp add: DecryptString_def)
qed

lemma decrypt_encrypt:
  assumes "rand_law E" "EncryptString E key p w = (Inr blob, w')"
  shows "DecryptString key blob = Inr p"
  using assms(2)
  by (rule EncryptString_ok) (use assms(1) in \<open>auto simp: DecryptString_ok rand_law_def\<close>)

section \<open>The size of a blob\<close>

lemma length_b64_encode: "length (b64_encode s) = 4 * ((length s + 2) div 3)"
proof (induction s rule: b64_encode.induct)
  case (4 a b c rest)
  have "(5 + length rest) div 3 = Suc ((2 + length rest) div 3)" by (simp add: div_add_self1[of 3 "2 + length rest", symmetric])
  then show ?case using 4 by simp
qed auto

lemma six_bits:
  fixes a b c :: nat
  assumes "a < 256" "b < 256" "c < 256"
  shows "a div 4 < 64" "a mod 4 * 16 < 64" "a mod 4 * 16 + b div 16 < 64" "b mod 16 * 4 < 64"
    "b mod 16 * 4 + c div 64 < 64" "c mod 64 < 64"
proof -
  have "a mod 4 < 4" "b div 16 < 16" "b mod 16 < 16" "c div 64 < 4" "a div 4 < 64" using assms by auto
  then show "a div 4 < 64" "a mod 4 * 16 < 64" "a mod 4 * 16 + b div 16 < 64" "b mod 16 * 4 < 64"
    "b mod 16 * 4 + c div 64 < 64" "c mod 64 < 64" by auto
qed

lemma b64_ascii: "list_all (\<lambda>c. byte_code c < 128) (b64_encode s)"
proof -
  have alphabet: "list_all (\<lambda>c. byte_code c < 128) b64_alphabet" "length b64_alphabet = 64"
    by (simp_all add: b64_alphabet_def byte_code_def)
  then have "byte_code (b64_char n) < 128" if "n < 64" for n
    using that by (simp add: b64_char_def list_all_length)
  moreover have "byte_code pad_char < 128" by (simp add: pad_char_def byte_code_def)
  ultimately show ?thesis
    by (induction s rule: b64_encode.induct) (simp_all add: six_bits[OF byte_val_less byte_val_less byte_val_less])
qed

text \<open>A blob is plain text, and fits a column of 65535 bytes up to 49121 bytes of plaintext.\<close>

lemma blob_size:
  assumes "rand_law E" "EncryptString E key p w = (Inr blob, w')"
  shows "valid_utf8 blob" "length blob \<le> 65535 \<longleftrightarrow> length p \<le> 49121"
proof -
  obtain nonce where n: "rand E (ticks w) gcm_nonce_size = Inr nonce" and key: "length key \<in> {16, 24, 32}"
    and blob: "blob = b64_encode (nonce @ gcm_seal key nonce p)"
    using assms(2) by (rule EncryptString_ok)
  show "valid_utf8 blob" unfolding blob by (rule valid_ascii[OF b64_ascii])
  have "length (gcm_seal key nonce p) = length p + 16" using key by (simp add: gcm_seal_def Let_def gcm_tag_size_def)
  moreover have "length nonce = 12" using assms(1) n by (simp add: rand_law_def gcm_nonce_size_def)
  ultimately have "length blob = 4 * ((length p + 30) div 3)" by (simp add: blob length_b64_encode)
  then show "length blob \<le> 65535 \<longleftrightarrow> length p \<le> 49121" by presburger
qed

text \<open>C21: Encryption and decryption are inverse. Whatever EncryptString returns for a key, DecryptString turns
  back into the plaintext under the same key, given that the random source delivers the bytes it was
  asked for; and whatever DecryptString accepts is the base64 of a nonce and the AES-GCM sealing, under
  that key and nonce, of the plaintext it returns: no altered, truncated or extended blob is accepted
  unless it is such a sealing itself.\<close>

theorem blob_roundtrip:
  assumes "rand_law E"
  shows "(EncryptString E key p w = (Inr blob, w') \<longrightarrow> DecryptString key blob = Inr p) \<and>
    (DecryptString key blob = Inr p \<longrightarrow> length key \<in> {16, 24, 32} \<and>
      (\<exists>nonce. length nonce = gcm_nonce_size \<and> b64_decode blob = Inr (nonce @ gcm_seal key nonce p)))"
  using decrypt_encrypt[OF assms] DecryptString_ok by blast

text \<open>The round trip at a concrete key, plaintext and world.\<close>

theorem blob_roundtrip_witness:
  "\<exists>blob w'. EncryptString (sample_env MySQL) (replicate 32 CHR ''k'') ''cookie'' empty_world = (Inr blob, w') \<and>
     DecryptString (replicate 32 CHR ''k'') blob = Inr ''cookie'' \<and> (\<exists>data. b64_decode blob = Inr data)"
proof -
  let ?E = "sample_env MySQL" and ?key = "replicate 32 CHR ''k''"
  have law: "rand_law ?E" by (simp add: rand_law_def)
  obtain blob w' where enc: "EncryptString ?E ?key ''cookie'' empty_world = (Inr blob, w')"
    using EncryptString_succeeds[of ?key ?E empty_world] by simp
  show ?thesis using enc blob_roundtrip[OF law, of ?key "''cookie''" empty_world blob w'] by auto
qed

end
