(* ===== verification/BindUsecase.thy ===== *)
theory BindUsecase
  imports ProfileUsecase Crypto
begin

text \<open>
  \<open>internal/usecase/bind_usecase.go\<close>: binding an upstream account. The credential is validated and
  encrypted first, outside any transaction; the database part then runs inside the repository's
  transaction when it offers one, and otherwise relies on the deferred compensation that undoes the
  writes made so far.
\<close>

record BindCredentialInput =
  bi_BindingID :: u64
  bi_CookieBundleJSON :: string
  bi_DeviceID :: string
  bi_DeviceFP :: string
  bi_DeviceName :: string
  bi_RegionHint :: string

record BindCredentialOutput =
  bo_BindingID :: u64
  bo_PlatformAccountID :: string
  bo_Profiles :: "ProfileSummary list"
  bo_Status :: CredentialStatus

record bindCredentialPreparation =
  bp_platformAccountID :: string
  bp_accountID :: string
  bp_region :: string
  bp_discoveredProfiles :: "DiscoveredProfile list"
  bp_encryptedBlob :: string

record 'w BindUsecase =
  bu_credentialRepo :: "('w, BindCredentialOutput option) CredentialRepository"
  bu_deviceRepo :: "'w DeviceRepository"
  bu_profileRepo :: "'w ProfileRepository"
  bu_artifactRepo :: "'w ArtifactRepository option"
  bu_client :: "'w Client"
  bu_encryptionKey :: string

definition NewBindUsecase :: "('w, BindCredentialOutput option) CredentialRepository \<Rightarrow> 'w DeviceRepository \<Rightarrow>
    'w ProfileRepository \<Rightarrow> 'w Client \<Rightarrow> string \<Rightarrow> 'w ArtifactRepository option \<Rightarrow> 'w BindUsecase" where
  "NewBindUsecase credentialRepo deviceRepo profileRepo client encryptionKey artifactRepo = \<lparr>
     bu_credentialRepo = credentialRepo, bu_deviceRepo = deviceRepo, bu_profileRepo = profileRepo,
     bu_artifactRepo = artifactRepo, bu_client = client, bu_encryptionKey = encryptionKey \<rparr>"

definition runInTransaction :: "'w BindUsecase \<Rightarrow> ctx \<Rightarrow>
    (ctx \<Rightarrow> ('w, BindCredentialOutput option) io) \<Rightarrow> ('w, BindCredentialOutput option) io" where
  "runInTransaction uc ctx fn =
     (case crepo_WithinTransaction (bu_credentialRepo uc) of
        Some within \<Rightarrow> within ctx fn
      | None \<Rightarrow> fn ctx)"

definition prepareBindCredential :: "env \<Rightarrow> ('z base_world_scheme) BindUsecase \<Rightarrow> ctx \<Rightarrow> BindCredentialInput \<Rightarrow>
    ('z base_world_scheme, bindCredentialPreparation) io" where
  "prepareBindCredential E uc ctx input =
     (if bi_BindingID input = 0 then fail (ErrText ''binding id is required'')
      else bind_io (cl_ValidateAndDiscover (bu_client uc) ctx (bi_CookieBundleJSON input) (bi_RegionHint input))
        (\<lambda>(accountID, region, discoveredProfiles).
        let platformAccountID = FormatPlatformAccountID (bi_BindingID input) accountID in
        bind_io (EncryptString E (bu_encryptionKey uc) (bi_CookieBundleJSON input)) (\<lambda>encryptedBlob.
        ret \<lparr> bp_platformAccountID = platformAccountID, bp_accountID = accountID, bp_region = region,
              bp_discoveredProfiles = discoveredProfiles, bp_encryptedBlob = encryptedBlob \<rparr>)))"

text \<open>The records that \<open>bindPreparedCredential\<close> writes.\<close>

definition bound_credential :: "BindCredentialInput \<Rightarrow> bindCredentialPreparation \<Rightarrow> gotime \<Rightarrow> Credential" where
  "bound_credential input prepared now = \<lparr>
     cr_BindingID = bi_BindingID input, cr_PlatformAccountID = bp_platformAccountID prepared,
     cr_Platform = ''mihomo'', cr_AccountID = bp_accountID prepared, cr_Region = bp_region prepared,
     cr_CredentialBlob = bp_encryptedBlob prepared, cr_CredentialVersion = ''v1'', cr_Status = ''active'',
     cr_LastValidatedAt = Some now, cr_LastRefreshedAt = None, cr_ExpiresAt = None \<rparr>"

definition bound_device :: "BindCredentialInput \<Rightarrow> bindCredentialPreparation \<Rightarrow> gotime \<Rightarrow> Device" where
  "bound_device input prepared now = \<lparr>
     dv_BindingID = bi_BindingID input, dv_PlatformAccountID = bp_platformAccountID prepared,
     dv_DeviceID = bi_DeviceID input, dv_DeviceFP = bi_DeviceFP input,
     dv_DeviceName = (if bi_DeviceName input \<noteq> [] then Some (bi_DeviceName input) else None),
     dv_IsValid = True, dv_LastSeenAt = Some now \<rparr>"

definition bound_profile :: "BindCredentialInput \<Rightarrow> bindCredentialPreparation \<Rightarrow> gotime \<Rightarrow>
    nat \<Rightarrow> DiscoveredProfile \<Rightarrow> Profile" where
  "bound_profile input prepared now index d = \<lparr>
     pf_ID = 0, pf_BindingID = bi_BindingID input, pf_PlatformAccountID = bp_platformAccountID prepared,
     pf_GameBiz = dp_GameBiz d, pf_Region = dp_Region d, pf_PlayerID = dp_PlayerID d,
     pf_Nickname = dp_Nickname d, pf_Level = signed (dp_Level d), pf_IsDefault = (index = 0),
     pf_DiscoveredAt = now \<rparr>"

definition previous_account :: "Credential option \<Rightarrow> bindCredentialPreparation \<Rightarrow> string" where
  "previous_account existing prepared =
     (case existing of
        Some c \<Rightarrow> if cr_PlatformAccountID c \<noteq> [] \<and> cr_PlatformAccountID c \<noteq> bp_platformAccountID prepared
                  then cr_PlatformAccountID c else []
      | None \<Rightarrow> [])"

text \<open>The deferred function that runs while \<open>rollback\<close> is still true.\<close>

definition bind_rollback :: "'w BindUsecase \<Rightarrow> ctx \<Rightarrow> bindCredentialPreparation \<Rightarrow> Credential option \<Rightarrow>
    string \<Rightarrow> ('w, unit) io" where
  "bind_rollback uc ctx prepared existing previous =
     then_io (ignore_err (prepo_DeleteByPlatformAccountID (bu_profileRepo uc) ctx (bp_platformAccountID prepared)))
     (then_io (ignore_err (drepo_DeleteByPlatformAccountID (bu_deviceRepo uc) ctx (bp_platformAccountID prepared)))
     (if previous \<noteq> []
      then (case existing of Some c \<Rightarrow> ignore_err (crepo_Save (bu_credentialRepo uc) ctx c) | None \<Rightarrow> ret ())
      else ignore_err (crepo_DeleteByPlatformAccountID (bu_credentialRepo uc) ctx (bp_platformAccountID prepared))))"

fun save_profiles :: "'w ProfileRepository \<Rightarrow> ctx \<Rightarrow> (nat \<Rightarrow> DiscoveredProfile \<Rightarrow> Profile) \<Rightarrow>
    nat \<Rightarrow> DiscoveredProfile list \<Rightarrow> ('w, ProfileSummary list) io" where
  "save_profiles repo ctx mk index [] = ret []"
| "save_profiles repo ctx mk index (d # ds) =
     then_io (prepo_Save repo ctx (mk index d))
     (bind_io (save_profiles repo ctx mk (Suc index) ds) (\<lambda>rest. ret (toProfileSummary (mk index d) # rest)))"

text \<open>The part of \<open>bindPreparedCredential\<close> that the deferred function guards.\<close>

definition bind_relations :: "'w BindUsecase \<Rightarrow> ctx \<Rightarrow> BindCredentialInput \<Rightarrow> bindCredentialPreparation \<Rightarrow>
    gotime \<Rightarrow> string \<Rightarrow> ('w, BindCredentialOutput) io" where
  "bind_relations uc ctx input prepared now previous =
     then_io (drepo_Save (bu_deviceRepo uc) ctx (bound_device input prepared now))
     (then_io (if previous \<noteq> []
               then prepo_DeleteByPlatformAccountID (bu_profileRepo uc) ctx previous
               else prepo_DeleteByPlatformAccountID (bu_profileRepo uc) ctx (bp_platformAccountID prepared))
     (bind_io (save_profiles (bu_profileRepo uc) ctx (bound_profile input prepared now) 0
                 (bp_discoveredProfiles prepared)) (\<lambda>outputProfiles.
      then_io (if previous \<noteq> []
               then then_io (drepo_DeleteByPlatformAccountID (bu_deviceRepo uc) ctx previous)
                            (crepo_DeleteByPlatformAccountID (bu_credentialRepo uc) ctx previous)
               else ret ())
      (ret \<lparr> bo_BindingID = bi_BindingID input, bo_PlatformAccountID = bp_platformAccountID prepared,
             bo_Profiles = outputProfiles, bo_Status = CREDENTIAL_STATUS_ACTIVE \<rparr>))))"

definition bindPreparedCredential :: "env \<Rightarrow> ('z base_world_scheme) BindUsecase \<Rightarrow> ctx \<Rightarrow> BindCredentialInput \<Rightarrow>
    bindCredentialPreparation option \<Rightarrow> ('z base_world_scheme, BindCredentialOutput) io" where
  "bindPreparedCredential E uc ctx input prepared =
     (case prepared of
        None \<Rightarrow> fail (ErrText ''bind preparation is required'')
      | Some prepared \<Rightarrow>
          bind_io (crepo_GetByBindingID (bu_credentialRepo uc) ctx (bi_BindingID input)) (\<lambda>existing.
          then_io (case bu_artifactRepo uc of
                     Some repo \<Rightarrow> arepo_DeleteByBindingID repo ctx (bi_BindingID input)
                   | None \<Rightarrow> ret ())
          (bind_io (time_now E) (\<lambda>now.
          then_io (crepo_Save (bu_credentialRepo uc) ctx (bound_credential input prepared now))
          (let previous = previous_account existing prepared in
           on_error (bind_relations uc ctx input prepared now previous)
                    (bind_rollback uc ctx prepared existing previous))))))"

definition BindCredential :: "env \<Rightarrow> ('z base_world_scheme) BindUsecase \<Rightarrow> ctx \<Rightarrow> BindCredentialInput \<Rightarrow>
    ('z base_world_scheme, BindCredentialOutput option) io" where
  "BindCredential E uc ctx input =
     bind_io (prepareBindCredential E uc ctx input) (\<lambda>prepared.
     runInTransaction uc ctx (\<lambda>txCtx.
       bind_io (bindPreparedCredential E uc txCtx input (Some prepared)) (\<lambda>result. ret (Some result))))"

definition UpsertDevice :: "env \<Rightarrow> ('z base_world_scheme) BindUsecase \<Rightarrow> ctx \<Rightarrow> string \<Rightarrow> string \<Rightarrow> string \<Rightarrow> string \<Rightarrow>
    ('z base_world_scheme, unit) io" where
  "UpsertDevice E uc ctx platformAccountID deviceID deviceFP deviceName =
     bind_io (crepo_GetByPlatformAccountID (bu_credentialRepo uc) ctx platformAccountID) (\<lambda>found.
     case found of
       None \<Rightarrow> fail ErrCredentialNotFound
     | Some credential \<Rightarrow>
         bind_io (time_now E) (\<lambda>now.
         drepo_Save (bu_deviceRepo uc) ctx \<lparr>
           dv_BindingID = cr_BindingID credential, dv_PlatformAccountID = platformAccountID,
           dv_DeviceID = deviceID, dv_DeviceFP = deviceFP,
           dv_DeviceName = (if deviceName \<noteq> [] then Some deviceName else None),
           dv_IsValid = True, dv_LastSeenAt = Some now \<rparr>))"

section \<open>Against any repositories\<close>

locale bind_usecase = bind_contract I R mine owns acct in_ctx writes creds devs profs arts
  for I :: "'z base_world_scheme \<Rightarrow> bool" and R mine owns acct in_ctx writes
    and creds :: "('z base_world_scheme, BindCredentialOutput option) CredentialRepository" and devs profs arts
begin

abbreviation bind_uc where
  "bind_uc client key \<equiv> \<lparr> bu_credentialRepo = creds, bu_deviceRepo = devs, bu_profileRepo = profs,
     bu_artifactRepo = Some arts, bu_client = client, bu_encryptionKey = key \<rparr>"

lemma save_profiles_keeps:
  assumes "writes" "in_ctx ctx" "\<And>i d. owns (pf_BindingID (mk i d)) (pf_PlatformAccountID (mk i d))"
  shows "keeps I R (\<lambda>_. True) (save_profiles profs ctx mk n ds)"
  using assms by (induction ds arbitrary: n) (auto intro!: io_ret io_then[OF prof_save] intro: io_bind)

lemma rollback_keeps:
  assumes "writes" "in_ctx ctx" and own: "owns (bi_BindingID input) (bp_platformAccountID prepared)"
    and old: "\<And>c. existing = Some c \<Longrightarrow> owns (cr_BindingID c) (cr_PlatformAccountID c) \<and>
      acct (cr_Platform c) (cr_AccountID c)"
  shows "keeps I R (\<lambda>_. True) (bind_rollback (bind_uc client key) ctx prepared existing previous)"
  unfolding bind_rollback_def using assms
  by (auto intro!: io_then[OF io_ignore[OF prof_delete]] io_then[OF io_ignore[OF dev_delete]]
      io_ignore[OF cred_save] io_ignore[OF cred_delete] io_ret split: option.split)

lemma relations_keeps:
  assumes w: "writes" "in_ctx ctx" and own: "owns (bi_BindingID input) (bp_platformAccountID prepared)"
    and prev: "previous \<noteq> [] \<Longrightarrow> owns (bi_BindingID input) previous"
  shows "keeps I R (\<lambda>_. True) (bind_relations (bind_uc client key) ctx input prepared now previous)"
  unfolding bind_relations_def using assms
  by (auto intro!: io_then[OF dev_save] io_then[OF prof_delete] io_bind[OF save_profiles_keeps]
      io_then[OF dev_delete] io_then[OF cred_delete] io_then[OF io_ret] io_then[OF io_then[OF dev_delete cred_delete]] io_ret
      simp: bound_device_def bound_profile_def)

lemma bind_prepared_keeps:
  assumes w: "writes" "in_ctx ctx" and mine: "mine (bi_BindingID input)"
    and own: "owns (bi_BindingID input) (bp_platformAccountID prepared)"
    and acc: "acct ''mihomo'' (bp_accountID prepared)"
  shows "keeps I R (\<lambda>_. True) (bindPreparedCredential E (bind_uc client key) ctx input (Some prepared))"
proof -
  have "keeps I R (\<lambda>_. True)
     (on_error (bind_relations (bind_uc client key) ctx input prepared now (previous_account existing prepared))
        (bind_rollback (bind_uc client key) ctx prepared existing (previous_account existing prepared)))"
    if ex: "\<forall>c. existing = Some c \<longrightarrow> cr_BindingID c = bi_BindingID input \<and>
        owns (bi_BindingID input) (cr_PlatformAccountID c) \<and> acct (cr_Platform c) (cr_AccountID c)" for now existing
    using w own ex
    by (intro io_deferred[OF relations_keeps rollback_keeps[where input = input]])
      (auto simp: previous_account_def split: option.splits if_splits)
  then show ?thesis
    unfolding bindPreparedCredential_def Let_def using w mine own acc
    by (auto intro!: io_bind[OF cred_get] io_then[OF art_delete] io_bind[OF now_keeps] io_then[OF cred_save]
        simp: bound_credential_def)
qed

end

text \<open>The use cases together, over one set of repositories and one client.\<close>

locale usecases =
  bind_usecase I R mine owns acct in_ctx writes creds devs profs arts +
  usecase_contract I R mine owns acct in_ctx writes creds devs profs arts mgmt client within
  for I :: "'z base_world_scheme \<Rightarrow> bool" and R mine owns acct in_ctx writes
    and creds :: "('z base_world_scheme, BindCredentialOutput option) CredentialRepository"
    and devs profs arts mgmt client within
begin

lemma prepare_keeps:
  "keeps I R (\<lambda>p. bp_platformAccountID p = FormatPlatformAccountID (bi_BindingID input) (bp_accountID p) \<and>
      acct ''mihomo'' (bp_accountID p)) (prepareBindCredential E (bind_uc client key) ctx input)"
  unfolding prepareBindCredential_def EncryptString_def Let_def
  by (auto intro!: io_fail io_bind[OF discover] io_bind[OF io_guard] io_bind[OF rand_keeps] io_ret)

lemma bind_keeps:
  assumes "writes" "in_ctx ctx" "mine (bi_BindingID input)"
  shows "keeps I R (\<lambda>_. True) (BindCredential E (bind_uc client key) ctx input)"
  unfolding BindCredential_def runInTransaction_def using assms
  by (auto intro!: io_bind[OF prepare_keeps] within_keeps io_bind[OF bind_prepared_keeps] io_ret mine_owns
      simp: offers_transactions)

lemma upsert_device_keeps:
  assumes "writes" "in_ctx ctx" "owns b k"
  shows "keeps I R (\<lambda>_. True) (UpsertDevice E (bind_uc client key) ctx k deviceID deviceFP deviceName)"
  unfolding UpsertDevice_def using assms
  by (auto intro!: io_bind[OF cred_lookup] io_bind[OF now_keeps] io_fail dev_save split: option.split)

end

end
