(* ===== verification/StatusUsecase.thy ===== *)
theory StatusUsecase
  imports BindUsecase
begin

text \<open>
  \<open>internal/usecase/status_usecase.go\<close>: reading the stored status of a credential and revalidating
  it against the upstream service. \<open>revalidate\<close> mutates the credential it is given through its
  pointer; here it returns the credential as the caller sees it afterwards. The status and error
  code that go with an error are dropped, as every caller drops them.
\<close>

record GetCredentialStatusOutput =
  gso_Status :: CredentialStatus
  gso_LastValidatedAt :: "gotime option"

record ValidateCredentialOutput =
  vco_Status :: CredentialStatus
  vco_ErrorCode :: string

record RefreshCredentialOutput =
  rco_Status :: CredentialStatus
  rco_RefreshedAt :: "gotime option"

record ('w, 'o) StatusUsecase =
  su_credentials :: "('w, 'o) CredentialRepository"
  su_hoyoClient :: "'w Client"
  su_encryptionKey :: string

definition NewStatusUsecase :: "('w, 'o) CredentialRepository \<Rightarrow> 'w Client \<Rightarrow> string \<Rightarrow> ('w, 'o) StatusUsecase" where
  "NewStatusUsecase credentials hoyoClient encryptionKey = \<lparr>
     su_credentials = credentials, su_hoyoClient = hoyoClient, su_encryptionKey = encryptionKey \<rparr>"

definition toCredentialStatus :: "string \<Rightarrow> CredentialStatus" where
  "toCredentialStatus status =
     (if status = ''active'' then CREDENTIAL_STATUS_ACTIVE
      else if status = ''expired'' then CREDENTIAL_STATUS_EXPIRED
      else if status = ''invalid'' then CREDENTIAL_STATUS_INVALID
      else if status = ''challenge_required'' then CREDENTIAL_STATUS_CHALLENGE_REQUIRED
      else CREDENTIAL_STATUS_UNSPECIFIED)"

definition classifyCredentialStatus :: "error \<Rightarrow> string" where
  "classifyCredentialStatus err =
     (let message = to_lower (error_text err) in
      if str_contains message ''challenge'' then ''challenge_required''
      else if str_contains message ''expire'' then ''expired''
      else ''invalid'')"

definition classifyErrorCode :: "error \<Rightarrow> string" where
  "classifyErrorCode err =
     (let message = to_lower (error_text err) in
      if str_contains message ''challenge'' then ''CHALLENGE_REQUIRED''
      else if str_contains message ''expire'' then ''CREDENTIAL_EXPIRED''
      else ''INVALID_CREDENTIAL'')"

definition getCredential :: "('w, 'o) StatusUsecase \<Rightarrow> ctx \<Rightarrow> string \<Rightarrow> ('w, Credential) io" where
  "getCredential uc ctx platformAccountID =
     bind_io (crepo_GetByPlatformAccountID (su_credentials uc) ctx platformAccountID) (\<lambda>found.
     case found of None \<Rightarrow> fail ErrCredentialNotFound | Some credential \<Rightarrow> ret credential)"

definition revalidate :: "env \<Rightarrow> ('z base_world_scheme, 'o) StatusUsecase \<Rightarrow> ctx \<Rightarrow> Credential \<Rightarrow> bool \<Rightarrow>
    ('z base_world_scheme, CredentialStatus \<times> string \<times> Credential) io" where
  "revalidate E uc ctx credential markRefreshed =
     bind_io (lift_res (DecryptString (su_encryptionKey uc) (cr_CredentialBlob credential))) (\<lambda>cookieBundleJSON.
     bind_io (attempt (cl_ValidateAndDiscover (su_hoyoClient uc) ctx cookieBundleJSON (cr_Region credential))) (\<lambda>r.
     bind_io (time_now E) (\<lambda>now.
     let credential = credential\<lparr> cr_LastValidatedAt := Some now \<rparr> in
     case r of
       Inl err \<Rightarrow>
         (let credential = credential\<lparr> cr_Status := classifyCredentialStatus err \<rparr> in
          then_io (crepo_Save (su_credentials uc) ctx credential)
            (ret (toCredentialStatus (cr_Status credential), classifyErrorCode err, credential)))
     | Inr _ \<Rightarrow>
         (let credential = credential\<lparr> cr_Status := ''active'' \<rparr>;
              credential = (if markRefreshed then credential\<lparr> cr_LastRefreshedAt := Some now \<rparr> else credential) in
          then_io (crepo_Save (su_credentials uc) ctx credential)
            (ret (CREDENTIAL_STATUS_ACTIVE, [], credential))))))"

definition StatusUsecase_GetCredentialStatus ::
    "('w, 'o) StatusUsecase \<Rightarrow> ctx \<Rightarrow> string \<Rightarrow> ('w, GetCredentialStatusOutput) io" where
  "StatusUsecase_GetCredentialStatus uc ctx platformAccountID =
     bind_io (getCredential uc ctx platformAccountID) (\<lambda>credential.
     ret \<lparr> gso_Status = toCredentialStatus (cr_Status credential),
           gso_LastValidatedAt = cr_LastValidatedAt credential \<rparr>)"

definition StatusUsecase_ValidateCredential :: "env \<Rightarrow> ('z base_world_scheme, 'o) StatusUsecase \<Rightarrow> ctx \<Rightarrow> string \<Rightarrow>
    ('z base_world_scheme, ValidateCredentialOutput) io" where
  "StatusUsecase_ValidateCredential E uc ctx platformAccountID =
     bind_io (getCredential uc ctx platformAccountID) (\<lambda>credential.
     bind_io (revalidate E uc ctx credential False) (\<lambda>(status, errCode, _).
     ret \<lparr> vco_Status = status, vco_ErrorCode = errCode \<rparr>))"

definition StatusUsecase_RefreshCredential :: "env \<Rightarrow> ('z base_world_scheme, 'o) StatusUsecase \<Rightarrow> ctx \<Rightarrow> string \<Rightarrow>
    ('z base_world_scheme, RefreshCredentialOutput) io" where
  "StatusUsecase_RefreshCredential E uc ctx platformAccountID =
     bind_io (getCredential uc ctx platformAccountID) (\<lambda>credential.
     bind_io (revalidate E uc ctx credential True) (\<lambda>(status, _, credential).
     ret \<lparr> rco_Status = status, rco_RefreshedAt = cr_LastRefreshedAt credential \<rparr>))"

section \<open>Against any repositories\<close>

context usecases
begin

abbreviation status_uc where
  "status_uc key \<equiv> \<lparr> su_credentials = creds, su_hoyoClient = client, su_encryptionKey = key \<rparr>"

lemma get_credential_keeps:
  assumes "in_ctx ctx" "owns b k"
  shows "keeps I R (\<lambda>c. owns (cr_BindingID c) (cr_PlatformAccountID c) \<and> acct (cr_Platform c) (cr_AccountID c))
    (getCredential (status_uc key) ctx k)"
  unfolding getCredential_def using assms
  by (auto intro!: io_bind[OF cred_lookup] io_ret io_fail split: option.split)

lemma read_status_keeps:
  assumes "in_ctx ctx" "owns b k"
  shows "keeps I R (\<lambda>_. True) (StatusUsecase_GetCredentialStatus (status_uc key) ctx k)"
  unfolding StatusUsecase_GetCredentialStatus_def using assms
  by (auto intro!: io_bind[OF get_credential_keeps] io_ret)

lemma revalidate_keeps:
  assumes "writes" "in_ctx ctx" "owns (cr_BindingID c) (cr_PlatformAccountID c)"
    "acct (cr_Platform c) (cr_AccountID c)"
  shows "keeps I R (\<lambda>_. True) (revalidate E (status_uc key) ctx c refreshed)"
  unfolding revalidate_def Let_def using assms
  by (auto intro!: io_lifted io_bind[OF io_attempt[OF discover]] io_bind[OF now_keeps] io_then[OF cred_save] io_ret
      split: sum.split)

lemma validate_keeps:
  assumes "writes" "in_ctx ctx" "owns b k"
  shows "keeps I R (\<lambda>_. True) (StatusUsecase_ValidateCredential E (status_uc key) ctx k)"
  unfolding StatusUsecase_ValidateCredential_def using assms
  by (auto intro!: io_bind[OF get_credential_keeps] io_bind[OF revalidate_keeps] io_ret)

lemma refresh_keeps:
  assumes "writes" "in_ctx ctx" "owns b k"
  shows "keeps I R (\<lambda>_. True) (StatusUsecase_RefreshCredential E (status_uc key) ctx k)"
  unfolding StatusUsecase_RefreshCredential_def using assms
  by (auto intro!: io_bind[OF get_credential_keeps] io_bind[OF revalidate_keeps] io_ret)

end

end
