(* ===== verification/ManagementUsecase.thy ===== *)
theory ManagementUsecase
  imports BindUsecase StatusUsecase
begin

text \<open>
  \<open>internal/usecase/management_usecase.go\<close>: the summary of a credential, replacing its cookie bundle
  and deleting it, each also in the form that a scope guard restricts to the ticket's binding.
\<close>

record CredentialSummaryOutput =
  so_PlatformAccountID :: string
  so_Status :: CredentialStatus
  so_LastValidatedAt :: "gotime option"
  so_LastRefreshedAt :: "gotime option"
  so_Devices :: "Device list"
  so_Profiles :: "ProfileSummary list"

record UpdateCredentialInput =
  ui_PlatformAccountID :: string
  ui_BindCredentialInput :: BindCredentialInput

text \<open>The credential repository is the one of the bind use case, with its transaction result type.\<close>

record 'w ManagementUsecase =
  mu_credentials :: "('w, BindCredentialOutput option) CredentialRepository"
  mu_devices :: "'w DeviceRepository"
  mu_profiles :: "'w ProfileRepository"
  mu_artifacts :: "'w ArtifactRepository"
  mu_management :: "'w CredentialManagementRepository"
  mu_bindUC :: "'w BindUsecase"
  mu_profileUC :: "'w ProfileUsecase"

definition NewManagementUsecase :: "('w, BindCredentialOutput option) CredentialRepository \<Rightarrow> 'w DeviceRepository \<Rightarrow>
    'w ProfileRepository \<Rightarrow> 'w ArtifactRepository \<Rightarrow> 'w CredentialManagementRepository \<Rightarrow> 'w BindUsecase \<Rightarrow>
    'w ProfileUsecase \<Rightarrow> 'w ManagementUsecase" where
  "NewManagementUsecase credentials devices profiles artifacts management bindUC profileUC = \<lparr>
     mu_credentials = credentials, mu_devices = devices, mu_profiles = profiles, mu_artifacts = artifacts,
     mu_management = management, mu_bindUC = bindUC, mu_profileUC = profileUC \<rparr>"

definition summary_output :: "Credential \<Rightarrow> Device list \<Rightarrow> ProfileSummary list \<Rightarrow> CredentialSummaryOutput" where
  "summary_output credential devices profiles = \<lparr>
     so_PlatformAccountID = cr_PlatformAccountID credential,
     so_Status = toCredentialStatus (cr_Status credential),
     so_LastValidatedAt = cr_LastValidatedAt credential,
     so_LastRefreshedAt = cr_LastRefreshedAt credential,
     so_Devices = devices, so_Profiles = profiles \<rparr>"

definition ManagementUsecase_GetCredentialSummary ::
    "'w ManagementUsecase \<Rightarrow> ctx \<Rightarrow> string \<Rightarrow> ('w, CredentialSummaryOutput) io" where
  "ManagementUsecase_GetCredentialSummary uc ctx platformAccountID =
     bind_io (crepo_GetByPlatformAccountID (mu_credentials uc) ctx platformAccountID) (\<lambda>found.
     case found of
       None \<Rightarrow> fail ErrCredentialNotFound
     | Some credential \<Rightarrow>
         bind_io (drepo_ListByPlatformAccountID (mu_devices uc) ctx platformAccountID) (\<lambda>devices.
         bind_io (ListProfiles (mu_profileUC uc) ctx platformAccountID) (\<lambda>profiles.
         ret (summary_output credential devices profiles))))"

definition ManagementUsecase_GetCredentialSummaryWithScope ::
    "'w ManagementUsecase \<Rightarrow> ctx \<Rightarrow> ScopeGuard \<Rightarrow> string \<Rightarrow> ('w, CredentialSummaryOutput) io" where
  "ManagementUsecase_GetCredentialSummaryWithScope uc ctx guard platformAccountID =
     then_io (lift_res (RequirePlatformAccountID guard platformAccountID))
     (then_io (lift_res (RequireBindingWide guard))
     (bind_io (crepo_GetByBindingID (mu_credentials uc) ctx (sg_BindingID guard)) (\<lambda>found.
      case found of
        None \<Rightarrow> fail ErrCredentialNotFound
      | Some credential \<Rightarrow>
          if cr_PlatformAccountID credential \<noteq> platformAccountID then fail ErrPlatformAccountMismatch
          else bind_io (drepo_ListByBindingID (mu_devices uc) ctx (sg_BindingID guard)) (\<lambda>devices.
               bind_io (prepo_ListByBindingID (mu_profiles uc) ctx (sg_BindingID guard)) (\<lambda>profiles.
               ret (summary_output credential devices (map toProfileSummary profiles)))))))"

definition pruneStaleProfiles ::
    "'w ManagementUsecase \<Rightarrow> ctx \<Rightarrow> string \<Rightarrow> ProfileSummary list \<Rightarrow> ('w, unit) io" where
  "pruneStaleProfiles uc ctx platformAccountID profiles =
     (let keep = map (\<lambda>p. \<lparr> pi_PlayerID = ps_PlayerId p, pi_Region = ps_Region p \<rparr>) profiles in
      bind_io (lift_res (BindingIDFromPlatformAccountID platformAccountID)) (\<lambda>bindingID.
      prepo_DeleteMissingByBindingID (mu_profiles uc) ctx bindingID keep))"

text \<open>The closure of \<open>UpdateCredential\<close> captures no output.\<close>

definition ManagementUsecase_UpdateCredential :: "env \<Rightarrow> ('z base_world_scheme) ManagementUsecase \<Rightarrow> ctx \<Rightarrow>
    UpdateCredentialInput \<Rightarrow> ('z base_world_scheme, CredentialSummaryOutput) io" where
  "ManagementUsecase_UpdateCredential E uc ctx input =
     bind_io (crepo_GetByPlatformAccountID (mu_credentials uc) ctx (ui_PlatformAccountID input)) (\<lambda>found.
     case found of
       None \<Rightarrow> fail ErrCredentialNotFound
     | Some credential \<Rightarrow>
         bind_io (prepareBindCredential E (mu_bindUC uc) ctx (ui_BindCredentialInput input)) (\<lambda>prepared.
         if bp_platformAccountID prepared \<noteq> ui_PlatformAccountID input then fail ErrPlatformAccountMismatch
         else then_io (runInTransaction (mu_bindUC uc) ctx (\<lambda>txCtx.
                bind_io (bindPreparedCredential E (mu_bindUC uc) txCtx (ui_BindCredentialInput input) (Some prepared))
                  (\<lambda>result.
                then_io (pruneStaleProfiles uc txCtx (ui_PlatformAccountID input) (bo_Profiles result))
                  (ret None))))
              (ManagementUsecase_GetCredentialSummary uc ctx (ui_PlatformAccountID input))))"

definition ManagementUsecase_UpdateCredentialWithScope :: "env \<Rightarrow> ('z base_world_scheme) ManagementUsecase \<Rightarrow> ctx \<Rightarrow>
    ScopeGuard \<Rightarrow> UpdateCredentialInput \<Rightarrow> ('z base_world_scheme, CredentialSummaryOutput) io" where
  "ManagementUsecase_UpdateCredentialWithScope E uc ctx guard input =
     then_io (lift_res (RequirePlatformAccountID guard (ui_PlatformAccountID input)))
     (then_io (lift_res (RequireBindingWide guard))
     (ManagementUsecase_UpdateCredential E uc ctx input))"

definition ManagementUsecase_DeleteCredential :: "'w ManagementUsecase \<Rightarrow> ctx \<Rightarrow> string \<Rightarrow> ('w, unit) io" where
  "ManagementUsecase_DeleteCredential uc ctx platformAccountID =
     mrepo_DeleteCredentialGraph (mu_management uc) ctx platformAccountID"

definition ManagementUsecase_DeleteCredentialWithScope ::
    "'w ManagementUsecase \<Rightarrow> ctx \<Rightarrow> ScopeGuard \<Rightarrow> string \<Rightarrow> ('w, unit) io" where
  "ManagementUsecase_DeleteCredentialWithScope uc ctx guard platformAccountID =
     then_io (lift_res (RequirePlatformAccountID guard platformAccountID))
     (then_io (lift_res (RequireBindingWide guard))
     (bind_io (crepo_GetByBindingID (mu_credentials uc) ctx (sg_BindingID guard)) (\<lambda>found.
      case found of
        None \<Rightarrow> fail ErrCredentialNotFound
      | Some credential \<Rightarrow>
          if cr_PlatformAccountID credential \<noteq> platformAccountID then fail ErrPlatformAccountMismatch
          else mrepo_DeleteCredentialGraphByBindingID (mu_management uc) ctx (sg_BindingID guard))))"

section \<open>Against any repositories\<close>

context usecases
begin

abbreviation management_uc where
  "management_uc key \<equiv> \<lparr> mu_credentials = creds, mu_devices = devs, mu_profiles = profs, mu_artifacts = arts,
     mu_management = mgmt, mu_bindUC = bind_uc client key, mu_profileUC = profile_uc \<rparr>"

lemma summary_keeps:
  assumes "in_ctx ctx" "owns b k"
  shows "keeps I R (\<lambda>_. True) (ManagementUsecase_GetCredentialSummary (management_uc key) ctx k)"
  unfolding ManagementUsecase_GetCredentialSummary_def using assms
  by (auto intro!: io_bind[OF cred_lookup] io_bind[OF dev_list_key] io_bind[OF list_profiles_keeps] io_ret io_fail
      split: option.split)

lemma summary_scoped_keeps:
  assumes "in_ctx ctx" "mine (sg_BindingID g)"
  shows "keeps I R (\<lambda>_. True) (ManagementUsecase_GetCredentialSummaryWithScope (management_uc key) ctx g k)"
  unfolding ManagementUsecase_GetCredentialSummaryWithScope_def using assms
  by (auto intro!: io_guard io_bind[OF cred_get] io_bind[OF dev_list] io_bind[OF prof_list] io_ret io_fail
      split: option.split)

lemma prune_keeps:
  assumes "writes" "in_ctx ctx" "owns b k" "key_binding k = Some b"
  shows "keeps I R (\<lambda>_. True) (pruneStaleProfiles (management_uc key) ctx k ps)"
  unfolding pruneStaleProfiles_def Let_def using assms owns_mine[OF assms(3)]
  by (auto intro!: io_lifted prof_delete_missing simp: key_binding_def)

lemma update_keeps:
  assumes w: "writes" "in_ctx ctx" and own: "mine b" "key_binding (ui_PlatformAccountID input) = Some b"
    and b: "bi_BindingID (ui_BindCredentialInput input) = b"
  shows "keeps I R (\<lambda>_. True) (ManagementUsecase_UpdateCredential E (management_uc key) ctx input)"
proof -
  have key: "owns b (ui_PlatformAccountID input)" using own by (rule mine_owns)
  have bound: "keeps I R (\<lambda>_. True) (bind_io
        (bindPreparedCredential E (bind_uc client key) tx (ui_BindCredentialInput input) (Some prepared)) (\<lambda>result.
        then_io (pruneStaleProfiles (management_uc key) tx (ui_PlatformAccountID input) (bo_Profiles result))
          (ret None)))"
    if "in_ctx tx" "bp_platformAccountID prepared = ui_PlatformAccountID input" "acct ''mihomo'' (bp_accountID prepared)"
    for tx prepared
    using w own b key that
    by (intro io_bind[OF bind_prepared_keeps] io_then[OF prune_keeps] io_ret) simp_all
  have tx: "keeps I R (\<lambda>_. True) (then_io (runInTransaction (bind_uc client key) ctx (\<lambda>tx. bind_io
        (bindPreparedCredential E (bind_uc client key) tx (ui_BindCredentialInput input) (Some prepared)) (\<lambda>result.
        then_io (pruneStaleProfiles (management_uc key) tx (ui_PlatformAccountID input) (bo_Profiles result))
          (ret None))))
        (ManagementUsecase_GetCredentialSummary (management_uc key) ctx (ui_PlatformAccountID input)))"
    if "bp_platformAccountID prepared = ui_PlatformAccountID input" "acct ''mihomo'' (bp_accountID prepared)"
    for prepared
    unfolding runInTransaction_def BindUsecase.select_convs offers_transactions option.case
    by (rule io_then[OF within_keeps[OF w(2,1)] summary_keeps[OF w(2) key]]) (rule bound, rule_tac [2-] that)
  show ?thesis
    unfolding ManagementUsecase_UpdateCredential_def ManagementUsecase.select_convs
    by (rule io_bind[OF cred_lookup[OF w(2) key]])
      (auto intro!: io_bind[OF prepare_keeps] io_fail tx[simplified] split: option.split)
qed

lemma update_scoped_keeps:
  assumes "writes" "in_ctx ctx" "mine (sg_BindingID g)"
    and "bi_BindingID (ui_BindCredentialInput input) = sg_BindingID g"
  shows "keeps I R (\<lambda>_. True) (ManagementUsecase_UpdateCredentialWithScope E (management_uc key) ctx g input)"
  unfolding ManagementUsecase_UpdateCredentialWithScope_def using assms
  by (auto intro!: io_guard update_keeps)

lemma delete_keeps:
  assumes "writes" "in_ctx ctx" "owns b k"
  shows "keeps I R (\<lambda>_. True) (ManagementUsecase_DeleteCredential (management_uc key) ctx k)"
  unfolding ManagementUsecase_DeleteCredential_def using assms by (simp add: delete_graph_key)

lemma delete_scoped_keeps:
  assumes "writes" "in_ctx ctx" "mine (sg_BindingID g)"
  shows "keeps I R (\<lambda>_. True) (ManagementUsecase_DeleteCredentialWithScope (management_uc key) ctx g k)"
  unfolding ManagementUsecase_DeleteCredentialWithScope_def using assms
  by (auto intro!: io_guard io_bind[OF cred_get] delete_graph io_fail split: option.split)

end

end
