(* ===== verification/TicketVerifier.thy ===== *)
theory TicketVerifier
  imports GoStrings Biz World
begin

text \<open>
  \<open>internal/data/ticket_verifier.go\<close> and \<open>jwks_verifier.go\<close>: verification of service tickets. The JWT
  library is a parameter: \<open>jwt_parse\<close> takes the raw ticket, the verifier's own key function, the
  expected audience and issuer and the current time, and returns the claims and the token's \<open>Valid\<close>
  flag. PEM and PKIX decoding of the standard library are parameters too. What the service relies on
  of \<open>jwt_parse\<close> is \<open>jwt_law\<close>.
\<close>

datatype header_value = HStr string | HOther

record JwtToken =
  tk_alg :: string
  tk_header :: "string \<rightharpoonup> header_value"

record ServiceTicketJWTClaims =
  jc_ActorType :: string
  jc_ActorID :: string
  jc_OwnerUserID :: u64
  jc_BindingID :: u64
  jc_Platform :: string
  jc_PlatformAccountID :: string
  jc_Consumer :: string
  jc_GrantVersion :: u64
  jc_ProfileID :: u64
  jc_Scopes :: "string list"
  jc_AllowedActions :: "string list"
  jc_Audience :: string
  jc_BotID :: string
  jc_UserID :: u64
  jc_PlatformServiceKey :: string
  jc_PlatformAccountRefID :: u64
  jc_TicketType :: string
  jc_Issuer :: string
  jc_AudienceList :: "string list"
  jc_ExpiresAt :: "gotime option"

type_synonym jwt_parser = "string \<Rightarrow> (JwtToken \<Rightarrow> error + string) \<Rightarrow> string \<Rightarrow> string \<Rightarrow> gotime \<Rightarrow>
  error + (ServiceTicketJWTClaims \<times> bool)"

text \<open>\<open>PublicKeyResolver\<close> and \<open>GrantVersionLookup\<close> are interfaces that may be nil.\<close>

record 'w TicketVerifier =
  tv_issuer :: string
  tv_resolver :: "(string \<Rightarrow> error + string) option"
  tv_lookup :: "(ctx \<Rightarrow> u64 \<Rightarrow> string \<Rightarrow> ('w, u64) io) option"

section \<open>Public keys\<close>

record StaticPublicKeyResolver =
  spk_keys :: "string \<rightharpoonup> string"

definition NewStaticPublicKeyResolver :: "string \<Rightarrow> string \<Rightarrow> StaticPublicKeyResolver" where
  "NewStaticPublicKeyResolver kid key =
     \<lparr> spk_keys = (if kid \<noteq> [] \<and> length key > 0 then Map.empty(kid \<mapsto> key) else Map.empty) \<rparr>"

definition key_not_found :: "string \<Rightarrow> error" where
  "key_not_found kid = ErrText (''service ticket public key not found for kid '' @ go_quote kid)"

definition StaticPublicKeyResolver_Resolve :: "StaticPublicKeyResolver option \<Rightarrow> string \<Rightarrow> error + string" where
  "StaticPublicKeyResolver_Resolve r kid =
     (case r of
        None \<Rightarrow> Inl (key_not_found kid)
      | Some r \<Rightarrow>
          if kid = [] then Inl (key_not_found kid)
          else (case spk_keys r kid of None \<Rightarrow> Inl (key_not_found kid) | Some key \<Rightarrow> Inr key))"

datatype public_key = Ed25519Key string | OtherKey

text \<open>\<open>pem_decode\<close> returns the bytes of the first PEM block; \<open>parse_pkix\<close> parses them.\<close>

definition ParseEd25519PublicKeyPEM ::
    "(string \<Rightarrow> string option) \<Rightarrow> (string \<Rightarrow> error + public_key) \<Rightarrow> string \<Rightarrow> error + string" where
  "ParseEd25519PublicKeyPEM pem_decode parse_pkix publicKeyPEM =
     (case pem_decode publicKeyPEM of
        None \<Rightarrow> Inl (ErrText ''service ticket public key PEM is invalid'')
      | Some block \<Rightarrow>
          (case parse_pkix block of
             Inl err \<Rightarrow> Inl (ErrText (''parse service ticket public key PEM: '' @ error_text err))
           | Inr OtherKey \<Rightarrow> Inl (ErrText ''service ticket public key PEM must contain an Ed25519 public key'')
           | Inr (Ed25519Key key) \<Rightarrow>
               if length key \<noteq> 32 then Inl (ErrText ''service ticket public key PEM has invalid Ed25519 key size'')
               else Inr key))"

definition NewTicketVerifierWithResolver :: "string \<Rightarrow> (string \<Rightarrow> error + string) option \<Rightarrow> 'w TicketVerifier" where
  "NewTicketVerifierWithResolver issuer resolver =
     \<lparr> tv_issuer = issuer, tv_resolver = resolver, tv_lookup = None \<rparr>"

definition NewStaticKeyTicketVerifier :: "string \<Rightarrow> string \<Rightarrow> string \<Rightarrow> 'w TicketVerifier" where
  "NewStaticKeyTicketVerifier issuer kid publicKey =
     NewTicketVerifierWithResolver issuer
       (Some (StaticPublicKeyResolver_Resolve (Some (NewStaticPublicKeyResolver kid publicKey))))"

definition NewTicketVerifier :: "string \<Rightarrow> string \<Rightarrow> 'w TicketVerifier" where
  "NewTicketVerifier issuer key = NewStaticKeyTicketVerifier issuer ''default'' key"

definition WithGrantVersionLookup ::
    "'w TicketVerifier \<Rightarrow> (ctx \<Rightarrow> u64 \<Rightarrow> string \<Rightarrow> ('w, u64) io) \<Rightarrow> 'w TicketVerifier" where
  "WithGrantVersionLookup v lookup = v\<lparr> tv_lookup := Some lookup \<rparr>"

section \<open>Verification\<close>

definition verifier_keyfunc :: "'w TicketVerifier \<Rightarrow> JwtToken \<Rightarrow> error + string" where
  "verifier_keyfunc v token =
     (if tk_alg token \<noteq> ''EdDSA'' then Inl (ErrText (''unexpected signing method: '' @ tk_alg token))
      else (case tk_header token ''kid'' of
              Some (HStr kid) \<Rightarrow>
                if kid = [] then Inl (ErrText ''service ticket missing kid'')
                else if tk_header token ''typ'' \<noteq> Some (HStr ''service_ticket'')
                then Inl (ErrText ''service ticket typ must be service_ticket'')
                else (case tv_resolver v of
                        None \<Rightarrow> Inl (ErrText ''service ticket public key resolver is not configured'')
                      | Some resolve \<Rightarrow> resolve kid)
            | _ \<Rightarrow> Inl (ErrText ''service ticket missing kid'')))"

text \<open>The checks on the claims that need no lookup, in the order of the code.\<close>

definition check_claims :: "ServiceTicketJWTClaims \<Rightarrow> error + unit" where
  "check_claims c =
     (if jc_ActorType c = [] then Inl (ErrText ''service ticket missing actor_type'')
      else if jc_ActorID c = [] then Inl (ErrText ''service ticket missing actor_id'')
      else if jc_OwnerUserID c = 0 then Inl (ErrText ''service ticket missing owner_user_id'')
      else if jc_BindingID c = 0 then Inl (ErrText ''service ticket missing binding_id'')
      else if jc_PlatformAccountRefID c \<noteq> 0 \<and> jc_PlatformAccountRefID c \<noteq> jc_BindingID c
      then Inl (ErrText ''service ticket binding_id does not match platform_account_ref_id'')
      else if jc_Platform c = [] then Inl (ErrText ''service ticket missing platform'')
      else Inr ())"

definition check_consumer_grant :: "'w TicketVerifier \<Rightarrow> ctx \<Rightarrow> ServiceTicketJWTClaims \<Rightarrow> ('w, unit) io" where
  "check_consumer_grant v ctx c =
     (if jc_ActorType c = ''consumer''
      then (if jc_Consumer c = [] then fail (ErrText ''service ticket missing consumer'')
            else if jc_GrantVersion c = 0 then fail (ErrText ''service ticket missing grant_version'')
            else (case tv_lookup v of
                    None \<Rightarrow> ret ()
                  | Some lookup \<Rightarrow>
                      bind_io (lookup ctx (jc_BindingID c) (jc_Consumer c)) (\<lambda>minimum.
                        if minimum > 0 \<and> jc_GrantVersion c < minimum then fail ErrGrantVersionRevoked
                        else ret ())))
      else ret ())"

definition claims_of :: "ServiceTicketJWTClaims \<Rightarrow> string \<Rightarrow> ServiceTicketClaims" where
  "claims_of c expectedAudience = \<lparr>
     tc_ActorType = jc_ActorType c, tc_ActorID = jc_ActorID c, tc_OwnerUserID = jc_OwnerUserID c,
     tc_BindingID = jc_BindingID c, tc_Platform = jc_Platform c,
     tc_PlatformAccountID = jc_PlatformAccountID c, tc_Consumer = jc_Consumer c,
     tc_GrantVersion = jc_GrantVersion c, tc_ProfileID = jc_ProfileID c,
     tc_Scopes = (if length (jc_AllowedActions c) > 0 then jc_AllowedActions c else jc_Scopes c),
     tc_Audience = expectedAudience, tc_BotID = jc_BotID c,
     tc_UserID = (if jc_UserID c \<noteq> 0 then jc_UserID c else jc_OwnerUserID c),
     tc_PlatformServiceKey = jc_PlatformServiceKey c,
     tc_PlatformAccountRefID = jc_BindingID c \<rparr>"

definition VerifyContext :: "env \<Rightarrow> jwt_parser \<Rightarrow> ('z base_world_scheme) TicketVerifier \<Rightarrow> ctx \<Rightarrow> string \<Rightarrow> string \<Rightarrow>
    ('z base_world_scheme, ServiceTicketClaims) io" where
  "VerifyContext E jwt_parse v ctx raw expectedAudience =
     bind_io (time_now E) (\<lambda>now.
     bind_io (lift_res (jwt_parse raw (verifier_keyfunc v) expectedAudience (tv_issuer v) now)) (\<lambda>(c, valid).
     if \<not> valid then fail (ErrText ''invalid service ticket'')
     else then_io (lift_res (check_claims c))
          (then_io (check_consumer_grant v ctx c)
          (ret (claims_of c expectedAudience)))))"

definition Verify :: "env \<Rightarrow> jwt_parser \<Rightarrow> ('z base_world_scheme) TicketVerifier \<Rightarrow> string \<Rightarrow> string \<Rightarrow>
    ('z base_world_scheme, ServiceTicketClaims) io" where
  "Verify E jwt_parse v raw expectedAudience = VerifyContext E jwt_parse v Background raw expectedAudience"

text \<open>
  The documented contract of \<open>jwt.ParseWithClaims\<close> with \<open>WithAudience\<close>, \<open>WithIssuer\<close> and
  \<open>WithExpirationRequired\<close>: a ticket is returned without error only if the key function accepted its
  token, the signature verifies under the returned key, and the registered claims hold.
  \<open>decode\<close> and \<open>sig_ok\<close> stand for the library's decoding and signature check.
\<close>

definition jwt_law :: "(string \<Rightarrow> (JwtToken \<times> ServiceTicketJWTClaims) option) \<Rightarrow> (string \<Rightarrow> string \<Rightarrow> bool) \<Rightarrow>
    jwt_parser \<Rightarrow> bool" where
  "jwt_law decode sig_ok jwt_parse \<longleftrightarrow>
     (\<forall>raw keyfunc aud iss now c valid. jwt_parse raw keyfunc aud iss now = Inr (c, valid) \<longrightarrow>
        (\<exists>token key. decode raw = Some (token, c) \<and> keyfunc token = Inr key \<and> sig_ok raw key \<and>
           aud \<in> set (jc_AudienceList c) \<and> jc_Issuer c = iss \<and>
           (\<exists>exp. jc_ExpiresAt c = Some exp \<and> now < exp)))"

lemma verifier_keyfunc_ok:
  "verifier_keyfunc v token = Inr key \<longleftrightarrow> tk_alg token = ''EdDSA'' \<and>
     (\<exists>kid resolve. tk_header token ''kid'' = Some (HStr kid) \<and> kid \<noteq> [] \<and>
        tk_header token ''typ'' = Some (HStr ''service_ticket'') \<and>
        tv_resolver v = Some resolve \<and> resolve kid = Inr key)"
  by (auto simp: verifier_keyfunc_def split: option.splits header_value.splits if_splits)

lemma check_claims_ok:
  "check_claims c = Inr u \<longleftrightarrow> jc_ActorType c \<noteq> [] \<and> jc_ActorID c \<noteq> [] \<and> jc_OwnerUserID c \<noteq> 0 \<and>
     jc_BindingID c \<noteq> 0 \<and> (jc_PlatformAccountRefID c = 0 \<or> jc_PlatformAccountRefID c = jc_BindingID c) \<and>
     jc_Platform c \<noteq> []"
  by (auto simp: check_claims_def)

lemma VerifyContext_okE:
  assumes "VerifyContext E jwt_parse v ctx raw aud w = (Inr claims, w')"
  obtains c where "jwt_parse raw (verifier_keyfunc v) aud (tv_issuer v) (clock E (ticks w)) = Inr (c, True)"
    "check_claims c = Inr ()" "check_consumer_grant v ctx c (next_tick w) = (Inr (), w')"
    "claims = claims_of c aud"
  using assms
  by (auto simp: VerifyContext_def time_now_def then_io_apply bind_io_apply split: sum.splits prod.splits if_splits)

end
