(* ===== verification/BindingMapper.thy ===== *)
theory BindingMapper
  imports ManagementUsecase TicketVerifier
begin

text \<open>
  \<open>internal/service/binding_mapper.go\<close>: from requests and ticket claims to the inputs of the use cases
  and from their outputs to response messages; and the ticket and error handling that all three
  services share (\<open>verifyServiceTicket\<close>, \<open>scopedGuard\<close> and the two error mappings of
  \<open>mihomo_account.go\<close>).
\<close>

definition serviceTicketAudience :: string where
  "serviceTicketAudience = ''platform-mihomo-service''"

section \<open>Requests and claims\<close>

definition toBindCredentialInput :: "BindCredentialRequest \<Rightarrow> ServiceTicketClaims \<Rightarrow> BindCredentialInput" where
  "toBindCredentialInput req claims =
     (let input = \<lparr> bi_BindingID = tc_BindingID claims, bi_CookieBundleJSON = bcr_CookieBundleJson req,
                    bi_DeviceID = [], bi_DeviceFP = [], bi_DeviceName = [],
                    bi_RegionHint = bcr_RegionHint req \<rparr> in
      case bcr_Device req of
        Some device \<Rightarrow> input\<lparr> bi_DeviceID := di_DeviceId device, bi_DeviceFP := di_DeviceFp device,
                              bi_DeviceName := di_DeviceName device \<rparr>
      | None \<Rightarrow> input)"

definition toScopeGuard :: "ServiceTicketClaims \<Rightarrow> error + ScopeGuard" where
  "toScopeGuard claims =
     (if tc_Platform claims \<noteq> ''mihomo'' then Inl ErrBindingScopeDenied
      else Inr \<lparr> sg_AllowedActions = set (tc_Scopes claims), sg_BindingID = tc_BindingID claims,
                 sg_ProfileID = tc_ProfileID claims \<rparr>)"

fun require_actions :: "ScopeGuard \<Rightarrow> string list \<Rightarrow> error + unit" where
  "require_actions guard [] = Inr ()"
| "require_actions guard (action # actions) =
     (case RequireAction guard action of Inl e \<Rightarrow> Inl e | Inr _ \<Rightarrow> require_actions guard actions)"

definition scopedGuard :: "ServiceTicketClaims \<Rightarrow> string list \<Rightarrow> error + ScopeGuard" where
  "scopedGuard claims requiredActions =
     (case toScopeGuard claims of
        Inl e \<Rightarrow> Inl e
      | Inr guard \<Rightarrow> (case require_actions guard requiredActions of Inl e \<Rightarrow> Inl e | Inr _ \<Rightarrow> Inr guard))"

definition scopedGuardForPlatformAccount ::
    "ServiceTicketClaims \<Rightarrow> string \<Rightarrow> string list \<Rightarrow> error + ScopeGuard" where
  "scopedGuardForPlatformAccount claims platformAccountID requiredActions =
     (case toScopeGuard claims of
        Inl e \<Rightarrow> Inl e
      | Inr guard \<Rightarrow>
          (case require_actions guard requiredActions of
             Inl e \<Rightarrow> Inl e
           | Inr _ \<Rightarrow>
               (case RequirePlatformAccountID guard platformAccountID of Inl e \<Rightarrow> Inl e | Inr _ \<Rightarrow> Inr guard)))"

section \<open>Errors\<close>

definition mapTicketVerificationError :: "error \<Rightarrow> Status" where
  "mapTicketVerificationError err =
     (if err = ErrGrantVersionRevoked then status_error PermissionDenied (error_text err)
      else status_error Unauthenticated ''invalid service ticket'')"

definition mapUsecaseError :: "error \<Rightarrow> Status" where
  "mapUsecaseError err =
     (if err = ErrCredentialNotFound then status_error NotFound (error_text err)
      else if err = ErrProfileNotFound then status_error NotFound (error_text err)
      else if err = ErrPlatformAccountMismatch then status_error InvalidArgument (error_text err)
      else if err = ErrActionScopeDenied \<or> err = ErrBindingScopeDenied \<or> err = ErrProfileScopeDenied
      then status_error PermissionDenied (error_text err)
      else status_error Internal (error_text err))"

definition verifyServiceTicket :: "env \<Rightarrow> jwt_parser \<Rightarrow> ('z base_world_scheme) TicketVerifier \<Rightarrow> ctx \<Rightarrow> string \<Rightarrow>
    ('z base_world_scheme, Status, ServiceTicketClaims) call" where
  "verifyServiceTicket E jwt v ctx raw =
     map_error mapTicketVerificationError (VerifyContext E jwt v ctx raw serviceTicketAudience)"

section \<open>Outputs\<close>

definition derefString :: "string option \<Rightarrow> string" where
  "derefString value = (case value of None \<Rightarrow> [] | Some s \<Rightarrow> s)"

definition toTimestamp :: "gotime option \<Rightarrow> gotime option" where
  "toTimestamp ts = (case ts of None \<Rightarrow> None | Some t \<Rightarrow> Some t)"

definition toDeviceSummaries :: "Device list \<Rightarrow> DeviceSummary list" where
  "toDeviceSummaries devices = map (\<lambda>device. \<lparr>
     ds_DeviceId = dv_DeviceID device, ds_DeviceFp = dv_DeviceFP device,
     ds_DeviceName = derefString (dv_DeviceName device), ds_IsValid = dv_IsValid device,
     ds_LastSeenAt = toTimestamp (dv_LastSeenAt device) \<rparr>) devices"

definition toBindCredentialResponse :: "BindCredentialOutput \<Rightarrow> BindCredentialResponse" where
  "toBindCredentialResponse output =
     (let profiles = map (\<lambda>profile. \<lparr>
        ps_Id = ps_Id profile, ps_PlatformAccountId = ps_PlatformAccountId profile,
        ps_GameBiz = ps_GameBiz profile, ps_Region = ps_Region profile, ps_PlayerId = ps_PlayerId profile,
        ps_Nickname = ps_Nickname profile, ps_Level = ps_Level profile,
        ps_IsDefault = ps_IsDefault profile \<rparr>) (bo_Profiles output) in
      \<lparr> bcs_PlatformAccountId = bo_PlatformAccountID output, bcs_Status = bo_Status output,
        bcs_Profiles = profiles \<rparr>)"

definition toCredentialSummary :: "CredentialSummaryOutput option \<Rightarrow> CredentialSummary option" where
  "toCredentialSummary output =
     (case output of
        None \<Rightarrow> None
      | Some output \<Rightarrow> Some \<lparr>
          cs_PlatformAccountId = so_PlatformAccountID output, cs_Status = so_Status output,
          cs_LastValidatedAt = toTimestamp (so_LastValidatedAt output),
          cs_LastRefreshedAt = toTimestamp (so_LastRefreshedAt output),
          cs_Devices = toDeviceSummaries (so_Devices output), cs_Profiles = so_Profiles output \<rparr>)"

section \<open>What the guards establish\<close>

lemma require_actions_ok: "require_actions g as = Inr u \<longleftrightarrow> set as \<subseteq> sg_AllowedActions g"
  by (induction as) (auto simp: RequireAction_def)

lemma require_actions_err: "require_actions g as = Inl e \<Longrightarrow> e = ErrActionScopeDenied"
  by (induction as) (auto simp: RequireAction_def split: if_splits)

lemma toScopeGuard_ok:
  "toScopeGuard c = Inr g \<longleftrightarrow> tc_Platform c = ''mihomo'' \<and>
     g = \<lparr> sg_AllowedActions = set (tc_Scopes c), sg_BindingID = tc_BindingID c, sg_ProfileID = tc_ProfileID c \<rparr>"
  by (auto simp: toScopeGuard_def)

lemma scopedGuard_ok:
  "scopedGuard c as = Inr g \<longleftrightarrow> tc_Platform c = ''mihomo'' \<and> set as \<subseteq> set (tc_Scopes c) \<and>
     g = \<lparr> sg_AllowedActions = set (tc_Scopes c), sg_BindingID = tc_BindingID c, sg_ProfileID = tc_ProfileID c \<rparr>"
proof (cases "toScopeGuard c")
  case (Inl e)
  then have "tc_Platform c \<noteq> ''mihomo''" by (auto simp: toScopeGuard_def split: if_splits)
  with Inl show ?thesis by (auto simp: scopedGuard_def)
next
  case (Inr guard)
  then have m: "tc_Platform c = ''mihomo''" and g: "guard =
      \<lparr> sg_AllowedActions = set (tc_Scopes c), sg_BindingID = tc_BindingID c, sg_ProfileID = tc_ProfileID c \<rparr>"
    by (simp_all add: toScopeGuard_ok)
  have "scopedGuard c as = Inr g \<longleftrightarrow> require_actions guard as = Inr () \<and> g = guard"
    using Inr by (auto simp: scopedGuard_def split: sum.splits)
  then show ?thesis
    using m g by (simp add: require_actions_ok)
qed

lemma scopedGuardForPlatformAccount_scoped:
  "scopedGuardForPlatformAccount c s as =
     (case scopedGuard c as of
        Inl e \<Rightarrow> Inl e
      | Inr g \<Rightarrow> (case RequirePlatformAccountID g s of Inl e \<Rightarrow> Inl e | Inr _ \<Rightarrow> Inr g))"
  by (auto simp: scopedGuardForPlatformAccount_def scopedGuard_def split: sum.splits)

lemma scopedGuard_binding: "scopedGuard c as = Inr g \<Longrightarrow> sg_BindingID g = tc_BindingID c"
  by (simp add: scopedGuard_ok)

lemma scopedGuardForPlatformAccount_ok:
  "scopedGuardForPlatformAccount c s as = Inr g \<longleftrightarrow>
     scopedGuard c as = Inr g \<and> tc_BindingID c \<noteq> 0 \<and> key_binding s = Some (tc_BindingID c)"
proof -
  have ok: "(case RequirePlatformAccountID h s of Inl e \<Rightarrow> Inl e | Inr _ \<Rightarrow> Inr h) = Inr g \<longleftrightarrow>
      RequirePlatformAccountID h s = Inr () \<and> h = g" for h
    by (cases "RequirePlatformAccountID h s") (simp_all del: RequirePlatformAccountID_ok)
  show ?thesis
    by (cases "scopedGuard c as")
      (auto simp: scopedGuardForPlatformAccount_scoped ok scopedGuard_binding)
qed

section \<open>The contract of the services\<close>

text \<open>On top of the use cases: every ticket of \<open>tickets\<close> that verifies is for a binding in the scope,
  and the grant store keeps the contract for such bindings.\<close>

locale services =
  usecases I R mine owns acct in_ctx writes creds devs profs arts mgmt client within
  for I :: "'z base_world_scheme \<Rightarrow> bool" and R mine owns acct in_ctx writes
    and creds :: "('z base_world_scheme, BindCredentialOutput option) CredentialRepository"
    and devs profs arts mgmt client within +
  fixes E :: env and jwt :: jwt_parser and verifier :: "'z base_world_scheme TicketVerifier"
    and upsert :: "ctx \<Rightarrow> u64 \<Rightarrow> string \<Rightarrow> u64 \<Rightarrow> ('z base_world_scheme, unit) io"
    and tickets :: "string \<Rightarrow> bool" and enc_key :: string
  assumes verify_keeps: "\<lbrakk> in_ctx ctx; tickets raw \<rbrakk> \<Longrightarrow>
        keeps I R (\<lambda>c. mine (tc_BindingID c)) (verifyServiceTicket E jwt verifier ctx raw)"
    and upsert_keeps: "\<lbrakk> writes; in_ctx ctx; mine b \<rbrakk> \<Longrightarrow> keeps I R (\<lambda>_. True) (upsert ctx b consumer v)"
begin

lemma scoped_keeps:
  assumes "in_ctx ctx" "tickets raw"
    and "\<And>c g. \<lbrakk> mine (tc_BindingID c); scopedGuard c as = Inr g; sg_BindingID g = tc_BindingID c \<rbrakk> \<Longrightarrow>
      keeps I R Q (f c g)"
  shows "keeps I R Q (bind_io (verifyServiceTicket E jwt verifier ctx raw) (\<lambda>claims.
      bind_io (map_error mapUsecaseError (lift_res (scopedGuard claims as))) (f claims)))"
  using assms scopedGuard_binding by (intro io_bind[OF verify_keeps] io_mapped_lifted) auto

lemma account_keeps:
  assumes "in_ctx ctx" "tickets raw"
    and "\<And>c g. \<lbrakk> mine (tc_BindingID c); owns (tc_BindingID c) k; sg_BindingID g = tc_BindingID c \<rbrakk> \<Longrightarrow>
      keeps I R Q (f c g)"
  shows "keeps I R Q (bind_io (verifyServiceTicket E jwt verifier ctx raw) (\<lambda>claims.
      bind_io (map_error mapUsecaseError (lift_res (scopedGuardForPlatformAccount claims k as))) (f claims)))"
  using assms scopedGuard_binding mine_owns
  by (intro io_bind[OF verify_keeps] io_mapped_lifted) (auto simp: scopedGuardForPlatformAccount_ok)

end

end
