(* ===== verification/AuthkeyUsecase.thy ===== *)
theory AuthkeyUsecase
  imports BindUsecase
begin

text \<open>
  \<open>internal/usecase/authkey_usecase.go\<close>: the auth key of a player, from the artifact store while one
  is stored, else freshly issued upstream and stored until it expires.
\<close>

definition authKeyArtifactType :: string where
  "authKeyArtifactType = ''authkey''"

record GetAuthKeyOutput =
  ak_AuthKey :: string
  ak_ExpiresAt :: gotime

record ('w, 'o) AuthkeyUsecase =
  au_credentialRepo :: "('w, 'o) CredentialRepository"
  au_artifactRepo :: "'w ArtifactRepository"
  au_client :: "'w Client"
  au_encryptionKey :: string

definition NewAuthkeyUsecase :: "('w, 'o) CredentialRepository \<Rightarrow> 'w ArtifactRepository \<Rightarrow> 'w Client \<Rightarrow> string \<Rightarrow>
    ('w, 'o) AuthkeyUsecase" where
  "NewAuthkeyUsecase credentialRepo artifactRepo client encryptionKey = \<lparr>
     au_credentialRepo = credentialRepo, au_artifactRepo = artifactRepo, au_client = client,
     au_encryptionKey = encryptionKey \<rparr>"

text \<open>\<open>time.Duration(expiresInSeconds) * time.Second\<close> is an \<open>int64\<close> product and wraps.\<close>

definition seconds_duration :: "i64 \<Rightarrow> int" where
  "seconds_duration expiresInSeconds = sint (expiresInSeconds * 1000000000)"

definition GetAuthKey :: "env \<Rightarrow> ('z base_world_scheme, 'o) AuthkeyUsecase \<Rightarrow> ctx \<Rightarrow> string \<Rightarrow> string \<Rightarrow>
    ('z base_world_scheme, GetAuthKeyOutput) io" where
  "GetAuthKey E uc ctx platformAccountID playerID =
     bind_io (crepo_GetByPlatformAccountID (au_credentialRepo uc) ctx platformAccountID) (\<lambda>found.
     case found of
       None \<Rightarrow> fail ErrCredentialNotFound
     | Some credential \<Rightarrow>
         bind_io (lift_res (DecryptString (au_encryptionKey uc) (cr_CredentialBlob credential))) (\<lambda>cookieBundleJSON.
         bind_io (arepo_GetByBindingID (au_artifactRepo uc) ctx (cr_BindingID credential) authKeyArtifactType playerID)
           (\<lambda>stored.
         case stored of
           Some artifact \<Rightarrow> ret \<lparr> ak_AuthKey = af_ArtifactValue artifact, ak_ExpiresAt = af_ExpiresAt artifact \<rparr>
         | None \<Rightarrow>
             bind_io (cl_IssueAuthKey (au_client uc) ctx cookieBundleJSON playerID) (\<lambda>(authKey, expiresInSeconds).
             bind_io (time_now E) (\<lambda>now.
             let expiresAt = now + seconds_duration expiresInSeconds;
                 artifact = \<lparr> af_BindingID = cr_BindingID credential, af_PlatformAccountID = platformAccountID,
                              af_ArtifactType = authKeyArtifactType, af_ArtifactValue = authKey,
                              af_ScopeKey = playerID, af_ExpiresAt = expiresAt \<rparr> in
             then_io (arepo_Put (au_artifactRepo uc) ctx artifact)
               (ret \<lparr> ak_AuthKey = authKey, ak_ExpiresAt = expiresAt \<rparr>))))))"

context usecases
begin

abbreviation authkey_uc where
  "authkey_uc key \<equiv> \<lparr> au_credentialRepo = creds, au_artifactRepo = arts, au_client = client,
     au_encryptionKey = key \<rparr>"

lemma auth_key_keeps:
  assumes "writes" "in_ctx ctx" "owns b k"
  shows "keeps I R (\<lambda>_. True) (GetAuthKey E (authkey_uc key) ctx k player)"
  unfolding GetAuthKey_def Let_def using assms owns_mine
  by (auto intro!: io_bind[OF cred_lookup] io_lifted io_bind[OF art_get] io_bind[OF issue] io_bind[OF now_keeps]
      io_then[OF art_put] io_ret io_fail split: option.split)

end

end
