(* ===== verification/MihomoAccount.thy ===== *)
theory MihomoAccount
  imports BindingMapper AuthkeyUsecase
begin

text \<open>
  \<open>internal/service/mihomo_account.go\<close>: the twelve handlers of the account service. Each checks the
  request, verifies the service ticket, derives the scope guard for the action it needs, calls one
  use case and maps its errors to gRPC codes. A nil request is \<open>None\<close>.
\<close>

record ('w, 'o) MihomoAccountService =
  ms_ticketVerifier :: "'w TicketVerifier"
  ms_bindUC :: "'w BindUsecase"
  ms_statusUC :: "('w, 'o) StatusUsecase"
  ms_profileUC :: "'w ProfileUsecase"
  ms_authkeyUC :: "('w, 'o) AuthkeyUsecase"
  ms_managementUC :: "'w ManagementUsecase"

definition NewMihomoAccountService :: "'w TicketVerifier \<Rightarrow> 'w BindUsecase \<Rightarrow> ('w, 'o) StatusUsecase \<Rightarrow>
    'w ProfileUsecase \<Rightarrow> ('w, 'o) AuthkeyUsecase \<Rightarrow> 'w ManagementUsecase \<Rightarrow> ('w, 'o) MihomoAccountService" where
  "NewMihomoAccountService ticketVerifier bindUC statusUC profileUC authkeyUC managementUC = \<lparr>
     ms_ticketVerifier = ticketVerifier, ms_bindUC = bindUC, ms_statusUC = statusUC, ms_profileUC = profileUC,
     ms_authkeyUC = authkeyUC, ms_managementUC = managementUC \<rparr>"

definition request_is_required :: Status where
  "request_is_required = status_error InvalidArgument ''request is required''"

definition device_is_required :: Status where
  "device_is_required = status_error InvalidArgument ''device is required''"

abbreviation mapped :: "('w, 'a) io \<Rightarrow> ('w, Status, 'a) call" where
  "mapped m \<equiv> map_error mapUsecaseError m"

definition MihomoAccount_BindCredential ::
    "env \<Rightarrow> jwt_parser \<Rightarrow> ('z base_world_scheme, 'o) MihomoAccountService \<Rightarrow> ctx \<Rightarrow> BindCredentialRequest option \<Rightarrow>
     ('z base_world_scheme, Status, BindCredentialResponse) call" where
  "MihomoAccount_BindCredential E jwt s ctx req = (case req of
     None \<Rightarrow> fail request_is_required
   | Some req \<Rightarrow>
       bind_io (verifyServiceTicket E jwt (ms_ticketVerifier s) ctx (bcr_ServiceTicket req)) (\<lambda>claims.
       bind_io (mapped (lift_res (scopedGuard claims [ActionCredentialBind]))) (\<lambda>guard.
       then_io (mapped (lift_res (RequireBindingWide guard)))
       (bind_io (mapped (BindCredential E (ms_bindUC s) ctx (toBindCredentialInput req claims))) (\<lambda>output.
        case output of
          None \<Rightarrow> fail (status_error GoPanic [])
        | Some output \<Rightarrow> ret (toBindCredentialResponse output))))))"

definition MihomoAccount_GetCredentialStatus ::
    "env \<Rightarrow> jwt_parser \<Rightarrow> ('z base_world_scheme, 'o) MihomoAccountService \<Rightarrow> ctx \<Rightarrow> AccountRequest option \<Rightarrow>
     ('z base_world_scheme, Status, GetCredentialStatusResponse) call" where
  "MihomoAccount_GetCredentialStatus E jwt s ctx req = (case req of
     None \<Rightarrow> fail request_is_required
   | Some req \<Rightarrow>
       bind_io (verifyServiceTicket E jwt (ms_ticketVerifier s) ctx (acr_ServiceTicket req)) (\<lambda>claims.
       bind_io (mapped (lift_res
         (scopedGuardForPlatformAccount claims (acr_PlatformAccountId req) [ActionStatusRead]))) (\<lambda>guard.
       then_io (mapped (lift_res (RequireBindingWide guard)))
       (bind_io (mapped (StatusUsecase_GetCredentialStatus (ms_statusUC s) ctx (acr_PlatformAccountId req))) (\<lambda>output.
        ret \<lparr> gcs_Status = gso_Status output,
              gcs_LastValidatedAt = toTimestamp (gso_LastValidatedAt output) \<rparr>)))))"

definition MihomoAccount_ValidateCredential ::
    "env \<Rightarrow> jwt_parser \<Rightarrow> ('z base_world_scheme, 'o) MihomoAccountService \<Rightarrow> ctx \<Rightarrow> AccountRequest option \<Rightarrow>
     ('z base_world_scheme, Status, ValidateCredentialResponse) call" where
  "MihomoAccount_ValidateCredential E jwt s ctx req = (case req of
     None \<Rightarrow> fail request_is_required
   | Some req \<Rightarrow>
       bind_io (verifyServiceTicket E jwt (ms_ticketVerifier s) ctx (acr_ServiceTicket req)) (\<lambda>claims.
       bind_io (mapped (lift_res
         (scopedGuardForPlatformAccount claims (acr_PlatformAccountId req) [ActionStatusRead]))) (\<lambda>guard.
       then_io (mapped (lift_res (RequireBindingWide guard)))
       (bind_io (mapped (StatusUsecase_ValidateCredential E (ms_statusUC s) ctx (acr_PlatformAccountId req))) (\<lambda>output.
        ret \<lparr> vcs_Status = vco_Status output, vcs_ErrorCode = vco_ErrorCode output \<rparr>)))))"

definition MihomoAccount_RefreshCredential ::
    "env \<Rightarrow> jwt_parser \<Rightarrow> ('z base_world_scheme, 'o) MihomoAccountService \<Rightarrow> ctx \<Rightarrow> AccountRequest option \<Rightarrow>
     ('z base_world_scheme, Status, RefreshCredentialResponse) call" where
  "MihomoAccount_RefreshCredential E jwt s ctx req = (case req of
     None \<Rightarrow> fail request_is_required
   | Some req \<Rightarrow>
       bind_io (verifyServiceTicket E jwt (ms_ticketVerifier s) ctx (acr_ServiceTicket req)) (\<lambda>claims.
       bind_io (mapped (lift_res
         (scopedGuardForPlatformAccount claims (acr_PlatformAccountId req) [ActionCredentialRefresh]))) (\<lambda>guard.
       then_io (mapped (lift_res (RequireBindingWide guard)))
       (bind_io (mapped (StatusUsecase_RefreshCredential E (ms_statusUC s) ctx (acr_PlatformAccountId req))) (\<lambda>output.
        ret \<lparr> rcs_Status = rco_Status output, rcs_RefreshedAt = toTimestamp (rco_RefreshedAt output) \<rparr>)))))"

definition MihomoAccount_ListProfiles ::
    "env \<Rightarrow> jwt_parser \<Rightarrow> ('z base_world_scheme, 'o) MihomoAccountService \<Rightarrow> ctx \<Rightarrow> AccountRequest option \<Rightarrow>
     ('z base_world_scheme, Status, ProfileSummary list) call" where
  "MihomoAccount_ListProfiles E jwt s ctx req = (case req of
     None \<Rightarrow> fail request_is_required
   | Some req \<Rightarrow>
       bind_io (verifyServiceTicket E jwt (ms_ticketVerifier s) ctx (acr_ServiceTicket req)) (\<lambda>claims.
       bind_io (mapped (lift_res
         (scopedGuardForPlatformAccount claims (acr_PlatformAccountId req) [ActionProfileRead]))) (\<lambda>guard.
       mapped (ListProfilesWithScope (ms_profileUC s) ctx guard (acr_PlatformAccountId req)))))"

definition MihomoAccount_GetPrimaryProfile ::
    "env \<Rightarrow> jwt_parser \<Rightarrow> ('z base_world_scheme, 'o) MihomoAccountService \<Rightarrow> ctx \<Rightarrow> AccountRequest option \<Rightarrow>
     ('z base_world_scheme, Status, ProfileSummary option) call" where
  "MihomoAccount_GetPrimaryProfile E jwt s ctx req = (case req of
     None \<Rightarrow> fail request_is_required
   | Some req \<Rightarrow>
       bind_io (verifyServiceTicket E jwt (ms_ticketVerifier s) ctx (acr_ServiceTicket req)) (\<lambda>claims.
       bind_io (mapped (lift_res
         (scopedGuardForPlatformAccount claims (acr_PlatformAccountId req) [ActionProfileRead]))) (\<lambda>guard.
       mapped (GetPrimaryProfileWithScope (ms_profileUC s) ctx guard (acr_PlatformAccountId req)))))"

definition MihomoAccount_GetAuthKey ::
    "env \<Rightarrow> jwt_parser \<Rightarrow> ('z base_world_scheme, 'o) MihomoAccountService \<Rightarrow> ctx \<Rightarrow> PlayerRequest option \<Rightarrow>
     ('z base_world_scheme, Status, GetAuthKeyResponse) call" where
  "MihomoAccount_GetAuthKey E jwt s ctx req = (case req of
     None \<Rightarrow> fail request_is_required
   | Some req \<Rightarrow>
       bind_io (verifyServiceTicket E jwt (ms_ticketVerifier s) ctx (plr_ServiceTicket req)) (\<lambda>claims.
       bind_io (mapped (lift_res
         (scopedGuardForPlatformAccount claims (plr_PlatformAccountId req) [ActionAuthKeyIssue]))) (\<lambda>guard.
       then_io (mapped (RequireProfileAccessByPlayerID (ms_profileUC s) ctx guard
                  (plr_PlatformAccountId req) (plr_PlayerId req)))
       (bind_io (mapped (GetAuthKey E (ms_authkeyUC s) ctx (plr_PlatformAccountId req) (plr_PlayerId req))) (\<lambda>output.
        ret \<lparr> gak_Authkey = ak_AuthKey output, gak_ExpiresAt = toTimestamp (Some (ak_ExpiresAt output)) \<rparr>)))))"

definition MihomoAccount_GetCredentialSummary ::
    "env \<Rightarrow> jwt_parser \<Rightarrow> ('z base_world_scheme, 'o) MihomoAccountService \<Rightarrow> ctx \<Rightarrow> AccountRequest option \<Rightarrow>
     ('z base_world_scheme, Status, CredentialSummary option) call" where
  "MihomoAccount_GetCredentialSummary E jwt s ctx req = (case req of
     None \<Rightarrow> fail request_is_required
   | Some req \<Rightarrow>
       bind_io (verifyServiceTicket E jwt (ms_ticketVerifier s) ctx (acr_ServiceTicket req)) (\<lambda>claims.
       bind_io (mapped (lift_res (scopedGuard claims [ActionCredentialRead]))) (\<lambda>guard.
       bind_io (mapped (ManagementUsecase_GetCredentialSummaryWithScope (ms_managementUC s) ctx guard
                  (acr_PlatformAccountId req))) (\<lambda>output.
       ret (toCredentialSummary (Some output))))))"

text \<open>The device check comes after the guard, so that it answers permitted callers only.\<close>

definition MihomoAccount_UpdateCredential ::
    "env \<Rightarrow> jwt_parser \<Rightarrow> ('z base_world_scheme, 'o) MihomoAccountService \<Rightarrow> ctx \<Rightarrow> UpdateCredentialRequest option \<Rightarrow>
     ('z base_world_scheme, Status, CredentialSummary option) call" where
  "MihomoAccount_UpdateCredential E jwt s ctx req = (case req of
     None \<Rightarrow> fail request_is_required
   | Some req \<Rightarrow>
       bind_io (verifyServiceTicket E jwt (ms_ticketVerifier s) ctx (ucr_ServiceTicket req)) (\<lambda>claims.
       bind_io (mapped (lift_res (scopedGuard claims [ActionCredentialUpdate]))) (\<lambda>guard.
       case ucr_Device req of
         None \<Rightarrow> fail device_is_required
       | Some device \<Rightarrow>
           (let input = \<lparr> ui_PlatformAccountID = ucr_PlatformAccountId req,
                          ui_BindCredentialInput = \<lparr>
                            bi_BindingID = tc_BindingID claims, bi_CookieBundleJSON = ucr_CookieBundleJson req,
                            bi_DeviceID = di_DeviceId device, bi_DeviceFP = di_DeviceFp device,
                            bi_DeviceName = di_DeviceName device, bi_RegionHint = ucr_RegionHint req \<rparr> \<rparr> in
            bind_io (mapped (ManagementUsecase_UpdateCredentialWithScope E (ms_managementUC s) ctx guard input))
              (\<lambda>output. ret (toCredentialSummary (Some output)))))))"

definition MihomoAccount_DeleteCredential ::
    "env \<Rightarrow> jwt_parser \<Rightarrow> ('z base_world_scheme, 'o) MihomoAccountService \<Rightarrow> ctx \<Rightarrow> AccountRequest option \<Rightarrow>
     ('z base_world_scheme, Status, bool) call" where
  "MihomoAccount_DeleteCredential E jwt s ctx req = (case req of
     None \<Rightarrow> fail request_is_required
   | Some req \<Rightarrow>
       bind_io (verifyServiceTicket E jwt (ms_ticketVerifier s) ctx (acr_ServiceTicket req)) (\<lambda>claims.
       bind_io (mapped (lift_res (scopedGuard claims [ActionCredentialDelete]))) (\<lambda>guard.
       then_io (mapped (ManagementUsecase_DeleteCredentialWithScope (ms_managementUC s) ctx guard
                  (acr_PlatformAccountId req)))
       (ret True))))"

definition MihomoAccount_UpsertDevice ::
    "env \<Rightarrow> jwt_parser \<Rightarrow> ('z base_world_scheme, 'o) MihomoAccountService \<Rightarrow> ctx \<Rightarrow> UpsertDeviceRequest option \<Rightarrow>
     ('z base_world_scheme, Status, bool) call" where
  "MihomoAccount_UpsertDevice E jwt s ctx req = (case req of
     None \<Rightarrow> fail request_is_required
   | Some req \<Rightarrow>
       bind_io (verifyServiceTicket E jwt (ms_ticketVerifier s) ctx (udr_ServiceTicket req)) (\<lambda>claims.
       bind_io (mapped (lift_res
         (scopedGuardForPlatformAccount claims (udr_PlatformAccountId req) [ActionDeviceUpdate]))) (\<lambda>guard.
       then_io (mapped (lift_res (RequireBindingWide guard)))
       (case udr_Device req of
          None \<Rightarrow> fail device_is_required
        | Some device \<Rightarrow>
            then_io (mapped (UpsertDevice E (ms_bindUC s) ctx (udr_PlatformAccountId req)
                       (di_DeviceId device) (di_DeviceFp device) (di_DeviceName device)))
            (ret True)))))"

definition MihomoAccount_ConfirmPrimaryProfile ::
    "env \<Rightarrow> jwt_parser \<Rightarrow> ('z base_world_scheme, 'o) MihomoAccountService \<Rightarrow> ctx \<Rightarrow> PlayerRequest option \<Rightarrow>
     ('z base_world_scheme, Status, ProfileSummary) call" where
  "MihomoAccount_ConfirmPrimaryProfile E jwt s ctx req = (case req of
     None \<Rightarrow> fail request_is_required
   | Some req \<Rightarrow>
       bind_io (verifyServiceTicket E jwt (ms_ticketVerifier s) ctx (plr_ServiceTicket req)) (\<lambda>claims.
       bind_io (mapped (lift_res
         (scopedGuardForPlatformAccount claims (plr_PlatformAccountId req) [ActionProfileWrite]))) (\<lambda>guard.
       then_io (mapped (lift_res (RequireBindingWide guard)))
       (mapped (ConfirmPrimaryProfileWithScope (ms_profileUC s) ctx guard
          (plr_PlatformAccountId req) (plr_PlayerId req))))))"

section \<open>Against the contract of the services\<close>

context services
begin

abbreviation account_service where
  "account_service \<equiv> \<lparr> ms_ticketVerifier = verifier, ms_bindUC = bind_uc client enc_key,
     ms_statusUC = status_uc enc_key, ms_profileUC = profile_uc, ms_authkeyUC = authkey_uc enc_key,
     ms_managementUC = management_uc enc_key \<rparr>"

lemma rpc_bind_keeps:
  assumes "writes" "in_ctx ctx" "\<And>r. req = Some r \<Longrightarrow> tickets (bcr_ServiceTicket r)"
  shows "keeps I R (\<lambda>_. True) (MihomoAccount_BindCredential E jwt account_service ctx req)"
  unfolding MihomoAccount_BindCredential_def using assms
  by (auto intro!: scoped_keeps io_mapped_guard io_bind[OF io_map_error[OF bind_keeps]] io_ret io_fail
      simp: toBindCredentialInput_def Let_def split: option.split)

lemma rpc_status_keeps:
  assumes "in_ctx ctx" "\<And>r. req = Some r \<Longrightarrow> tickets (acr_ServiceTicket r)"
  shows "keeps I R (\<lambda>_. True) (MihomoAccount_GetCredentialStatus E jwt account_service ctx req)"
  unfolding MihomoAccount_GetCredentialStatus_def using assms
  by (auto intro!: account_keeps io_mapped_guard io_bind[OF io_map_error[OF read_status_keeps]] io_ret io_fail
      split: option.split)

lemma rpc_validate_keeps:
  assumes "writes" "in_ctx ctx" "\<And>r. req = Some r \<Longrightarrow> tickets (acr_ServiceTicket r)"
  shows "keeps I R (\<lambda>_. True) (MihomoAccount_ValidateCredential E jwt account_service ctx req)"
  unfolding MihomoAccount_ValidateCredential_def using assms
  by (auto intro!: account_keeps io_mapped_guard io_bind[OF io_map_error[OF validate_keeps]] io_ret io_fail
      split: option.split)

lemma rpc_refresh_keeps:
  assumes "writes" "in_ctx ctx" "\<And>r. req = Some r \<Longrightarrow> tickets (acr_ServiceTicket r)"
  shows "keeps I R (\<lambda>_. True) (MihomoAccount_RefreshCredential E jwt account_service ctx req)"
  unfolding MihomoAccount_RefreshCredential_def using assms
  by (auto intro!: account_keeps io_mapped_guard io_bind[OF io_map_error[OF refresh_keeps]] io_ret io_fail
      split: option.split)

lemma rpc_list_keeps:
  assumes "in_ctx ctx" "\<And>r. req = Some r \<Longrightarrow> tickets (acr_ServiceTicket r)"
  shows "keeps I R (\<lambda>_. True) (MihomoAccount_ListProfiles E jwt account_service ctx req)"
  unfolding MihomoAccount_ListProfiles_def using assms
  by (auto intro!: account_keeps io_map_error[OF list_profiles_scoped_keeps] io_fail split: option.split)

lemma rpc_primary_keeps:
  assumes "in_ctx ctx" "\<And>r. req = Some r \<Longrightarrow> tickets (acr_ServiceTicket r)"
  shows "keeps I R (\<lambda>_. True) (MihomoAccount_GetPrimaryProfile E jwt account_service ctx req)"
  unfolding MihomoAccount_GetPrimaryProfile_def using assms
  by (auto intro!: account_keeps io_map_error[OF primary_scoped_keeps] io_fail split: option.split)

lemma rpc_auth_key_keeps:
  assumes "writes" "in_ctx ctx" "\<And>r. req = Some r \<Longrightarrow> tickets (plr_ServiceTicket r)"
  shows "keeps I R (\<lambda>_. True) (MihomoAccount_GetAuthKey E jwt account_service ctx req)"
  unfolding MihomoAccount_GetAuthKey_def using assms
  by (auto intro!: account_keeps io_then[OF io_map_error[OF access_keeps]] io_bind[OF io_map_error[OF auth_key_keeps]]
      io_ret io_fail split: option.split)

lemma rpc_summary_keeps:
  assumes "in_ctx ctx" "\<And>r. req = Some r \<Longrightarrow> tickets (acr_ServiceTicket r)"
  shows "keeps I R (\<lambda>_. True) (MihomoAccount_GetCredentialSummary E jwt account_service ctx req)"
  unfolding MihomoAccount_GetCredentialSummary_def using assms
  by (auto intro!: scoped_keeps io_bind[OF io_map_error[OF summary_scoped_keeps]] io_ret io_fail split: option.split)

lemma rpc_update_keeps:
  assumes "writes" "in_ctx ctx" "\<And>r. req = Some r \<Longrightarrow> tickets (ucr_ServiceTicket r)"
  shows "keeps I R (\<lambda>_. True) (MihomoAccount_UpdateCredential E jwt account_service ctx req)"
  unfolding MihomoAccount_UpdateCredential_def Let_def using assms
  by (auto intro!: scoped_keeps io_bind[OF io_map_error[OF update_scoped_keeps]] io_ret io_fail split: option.split)

lemma rpc_delete_keeps:
  assumes "writes" "in_ctx ctx" "\<And>r. req = Some r \<Longrightarrow> tickets (acr_ServiceTicket r)"
  shows "keeps I R (\<lambda>_. True) (MihomoAccount_DeleteCredential E jwt account_service ctx req)"
  unfolding MihomoAccount_DeleteCredential_def using assms
  by (auto intro!: scoped_keeps io_then[OF io_map_error[OF delete_scoped_keeps]] io_ret io_fail split: option.split)

lemma rpc_device_keeps:
  assumes "writes" "in_ctx ctx" "\<And>r. req = Some r \<Longrightarrow> tickets (udr_ServiceTicket r)"
  shows "keeps I R (\<lambda>_. True) (MihomoAccount_UpsertDevice E jwt account_service ctx req)"
  unfolding MihomoAccount_UpsertDevice_def using assms
  by (auto intro!: account_keeps io_mapped_guard io_then[OF io_map_error[OF upsert_device_keeps]] io_ret io_fail
      split: option.split)

lemma rpc_confirm_keeps:
  assumes "writes" "in_ctx ctx" "\<And>r. req = Some r \<Longrightarrow> tickets (plr_ServiceTicket r)"
  shows "keeps I R (\<lambda>_. True) (MihomoAccount_ConfirmPrimaryProfile E jwt account_service ctx req)"
  unfolding MihomoAccount_ConfirmPrimaryProfile_def using assms
  by (auto intro!: account_keeps io_mapped_guard io_map_error[OF confirm_scoped_keeps] io_fail split: option.split)

end

end
