(* ===== verification/MihomoCredential.thy ===== *)
theory MihomoCredential
  imports MihomoAccount
begin

text \<open>
  \<open>internal/service/mihomo_credential_service.go\<close>: the summary handler of the shared contract
  (\<open>proto-contracts/mihomo/v1\<close>, a package outside the repository: its messages are records of the
  fields the handler reads and writes, its status enum a datatype of the constants the code names).
\<close>

datatype SharedCredentialStatus =
    SHARED_STATUS_UNSPECIFIED
  | SHARED_STATUS_ACTIVE
  | SHARED_STATUS_EXPIRED
  | SHARED_STATUS_INVALID
  | SHARED_STATUS_CHALLENGE_REQUIRED

record 's SummaryResponse =
  sr_PlatformAccountId :: string
  sr_Status :: 's
  sr_LastValidatedAt :: "gotime option"
  sr_LastRefreshedAt :: "gotime option"
  sr_Devices :: "DeviceSummary list"
  sr_Profiles :: "ProfileSummary list"

record 'w MihomoCredentialService =
  mc_ticketVerifier :: "'w TicketVerifier"
  mc_managementUC :: "'w ManagementUsecase"

definition NewMihomoCredentialService :: "'w TicketVerifier \<Rightarrow> 'w ManagementUsecase \<Rightarrow> 'w MihomoCredentialService" where
  "NewMihomoCredentialService ticketVerifier managementUC = \<lparr>
     mc_ticketVerifier = ticketVerifier, mc_managementUC = managementUC \<rparr>"

fun toSharedCredentialStatus :: "CredentialStatus \<Rightarrow> SharedCredentialStatus" where
  "toSharedCredentialStatus CREDENTIAL_STATUS_ACTIVE = SHARED_STATUS_ACTIVE"
| "toSharedCredentialStatus CREDENTIAL_STATUS_EXPIRED = SHARED_STATUS_EXPIRED"
| "toSharedCredentialStatus CREDENTIAL_STATUS_INVALID = SHARED_STATUS_INVALID"
| "toSharedCredentialStatus CREDENTIAL_STATUS_CHALLENGE_REQUIRED = SHARED_STATUS_CHALLENGE_REQUIRED"
| "toSharedCredentialStatus CREDENTIAL_STATUS_UNSPECIFIED = SHARED_STATUS_UNSPECIFIED"

text \<open>The field by field copies of the two loops that both summary mappings have.\<close>

definition contract_profiles :: "ProfileSummary list \<Rightarrow> ProfileSummary list" where
  "contract_profiles profiles = map (\<lambda>profile. \<lparr>
     ps_Id = ps_Id profile, ps_PlatformAccountId = ps_PlatformAccountId profile,
     ps_GameBiz = ps_GameBiz profile, ps_Region = ps_Region profile, ps_PlayerId = ps_PlayerId profile,
     ps_Nickname = ps_Nickname profile, ps_Level = ps_Level profile,
     ps_IsDefault = ps_IsDefault profile \<rparr>) profiles"

definition contract_devices :: "Device list \<Rightarrow> DeviceSummary list" where
  "contract_devices devices = map (\<lambda>device. \<lparr>
     ds_DeviceId = dv_DeviceID device, ds_DeviceFp = dv_DeviceFP device,
     ds_DeviceName = derefString (dv_DeviceName device), ds_IsValid = dv_IsValid device,
     ds_LastSeenAt = toTimestamp (dv_LastSeenAt device) \<rparr>) devices"

definition toSharedCredentialSummary :: "CredentialSummaryOutput \<Rightarrow> SharedCredentialStatus SummaryResponse" where
  "toSharedCredentialSummary output = \<lparr>
     sr_PlatformAccountId = so_PlatformAccountID output,
     sr_Status = toSharedCredentialStatus (so_Status output),
     sr_LastValidatedAt = toTimestamp (so_LastValidatedAt output),
     sr_LastRefreshedAt = toTimestamp (so_LastRefreshedAt output),
     sr_Devices = contract_devices (so_Devices output),
     sr_Profiles = contract_profiles (so_Profiles output) \<rparr>"

definition MihomoCredential_GetCredentialSummary ::
    "env \<Rightarrow> jwt_parser \<Rightarrow> ('z base_world_scheme) MihomoCredentialService \<Rightarrow> ctx \<Rightarrow> AccountRequest option \<Rightarrow>
     ('z base_world_scheme, Status, SharedCredentialStatus SummaryResponse) call" where
  "MihomoCredential_GetCredentialSummary E jwt s ctx req = (case req of
     None \<Rightarrow> fail request_is_required
   | Some req \<Rightarrow>
       bind_io (verifyServiceTicket E jwt (mc_ticketVerifier s) ctx (acr_ServiceTicket req)) (\<lambda>claims.
       bind_io (mapped (lift_res
         (scopedGuardForPlatformAccount claims (acr_PlatformAccountId req) [ActionCredentialRead]))) (\<lambda>guard.
       bind_io (mapped (ManagementUsecase_GetCredentialSummaryWithScope (mc_managementUC s) ctx guard
                  (acr_PlatformAccountId req))) (\<lambda>output.
       ret (toSharedCredentialSummary output)))))"

context services
begin

abbreviation credential_service where
  "credential_service \<equiv> \<lparr> mc_ticketVerifier = verifier, mc_managementUC = management_uc enc_key \<rparr>"

lemma rpc_shared_summary_keeps:
  assumes "in_ctx ctx" "\<And>r. req = Some r \<Longrightarrow> tickets (acr_ServiceTicket r)"
  shows "keeps I R (\<lambda>_. True) (MihomoCredential_GetCredentialSummary E jwt credential_service ctx req)"
  unfolding MihomoCredential_GetCredentialSummary_def using assms
  by (auto intro!: account_keeps io_bind[OF io_map_error[OF summary_scoped_keeps]] io_ret io_fail split: option.split)

end

end
