(* ===== verification/JsonScan.thy ===== *)
theory JsonScan
  imports GoStrings
begin

text \<open>
  The scanner of \<open>encoding/json\<close> (\<open>scanner.go\<close> of the standard library), the state machine that
  \<open>json.Unmarshal\<close> runs over the whole text before it decodes anything: one step per byte, a stack that
  says which objects and arrays are open, and the error texts that the service hands to its caller. While it
  scans, \<open>scan_text\<close> cuts out the members of the top-level object: the raw text of each key and value.
\<close>

section \<open>Steps\<close>

datatype parse_state = ParseObjectKey | ParseObjectValue | ParseArrayValue

datatype scan_step =
    BeginValue | BeginValueOrEmpty | BeginStringOrEmpty | BeginString | EndValue | EndTop
  | InString | InStringEsc | InStringEscU nat
  | Neg | Num1 | Num0 | Dot | Dot0 | Exp | ExpSign | Exp0
  | InLiteral string string

datatype opcode =
    ScanContinue | ScanBeginLiteral | ScanBeginObject | ScanObjectKey | ScanObjectValue | ScanEndObject
  | ScanBeginArray | ScanArrayValue | ScanEndArray | ScanSkipSpace | ScanEnd

type_synonym scanner = "scan_step \<times> parse_state list"

definition maxNestingDepth :: nat where
  "maxNestingDepth = 10000"

definition json_space :: "char \<Rightarrow> bool" where
  "json_space c \<longleftrightarrow> byte_code c \<in> {32, 9, 13, 10}"

abbreviation backslash :: char where "backslash \<equiv> CHR 0x5C"
abbreviation quote_mark :: char where "quote_mark \<equiv> CHR 0x22"

text \<open>
  \<open>quoteChar\<close>: the byte as a rune, quoted by \<open>strconv.Quote\<close> with single quotes around it. The bytes from
  128 are the runes U+0080 to U+00FF, of which U+0080 to U+00A0 and U+00AD are not printable.
\<close>

definition quoteChar :: "char \<Rightarrow> string" where
  "quoteChar c = (let n = byte_code c in
     if c = CHR 0x27 then [CHR 0x27, backslash, CHR 0x27, CHR 0x27]
     else if c = quote_mark then [CHR 0x27, quote_mark, CHR 0x27]
     else if n < 128 then CHR 0x27 # quote_byte c @ [CHR 0x27]
     else if n \<le> 160 \<or> n = 173 then [CHR 0x27, backslash] @ ''u00'' @ [hex_digit (n div 16), hex_digit (n mod 16), CHR 0x27]
     else [CHR 0x27, char_of (192 + n div 64), char_of (128 + n mod 64), CHR 0x27])"

definition scan_error :: "char \<Rightarrow> string \<Rightarrow> error" where
  "scan_error c context_text = ErrText (''invalid character '' @ quoteChar c @ '' '' @ context_text)"

definition pushParseState :: "char \<Rightarrow> parse_state \<Rightarrow> scan_step \<Rightarrow> parse_state list \<Rightarrow> opcode \<Rightarrow> error + opcode \<times> scanner" where
  "pushParseState c new step stack success =
     (if Suc (length stack) \<le> maxNestingDepth then Inr (success, step, new # stack)
      else Inl (scan_error c ''exceeded max depth''))"

definition popParseState :: "parse_state list \<Rightarrow> scanner" where
  "popParseState stack = (case stack of [] \<Rightarrow> (EndTop, []) | _ # rest \<Rightarrow> (if rest = [] then EndTop else EndValue, rest))"

text \<open>\<open>stateEndValue\<close> and, with nothing open, \<open>stateEndTop\<close>.\<close>

definition stateEndTop :: "char \<Rightarrow> error + opcode \<times> scanner" where
  "stateEndTop c = (if json_space c then Inr (ScanEnd, EndTop, []) else Inl (scan_error c ''after top-level value''))"

definition stateEndValue :: "parse_state list \<Rightarrow> char \<Rightarrow> error + opcode \<times> scanner" where
  "stateEndValue stack c = (case stack of
      [] \<Rightarrow> stateEndTop c
    | ps # rest \<Rightarrow>
        if json_space c then Inr (ScanSkipSpace, EndValue, stack)
        else (case ps of
            ParseObjectKey \<Rightarrow>
              if c = CHR '':'' then Inr (ScanObjectKey, BeginValue, ParseObjectValue # rest)
              else Inl (scan_error c ''after object key'')
          | ParseObjectValue \<Rightarrow>
              if c = CHR '','' then Inr (ScanObjectValue, BeginString, ParseObjectKey # rest)
              else if c = CHR ''}'' then Inr (ScanEndObject, popParseState stack)
              else Inl (scan_error c ''after object key:value pair'')
          | ParseArrayValue \<Rightarrow>
              if c = CHR '','' then Inr (ScanArrayValue, BeginValue, stack)
              else if c = CHR '']'' then Inr (ScanEndArray, popParseState stack)
              else Inl (scan_error c ''after array element'')))"

definition stateBeginValue :: "parse_state list \<Rightarrow> char \<Rightarrow> error + opcode \<times> scanner" where
  "stateBeginValue stack c =
     (if json_space c then Inr (ScanSkipSpace, BeginValue, stack)
      else if c = CHR ''{'' then pushParseState c ParseObjectKey BeginStringOrEmpty stack ScanBeginObject
      else if c = CHR ''['' then pushParseState c ParseArrayValue BeginValueOrEmpty stack ScanBeginArray
      else if c = quote_mark then Inr (ScanBeginLiteral, InString, stack)
      else if c = CHR ''-'' then Inr (ScanBeginLiteral, Neg, stack)
      else if c = CHR ''0'' then Inr (ScanBeginLiteral, Num0, stack)
      else if c = CHR ''t'' then Inr (ScanBeginLiteral, InLiteral ''true'' ''rue'', stack)
      else if c = CHR ''f'' then Inr (ScanBeginLiteral, InLiteral ''false'' ''alse'', stack)
      else if c = CHR ''n'' then Inr (ScanBeginLiteral, InLiteral ''null'' ''ull'', stack)
      else if is_digit c then Inr (ScanBeginLiteral, Num1, stack)
      else Inl (scan_error c ''looking for beginning of value''))"

definition stateBeginString :: "parse_state list \<Rightarrow> char \<Rightarrow> error + opcode \<times> scanner" where
  "stateBeginString stack c =
     (if json_space c then Inr (ScanSkipSpace, BeginString, stack)
      else if c = quote_mark then Inr (ScanBeginLiteral, InString, stack)
      else Inl (scan_error c ''looking for beginning of object key string''))"

definition is_hex :: "char \<Rightarrow> bool" where
  "is_hex c \<longleftrightarrow> is_digit c \<or> 97 \<le> byte_code c \<and> byte_code c \<le> 102 \<or> 65 \<le> byte_code c \<and> byte_code c \<le> 70"

definition state0 :: "parse_state list \<Rightarrow> char \<Rightarrow> error + opcode \<times> scanner" where
  "state0 stack c =
     (if c = CHR ''.'' then Inr (ScanContinue, Dot, stack)
      else if c = CHR ''e'' \<or> c = CHR ''E'' then Inr (ScanContinue, Exp, stack)
      else stateEndValue stack c)"

definition stateESign :: "parse_state list \<Rightarrow> char \<Rightarrow> error + opcode \<times> scanner" where
  "stateESign stack c =
     (if is_digit c then Inr (ScanContinue, Exp0, stack) else Inl (scan_error c ''in exponent of numeric literal''))"

fun scan_char :: "scanner \<Rightarrow> char \<Rightarrow> error + opcode \<times> scanner" where
  "scan_char (BeginValue, stack) c = stateBeginValue stack c"
| "scan_char (BeginValueOrEmpty, stack) c =
     (if json_space c then Inr (ScanSkipSpace, BeginValueOrEmpty, stack)
      else if c = CHR '']'' then stateEndValue stack c else stateBeginValue stack c)"
| "scan_char (BeginStringOrEmpty, stack) c =
     (if json_space c then Inr (ScanSkipSpace, BeginStringOrEmpty, stack)
      else if c = CHR ''}'' then stateEndValue (ParseObjectValue # tl stack) c else stateBeginString stack c)"
| "scan_char (BeginString, stack) c = stateBeginString stack c"
| "scan_char (EndValue, stack) c = stateEndValue stack c"
| "scan_char (EndTop, stack) c = stateEndTop c"
| "scan_char (InString, stack) c =
     (if c = quote_mark then Inr (ScanContinue, EndValue, stack)
      else if c = backslash then Inr (ScanContinue, InStringEsc, stack)
      else if byte_code c < 32 then Inl (scan_error c ''in string literal'')
      else Inr (ScanContinue, InString, stack))"
| "scan_char (InStringEsc, stack) c =
     (if c \<in> {CHR ''b'', CHR ''f'', CHR ''n'', CHR ''r'', CHR ''t'', backslash, CHR ''/'', quote_mark}
      then Inr (ScanContinue, InString, stack)
      else if c = CHR ''u'' then Inr (ScanContinue, InStringEscU 0, stack)
      else Inl (scan_error c ''in string escape code''))"
| "scan_char (InStringEscU n, stack) c =
     (if is_hex c then Inr (ScanContinue, if n < 3 then InStringEscU (Suc n) else InString, stack)
      else Inl (scan_error c (''in '' @ [backslash] @ ''u hexadecimal character escape'')))"
| "scan_char (Neg, stack) c =
     (if c = CHR ''0'' then Inr (ScanContinue, Num0, stack)
      else if is_digit c then Inr (ScanContinue, Num1, stack)
      else Inl (scan_error c ''in numeric literal''))"
| "scan_char (Num1, stack) c = (if is_digit c then Inr (ScanContinue, Num1, stack) else state0 stack c)"
| "scan_char (Num0, stack) c = state0 stack c"
| "scan_char (Dot, stack) c =
     (if is_digit c then Inr (ScanContinue, Dot0, stack)
      else Inl (scan_error c ''after decimal point in numeric literal''))"
| "scan_char (Dot0, stack) c =
     (if is_digit c then Inr (ScanContinue, Dot0, stack)
      else if c = CHR ''e'' \<or> c = CHR ''E'' then Inr (ScanContinue, Exp, stack)
      else stateEndValue stack c)"
| "scan_char (Exp, stack) c =
     (if c = CHR ''+'' \<or> c = CHR ''-'' then Inr (ScanContinue, ExpSign, stack) else stateESign stack c)"
| "scan_char (ExpSign, stack) c = stateESign stack c"
| "scan_char (Exp0, stack) c = (if is_digit c then Inr (ScanContinue, Exp0, stack) else stateEndValue stack c)"
| "scan_char (InLiteral name [], stack) c = stateEndValue stack c"
| "scan_char (InLiteral name (x # xs), stack) c =
     (if c = x then Inr (ScanContinue, if xs = [] then EndValue else InLiteral name xs, stack)
      else Inl (scan_error c (''in literal '' @ name @ '' (expecting '' @ quoteChar x @ '')'')))"

text \<open>\<open>eof\<close>: a blank ends a number; anything still open is the end of the input too early.\<close>

definition scan_eof :: "scanner \<Rightarrow> error + unit" where
  "scan_eof s = (if fst s = EndTop then Inr () else
     (case scan_char s (CHR '' '') of
        Inl e \<Rightarrow> Inl e
      | Inr (_, s') \<Rightarrow> if fst s' = EndTop then Inr () else Inl (ErrText ''unexpected end of JSON input'')))"

section \<open>The members of the top-level object\<close>

text \<open>
  \<open>rd_depth\<close> objects and arrays are open, \<open>rd_text\<close> is the raw key or value read so far at the top level
  and \<open>rd_key\<close> the key whose value is being read.
\<close>

record reader =
  rd_depth :: nat
  rd_text :: string
  rd_key :: "string option"
  rd_members :: "(string \<times> string) list"

definition new_reader :: reader where
  "new_reader = \<lparr> rd_depth = 0, rd_text = [], rd_key = None, rd_members = [] \<rparr>"

definition keep_char :: "char \<Rightarrow> reader \<Rightarrow> reader" where
  "keep_char c r = r\<lparr> rd_text := rd_text r @ [c] \<rparr>"

definition flush_member :: "reader \<Rightarrow> reader" where
  "flush_member r = (case rd_key r of
      None \<Rightarrow> r\<lparr> rd_text := [] \<rparr>
    | Some k \<Rightarrow> r\<lparr> rd_members := rd_members r @ [(k, rd_text r)], rd_key := None, rd_text := [] \<rparr>)"

fun read_char :: "opcode \<Rightarrow> char \<Rightarrow> reader \<Rightarrow> reader" where
  "read_char ScanSkipSpace c r = (if 1 < rd_depth r then keep_char c r else r)"
| "read_char ScanEnd c r = r"
| "read_char ScanBeginLiteral c r = keep_char c r"
| "read_char ScanContinue c r = keep_char c r"
| "read_char ScanBeginObject c r = (if rd_depth r = 0 then r else keep_char c r)\<lparr> rd_depth := Suc (rd_depth r) \<rparr>"
| "read_char ScanBeginArray c r = (if rd_depth r = 0 then r else keep_char c r)\<lparr> rd_depth := Suc (rd_depth r) \<rparr>"
| "read_char ScanEndObject c r = (if rd_depth r = 1 then flush_member r else keep_char c r)\<lparr> rd_depth := rd_depth r - 1 \<rparr>"
| "read_char ScanEndArray c r = (if rd_depth r = 1 then flush_member r else keep_char c r)\<lparr> rd_depth := rd_depth r - 1 \<rparr>"
| "read_char ScanObjectKey c r =
     (if rd_depth r = 1 then r\<lparr> rd_key := Some (rd_text r), rd_text := [] \<rparr> else keep_char c r)"
| "read_char ScanObjectValue c r = (if rd_depth r = 1 then flush_member r else keep_char c r)"
| "read_char ScanArrayValue c r = (if rd_depth r = 1 then flush_member r else keep_char c r)"

fun scan_text :: "scanner \<Rightarrow> reader \<Rightarrow> string \<Rightarrow> error + scanner \<times> reader" where
  "scan_text s r [] = Inr (s, r)"
| "scan_text s r (c # cs) = (case scan_char s c of
      Inl e \<Rightarrow> Inl e
    | Inr (op, s') \<Rightarrow> scan_text s' (read_char op c r) cs)"

text \<open>\<open>checkValid\<close>, with the members of the object it saw.\<close>

definition json_members :: "string \<Rightarrow> error + (string \<times> string) list" where
  "json_members data = (case scan_text (BeginValue, []) new_reader data of
      Inl e \<Rightarrow> Inl e
    | Inr (s, r) \<Rightarrow> map_sum id (\<lambda>_. rd_members r) (scan_eof s))"

lemma scan_text_append:
  "scan_text s r (xs @ ys) = (case scan_text s r xs of Inl e \<Rightarrow> Inl e | Inr (s', r') \<Rightarrow> scan_text s' r' ys)"
  by (induction xs arbitrary: s r) (auto split: sum.split)

lemma scan_text_step:
  assumes "scan_text s r xs = Inr (s', r')"
  shows "scan_text s r (xs @ ys) = scan_text s' r' ys"
  using assms by (simp add: scan_text_append)

end
