(* ===== verification/JsonText.thy ===== *)
theory JsonText
  imports JsonScan Utf8
begin

text \<open>
  JSON string literals as \<open>encoding/json\<close> writes (\<open>appendString\<close> with HTML escaping) and reads
  (\<open>unquoteBytes\<close>) them, over bytes. What is not valid UTF-8 is replaced by U+FFFD, one per byte, on the way
  out and on the way in; text that is valid comes back unchanged.
\<close>

section \<open>Writing\<close>

definition escape_byte :: "char \<Rightarrow> string" where
  "escape_byte c = (let n = byte_code c in
     if c = backslash \<or> c = quote_mark then [backslash, c]
     else if n = 8 then [backslash, CHR ''b'']
     else if n = 12 then [backslash, CHR ''f'']
     else if n = 10 then [backslash, CHR ''n'']
     else if n = 13 then [backslash, CHR ''r'']
     else if n = 9 then [backslash, CHR ''t'']
     else if n < 32 \<or> c = CHR ''<'' \<or> c = CHR ''>'' \<or> c = CHR ''&'' then
       backslash # ''u00'' @ [hex_digit (n div 16), hex_digit (n mod 16)]
     else [c])"

fun json_escape :: "string \<Rightarrow> string" where
  "json_escape [] = []"
| "json_escape (c # cs) =
     (if byte_code c < 128 then escape_byte c @ json_escape cs
      else let k = rune_size (c # cs); rune = take k (c # cs) in
        if k = 0 then backslash # ''ufffd'' @ json_escape cs
        else (if rune = [CHR 0xE2, CHR 0x80, CHR 0xA8] then backslash # ''u2028''
              else if rune = [CHR 0xE2, CHR 0x80, CHR 0xA9] then backslash # ''u2029''
              else rune) @ json_escape (drop (k - 1) cs))"

definition json_string :: "string \<Rightarrow> string" where
  "json_string s = quote_mark # json_escape s @ [quote_mark]"

section \<open>Reading\<close>

definition hex_value :: "char \<Rightarrow> nat option" where
  "hex_value c =
     (if is_digit c then Some (digit_value c)
      else if 97 \<le> byte_code c \<and> byte_code c \<le> 102 then Some (byte_code c - 87)
      else if 65 \<le> byte_code c \<and> byte_code c \<le> 70 then Some (byte_code c - 55)
      else None)"

text \<open>\<open>getu4\<close>: the number of an escape \<open>\uXXXX\<close> at the front.\<close>

definition getu4 :: "string \<Rightarrow> nat option" where
  "getu4 s =
     (if length s < 6 \<or> s ! 0 \<noteq> backslash \<or> s ! 1 \<noteq> CHR ''u'' then None
      else (case (hex_value (s ! 2), hex_value (s ! 3), hex_value (s ! 4), hex_value (s ! 5)) of
         (Some a, Some b, Some c, Some d) \<Rightarrow> Some (((a * 16 + b) * 16 + c) * 16 + d)
       | _ \<Rightarrow> None))"

definition is_surrogate :: "nat \<Rightarrow> bool" where
  "is_surrogate r \<longleftrightarrow> 0xD800 \<le> r \<and> r < 0xE000"

text \<open>\<open>utf16.DecodeRune\<close> of a high and a low half.\<close>

definition surrogate_pair :: "nat \<Rightarrow> nat option \<Rightarrow> nat option" where
  "surrogate_pair r next = (case next of
      None \<Rightarrow> None
    | Some r' \<Rightarrow> if r < 0xDC00 \<and> 0xDC00 \<le> r' \<and> r' < 0xE000 then Some ((r - 0xD800) * 1024 + (r' - 0xDC00) + 0x10000) else None)"

definition simple_escape :: "char \<Rightarrow> char option" where
  "simple_escape c =
     (if c \<in> {quote_mark, backslash, CHR ''/'', CHR 0x27} then Some c
      else if c = CHR ''b'' then Some (CHR 0x08)
      else if c = CHR ''f'' then Some (CHR 0x0C)
      else if c = CHR ''n'' then Some (CHR 0x0A)
      else if c = CHR ''r'' then Some (CHR 0x0D)
      else if c = CHR ''t'' then Some (CHR 0x09)
      else None)"

text \<open>\<open>unquoteBytes\<close> without the quotes around the literal; \<open>None\<close> where it gives up.\<close>

fun unquote_bytes :: "string \<Rightarrow> string option" where
  "unquote_bytes [] = Some []"
| "unquote_bytes (c # cs) =
     (if c = backslash then
        (case cs of
           [] \<Rightarrow> None
         | e # rest \<Rightarrow>
             if e = CHR ''u'' then
               (case getu4 (c # cs) of
                  None \<Rightarrow> None
                | Some r \<Rightarrow>
                    if is_surrogate r then
                      (case surrogate_pair r (getu4 (drop 5 cs)) of
                         Some p \<Rightarrow> map_option ((@) (encode_rune p)) (unquote_bytes (drop 11 cs))
                       | None \<Rightarrow> map_option ((@) replacement) (unquote_bytes (drop 5 cs)))
                    else map_option ((@) (encode_rune r)) (unquote_bytes (drop 5 cs)))
             else (case simple_escape e of
                None \<Rightarrow> None
              | Some x \<Rightarrow> map_option ((#) x) (unquote_bytes rest)))
      else if c = quote_mark \<or> byte_code c < 32 then None
      else let k = rune_size (c # cs) in
        if k = 0 then map_option ((@) replacement) (unquote_bytes cs)
        else map_option ((@) (take k (c # cs))) (unquote_bytes (drop (k - 1) cs)))"

definition unquote_literal :: "string \<Rightarrow> string option" where
  "unquote_literal raw =
     (if length raw < 2 \<or> hd raw \<noteq> quote_mark \<or> last raw \<noteq> quote_mark then None else unquote_bytes (butlast (tl raw)))"

section \<open>What was written reads back\<close>

lemma hex_value_digit [simp]: "n < 16 \<Longrightarrow> hex_value (hex_digit n) = Some n"
  by (auto simp: hex_value_def hex_digit_def is_digit_def digit_value_def byte_code_def)

lemma is_hex_digit [simp]: "n < 16 \<Longrightarrow> is_hex (hex_digit n)"
  by (auto simp: is_hex_def hex_digit_def is_digit_def byte_code_def)

lemma getu4_Some: "getu4 (backslash # CHR ''u'' # a # b # c # d # rest) =
    (case (hex_value a, hex_value b, hex_value c, hex_value d) of
       (Some a, Some b, Some c, Some d) \<Rightarrow> Some (((a * 16 + b) * 16 + c) * 16 + d) | _ \<Rightarrow> None)"
  by (simp add: getu4_def numeral_2_eq_2 eval_nat_numeral)

lemma hex_value_simps: "hex_value (CHR ''0'') = Some 0" "hex_value (CHR ''2'') = Some 2" "hex_value (CHR ''8'') = Some 8"
  "hex_value (CHR ''9'') = Some 9" "hex_value (CHR ''f'') = Some 15" "hex_value (CHR ''d'') = Some 13"
  by (simp_all add: hex_value_def is_digit_def byte_code_def digit_value_def)

lemma byte_code_less: "byte_code c < 256"
  by (simp add: byte_code_def)

lemma char_of_byte_code [simp]: "char_of (byte_code c) = c"
  by (simp add: byte_code_def)

lemma byte_code_inject: "byte_code c = byte_code d \<longleftrightarrow> c = d"
  by (metis char_of_byte_code)

lemma byte_code_eqD:
  "byte_code c = 8 \<Longrightarrow> c = CHR 0x08" "byte_code c = 9 \<Longrightarrow> c = CHR 0x09" "byte_code c = 10 \<Longrightarrow> c = CHR 0x0A"
  "byte_code c = 12 \<Longrightarrow> c = CHR 0x0C" "byte_code c = 13 \<Longrightarrow> c = CHR 0x0D"
  by (simp_all add: byte_code_inject[symmetric]) (simp_all add: byte_code_def)

lemma encoded_runes: "encode_rune 65533 = replacement" "encode_rune 8232 = [CHR 0xE2, CHR 0x80, CHR 0xA8]"
  "encode_rune 8233 = [CHR 0xE2, CHR 0x80, CHR 0xA9]"
  by (simp_all add: encode_rune_def replacement_def byte_code_inject[symmetric]) (simp_all add: byte_code_def)

lemma unquote_u: "unquote_bytes (backslash # CHR ''u'' # a # b # c # d # t) =
    (case getu4 (backslash # CHR ''u'' # a # b # c # d # t) of
       None \<Rightarrow> None
     | Some r \<Rightarrow>
        if is_surrogate r then
          (case surrogate_pair r (getu4 t) of
             Some p \<Rightarrow> map_option ((@) (encode_rune p)) (unquote_bytes (drop 6 t))
           | None \<Rightarrow> map_option ((@) replacement) (unquote_bytes t))
        else map_option ((@) (encode_rune r)) (unquote_bytes t))"
  by (subst unquote_bytes.simps) (simp del: unquote_bytes.simps split: option.split)

lemma unquote_escape_byte:
  assumes "byte_code c < 128"
  shows "unquote_bytes (escape_byte c @ t) = map_option ((#) c) (unquote_bytes t)"
proof -
  let ?n = "byte_code c"
  have c: "c = char_of ?n" by simp
  have small: "simple_escape c = Some c" if "c = backslash \<or> c = quote_mark"
    using that by (auto simp: simple_escape_def)
  show ?thesis
  proof (cases "escape_byte c = [c]")
    case True
    then have "c \<noteq> backslash" "c \<noteq> quote_mark" "\<not> ?n < 32"
      by (auto simp: escape_byte_def Let_def split: if_splits)
    then show ?thesis using True rune_size_ascii_pos[OF assms, of t] by (cases "unquote_bytes t") (simp_all del: rune_size.simps)
  next
    case False
    show ?thesis
    proof (cases "\<exists>x. escape_byte c = [backslash, x] \<and> simple_escape x = Some c \<and> x \<noteq> CHR ''u''")
      case True
      then show ?thesis by auto
    next
      case no: False
      have "escape_byte c = backslash # ''u00'' @ [hex_digit (?n div 16), hex_digit (?n mod 16)]"
        using False no by (auto simp: escape_byte_def Let_def simple_escape_def split: if_splits dest: byte_code_eqD)
      moreover have "encode_rune (?n div 16 * 16 + ?n mod 16) = [c]" using assms by (simp add: encode_rune_def)
      ultimately show ?thesis using assms
        by (cases "unquote_bytes t") (simp_all add: unquote_u getu4_Some hex_value_simps is_surrogate_def del: unquote_bytes.simps)
    qed
  qed
qed

lemma unquote_rune:
  assumes "0 < rune_size s" "128 \<le> byte_code (hd s)"
  shows "unquote_bytes (take (rune_size s) s @ t) = map_option ((@) (take (rune_size s) s)) (unquote_bytes t)"
proof -
  have "unquote_bytes s' = map_option ((@) (take (rune_size s') s')) (unquote_bytes (drop (rune_size s') s'))"
    if "0 < rune_size s'" "128 \<le> byte_code (hd s')" for s'
  proof (cases s')
    case (Cons c cs)
    then have "c \<noteq> backslash" "c \<noteq> quote_mark" "\<not> byte_code c < 32" using that(2) by (auto simp: byte_code_def)
    then show ?thesis using that(1) by (simp add: Cons Let_def drop_Cons' del: rune_size.simps)
  qed (use that in simp)
  from this[of "take (rune_size s) s @ t"] show ?thesis
    using assms rune_size_take[OF assms(1), of t] rune_size_le[of s] by (cases s) (simp_all del: rune_size.simps)
qed

text \<open>Reading what was written gives the text back, with what is not UTF-8 replaced.\<close>

lemma unquote_escape: "unquote_bytes (json_escape s) = Some (to_valid s)"
proof (induction s rule: json_escape.induct)
  case (2 c cs)
  show ?case
  proof (cases "byte_code c < 128")
    case True
    then show ?thesis using 2(1) rune_size_ascii_pos[OF True, of cs]
      by (simp add: unquote_escape_byte del: rune_size.simps unquote_bytes.simps)
  next
    case False
    show ?thesis
    proof (cases "rune_size (c # cs) = 0")
      case True
      then show ?thesis using 2(2)[OF False refl refl True] False
        by (simp add: unquote_u getu4_Some hex_value_simps is_surrogate_def encoded_runes Let_def
            del: rune_size.simps unquote_bytes.simps)
    next
      case pos: False
      note IH = 2(3)[OF False refl refl pos]
      have d: "drop (rune_size (c # cs) - 1) cs = drop (rune_size (c # cs)) (c # cs)" using pos by (simp add: drop_Cons')
      have v: "to_valid (c # cs) = take (rune_size (c # cs)) (c # cs) @ to_valid (drop (rune_size (c # cs) - 1) cs)"
        using to_valid_rune[of "c # cs"] pos unfolding d by simp
      show ?thesis
        using IH False pos unquote_rune[of "c # cs"] unfolding v
        by (auto simp: Let_def unquote_u getu4_Some hex_value_simps is_surrogate_def encoded_runes
            simp del: rune_size.simps unquote_bytes.simps to_valid.simps)
    qed
  qed
qed simp

lemma unquote_json_string: "unquote_literal (json_string s) = Some (to_valid s)"
  by (simp add: unquote_literal_def json_string_def butlast_append unquote_escape)

section \<open>What was written scans\<close>

text \<open>A written string scans as one literal.\<close>

definition keep_text :: "string \<Rightarrow> reader \<Rightarrow> reader" where
  "keep_text s r = r\<lparr> rd_text := rd_text r @ s \<rparr>"

lemma keep_text_simps [simp]:
  "keep_text [] r = r" "keep_char c r = keep_text [c] r" "keep_text t (keep_text s r) = keep_text (s @ t) r"
  "rd_text (keep_text s r) = rd_text r @ s" "rd_depth (keep_text s r) = rd_depth r"
  "rd_key (keep_text s r) = rd_key r" "rd_members (keep_text s r) = rd_members r"
  by (simp_all add: keep_text_def keep_char_def)

definition in_string :: "string \<Rightarrow> bool" where
  "in_string s \<longleftrightarrow> (\<forall>st r. scan_text (InString, st) r s = Inr ((InString, st), keep_text s r))"

lemma in_string_append: "in_string s \<Longrightarrow> in_string t \<Longrightarrow> in_string (s @ t)"
  by (simp add: in_string_def scan_text_append)

lemma in_string_Nil [simp]: "in_string []"
  by (simp add: in_string_def)

lemma in_string_plain: "(\<And>c. c \<in> set s \<Longrightarrow> c \<noteq> quote_mark \<and> c \<noteq> backslash \<and> 32 \<le> byte_code c) \<Longrightarrow> in_string s"
proof (induction s)
  case (Cons c cs)
  then have "in_string cs" by simp
  moreover have "c \<noteq> quote_mark" "c \<noteq> backslash" "\<not> byte_code c < 32" using Cons.prems[of c] by auto
  ultimately show ?case by (simp add: in_string_def)
qed simp

lemma in_string_u: "is_hex a \<Longrightarrow> is_hex b \<Longrightarrow> is_hex c \<Longrightarrow> is_hex d \<Longrightarrow> in_string [backslash, CHR ''u'', a, b, c, d]"
  by (simp add: in_string_def byte_code_def)

lemma is_hex_chars: "is_hex (CHR ''0'')" "is_hex (CHR ''2'')" "is_hex (CHR ''8'')" "is_hex (CHR ''9'')" "is_hex (CHR ''f'')"
  "is_hex (CHR ''d'')"
  by (simp_all add: is_hex_def is_digit_def byte_code_def)

lemma in_string_escape_byte: "byte_code c < 128 \<Longrightarrow> in_string (escape_byte c)"
proof -
  assume c: "byte_code c < 128"
  have two: "in_string [backslash, x]" if "x \<in> {backslash, quote_mark, CHR ''b'', CHR ''f'', CHR ''n'', CHR ''r'', CHR ''t''}" for x
    using that by (auto simp: in_string_def byte_code_def)
  have one: "in_string [c]" if "c \<noteq> quote_mark" "c \<noteq> backslash" "\<not> byte_code c < 32"
    using that by (intro in_string_plain) auto
  have "in_string [backslash, CHR ''u'', CHR ''0'', CHR ''0'', hex_digit (byte_code c div 16), hex_digit (byte_code c mod 16)]"
    using c by (intro in_string_u is_hex_chars is_hex_digit) auto
  then show ?thesis using two one by (simp add: escape_byte_def Let_def)
qed

lemma in_string_rune:
  assumes "0 < rune_size s" "128 \<le> byte_code (hd s)"
  shows "in_string (take (rune_size s) s)"
proof -
  have "\<forall>x \<in> set (take (rune_size s) s). 128 \<le> byte_code x"
    using assms by (elim rune_size_cases) (auto simp del: rune_size.simps)
  then show ?thesis by (intro in_string_plain) (auto simp: byte_code_def)
qed

lemma in_string_escape: "in_string (json_escape s)"
proof (induction s rule: json_escape.induct)
  case (2 c cs)
  have u: "in_string (backslash # ''ufffd'')" "in_string (backslash # ''u2028'')" "in_string (backslash # ''u2029'')"
    by (simp_all add: in_string_u is_hex_chars)
  show ?case
    using 2 u in_string_rune[of "c # cs"]
    by (simp add: Let_def in_string_escape_byte in_string_append[OF u(1), simplified] in_string_append[OF u(2), simplified]
        in_string_append[OF u(3), simplified] in_string_append del: rune_size.simps)
qed simp

lemma scan_json_string:
  "scan_text (BeginValue, st) r (json_string s @ t) = scan_text (EndValue, st) (keep_text (json_string s) r) t"
proof -
  have "scan_text (InString, st) (keep_text [quote_mark] r) (json_escape s @ quote_mark # t) =
      scan_text (EndValue, st) (keep_text (json_string s) r) t"
    using in_string_escape[of s] by (simp add: in_string_def scan_text_append json_string_def)
  then show ?thesis by (simp add: json_string_def stateBeginValue_def json_space_def byte_code_def)
qed

end
