(* ===== verification/GoTime.thy ===== *)
theory GoTime
  imports GoStrings "HOL-Library.Monad_Syntax"
begin

text \<open>
  Package \<open>time\<close>: the proleptic Gregorian calendar, the RFC 3339 text of a UTC time with the nanoseconds it
  needs (\<open>Time.MarshalJSON\<close>) and the parser behind \<open>Time.UnmarshalJSON\<close>, which is \<open>time.Parse\<close> with the
  layout \<open>RFC3339\<close>: it takes an hour of one digit, a comma before the fraction, more than nine fraction
  digits and offsets up to 24:60. A time is its count of nanoseconds since the Unix epoch; the times of the
  service carry the location UTC.
\<close>

section \<open>The calendar\<close>

definition is_leap :: "int \<Rightarrow> bool" where
  "is_leap y \<longleftrightarrow> y mod 4 = 0 \<and> (y mod 100 \<noteq> 0 \<or> y mod 400 = 0)"

definition year_days :: "int \<Rightarrow> int" where
  "year_days y = (if is_leap y then 366 else 365)"

text \<open>The days from the epoch, and from 1 January of the year 1, to 1 January of a year.\<close>

definition epoch_days :: int where
  "epoch_days = 719162"

definition days_before_year :: "int \<Rightarrow> int" where
  "days_before_year y = (let p = y - 1 in 365 * p + p div 4 - p div 100 + p div 400)"

definition month_days :: "int \<Rightarrow> int list" where
  "month_days y = [31, if is_leap y then 29 else 28, 31, 30, 31, 30, 31, 31, 30, 31, 30, 31]"

definition days_of_date :: "int \<Rightarrow> nat \<Rightarrow> int \<Rightarrow> int" where
  "days_of_date y m d = days_before_year y - epoch_days + sum_list (take (m - 1) (month_days y)) + (d - 1)"

text \<open>The year of a day, within its cycle of 400 years, and the month and day within the year.\<close>

function find_year :: "int \<Rightarrow> int \<Rightarrow> int \<times> int" where
  "find_year y r = (if r < year_days y then (y, r) else find_year (y + 1) (r - year_days y))"
  by auto
termination by (relation "measure (\<lambda>(y, r). nat r)") (auto simp: year_days_def split: if_splits)

declare find_year.simps [simp del]

fun find_month :: "int list \<Rightarrow> int \<Rightarrow> nat \<times> int" where
  "find_month [] r = (0, r)"
| "find_month (l # ls) r = (if r < l then (0, r) else (case find_month ls (r - l) of (m, d) \<Rightarrow> (Suc m, d)))"

definition date_of_days :: "int \<Rightarrow> int \<times> nat \<times> int" where
  "date_of_days n =
     (let k = n + epoch_days; cycle = k div 146097;
          (y, r) = find_year (400 * cycle + 1) (k mod 146097);
          (m, d) = find_month (month_days y) r
      in (y, Suc m, d + 1))"

lemma div_pred:
  fixes k :: int
  assumes "1 < k"
  shows "(y - 1) div k = (if y mod k = 0 then y div k - 1 else y div k)"
proof (cases "y mod k = 0")
  case True
  have "y - 1 = k * (y div k - 1) + (k - 1)" using True mult_div_mod_eq[of k y] by (simp add: algebra_simps)
  then have "(y - 1) div k = y div k - 1" by (rule int_div_pos_eq) (use assms in simp_all)
  then show ?thesis using True by simp
next
  case False
  have "y - 1 = k * (y div k) + (y mod k - 1)" using mult_div_mod_eq[of k y] by simp
  moreover have "0 \<le> y mod k - 1" "y mod k - 1 < k"
    using False pos_mod_sign[of k y] pos_mod_bound[of k y] assms by linarith+
  ultimately have "(y - 1) div k = y div k" by (rule int_div_pos_eq)
  then show ?thesis using False by simp
qed

lemma days_before_next_year: "days_before_year (y + 1) = days_before_year y + year_days y"
proof -
  have "y mod 400 = 0 \<Longrightarrow> y mod 100 = 0" "y mod 100 = 0 \<Longrightarrow> y mod 4 = 0"
    by (auto simp flip: dvd_eq_mod_eq_0 elim: dvd_trans[rotated])
  then show ?thesis
    by (auto simp: days_before_year_def year_days_def is_leap_def Let_def div_pred algebra_simps)
qed

lemma find_year_ok:
  assumes "0 \<le> r" "find_year y r = (y', r')"
  shows "days_before_year y' + r' = days_before_year y + r \<and> 0 \<le> r' \<and> r' < year_days y'"
  using assms
proof (induction y r rule: find_year.induct)
  case (1 y r)
  show ?case
  proof (cases "r < year_days y")
    case True
    with 1(2,3) show ?thesis by (simp add: find_year.simps[of y r])
  next
    case False
    with 1 show ?thesis using days_before_next_year[of y] by (simp add: find_year.simps[of y r])
  qed
qed

lemma find_month_ok:
  assumes "0 \<le> r" "r < sum_list ls" "find_month ls r = (m, d)"
  shows "m < length ls \<and> 0 \<le> d \<and> d < ls ! m \<and> sum_list (take m ls) + d = r"
  using assms
proof (induction ls arbitrary: r m)
  case (Cons l ls)
  show ?case
  proof (cases "r < l")
    case False
    with Cons.prems obtain m' where "find_month ls (r - l) = (m', d)" "m = Suc m'" by (auto split: prod.splits)
    with Cons.IH[of "r - l" m'] Cons.prems False show ?thesis by simp
  qed (use Cons.prems in simp)
qed simp

lemma sum_month_days: "sum_list (month_days y) = year_days y"
  by (simp add: month_days_def year_days_def)

lemma days_before_cycle: "days_before_year (400 * c + 1) = 146097 * c"
proof -
  have "400 * c div 4 = 100 * c" "400 * c div 100 = 4 * c" "400 * c div 400 = c" by simp_all
  then show ?thesis by (simp only: days_before_year_def Let_def) simp
qed

lemma date_of_days_ok:
  assumes "date_of_days n = (y, m, d)"
  shows "days_of_date y m d = n" "1 \<le> m" "m \<le> 12" "1 \<le> d" "d \<le> month_days y ! (m - 1)"
proof -
  define k where "k = n + epoch_days"
  obtain r where y: "find_year (400 * (k div 146097) + 1) (k mod 146097) = (y, r)"
    using assms by (auto simp: date_of_days_def k_def Let_def split: prod.splits)
  obtain m' d' where m: "find_month (month_days y) r = (m', d')" "m = Suc m'" "d = d' + 1"
    using assms y by (auto simp: date_of_days_def k_def Let_def split: prod.splits)
  have r: "days_before_year y + r = k" "0 \<le> r" "r < year_days y"
    using find_year_ok[OF _ y] by (simp_all add: days_before_cycle)
  have len: "length (month_days y) = 12" by (simp add: month_days_def)
  have "m' < 12 \<and> 0 \<le> d' \<and> d' < month_days y ! m' \<and> sum_list (take m' (month_days y)) + d' = r"
    using find_month_ok[OF r(2) _ m(1)] r(3) by (simp add: sum_month_days len)
  then show "days_of_date y m d = n" "1 \<le> m" "m \<le> 12" "1 \<le> d" "d \<le> month_days y ! (m - 1)"
    using r(1) by (simp_all add: days_of_date_def m k_def)
qed

lemma days_before_year_mono: "y \<le> z \<Longrightarrow> days_before_year y \<le> days_before_year z"
proof (induction z rule: int_ge_induct)
  case (step z)
  then show ?case using days_before_next_year[of z] by (simp add: year_days_def split: if_splits)
qed simp

lemma date_year_bounds:
  assumes "date_of_days n = (y, m, d)"
  shows "days_before_year y \<le> n + epoch_days" "n + epoch_days < days_before_year (y + 1)"
proof -
  define k where "k = n + epoch_days"
  obtain r where "find_year (400 * (k div 146097) + 1) (k mod 146097) = (y, r)"
    using assms by (auto simp: date_of_days_def k_def Let_def split: prod.splits)
  from find_year_ok[OF _ this] have "days_before_year y + r = k \<and> 0 \<le> r \<and> r < year_days y"
    by (simp add: days_before_cycle)
  then show "days_before_year y \<le> n + epoch_days" "n + epoch_days < days_before_year (y + 1)"
    unfolding days_before_next_year k_def by simp_all
qed

section \<open>Writing\<close>

text \<open>The last \<open>k\<close> decimal digits, and the fraction of a second without the zeros at its end.\<close>

fun pad_digits :: "nat \<Rightarrow> nat \<Rightarrow> string" where
  "pad_digits 0 n = []"
| "pad_digits (Suc k) n = pad_digits k (n div 10) @ [digit_byte (n mod 10)]"

definition fraction_text :: "nat \<Rightarrow> string" where
  "fraction_text ns = (if ns = 0 then [] else
     CHR ''.'' # rev (dropWhile (\<lambda>c. c = CHR ''0'') (rev (pad_digits 9 ns))))"

definition year_of :: "gotime \<Rightarrow> int" where
  "year_of t = fst (date_of_days (t div 1000000000 div 86400))"

definition format_time :: "gotime \<Rightarrow> string" where
  "format_time t =
     (let secs = t div 1000000000; (y, m, d) = date_of_days (secs div 86400); r = nat (secs mod 86400) in
      pad_digits 4 (nat y) @ ''-'' @ pad_digits 2 m @ ''-'' @ pad_digits 2 (nat d) @ ''T'' @ pad_digits 2 (r div 3600) @ '':'' @ pad_digits 2 (r div 60 mod 60) @
      '':'' @ pad_digits 2 (r mod 60) @ fraction_text (nat (t mod 1000000000)) @ ''Z'')"

text \<open>\<open>Time.MarshalJSON\<close>, with the error as \<open>json.Marshal\<close> reports it.\<close>

definition marshal_time :: "gotime \<Rightarrow> error + string" where
  "marshal_time t =
     (if 0 \<le> year_of t \<and> year_of t \<le> 9999 then Inr (CHR 0x22 # format_time t @ [CHR 0x22])
      else Inl (ErrText (''json: error calling MarshalJSON for type time.Time: '' @
             ''Time.MarshalJSON: year outside of range [0,9999]'')))"

section \<open>Reading\<close>

definition expect :: "char \<Rightarrow> string \<Rightarrow> string option" where
  "expect c s = (case s of x # xs \<Rightarrow> if x = c then Some xs else None | [] \<Rightarrow> None)"

fun getnum :: "bool \<Rightarrow> string \<Rightarrow> (nat \<times> string) option" where
  "getnum fixed [] = None"
| "getnum fixed [c] = (if is_digit c \<and> \<not> fixed then Some (digit_value c, []) else None)"
| "getnum fixed (c # d # rest) =
     (if \<not> is_digit c then None
      else if is_digit d then Some (digit_value c * 10 + digit_value d, rest)
      else if fixed then None else Some (digit_value c, d # rest))"

definition getyear :: "string \<Rightarrow> (nat \<times> string) option" where
  "getyear s = (if 4 \<le> length s \<and> list_all is_digit (take 4 s) then Some (dec_value 0 (take 4 s), drop 4 s) else None)"

definition getrange :: "bool \<Rightarrow> nat \<Rightarrow> nat \<Rightarrow> string \<Rightarrow> (nat \<times> string) option" where
  "getrange fixed lo hi s = do {
     (n, rest) \<leftarrow> getnum fixed s;
     if lo \<le> n \<and> n \<le> hi then Some (n, rest) else None }"

definition getfraction :: "string \<Rightarrow> nat \<times> string" where
  "getfraction s = (case s of
      p # c # rest \<Rightarrow>
        if (p = CHR ''.'' \<or> p = CHR '','') \<and> is_digit c
        then (let ds = take 9 (takeWhile is_digit (c # rest))
              in (dec_value 0 ds * 10 ^ (9 - length ds), dropWhile is_digit (c # rest)))
        else (0, s)
    | _ \<Rightarrow> (0, s))"

definition getzone :: "string \<Rightarrow> (int \<times> string) option" where
  "getzone s = (case s of
      [] \<Rightarrow> None
    | sign # rest \<Rightarrow>
        if sign = CHR ''Z'' then Some (0, rest)
        else do {
          (hr, rest) \<leftarrow> getrange True 0 24 rest;
          rest \<leftarrow> expect (CHR '':'') rest;
          (mm, rest) \<leftarrow> getrange True 0 60 rest;
          (if sign = CHR ''+'' then Some (int (hr * 60 + mm) * 60, rest)
           else if sign = CHR ''-'' then Some (- int (hr * 60 + mm) * 60, rest)
           else None) })"

definition parse_time :: "string \<Rightarrow> gotime option" where
  "parse_time s = do {
     (y, s) \<leftarrow> getyear s; s \<leftarrow> expect (CHR ''-'') s;
     (m, s) \<leftarrow> getrange True 1 12 s; s \<leftarrow> expect (CHR ''-'') s;
     (d, s) \<leftarrow> getnum True s; s \<leftarrow> expect (CHR ''T'') s;
     (hour, s) \<leftarrow> getrange False 0 23 s; s \<leftarrow> expect (CHR '':'') s;
     (minute, s) \<leftarrow> getrange True 0 59 s; s \<leftarrow> expect (CHR '':'') s;
     (sec, s) \<leftarrow> getrange True 0 59 s;
     (ns, s) \<leftarrow> Some (getfraction s);
     (offset, s) \<leftarrow> getzone s;
     (if s = [] \<and> 1 \<le> d \<and> int d \<le> month_days (int y) ! (m - 1)
      then Some ((days_of_date (int y) m (int d) * 86400 + int (hour * 3600 + minute * 60 + sec) - offset) * 1000000000 + int ns)
      else None) }"

section \<open>What was written reads back\<close>

lemma expect_Cons [simp]: "expect c (c # s) = Some s"
  by (simp add: expect_def)

lemma length_pad_digits [simp]: "length (pad_digits k n) = k"
  by (induction k arbitrary: n) simp_all

lemma pad_digits_digits: "list_all is_digit (pad_digits k n)"
  by (induction k arbitrary: n) simp_all

lemma dec_value_pad_digits: "dec_value 0 (pad_digits k n) = n mod 10 ^ k"
proof (induction k arbitrary: n)
  case (Suc k)
  have "n mod 10 ^ Suc k = 10 * (n div 10 mod 10 ^ k) + n mod 10" by (simp add: mod_mult2_eq)
  then show ?case using Suc by (simp add: dec_value_append)
qed simp

lemma pad_two: "pad_digits 2 n = [digit_byte (n div 10 mod 10), digit_byte (n mod 10)]"
  by (simp add: numeral_2_eq_2)

lemma getnum_pad [simp]: "n < 100 \<Longrightarrow> getnum fixed (pad_digits 2 n @ t) = Some (n, t)"
  by (simp add: pad_two)

lemma getrange_pad: "n < 100 \<Longrightarrow> lo \<le> n \<Longrightarrow> n \<le> hi \<Longrightarrow> getrange fixed lo hi (pad_digits 2 n @ t) = Some (n, t)"
  by (simp add: getrange_def)

lemma getyear_pad: "n < 10000 \<Longrightarrow> getyear (pad_digits 4 n @ t) = Some (n, t)"
  by (simp add: getyear_def pad_digits_digits dec_value_pad_digits)

lemma dec_value_zeros: "dec_value n (replicate k (CHR ''0'')) = n * 10 ^ k"
proof (induction k arbitrary: n)
  case (Suc k)
  have "digit_value (CHR ''0'') = 0" by (simp add: digit_value_def byte_code_def)
  then show ?case using Suc[of "n * 10"] by simp
qed simp

lemma getfraction_text:
  assumes "ns < 10 ^ 9"
  shows "getfraction (fraction_text ns @ ''Z'') = (ns, ''Z'')"
proof (cases "ns = 0")
  case True
  then show ?thesis by (simp add: fraction_text_def getfraction_def)
next
  case False
  define zs where "zs = takeWhile (\<lambda>c. c = CHR ''0'') (rev (pad_digits 9 ns))"
  define ds where "ds = rev (dropWhile (\<lambda>c. c = CHR ''0'') (rev (pad_digits 9 ns)))"
  have "rev (pad_digits 9 ns) = zs @ rev ds" by (simp add: zs_def ds_def)
  then have pad: "pad_digits 9 ns = ds @ rev zs" by (simp add: rev_swap)
  have "\<forall>z \<in> set zs. z = CHR ''0''" by (auto simp: zs_def dest: set_takeWhileD)
  then have zeros: "rev zs = replicate (length zs) (CHR ''0'')"
    using replicate_length_same[of "rev zs" "CHR ''0''"] by simp
  have len: "length ds + length zs = 9" using arg_cong[OF pad, of length] by simp
  have "dec_value 0 (pad_digits 9 ns) = dec_value 0 ds * 10 ^ length zs"
    unfolding pad zeros by (simp add: dec_value_append dec_value_zeros)
  moreover have "length zs = 9 - length ds" using len by simp
  ultimately have val: "dec_value 0 ds * 10 ^ (9 - length ds) = ns" using assms by (simp add: dec_value_pad_digits)
  have "ds \<noteq> []" using val False by auto
  moreover have digits: "list_all is_digit ds" using pad_digits_digits[of 9 ns] by (simp add: pad)
  ultimately obtain c cs where ds: "ds = c # cs" "is_digit c" by (cases ds) auto
  have Z: "\<not> is_digit (CHR ''Z'')" by (simp add: is_digit_def byte_code_def)
  have "takeWhile is_digit (ds @ ''Z'') = ds" "dropWhile is_digit (ds @ ''Z'') = ''Z''"
    using digits Z by (simp_all add: takeWhile_append2 dropWhile_append2 list_all_iff)
  moreover have "fraction_text ns = CHR ''.'' # ds" using False by (simp add: fraction_text_def ds_def)
  ultimately show ?thesis using ds val len by (simp add: getfraction_def Let_def)
qed

lemma parse_format_time:
  assumes "0 \<le> year_of t" "year_of t \<le> 9999"
  shows "parse_time (format_time t) = Some t"
proof -
  define secs where "secs = t div 1000000000"
  define r where "r = nat (secs mod 86400)"
  obtain y m d where date: "date_of_days (secs div 86400) = (y, m, d)" by (cases "date_of_days (secs div 86400)")
  note dt = date_of_days_ok[OF date]
  have y: "0 \<le> y" "y \<le> 9999" using assms date by (simp_all add: year_of_def secs_def)
  have "month_days y ! (m - 1) \<le> 31" using dt(2,3)
    by (simp add: month_days_def nth_Cons' split: nat.split)
  then have d: "d \<le> 31" using dt(5) by simp
  have r: "r < 86400" "int r = secs mod 86400" by (simp_all add: r_def)
  have hms: "r div 3600 * 3600 + r div 60 mod 60 * 60 + r mod 60 = r"
  proof -
    have "r div 3600 = r div 60 div 60" using div_mult2_eq[of r 60 60] by simp
    then show ?thesis using mult_div_mod_eq[of 60 "r div 60"] mult_div_mod_eq[of 60 r] by linarith
  qed
  have ns: "nat (t mod 1000000000) < 10 ^ 9" by simp
  have total: "(days_of_date y m d * 86400 + int r) * 1000000000 + t mod 1000000000 = t"
    using mult_div_mod_eq[of 86400 secs] mult_div_mod_eq[of 1000000000 t] by (simp add: dt(1) r(2) secs_def)
  have written: "format_time t = pad_digits 4 (nat y) @ ''-'' @ pad_digits 2 m @ ''-'' @ pad_digits 2 (nat d) @ ''T'' @
      pad_digits 2 (r div 3600) @ '':'' @ pad_digits 2 (r div 60 mod 60) @ '':'' @ pad_digits 2 (r mod 60) @
      fraction_text (nat (t mod 1000000000)) @ ''Z''"
    by (simp add: format_time_def Let_def date r_def flip: secs_def)
  have h: "r div 3600 \<le> 23" using r(1) by simp
  show ?thesis
    unfolding written parse_time_def
    using y dt(2-5) d h getfraction_text[OF ns] hms total
    by (simp add: getyear_pad getrange_pad getzone_def)
qed

text \<open>The times from 1970 to 9999 have a text.\<close>

lemma year_in_range:
  assumes "0 \<le> t" "t < 253402300800 * 1000000000"
  shows "0 \<le> year_of t" "year_of t \<le> 9999"
proof -
  define n where "n = t div 1000000000 div 86400"
  obtain y m d where date: "date_of_days n = (y, m, d)" by (cases "date_of_days n")
  have y: "year_of t = y" using date by (simp add: year_of_def n_def)
  have n: "0 \<le> n" "n < 2932897" using assms by (auto simp: n_def)
  have "0 < y + 1"
  proof (rule ccontr)
    assume "\<not> 0 < y + 1"
    then have "days_before_year (y + 1) \<le> days_before_year 0" by (intro days_before_year_mono) simp
    then show False using date_year_bounds(2)[OF date] n by (simp add: days_before_year_def epoch_days_def)
  qed
  then show "0 \<le> year_of t" using y by simp
  show "year_of t \<le> 9999"
  proof (rule ccontr)
    assume "\<not> year_of t \<le> 9999"
    then have "days_before_year 10000 \<le> days_before_year y" using y by (intro days_before_year_mono) simp
    then show False using date_year_bounds(1)[OF date] n by (simp add: days_before_year_def epoch_days_def)
  qed
qed

lemma marshal_time_succeeds: "0 \<le> t \<Longrightarrow> t < 253402300800 * 1000000000 \<Longrightarrow> \<exists>raw. marshal_time t = Inr raw"
  using year_in_range by (simp add: marshal_time_def)

end
