(* ===== verification/JsonStruct.thy ===== *)
theory JsonStruct
  imports JsonText GoTime
begin

text \<open>
  What \<open>encoding/json\<close> does with a Go struct of strings, a \<open>uint64\<close> and a \<open>time.Time\<close>: the text that
  \<open>json.Marshal\<close> writes for it, and how \<open>json.Unmarshal\<close> finds the field of a member (by name, else by name
  up to case), stores its value, goes on after a value of the wrong type and reports the first such error.
\<close>

section \<open>Writing\<close>

fun members_text :: "(string \<times> string) list \<Rightarrow> string" where
  "members_text [] = []"
| "members_text [(name, raw)] = json_string name @ CHR '':'' # raw"
| "members_text ((name, raw) # f # fs) = json_string name @ CHR '':'' # raw @ CHR '','' # members_text (f # fs)"

definition struct_text :: "(string \<times> string) list \<Rightarrow> string" where
  "struct_text ms = CHR ''{'' # members_text ms @ ''}''"

section \<open>Reading\<close>

definition json_kind :: "string \<Rightarrow> string" where
  "json_kind raw = (let c = hd (raw @ ''0'') in
     if c = quote_mark then ''string'' else if c = CHR ''{'' then ''object'' else if c = CHR ''['' then ''array''
     else if c = CHR ''t'' \<or> c = CHR ''f'' then ''bool'' else if c = CHR ''n'' then ''null'' else ''number'')"

text \<open>The texts of \<open>json.UnmarshalTypeError\<close>, for a value of the whole text and for one of a field.\<close>

definition value_type_error :: "string \<Rightarrow> string \<Rightarrow> error" where
  "value_type_error value typ = ErrText (''json: cannot unmarshal '' @ value @ '' into Go value of type '' @ typ)"

definition field_type_error :: "string \<Rightarrow> string \<Rightarrow> string \<Rightarrow> string \<Rightarrow> error" where
  "field_type_error strct field value typ = ErrText (''json: cannot unmarshal '' @ value @ '' into Go struct field '' @
     strct @ ''.'' @ field @ '' of type '' @ typ)"

text \<open>A value stored into a field of each type: the error to remember, and the field afterwards.\<close>

definition string_member :: "string \<Rightarrow> string \<Rightarrow> string \<Rightarrow> string \<Rightarrow> error option \<times> string" where
  "string_member strct field raw old =
     (if json_kind raw = ''string'' then (None, case unquote_literal raw of Some s \<Rightarrow> s | None \<Rightarrow> old)
      else if json_kind raw = ''null'' then (None, old)
      else (Some (field_type_error strct field (json_kind raw) ''string''), old))"

definition uint64_member :: "string \<Rightarrow> string \<Rightarrow> string \<Rightarrow> u64 \<Rightarrow> error option \<times> u64" where
  "uint64_member strct field raw old =
     (if json_kind raw = ''number'' then
        (case parse_uint raw of
           Inr n \<Rightarrow> (None, n)
         | Inl _ \<Rightarrow> (Some (field_type_error strct field (''number '' @ raw) ''uint64''), old))
      else if json_kind raw = ''null'' then (None, old)
      else (Some (field_type_error strct field (json_kind raw) ''uint64''), old))"

text \<open>\<open>Time.UnmarshalJSON\<close> on the raw value; \<open>None\<close> is its error, which ends the decoding.\<close>

definition time_member :: "string \<Rightarrow> gotime \<Rightarrow> gotime option" where
  "time_member raw old =
     (if raw = ''null'' then Some old
      else if json_kind raw = ''string'' then parse_time (butlast (tl raw)) else None)"

text \<open>
  \<open>foldName\<close>, as far as names of ASCII letters go: upper case, and the two runes that fold to an ASCII
  letter (U+017F to S and U+212A to K).
\<close>

definition upper_byte :: "char \<Rightarrow> char" where
  "upper_byte c = (if 97 \<le> byte_code c \<and> byte_code c \<le> 122 then char_of (byte_code c - 32) else c)"

fun fold_name :: "string \<Rightarrow> string" where
  "fold_name [] = []"
| "fold_name (c # cs) =
     (if take 2 (c # cs) = [CHR 0xC5, CHR 0xBF] then CHR ''S'' # fold_name (drop 1 cs)
      else if take 3 (c # cs) = [CHR 0xE2, CHR 0x84, CHR 0xAA] then CHR ''K'' # fold_name (drop 2 cs)
      else upper_byte c # fold_name cs)"

definition field_of :: "string list \<Rightarrow> string \<Rightarrow> string option" where
  "field_of names key = (if key \<in> set names then Some key else List.find (\<lambda>n. fold_name n = fold_name key) names)"

fun decode_members :: "(string \<Rightarrow> string \<Rightarrow> 'a \<Rightarrow> error option \<times> 'a) \<Rightarrow> string list \<Rightarrow>
    (string \<times> string) list \<Rightarrow> error option \<times> 'a \<Rightarrow> error option \<times> 'a" where
  "decode_members store names [] (saved, x) = (saved, x)"
| "decode_members store names ((key, raw) # members) (saved, x) =
     (case Option.bind (unquote_literal key) (field_of names) of
        None \<Rightarrow> decode_members store names members (saved, x)
      | Some field \<Rightarrow> (case store field raw x of
          (err, x') \<Rightarrow> decode_members store names members (if saved = None then err else saved, x')))"

definition decode_struct :: "(string \<Rightarrow> string \<Rightarrow> 'a \<Rightarrow> error option \<times> 'a) \<Rightarrow> string list \<Rightarrow> string \<Rightarrow> 'a \<Rightarrow>
    string \<Rightarrow> error + 'a" where
  "decode_struct store names typ zero data = (case json_members data of
      Inl e \<Rightarrow> Inl e
    | Inr members \<Rightarrow>
        let kind = json_kind (dropWhile json_space data) in
        if kind = ''object'' then
          (case decode_members store names members (None, zero) of (None, x) \<Rightarrow> Inr x | (Some e, _) \<Rightarrow> Inl e)
        else if kind = ''null'' then Inr zero
        else Inl (value_type_error kind typ))"

section \<open>The members of a written struct\<close>

text \<open>A raw value that scans as one value, whatever follows it in an object.\<close>

definition value_text :: "string \<Rightarrow> bool" where
  "value_text raw \<longleftrightarrow> (\<forall>st r c t. c \<in> {CHR '','', CHR ''}''} \<longrightarrow>
     scan_text (BeginValue, st) r (raw @ c # t) = scan_text (EndValue, st) (keep_text raw r) (c # t))"

lemma value_text_string: "value_text (json_string s)"
  by (simp add: value_text_def scan_json_string)

lemma quoted_scans:
  assumes "in_string s"
  shows "value_text (quote_mark # s @ [quote_mark])"
proof -
  have "scan_text (BeginValue, st) r ((quote_mark # s @ [quote_mark]) @ t) =
      scan_text (EndValue, st) (keep_text (quote_mark # s @ [quote_mark]) r) t" for st r t
    using assms by (simp add: in_string_def scan_text_append stateBeginValue_def json_space_def byte_code_def)
  then show ?thesis by (simp add: value_text_def)
qed

lemma scan_digits:
  "list_all is_digit ds \<Longrightarrow> scan_text (Num1, st) r (ds @ t) = scan_text (Num1, st) (keep_text ds r) t"
  by (induction ds arbitrary: r) simp_all

lemma digit_begins:
  assumes "is_digit c"
  shows "stateBeginValue st c = Inr (ScanBeginLiteral, if c = CHR ''0'' then Num0 else Num1, st)"
proof -
  have "c \<notin> {CHR ''{'', CHR ''['', quote_mark, CHR ''-'', CHR ''t'', CHR ''f'', CHR ''n''}" "\<not> json_space c"
    using assms by (auto simp: is_digit_def json_space_def byte_code_def)
  then show ?thesis using assms by (simp add: stateBeginValue_def)
qed

lemma number_ends:
  "c \<in> {CHR '','', CHR ''}''} \<Longrightarrow> scan_char (Num1, st) c = scan_char (EndValue, st) c"
  "c \<in> {CHR '','', CHR ''}''} \<Longrightarrow> scan_char (Num0, st) c = scan_char (EndValue, st) c"
  by (auto simp: state0_def is_digit_def byte_code_def)

lemma show_nat_zero: "hd (show_nat n) = CHR ''0'' \<Longrightarrow> show_nat n = ''0''"
proof (induction n rule: show_nat.induct)
  case (1 n)
  show ?case
  proof (cases "n < 10")
    case True
    then show ?thesis using "1.prems" by (simp add: show_nat.simps[of n])
  next
    case False
    have "show_nat n = show_nat (n div 10) @ [digit_byte (n mod 10)]" using False by (simp add: show_nat.simps[of n])
    moreover have "show_nat (n div 10) = ''0'' \<Longrightarrow> n div 10 = 0"
      using dec_value_show[of "n div 10"] by (simp add: digit_value_def byte_code_def)
    ultimately show ?thesis using 1 False by simp
  qed
qed

lemma value_text_number: "value_text (show_nat n)"
proof -
  obtain d ds where n: "show_nat n = d # ds" by (cases "show_nat n") simp_all
  have digits: "is_digit d" "list_all is_digit ds" using show_nat_digits[of n] by (simp_all add: n list_all_iff)
  have "scan_text (BeginValue, st) r (show_nat n @ c # t) = scan_text (EndValue, st) (keep_text (show_nat n) r) (c # t)"
    if "c \<in> {CHR '','', CHR ''}''}" for st r c t
  proof (cases "d = CHR ''0''")
    case True
    then have "ds = []" using show_nat_zero[of n] n by simp
    then show ?thesis using True digits number_ends(2)[OF that] by (simp add: n digit_begins split: sum.split)
  next
    case False
    then show ?thesis using digits number_ends(1)[OF that] by (simp add: n digit_begins scan_digits)
  qed
  then show ?thesis by (simp add: value_text_def)
qed

lemma scan_key:
  assumes "step = BeginString \<or> step = BeginStringOrEmpty"
  shows "scan_text (step, st) r (json_string s @ t) = scan_text (EndValue, st) (keep_text (json_string s) r) t"
proof -
  have "scan_char (step, st) quote_mark = scan_char (BeginValue, st) quote_mark"
    using assms by (auto simp: stateBeginString_def stateBeginValue_def json_space_def byte_code_def)
  then show ?thesis using scan_json_string[of st r s t] by (simp add: json_string_def)
qed

definition member_start :: "(string \<times> string) list \<Rightarrow> reader" where
  "member_start ms = \<lparr> rd_depth = 1, rd_text = [], rd_key = None, rd_members = ms \<rparr>"

lemma scan_member:
  assumes "step = BeginString \<or> step = BeginStringOrEmpty" "value_text raw" "c \<in> {CHR '','', CHR ''}''}"
  shows "scan_text (step, [ParseObjectKey]) (member_start ms) (json_string name @ CHR '':'' # raw @ c # t) =
    scan_text (EndValue, [ParseObjectValue])
      \<lparr> rd_depth = 1, rd_text = raw, rd_key = Some (json_string name), rd_members = ms \<rparr> (c # t)"
proof -
  let ?r = "\<lparr> rd_depth = 1, rd_text = [], rd_key = Some (json_string name), rd_members = ms \<rparr>"
  have "scan_text (step, [ParseObjectKey]) (member_start ms) (json_string name @ CHR '':'' # raw @ c # t) =
      scan_text (BeginValue, [ParseObjectValue]) ?r (raw @ c # t)"
    by (simp add: scan_key[OF assms(1)] member_start_def stateEndValue_def keep_text_def json_space_def byte_code_def)
  also have "\<dots> = scan_text (EndValue, [ParseObjectValue]) (keep_text raw ?r) (c # t)"
    using assms(2,3) unfolding value_text_def by blast
  finally show ?thesis by (simp add: keep_text_def)
qed

lemma scan_members:
  assumes "step = BeginString \<or> step = BeginStringOrEmpty" "list_all (value_text \<circ> snd) ms" "ms \<noteq> []"
  shows "scan_text (step, [ParseObjectKey]) (member_start prev) (members_text ms @ ''}'') =
    Inr ((EndTop, []), (member_start (prev @ map (map_prod json_string id) ms))\<lparr> rd_depth := 0 \<rparr>)"
  using assms
proof (induction ms arbitrary: step prev rule: members_text.induct)
  case (2 name raw)
  then show ?case
    using scan_member[of step raw "CHR ''}''" prev name "[]"]
    by (simp add: stateEndValue_def json_space_def byte_code_def popParseState_def flush_member_def member_start_def)
next
  case (3 name raw f fs)
  have "scan_text (EndValue, [ParseObjectValue])
      \<lparr> rd_depth = 1, rd_text = raw, rd_key = Some (json_string name), rd_members = prev \<rparr> (CHR '','' # t) =
    scan_text (BeginString, [ParseObjectKey]) (member_start (prev @ [(json_string name, raw)])) t" for t
    by (simp add: stateEndValue_def json_space_def byte_code_def flush_member_def member_start_def)
  then show ?case
    using 3 scan_member[of step raw "CHR '',''" prev name "members_text (f # fs) @ ''}''"] by simp
qed simp

text \<open>A written struct is valid JSON, and its members are the fields written.\<close>

lemma members_of_struct:
  assumes "list_all (value_text \<circ> snd) ms" "ms \<noteq> []"
  shows "json_members (struct_text ms) = Inr (map (map_prod json_string id) ms)"
proof -
  have "scan_text (BeginValue, []) new_reader (struct_text ms) =
      scan_text (BeginStringOrEmpty, [ParseObjectKey]) (member_start []) (members_text ms @ ''}'')"
    by (simp add: struct_text_def stateBeginValue_def json_space_def byte_code_def pushParseState_def maxNestingDepth_def
        new_reader_def member_start_def)
  then show ?thesis
    using scan_members[OF _ assms, of BeginStringOrEmpty "[]"] by (simp add: json_members_def scan_eof_def member_start_def)
qed

lemma kind_of_struct: "json_kind (dropWhile json_space (struct_text ms)) = ''object''"
  by (simp add: struct_text_def json_kind_def json_space_def byte_code_def Let_def)

end
