(* ===== verification/CredentialPayload.thy ===== *)
theory CredentialPayload
  imports JsonStruct
begin

text \<open>
  The JSON payload of a generic \<open>PutCredential\<close> (\<open>genericCredentialPayload\<close> and
  \<open>decodeGenericCredentialPayload\<close> in \<open>internal/service/platform_service_adapter.go\<close>): five optional
  texts; every other member is skipped.
\<close>

record genericCredentialPayload =
  gp_CookieBundle :: string
  gp_DeviceID :: string
  gp_DeviceFP :: string
  gp_DeviceName :: string
  gp_RegionHint :: string

definition payload_fields :: "string list" where
  "payload_fields = [''cookie_bundle'', ''device_id'', ''device_fp'', ''device_name'', ''region_hint'']"

definition empty_payload :: genericCredentialPayload where
  "empty_payload = \<lparr> gp_CookieBundle = [], gp_DeviceID = [], gp_DeviceFP = [], gp_DeviceName = [], gp_RegionHint = [] \<rparr>"

definition payload_field :: "string \<Rightarrow> genericCredentialPayload \<Rightarrow> string" where
  "payload_field f p =
     (if f = ''cookie_bundle'' then gp_CookieBundle p
      else if f = ''device_id'' then gp_DeviceID p
      else if f = ''device_fp'' then gp_DeviceFP p
      else if f = ''device_name'' then gp_DeviceName p
      else gp_RegionHint p)"

definition set_payload_field :: "string \<Rightarrow> string \<Rightarrow> genericCredentialPayload \<Rightarrow> genericCredentialPayload" where
  "set_payload_field f v p =
     (if f = ''cookie_bundle'' then p\<lparr> gp_CookieBundle := v \<rparr>
      else if f = ''device_id'' then p\<lparr> gp_DeviceID := v \<rparr>
      else if f = ''device_fp'' then p\<lparr> gp_DeviceFP := v \<rparr>
      else if f = ''device_name'' then p\<lparr> gp_DeviceName := v \<rparr>
      else p\<lparr> gp_RegionHint := v \<rparr>)"

definition store_payload :: "string \<Rightarrow> string \<Rightarrow> genericCredentialPayload \<Rightarrow> error option \<times> genericCredentialPayload" where
  "store_payload f raw p =
     map_prod id (\<lambda>v. set_payload_field f v p) (string_member ''genericCredentialPayload'' f raw (payload_field f p))"

definition decodeGenericCredentialPayload :: "string \<Rightarrow> error + genericCredentialPayload" where
  "decodeGenericCredentialPayload raw =
     decode_struct store_payload payload_fields ''service.genericCredentialPayload'' empty_payload raw"

section \<open>Which members count\<close>

text \<open>Folding loses nothing of a name without upper-case letters.\<close>

definition lower_ascii :: "char \<Rightarrow> bool" where
  "lower_ascii c \<longleftrightarrow> byte_code c < 128 \<and> \<not> (65 \<le> byte_code c \<and> byte_code c \<le> 90)"

lemma lower_upper: "lower_ascii c \<Longrightarrow> lower_byte (upper_byte c) = c"
proof (cases "97 \<le> byte_code c \<and> byte_code c \<le> 122")
  case True
  then have "32 \<le> byte_code c" by simp
  then obtain n where n: "byte_code c = n + 32" by (metis add.commute le_Suc_ex)
  then have "byte_code (char_of n) = n" using True by (simp add: byte_code_def)
  moreover have "char_of (n + 32) = c" using char_of_byte_code[of c] n by simp
  ultimately show ?thesis using True n by (simp add: lower_byte_def upper_byte_def)
qed (auto simp: lower_ascii_def lower_byte_def upper_byte_def)

lemma lower_fold_name: "list_all lower_ascii s \<Longrightarrow> to_lower (fold_name s) = s"
proof (induction s rule: fold_name.induct)
  case (2 c cs)
  have "c \<noteq> CHR 0xC5" "c \<noteq> CHR 0xE2" using "2.prems" by (auto simp: lower_ascii_def byte_code_def)
  then show ?case using 2 by (simp add: to_lower_def lower_upper numeral_2_eq_2 numeral_3_eq_3)
qed (simp add: to_lower_def)

lemma payload_names_inj: "f \<in> set payload_fields \<Longrightarrow> g \<in> set payload_fields \<Longrightarrow> fold_name f = fold_name g \<Longrightarrow> f = g"
proof -
  have "list_all (list_all lower_ascii) payload_fields" by (simp add: payload_fields_def lower_ascii_def byte_code_def)
  then show "f \<in> set payload_fields \<Longrightarrow> g \<in> set payload_fields \<Longrightarrow> fold_name f = fold_name g \<Longrightarrow> f = g"
    using lower_fold_name by (metis list_all_iff)
qed

lemma field_of_payload:
  "field_of payload_fields key = Some f \<longleftrightarrow> f \<in> set payload_fields \<and> fold_name key = fold_name f"
proof -
  note inj = payload_names_inj
  show ?thesis
  proof (cases "key \<in> set payload_fields")
    case True
    then show ?thesis using inj[of key f] by (auto simp: field_of_def)
  next
    case False
    have "List.find (\<lambda>n. fold_name n = fold_name key) payload_fields = Some f \<longleftrightarrow>
        f \<in> set payload_fields \<and> fold_name key = fold_name f"
    proof (cases "List.find (\<lambda>n. fold_name n = fold_name key) payload_fields")
      case None
      then have "\<not> (\<exists>n. n \<in> set payload_fields \<and> fold_name n = fold_name key)" by (simp add: find_None_iff)
      then show ?thesis using None by (auto simp del: set_simps)
    next
      case (Some g)
      then have "g \<in> set payload_fields" "fold_name g = fold_name key" by (auto simp: find_Some_iff)
      then show ?thesis using Some inj[of f g] by auto
    qed
    then show ?thesis using False by (simp add: field_of_def)
  qed
qed

text \<open>A member name counts for a field when the two are the same up to case.\<close>

definition names_field :: "string \<Rightarrow> string \<Rightarrow> bool" where
  "names_field n f \<longleftrightarrow> fold_name (to_valid n) = fold_name f"

definition last_member :: "string \<Rightarrow> (string \<times> string) list \<Rightarrow> string" where
  "last_member f ms = (case filter (\<lambda>m. names_field (fst m) f) (rev ms) of [] \<Rightarrow> [] | m # _ \<Rightarrow> to_valid (snd m))"

lemma decode_members_append:
  "decode_members store names (xs @ ys) sx = decode_members store names ys (decode_members store names xs sx)"
  by (induction store names xs sx rule: decode_members.induct) (auto split: option.split prod.split)

lemma find_payload_field: "Option.bind (unquote_literal (json_string n)) (field_of payload_fields) = field_of payload_fields (to_valid n)"
  by (simp add: unquote_json_string)

lemma set_payload_fields:
  "f \<in> set payload_fields \<Longrightarrow> g \<in> set payload_fields \<Longrightarrow>
    payload_field g (set_payload_field f v p) = (if f = g then v else payload_field g p)"
  by (auto simp: payload_fields_def payload_field_def set_payload_field_def)

lemma decode_string_members:
  assumes "g \<in> set payload_fields"
  shows "\<exists>p. decode_members store_payload payload_fields (map (map_prod json_string json_string) ms) (None, empty_payload) =
      (None, p) \<and> payload_field g p = last_member g ms"
proof (induction ms rule: rev_induct)
  case Nil
  then show ?case by (simp add: last_member_def empty_payload_def payload_field_def)
next
  case (snoc m ms)
  then obtain p where p: "decode_members store_payload payload_fields (map (map_prod json_string json_string) ms) (None, empty_payload) =
      (None, p)" "payload_field g p = last_member g ms" by blast
  obtain n s where m: "m = (n, s)" by fastforce
  have kind: "json_kind (json_string s) = ''string''" by (simp add: json_kind_def json_string_def Let_def)
  show ?case
  proof (cases "field_of payload_fields (to_valid n)")
    case None
    then have "\<not> names_field n g" using field_of_payload[of "to_valid n" g] assms by (auto simp: names_field_def)
    then show ?thesis using p None by (simp add: m decode_members_append find_payload_field last_member_def)
  next
    case (Some f)
    then have f: "f \<in> set payload_fields" "fold_name (to_valid n) = fold_name f" by (simp_all add: field_of_payload)
    have g: "names_field n g \<longleftrightarrow> f = g"
      using field_of_payload[of "to_valid n" g] Some assms by (auto simp: names_field_def)
    have "store_payload f (json_string s) p = (None, set_payload_field f (to_valid s) p)"
      by (simp add: store_payload_def string_member_def kind unquote_json_string)
    then show ?thesis
      using p Some g set_payload_fields[OF f(1) assms]
      by (simp add: m decode_members_append find_payload_field last_member_def)
  qed
qed

lemma decode_empty_object: "decodeGenericCredentialPayload ''{}'' = Inr empty_payload"
  by (simp add: decodeGenericCredentialPayload_def decode_struct_def json_members_def stateBeginValue_def stateEndValue_def
      pushParseState_def popParseState_def maxNestingDepth_def new_reader_def flush_member_def scan_eof_def json_space_def
      byte_code_def json_kind_def Let_def)

text \<open>C36: A payload of texts is read member by member. For every JSON object whose members are strings, in any
  order and with any names, each field of the decoded payload is the value of the last member of its
  name, up to case, and empty when there is none; members with other names do not matter.\<close>

theorem payload_reads_last_members:
  "\<exists>p. decodeGenericCredentialPayload (struct_text (map (map_prod id json_string) ms)) = Inr p \<and>
     gp_CookieBundle p = last_member ''cookie_bundle'' ms \<and> gp_DeviceID p = last_member ''device_id'' ms \<and>
     gp_DeviceFP p = last_member ''device_fp'' ms \<and> gp_DeviceName p = last_member ''device_name'' ms \<and>
     gp_RegionHint p = last_member ''region_hint'' ms"
proof -
  obtain p where p: "decode_members store_payload payload_fields (map (map_prod json_string json_string) ms) (None, empty_payload) = (None, p)"
    using decode_string_members[of "''device_id''" ms] by (auto simp: payload_fields_def)
  have "decodeGenericCredentialPayload (struct_text (map (map_prod id json_string) ms)) = Inr p"
  proof (cases "ms = []")
    case True
    then show ?thesis using p decode_empty_object by (simp add: struct_text_def)
  next
    case False
    have "json_members (struct_text (map (map_prod id json_string) ms)) = Inr (map (map_prod json_string json_string) ms)"
      using members_of_struct[of "map (map_prod id json_string) ms"] False
      by (simp add: list_all_iff value_text_string comp_def prod.map_comp map_prod_def split_beta)
    then show ?thesis using p by (simp add: decodeGenericCredentialPayload_def decode_struct_def kind_of_struct)
  qed
  moreover have "payload_field f p = last_member f ms" if "f \<in> set payload_fields" for f
    using decode_string_members[OF that, of ms] p by simp
  note fields = this[of "''cookie_bundle''"] this[of "''device_id''"] this[of "''device_fp''"] this[of "''device_name''"]
    this[of "''region_hint''"]
  ultimately show ?thesis using fields by (simp add: payload_fields_def payload_field_def)
qed

end
