(* ===== verification/PlatformAdapter.thy ===== *)
theory PlatformAdapter
  imports MihomoCredential CredentialPayload
begin

text \<open>
  \<open>internal/service/platform_service_adapter.go\<close>: the generic platform contract
  (\<open>proto-contracts/platform/v1\<close>, outside the repository) over the same use cases.
\<close>

definition consumerGrantInvalidateScope :: string where
  "consumerGrantInvalidateScope = ''mihomo.consumer_grant.invalidate''"

type_synonym 'w grantInvalidationStore = "ctx \<Rightarrow> u64 \<Rightarrow> string \<Rightarrow> u64 \<Rightarrow> ('w, unit) io"

record ('w, 'o) GenericPlatformService =
  gs_ticketVerifier :: "'w TicketVerifier"
  gs_bindUC :: "'w BindUsecase"
  gs_statusUC :: "('w, 'o) StatusUsecase"
  gs_managementUC :: "'w ManagementUsecase"
  gs_invalidationRepo :: "'w grantInvalidationStore option"

definition NewGenericPlatformService :: "'w TicketVerifier \<Rightarrow> 'w BindUsecase \<Rightarrow> ('w, 'o) StatusUsecase \<Rightarrow>
    'w ManagementUsecase \<Rightarrow> 'w grantInvalidationStore option \<Rightarrow> ('w, 'o) GenericPlatformService" where
  "NewGenericPlatformService ticketVerifier bindUC statusUC managementUC invalidationRepo = \<lparr>
     gs_ticketVerifier = ticketVerifier, gs_bindUC = bindUC, gs_statusUC = statusUC,
     gs_managementUC = managementUC, gs_invalidationRepo = invalidationRepo \<rparr>"

record PutCredentialRequest =
  pcr_ServiceTicket :: string
  pcr_PlatformAccountId :: string
  pcr_CredentialPayloadJson :: string

record InvalidateConsumerGrantRequest =
  icr_ServiceTicket :: string
  icr_BindingId :: u64
  icr_Consumer :: string
  icr_MinimumGrantVersion :: u64

section \<open>Mappings\<close>

datatype GenericCredentialStatus =
    GENERIC_STATUS_UNSPECIFIED
  | GENERIC_STATUS_ACTIVE
  | GENERIC_STATUS_EXPIRED
  | GENERIC_STATUS_INVALID
  | GENERIC_STATUS_CHALLENGE_REQUIRED

fun toGenericCredentialStatus :: "CredentialStatus \<Rightarrow> GenericCredentialStatus" where
  "toGenericCredentialStatus CREDENTIAL_STATUS_ACTIVE = GENERIC_STATUS_ACTIVE"
| "toGenericCredentialStatus CREDENTIAL_STATUS_EXPIRED = GENERIC_STATUS_EXPIRED"
| "toGenericCredentialStatus CREDENTIAL_STATUS_INVALID = GENERIC_STATUS_INVALID"
| "toGenericCredentialStatus CREDENTIAL_STATUS_CHALLENGE_REQUIRED = GENERIC_STATUS_CHALLENGE_REQUIRED"
| "toGenericCredentialStatus CREDENTIAL_STATUS_UNSPECIFIED = GENERIC_STATUS_UNSPECIFIED"

definition toGenericCredentialSummary :: "CredentialSummaryOutput \<Rightarrow> GenericCredentialStatus SummaryResponse" where
  "toGenericCredentialSummary output = \<lparr>
     sr_PlatformAccountId = so_PlatformAccountID output,
     sr_Status = toGenericCredentialStatus (so_Status output),
     sr_LastValidatedAt = toTimestamp (so_LastValidatedAt output),
     sr_LastRefreshedAt = toTimestamp (so_LastRefreshedAt output),
     sr_Devices = contract_devices (so_Devices output),
     sr_Profiles = contract_profiles (so_Profiles output) \<rparr>"

section \<open>DescribePlatform\<close>

text \<open>The JSON schema of a credential payload, as the nested maps that \<open>structpb.NewStruct\<close> takes.\<close>

datatype json_value = JString string | JList "json_value list" | JObject "(string \<times> json_value) list"

record DescribePlatformResponse =
  dpr_PlatformKey :: string
  dpr_DisplayName :: string
  dpr_ServiceAudience :: string
  dpr_SupportedActions :: "string list"
  dpr_CredentialSchema :: json_value
  dpr_Version :: string

definition credential_schema :: json_value where
  "credential_schema = JObject
     [(''type'', JString ''object''),
      (''properties'', JObject
         [(''cookie_bundle'', JObject [(''type'', JString ''string'')]),
          (''device_id'', JObject [(''type'', JString ''string'')]),
          (''device_fp'', JObject [(''type'', JString ''string'')]),
          (''device_name'', JObject [(''type'', JString ''string'')])]),
      (''required'', JList [JString ''cookie_bundle'', JString ''device_id'', JString ''device_fp''])]"

definition Generic_DescribePlatform :: DescribePlatformResponse where
  "Generic_DescribePlatform = \<lparr>
     dpr_PlatformKey = ''mihomo'', dpr_DisplayName = ''Mihomo'', dpr_ServiceAudience = serviceTicketAudience,
     dpr_SupportedActions = [ActionStatusRead, ActionProfileRead, ActionProfileWrite, ActionAuthKeyIssue,
       ActionCredentialRead, ActionCredentialBind, ActionCredentialUpdate, ActionCredentialRefresh,
       ActionCredentialDelete, ActionDeviceUpdate, consumerGrantInvalidateScope],
     dpr_CredentialSchema = credential_schema, dpr_Version = ''v1'' \<rparr>"

section \<open>Handlers\<close>

definition platform_account_id_is_required :: Status where
  "platform_account_id_is_required = status_error InvalidArgument ''platform_account_id is required''"

definition Generic_GetCredentialSummary ::
    "env \<Rightarrow> jwt_parser \<Rightarrow> ('z base_world_scheme, 'o) GenericPlatformService \<Rightarrow> ctx \<Rightarrow> AccountRequest option \<Rightarrow>
     ('z base_world_scheme, Status, GenericCredentialStatus SummaryResponse) call" where
  "Generic_GetCredentialSummary E jwt s ctx req = (case req of
     None \<Rightarrow> fail request_is_required
   | Some req \<Rightarrow>
       bind_io (verifyServiceTicket E jwt (gs_ticketVerifier s) ctx (acr_ServiceTicket req)) (\<lambda>claims.
       bind_io (mapped (lift_res
         (scopedGuardForPlatformAccount claims (acr_PlatformAccountId req) [ActionCredentialRead]))) (\<lambda>guard.
       bind_io (mapped (ManagementUsecase_GetCredentialSummaryWithScope (gs_managementUC s) ctx guard
                  (acr_PlatformAccountId req))) (\<lambda>output.
       ret (toGenericCredentialSummary output)))))"

definition Generic_PutCredential ::
    "env \<Rightarrow> jwt_parser \<Rightarrow> ('z base_world_scheme, 'o) GenericPlatformService \<Rightarrow> ctx \<Rightarrow> PutCredentialRequest option \<Rightarrow>
     ('z base_world_scheme, Status, GenericCredentialStatus SummaryResponse) call" where
  "Generic_PutCredential E jwt s ctx req = (case req of
     None \<Rightarrow> fail request_is_required
   | Some req \<Rightarrow>
       bind_io (verifyServiceTicket E jwt (gs_ticketVerifier s) ctx (pcr_ServiceTicket req)) (\<lambda>claims.
       bind_io (mapped (lift_res (scopedGuard claims []))) (\<lambda>guard.
       then_io (mapped (lift_res (RequireBindingWide guard)))
       (bind_io (map_error (\<lambda>err. status_error InvalidArgument (error_text err))
                   (lift_res (decodeGenericCredentialPayload (pcr_CredentialPayloadJson req)))) (\<lambda>payload.
        let bindInput = \<lparr> bi_BindingID = tc_BindingID claims, bi_CookieBundleJSON = gp_CookieBundle payload,
                          bi_DeviceID = gp_DeviceID payload, bi_DeviceFP = gp_DeviceFP payload,
                          bi_DeviceName = gp_DeviceName payload, bi_RegionHint = gp_RegionHint payload \<rparr>;
            platformAccountID = pcr_PlatformAccountId req in
        if platformAccountID \<noteq> []
        then then_io (mapped (lift_res (RequireAction guard ActionCredentialUpdate)))
             (then_io (mapped (lift_res (RequirePlatformAccountID guard platformAccountID)))
             (bind_io (mapped (ManagementUsecase_UpdateCredentialWithScope E (gs_managementUC s) ctx guard
                 \<lparr> ui_PlatformAccountID = platformAccountID, ui_BindCredentialInput = bindInput \<rparr>)) (\<lambda>summary.
              ret (toGenericCredentialSummary summary))))
        else then_io (mapped (lift_res (RequireAction guard ActionCredentialBind)))
             (bind_io (mapped (BindCredential E (gs_bindUC s) ctx bindInput)) (\<lambda>bound.
              case bound of
                None \<Rightarrow> fail (status_error GoPanic [])
              | Some bound \<Rightarrow>
                  bind_io (mapped (ManagementUsecase_GetCredentialSummaryWithScope (gs_managementUC s) ctx guard
                     (bo_PlatformAccountID bound))) (\<lambda>summary.
                  ret (toGenericCredentialSummary summary)))))))))"

text \<open>The account key of a refresh or delete: the request's, else the ticket's.\<close>

definition requested_account :: "string \<Rightarrow> ServiceTicketClaims \<Rightarrow> Status + string" where
  "requested_account platformAccountID claims =
     (let key = (if platformAccountID = [] then tc_PlatformAccountID claims else platformAccountID) in
      if key = [] then Inl platform_account_id_is_required else Inr key)"

definition Generic_RefreshCredential ::
    "env \<Rightarrow> jwt_parser \<Rightarrow> ('z base_world_scheme, 'o) GenericPlatformService \<Rightarrow> ctx \<Rightarrow> AccountRequest option \<Rightarrow>
     ('z base_world_scheme, Status, GenericCredentialStatus \<times> gotime option) call" where
  "Generic_RefreshCredential E jwt s ctx req = (case req of
     None \<Rightarrow> fail request_is_required
   | Some req \<Rightarrow>
       bind_io (verifyServiceTicket E jwt (gs_ticketVerifier s) ctx (acr_ServiceTicket req)) (\<lambda>claims.
       bind_io (mapped (lift_res (scopedGuard claims [ActionCredentialRefresh]))) (\<lambda>guard.
       bind_io (lift_res (requested_account (acr_PlatformAccountId req) claims)) (\<lambda>platformAccountID.
       then_io (mapped (lift_res (RequirePlatformAccountID guard platformAccountID)))
       (then_io (mapped (lift_res (RequireBindingWide guard)))
       (bind_io (mapped (StatusUsecase_RefreshCredential E (gs_statusUC s) ctx platformAccountID)) (\<lambda>output.
        ret (toGenericCredentialStatus (rco_Status output), toTimestamp (rco_RefreshedAt output)))))))))"

definition Generic_DeleteCredential ::
    "env \<Rightarrow> jwt_parser \<Rightarrow> ('z base_world_scheme, 'o) GenericPlatformService \<Rightarrow> ctx \<Rightarrow> AccountRequest option \<Rightarrow>
     ('z base_world_scheme, Status, bool) call" where
  "Generic_DeleteCredential E jwt s ctx req = (case req of
     None \<Rightarrow> fail request_is_required
   | Some req \<Rightarrow>
       bind_io (verifyServiceTicket E jwt (gs_ticketVerifier s) ctx (acr_ServiceTicket req)) (\<lambda>claims.
       bind_io (mapped (lift_res (scopedGuard claims [ActionCredentialDelete]))) (\<lambda>guard.
       bind_io (lift_res (requested_account (acr_PlatformAccountId req) claims)) (\<lambda>platformAccountID.
       then_io (mapped (lift_res (RequirePlatformAccountID guard platformAccountID)))
       (then_io (mapped (lift_res (RequireBindingWide guard)))
       (then_io (mapped (ManagementUsecase_DeleteCredentialWithScope (gs_managementUC s) ctx guard platformAccountID))
       (ret True)))))))"

definition Generic_InvalidateConsumerGrant ::
    "env \<Rightarrow> jwt_parser \<Rightarrow> ('z base_world_scheme, 'o) GenericPlatformService \<Rightarrow> ctx \<Rightarrow>
     InvalidateConsumerGrantRequest option \<Rightarrow> ('z base_world_scheme, Status, bool) call" where
  "Generic_InvalidateConsumerGrant E jwt s ctx req = (case req of
     None \<Rightarrow> fail request_is_required
   | Some req \<Rightarrow>
       if icr_BindingId req = 0 then fail (status_error InvalidArgument ''binding_id is required'')
       else if icr_Consumer req = [] then fail (status_error InvalidArgument ''consumer is required'')
       else if icr_MinimumGrantVersion req = 0
       then fail (status_error InvalidArgument ''minimum_grant_version is required'')
       else
       bind_io (verifyServiceTicket E jwt (gs_ticketVerifier s) ctx (icr_ServiceTicket req)) (\<lambda>claims.
       if tc_ActorType claims \<noteq> ''admin'' \<and> tc_ActorType claims \<noteq> ''user''
       then fail (status_error PermissionDenied ''only admin or user tickets can invalidate grants'')
       else if tc_BindingID claims \<noteq> icr_BindingId req
       then fail (status_error PermissionDenied ''ticket binding_id does not match request'')
       else
       bind_io (mapped (lift_res (scopedGuard claims [consumerGrantInvalidateScope]))) (\<lambda>guard.
       then_io (mapped (lift_res (RequireBindingWide guard)))
       (case gs_invalidationRepo s of
          None \<Rightarrow> fail (status_error Internal ''grant invalidation repo is not configured'')
        | Some upsert \<Rightarrow>
            then_io (map_error (\<lambda>_. status_error Internal ''failed to invalidate consumer grant'')
                      (upsert ctx (icr_BindingId req) (icr_Consumer req) (icr_MinimumGrantVersion req)))
            (ret True)))))"

section \<open>Against the contract of the services\<close>

context services
begin

abbreviation generic_service where
  "generic_service \<equiv> \<lparr> gs_ticketVerifier = verifier, gs_bindUC = bind_uc client enc_key,
     gs_statusUC = status_uc enc_key, gs_managementUC = management_uc enc_key, gs_invalidationRepo = Some upsert \<rparr>"

lemma generic_summary_keeps:
  assumes "in_ctx ctx" "\<And>r. req = Some r \<Longrightarrow> tickets (acr_ServiceTicket r)"
  shows "keeps I R (\<lambda>_. True) (Generic_GetCredentialSummary E jwt generic_service ctx req)"
  unfolding Generic_GetCredentialSummary_def using assms
  by (auto intro!: account_keeps io_bind[OF io_map_error[OF summary_scoped_keeps]] io_ret io_fail split: option.split)

lemma generic_put_keeps:
  assumes "writes" "in_ctx ctx" "\<And>r. req = Some r \<Longrightarrow> tickets (pcr_ServiceTicket r)"
  shows "keeps I R (\<lambda>_. True) (Generic_PutCredential E jwt generic_service ctx req)"
  unfolding Generic_PutCredential_def Let_def using assms
  by (auto intro!: scoped_keeps io_mapped_guard io_mapped_lifted io_bind[OF io_map_error[OF update_scoped_keeps]]
      io_bind[OF io_map_error[OF bind_keeps]] io_bind[OF io_map_error[OF summary_scoped_keeps]] io_ret io_fail
      split: option.split)

lemma generic_refresh_keeps:
  assumes "writes" "in_ctx ctx" "\<And>r. req = Some r \<Longrightarrow> tickets (acr_ServiceTicket r)"
  shows "keeps I R (\<lambda>_. True) (Generic_RefreshCredential E jwt generic_service ctx req)"
  unfolding Generic_RefreshCredential_def using assms
  by (auto intro!: scoped_keeps io_lifted io_mapped_guard io_bind[OF io_map_error[OF refresh_keeps[OF _ _ mine_owns]]]
      io_ret io_fail split: option.split)

lemma generic_delete_keeps:
  assumes "writes" "in_ctx ctx" "\<And>r. req = Some r \<Longrightarrow> tickets (acr_ServiceTicket r)"
  shows "keeps I R (\<lambda>_. True) (Generic_DeleteCredential E jwt generic_service ctx req)"
  unfolding Generic_DeleteCredential_def using assms
  by (auto intro!: scoped_keeps io_lifted io_mapped_guard io_then[OF io_map_error[OF delete_scoped_keeps]]
      io_ret io_fail split: option.split)

lemma generic_invalidate_keeps:
  assumes "writes" "in_ctx ctx" "\<And>r. req = Some r \<Longrightarrow> tickets (icr_ServiceTicket r)"
  shows "keeps I R (\<lambda>_. True) (Generic_InvalidateConsumerGrant E jwt generic_service ctx req)"
proof (cases req)
  case (Some r)
  then show ?thesis
    unfolding Generic_InvalidateConsumerGrant_def using assms
    by (auto intro!: io_bind[OF verify_keeps] io_mapped_lifted io_mapped_guard io_then[OF io_map_error[OF upsert_keeps]]
        io_ret io_fail)
qed (simp add: Generic_InvalidateConsumerGrant_def io_fail)

end

end
