(* ===== verification/Scope.thy ===== *)
theory Scope
  imports Contracts
begin

text \<open>
  What a caller may touch, at the level of the tables. \<open>mine\<close>, \<open>owns\<close> and \<open>acct\<close> are the bounds of
  the contracts. \<open>scope_ok\<close> says that a database is well-formed and that its rows respect the bounds;
  \<open>frame\<close> that two databases agree on every row outside them and that no grant minimum went down. Each statement the repositories issue
  keeps both, provided the rows it writes are inside the bounds and so are the rows it clashes with.
\<close>

section \<open>One table\<close>

definition table_scope :: "'r ukey list \<Rightarrow> ('r \<Rightarrow> bool) \<Rightarrow> 'r sqltable \<Rightarrow> bool" where
  "table_scope ks V t \<longleftrightarrow> table_ok ks t \<and> (\<forall>x \<in> set (tb_rows t). V (snd x))"

definition same_outside :: "('r \<Rightarrow> bool) \<Rightarrow> 'r sqltable \<Rightarrow> 'r sqltable \<Rightarrow> bool" where
  "same_outside M t t' \<longleftrightarrow> filter (\<lambda>x. \<not> M (snd x)) (tb_rows t') = filter (\<lambda>x. \<not> M (snd x)) (tb_rows t)"

lemma same_outside_refl [simp]: "same_outside M t t"
  by (simp add: same_outside_def)

lemma same_outside_trans: "same_outside M t t' \<Longrightarrow> same_outside M t' t'' \<Longrightarrow> same_outside M t t''"
  by (simp add: same_outside_def)

lemma delete_scope:
  assumes "table_scope ks V t" and sel: "\<And>r. V r \<Longrightarrow> p r \<Longrightarrow> M r"
  shows "table_scope ks V (sql_delete p t) \<and> same_outside M t (sql_delete p t)"
proof -
  have "filter (\<lambda>x. \<not> M (snd x)) (filter (\<lambda>x. \<not> p (snd x)) (tb_rows t)) = filter (\<lambda>x. \<not> M (snd x)) (tb_rows t)"
    unfolding filter_filter using assms by (intro filter_cong refl) (auto simp: table_scope_def)
  then show ?thesis
    using assms by (auto simp: table_scope_def same_outside_def) (auto simp: sql_delete_def)
qed

lemma insert_scope:
  assumes t: "table_scope ks V t" and sym: "keys_sym ks" and new: "V r" "M r"
    and ins: "sql_insert ks r t = Inr t'"
  shows "table_scope ks V t' \<and> same_outside M t t'"
  using t new table_ok_insert[OF _ sym ins] by (auto simp: table_scope_def same_outside_def sql_insert_rows[OF ins])

lemma update_scope:
  assumes t: "table_scope ks V t" and sym: "keys_sym ks"
    and sel: "\<And>i r. (i, r) \<in> set (tb_rows t) \<Longrightarrow> V r \<Longrightarrow> p i r \<Longrightarrow> M r \<and> M (f r) \<and> V (f r)"
    and upd: "sql_update ks p f t = Inr (n, t')"
  shows "table_scope ks V t' \<and> same_outside M t t'"
proof -
  note rows = sql_update_rows[OF upd]
  have V: "\<forall>x \<in> set (tb_rows t). V (snd x)" using t by (simp add: table_scope_def)
  have "filter (\<lambda>x. \<not> M (snd x)) (map (\<lambda>x. if p (fst x) (snd x) then (fst x, f (snd x)) else x) xs)
      = filter (\<lambda>x. \<not> M (snd x)) xs" if "set xs \<subseteq> set (tb_rows t)" for xs
    using that V sel by (induction xs) auto
  then have "same_outside M t t'" by (simp add: same_outside_def rows)
  moreover have "\<forall>x \<in> set (tb_rows t'). V (snd x)" using V sel by (auto simp: rows)
  moreover have "table_ok ks t'" using t table_ok_update[OF _ sym upd] by (simp add: table_scope_def)
  ultimately show ?thesis by (simp add: table_scope_def)
qed

lemma upsert_scope:
  assumes t: "table_scope ks V t" and sym: "keys_sym ks" and new: "V r" "M r"
    and clash: "\<And>old. V old \<Longrightarrow> clashes ks r old \<Longrightarrow> M old \<and> M (upd r old) \<and> V (upd r old)"
    and ups: "sql_upsert k d ks target upd r t = Inr t'"
  shows "table_scope ks V t' \<and> same_outside M t t'"
  using ups
proof (cases rule: sql_upsert_cases)
  case insert
  then show ?thesis using insert_scope[where V = V and M = M, OF t sym new] by blast
next
  case (update x n)
  have "clashes ks r (snd x)"
    using update(2) by (cases d) (force simp: conflicting_def clashes_def)+
  moreover have "table_ok ks t" using t by (simp add: table_scope_def)
  ultimately have "M r' \<and> M (upd r r') \<and> V (upd r r')" if "(i, r') \<in> set (tb_rows t)" "i = fst x" for i r'
  proof -
    have "(i, r') = x"
      using that update(1) t ids_ok_inj[of t "(i, r')" x] by (simp add: table_scope_def table_ok_def)
    then have "r' = snd x" by (metis snd_conv)
    then show ?thesis
      using \<open>clashes ks r (snd x)\<close> clash[of r'] update(1) t by (simp add: table_scope_def)
  qed
  then show ?thesis
    using update_scope[OF t sym _ update(3), of M] by blast
qed

section \<open>The database\<close>

text \<open>A row of binding \<open>b\<close> with account key \<open>k\<close> respects the bounds: a row of mine has a key of mine,
  and a key of mine is on rows of mine only.\<close>

definition row_ok :: "(u64 \<Rightarrow> bool) \<Rightarrow> (u64 \<Rightarrow> string \<Rightarrow> bool) \<Rightarrow> u64 \<Rightarrow> string \<Rightarrow> bool" where
  "row_ok mine owns b k \<longleftrightarrow> (mine b \<longrightarrow> owns b k) \<and> (\<forall>b'. owns b' k \<longrightarrow> mine b)"

definition credential_ok where
  "credential_ok mine owns acct r \<longleftrightarrow> row_ok mine owns (cd_BindingID r) (cd_PlatformAccountID r) \<and>
     (acct (cd_Platform r) (cd_AccountID r) \<longleftrightarrow> mine (cd_BindingID r))"

definition device_ok where
  "device_ok mine owns r \<longleftrightarrow> row_ok mine owns (dr_BindingID r) (dr_PlatformAccountID r)"

definition profile_ok where
  "profile_ok mine owns r \<longleftrightarrow> row_ok mine owns (ap_BindingID r) (ap_PlatformAccountID r)"

definition artifact_ok where
  "artifact_ok mine owns r \<longleftrightarrow> row_ok mine owns (ra_BindingID r) (ra_PlatformAccountID r)"

lemmas rows_ok = row_ok_def credential_ok_def device_ok_def profile_ok_def artifact_ok_def

definition scope_ok :: "(u64 \<Rightarrow> bool) \<Rightarrow> (u64 \<Rightarrow> string \<Rightarrow> bool) \<Rightarrow> (string \<Rightarrow> string \<Rightarrow> bool) \<Rightarrow> database \<Rightarrow> bool" where
  "scope_ok mine owns acct d \<longleftrightarrow>
     table_scope credential_keys (credential_ok mine owns acct) (db_credentials d) \<and>
     table_scope device_keys (device_ok mine owns) (db_devices d) \<and>
     table_scope profile_keys (profile_ok mine owns) (db_profiles d) \<and>
     table_scope artifact_keys (artifact_ok mine owns) (db_artifacts d) \<and>
     table_scope invalidation_keys (\<lambda>_. True) (db_invalidations d)"

text \<open>The least grant version an invalidation table records for a binding and consumer; 0 without a row.\<close>

definition minimum_of :: "ConsumerGrantInvalidation sqltable \<Rightarrow> u64 \<Rightarrow> string \<Rightarrow> u64" where
  "minimum_of t bindingID consumer =
     (case sql_first (\<lambda>r. gi_BindingID r = bindingID \<and> gi_Consumer r = consumer) t of
        None \<Rightarrow> 0 | Some (_, row) \<Rightarrow> gi_MinimumGrantVersion row)"

abbreviation recorded_minimum :: "database \<Rightarrow> u64 \<Rightarrow> string \<Rightarrow> u64" where
  "recorded_minimum d \<equiv> minimum_of (db_invalidations d)"

lemma minimum_of_row:
  assumes "table_ok invalidation_keys t" "x \<in> set (tb_rows t)"
  shows "minimum_of t (gi_BindingID (snd x)) (gi_Consumer (snd x)) = gi_MinimumGrantVersion (snd x)"
proof -
  let ?p = "\<lambda>r. gi_BindingID r = gi_BindingID (snd x) \<and> gi_Consumer r = gi_Consumer (snd x)"
  obtain y where y: "sql_first ?p t = Some y"
    using assms(2) unfolding sql_first_def by (metis (mono_tags, lifting) find_None_iff not_None_eq)
  have "y = x"
    using sql_first_Some[OF y] assms unique_ok_inj[of invalidation_keys t y x] by (simp add: table_ok_def schema_clashes)
  then show ?thesis using y by (simp add: minimum_of_def split: prod.split)
qed

lemma minimum_of_none:
  assumes "\<forall>x \<in> set (tb_rows t). \<not> (gi_BindingID (snd x) = b \<and> gi_Consumer (snd x) = c)"
  shows "minimum_of t b c = 0"
proof -
  have "sql_first (\<lambda>r. gi_BindingID r = b \<and> gi_Consumer r = c) t = None"
    using assms by (fastforce simp: sql_first_def find_None_iff)
  then show ?thesis by (simp add: minimum_of_def)
qed

definition grants_kept :: "ConsumerGrantInvalidation sqltable \<Rightarrow> ConsumerGrantInvalidation sqltable \<Rightarrow> bool" where
  "grants_kept t t' \<longleftrightarrow> (\<forall>b c. minimum_of t b c \<le> minimum_of t' b c)"

lemma grants_kept_refl [simp]: "grants_kept t t"
  by (simp add: grants_kept_def)

lemma grants_kept_trans: "grants_kept t t' \<Longrightarrow> grants_kept t' t'' \<Longrightarrow> grants_kept t t''"
  unfolding grants_kept_def using order_trans by blast

lemma upsert_grants_kept:
  assumes ok: "table_ok invalidation_keys t" and ups: "sql_upsert k d invalidation_keys target upd r t = Inr t'"
    and upd: "\<And>old. gi_BindingID (upd r old) = gi_BindingID old \<and> gi_Consumer (upd r old) = gi_Consumer old \<and>
      gi_MinimumGrantVersion old \<le> gi_MinimumGrantVersion (upd r old)"
  shows "grants_kept t t'"
  unfolding grants_kept_def
proof (intro allI)
  fix b c
  have ok': "table_ok invalidation_keys t'" by (rule table_ok_upsert[OF ok _ ups]) simp
  show "minimum_of t b c \<le> minimum_of t' b c"
  proof (cases "\<exists>x \<in> set (tb_rows t). gi_BindingID (snd x) = b \<and> gi_Consumer (snd x) = c")
    case False
    then have "minimum_of t b c = 0" by (intro minimum_of_none) blast
    then show ?thesis by simp
  next
    case True
    then obtain x where x: "x \<in> set (tb_rows t)" "gi_BindingID (snd x) = b" "gi_Consumer (snd x) = c" by blast
    from rows_after_upsert[OF ups x(1)] show ?thesis
      using minimum_of_row[OF ok x(1)] minimum_of_row[OF ok', of x] minimum_of_row[OF ok', of "(fst x, upd r (snd x))"]
        upd[of "snd x"] x(2,3) by auto
  qed
qed

text \<open>A frame also never lowers a recorded grant minimum, not even within the bounds.\<close>

definition frame :: "(u64 \<Rightarrow> bool) \<Rightarrow> database \<Rightarrow> database \<Rightarrow> bool" where
  "frame mine d d' \<longleftrightarrow>
     same_outside (\<lambda>r. mine (cd_BindingID r)) (db_credentials d) (db_credentials d') \<and>
     same_outside (\<lambda>r. mine (dr_BindingID r)) (db_devices d) (db_devices d') \<and>
     same_outside (\<lambda>r. mine (ap_BindingID r)) (db_profiles d) (db_profiles d') \<and>
     same_outside (\<lambda>r. mine (ra_BindingID r)) (db_artifacts d) (db_artifacts d') \<and>
     same_outside (\<lambda>r. mine (gi_BindingID r)) (db_invalidations d) (db_invalidations d') \<and>
     grants_kept (db_invalidations d) (db_invalidations d')"

lemma frame_refl [simp]: "frame mine d d"
  by (simp add: frame_def)

lemma frame_trans: "frame mine d d' \<Longrightarrow> frame mine d' d'' \<Longrightarrow> frame mine d d''"
  unfolding frame_def by (meson same_outside_trans grants_kept_trans)

lemma scope_ok_database_ok: "scope_ok mine owns acct d \<Longrightarrow> database_ok d"
  by (simp add: scope_ok_def database_ok_def table_scope_def)

text \<open>With everything in scope nothing but the well-formedness is left.\<close>

lemma scope_ok_all: "scope_ok (\<lambda>_. True) (\<lambda>_ _. True) (\<lambda>_ _. True) d \<longleftrightarrow> database_ok d"
  by (simp add: scope_ok_def database_ok_def table_scope_def rows_ok)

lemma scope_rows:
  assumes "scope_ok mine owns acct d"
  shows "x \<in> set (tb_rows (db_credentials d)) \<Longrightarrow> credential_ok mine owns acct (snd x)"
    and "y \<in> set (tb_rows (db_profiles d)) \<Longrightarrow> profile_ok mine owns (snd y)"
  using assms by (auto simp: scope_ok_def table_scope_def)

end
