(* ===== verification/SqlContract.thy ===== *)
theory SqlContract
  imports Scope
begin

text \<open>
  The contracts of the database and cache primitives, from which every repository obtains its own:
  a statement keeps the contract if on each database that respects the bounds it leaves one that
  does and agrees outside them. \<open>put_ok\<close> and \<open>view_ok\<close> say how the invariant of the world sees the
  database a context selects.
\<close>

locale sql_contract = binding_scope I R mine owns acct in_ctx writes
  for I :: "world \<Rightarrow> bool" and R mine owns acct in_ctx writes +
  fixes E :: env
  assumes view_ok: "\<lbrakk> I w; in_ctx ctx \<rbrakk> \<Longrightarrow> scope_ok mine owns acct (db_view ctx w)"
    and put_ok: "\<lbrakk> writes; I w; in_ctx ctx; scope_ok mine owns acct d; frame mine (db_view ctx w) d \<rbrakk> \<Longrightarrow>
      I (put_view ctx d w) \<and> R w (put_view ctx d w)"
    and redis_ok: "\<lbrakk> writes; I w \<rbrakk> \<Longrightarrow> I (w\<lparr> w_redis := c \<rparr>) \<and> R w (w\<lparr> w_redis := c \<rparr>)"
begin

lemma interact_keeps:
  assumes f: "\<And>n w r w'. I w \<Longrightarrow> f n w = (r, w') \<Longrightarrow> I w' \<and> R w w' \<and> (\<forall>x. r = Inr x \<longrightarrow> Q x)"
  shows "keeps I R Q (interact E f)"
proof (rule keepsI)
  fix w r w'
  assume I: "I w" and m: "interact E f w = (r, w')"
  obtain r2 w2 where f2: "f (ticks w) (next_tick w) = (r2, w2)" by (cases "f (ticks w) (next_tick w)")
  have tick: "I (next_tick w)" "R w (next_tick w)" using tick_keeps[OF I] by auto
  have two: "I w2 \<and> R w w2 \<and> (\<forall>x. r2 = Inr x \<longrightarrow> Q x)"
    using f[OF tick(1) f2] R_trans[OF tick(2)] by blast
  show "I w' \<and> R w w' \<and> (\<forall>x. r = Inr x \<longrightarrow> Q x)"
    using m f2 tick two by (auto simp: interact_def Let_def split: option.splits fault.splits)
qed

lemma query_keeps:
  assumes "in_ctx ctx" "\<And>k d. scope_ok mine owns acct d \<Longrightarrow> Q (f k d)"
  shows "keeps I R Q (sql_query E ctx f)"
  unfolding sql_query_def using assms view_ok R_refl by (intro interact_keeps) auto

lemma exec_at:
  assumes "writes" and I: "I w" and ctx: "in_ctx ctx"
    and step: "\<And>k x d'. f k (db_view ctx w) = Inr (x, d') \<Longrightarrow> scope_ok mine owns acct d' \<and> frame mine (db_view ctx w) d'"
    and m: "sql_exec E ctx f w = (r, w')"
  shows "I w' \<and> R w w'"
proof -
  let ?v = "next_tick w"
  have tick: "I ?v" "R w ?v" using tick_keeps[OF I] by auto
  have put: "I (put_view ctx d ?v) \<and> R w (put_view ctx d ?v)" if "f k (db_view ctx w) = Inr (x, d)" for k x d
    using put_ok[OF assms(1) tick(1) ctx] step[OF that] R_trans[OF tick(2)] by auto
  show ?thesis
    using m tick put by (auto simp: sql_exec_def interact_def Let_def split: option.splits fault.splits sum.splits)
qed

lemma exec_keeps:
  assumes "writes" "in_ctx ctx"
    and step: "\<And>k d x d'. scope_ok mine owns acct d \<Longrightarrow> f k d = Inr (x, d') \<Longrightarrow>
      scope_ok mine owns acct d' \<and> frame mine d d'"
  shows "keeps I R (\<lambda>_. True) (sql_exec E ctx f)"
  using exec_at[OF assms(1) _ assms(2)] step view_ok[OF _ assms(2)] by (intro keepsI) blast

lemma take_keeps:
  assumes "in_ctx ctx"
    and "\<And>d x. scope_ok mine owns acct d \<Longrightarrow> x \<in> set (tb_rows (sel d)) \<Longrightarrow> p (snd x) \<Longrightarrow> Q x"
  shows "keeps I R Q (gorm_take E ctx sel p)" "keeps I R Q (gorm_first E ctx sel p)"
proof -
  have ok: "Q x" if "I w" "x \<in> set (tb_rows (sel (db_view ctx w)))" "p (snd x)" for w x
    using assms(2)[OF view_ok[OF that(1) assms(1)] that(2,3)] .
  show "keeps I R Q (gorm_take E ctx sel p)" "keeps I R Q (gorm_first E ctx sel p)"
    unfolding gorm_take_def gorm_first_def
    by (rule interact_keeps; use ok R_refl in \<open>auto split: option.splits dest!: sql_take_Some sql_first_Some\<close>)+
qed

lemma find_keeps:
  assumes "in_ctx ctx"
    and "\<And>d x. scope_ok mine owns acct d \<Longrightarrow> x \<in> set (tb_rows (sel d)) \<Longrightarrow> p (snd x) \<Longrightarrow> Q x"
  shows "keeps I R (\<lambda>xs. \<forall>x \<in> set xs. Q x) (gorm_find E ctx sel p)"
  unfolding gorm_find_def using assms by (intro query_keeps) (auto simp: set_sql_find)

lemma not_found_keeps:
  assumes "keeps I R Q m"
  shows "keeps I R (\<lambda>r. \<forall>x. r = Some x \<longrightarrow> Q x) (catch_not_found m)"
  unfolding catch_not_found_def using assms
  by (intro io_bind[OF io_attempt]) (auto intro!: io_ret io_fail split: sum.split)

lemma redis_get_keeps: "keeps I R (\<lambda>_. True) (redis_get E key)"
  unfolding redis_get_def using R_refl by (intro interact_keeps) (auto split: option.splits if_splits)

lemma redis_del_keeps: "writes \<Longrightarrow> keeps I R (\<lambda>_. True) (redis_del E ks)"
  unfolding redis_del_def using redis_ok by (intro interact_keeps) auto

lemma redis_set_keeps: "writes \<Longrightarrow> keeps I R (\<lambda>_. True) (redis_set E key v ttl)"
  unfolding redis_set_def using redis_ok by (intro interact_keeps) auto

text \<open>Statements on one table.\<close>

lemma credential_step:
  assumes "writes" "in_ctx ctx"
    and "\<And>k t t'. table_scope credential_keys (credential_ok mine owns acct) t \<Longrightarrow> f k t = Inr t' \<Longrightarrow>
      table_scope credential_keys (credential_ok mine owns acct) t' \<and> same_outside (\<lambda>r. mine (cd_BindingID r)) t t'"
  shows "keeps I R (\<lambda>_. True) (sql_exec E ctx (\<lambda>k. on_credentials (f k)))"
  using assms by (intro exec_keeps) (auto simp: on_credentials_def scope_ok_def frame_def map_sum_def split: sum.splits)

lemma device_step:
  assumes "writes" "in_ctx ctx"
    and "\<And>k t t'. table_scope device_keys (device_ok mine owns) t \<Longrightarrow> f k t = Inr t' \<Longrightarrow>
      table_scope device_keys (device_ok mine owns) t' \<and> same_outside (\<lambda>r. mine (dr_BindingID r)) t t'"
  shows "keeps I R (\<lambda>_. True) (sql_exec E ctx (\<lambda>k. on_devices (f k)))"
  using assms by (intro exec_keeps) (auto simp: on_devices_def scope_ok_def frame_def map_sum_def split: sum.splits)

lemma profile_step:
  assumes "writes" "in_ctx ctx"
    and "\<And>k t t'. table_scope profile_keys (profile_ok mine owns) t \<Longrightarrow> f k t = Inr t' \<Longrightarrow>
      table_scope profile_keys (profile_ok mine owns) t' \<and> same_outside (\<lambda>r. mine (ap_BindingID r)) t t'"
  shows "keeps I R (\<lambda>_. True) (sql_exec E ctx (\<lambda>k. on_profiles (f k)))"
  using assms by (intro exec_keeps) (auto simp: on_profiles_def scope_ok_def frame_def map_sum_def split: sum.splits)

lemma artifact_step:
  assumes "writes" "in_ctx ctx"
    and "\<And>k t t'. table_scope artifact_keys (artifact_ok mine owns) t \<Longrightarrow> f k t = Inr t' \<Longrightarrow>
      table_scope artifact_keys (artifact_ok mine owns) t' \<and> same_outside (\<lambda>r. mine (ra_BindingID r)) t t'"
  shows "keeps I R (\<lambda>_. True) (sql_exec E ctx (\<lambda>k. on_artifacts (f k)))"
  using assms by (intro exec_keeps) (auto simp: on_artifacts_def scope_ok_def frame_def map_sum_def split: sum.splits)

lemma invalidation_step:
  assumes "writes" "in_ctx ctx"
    and "\<And>k t t'. table_scope invalidation_keys (\<lambda>_. True) t \<Longrightarrow> f k t = Inr t' \<Longrightarrow>
      table_scope invalidation_keys (\<lambda>_. True) t' \<and> same_outside (\<lambda>r. mine (gi_BindingID r)) t t' \<and> grants_kept t t'"
  shows "keeps I R (\<lambda>_. True) (sql_exec E ctx (\<lambda>k. on_invalidations (f k)))"
  using assms by (intro exec_keeps) (auto simp: on_invalidations_def scope_ok_def frame_def map_sum_def split: sum.splits)

text \<open>Deletions and upserts, whose rows and clashes must be in scope.\<close>

lemma credential_delete_step:
  assumes "writes" "in_ctx ctx" "\<And>r. credential_ok mine owns acct r \<Longrightarrow> p r \<Longrightarrow> mine (cd_BindingID r)"
  shows "keeps I R (\<lambda>_. True) (sql_exec E ctx (\<lambda>_. on_credentials (\<lambda>t. Inr (sql_delete p t))))"
  using assms delete_scope[where V = "credential_ok mine owns acct" and M = "\<lambda>r. mine (cd_BindingID r)"]
  by (intro credential_step) auto

lemma credential_upsert_step:
  assumes "writes" "in_ctx ctx" "credential_ok mine owns acct r" "mine (cd_BindingID r)"
    and clash: "\<And>old. credential_ok mine owns acct old \<Longrightarrow> clashes credential_keys r old \<Longrightarrow>
      mine (cd_BindingID old) \<and> mine (cd_BindingID (upd r old)) \<and> credential_ok mine owns acct (upd r old)"
  shows "keeps I R (\<lambda>_. True) (sql_exec E ctx (\<lambda>k. on_credentials (row_checked E cs (sql_upsert k (dialect E) credential_keys target upd r))))"
  by (rule credential_step[OF assms(1,2)], unfold row_checked_ok, elim conjE, rule upsert_scope[where V = "credential_ok mine owns acct" and M = "\<lambda>r. mine (cd_BindingID r)"])
    (assumption | rule assms keys_sym_schema)+

lemma device_delete_step:
  assumes "writes" "in_ctx ctx" "\<And>r. device_ok mine owns r \<Longrightarrow> p r \<Longrightarrow> mine (dr_BindingID r)"
  shows "keeps I R (\<lambda>_. True) (sql_exec E ctx (\<lambda>_. on_devices (\<lambda>t. Inr (sql_delete p t))))"
  using assms delete_scope[where V = "device_ok mine owns" and M = "\<lambda>r. mine (dr_BindingID r)"]
  by (intro device_step) auto

lemma device_upsert_step:
  assumes "writes" "in_ctx ctx" "device_ok mine owns r" "mine (dr_BindingID r)"
    and clash: "\<And>old. device_ok mine owns old \<Longrightarrow> clashes device_keys r old \<Longrightarrow>
      mine (dr_BindingID old) \<and> mine (dr_BindingID (upd r old)) \<and> device_ok mine owns (upd r old)"
  shows "keeps I R (\<lambda>_. True) (sql_exec E ctx (\<lambda>k. on_devices (row_checked E cs (sql_upsert k (dialect E) device_keys target upd r))))"
  by (rule device_step[OF assms(1,2)], unfold row_checked_ok, elim conjE, rule upsert_scope[where V = "device_ok mine owns" and M = "\<lambda>r. mine (dr_BindingID r)"])
    (assumption | rule assms keys_sym_schema)+

lemma profile_delete_step:
  assumes "writes" "in_ctx ctx" "\<And>r. profile_ok mine owns r \<Longrightarrow> p r \<Longrightarrow> mine (ap_BindingID r)"
  shows "keeps I R (\<lambda>_. True) (sql_exec E ctx (\<lambda>_. on_profiles (\<lambda>t. Inr (sql_delete p t))))"
  using assms delete_scope[where V = "profile_ok mine owns" and M = "\<lambda>r. mine (ap_BindingID r)"]
  by (intro profile_step) auto

lemma profile_upsert_step:
  assumes "writes" "in_ctx ctx" "profile_ok mine owns r" "mine (ap_BindingID r)"
    and clash: "\<And>old. profile_ok mine owns old \<Longrightarrow> clashes profile_keys r old \<Longrightarrow>
      mine (ap_BindingID old) \<and> mine (ap_BindingID (upd r old)) \<and> profile_ok mine owns (upd r old)"
  shows "keeps I R (\<lambda>_. True) (sql_exec E ctx (\<lambda>k. on_profiles (row_checked E cs (sql_upsert k (dialect E) profile_keys target upd r))))"
  by (rule profile_step[OF assms(1,2)], unfold row_checked_ok, elim conjE, rule upsert_scope[where V = "profile_ok mine owns" and M = "\<lambda>r. mine (ap_BindingID r)"])
    (assumption | rule assms keys_sym_schema)+

lemma artifact_delete_step:
  assumes "writes" "in_ctx ctx" "\<And>r. artifact_ok mine owns r \<Longrightarrow> p r \<Longrightarrow> mine (ra_BindingID r)"
  shows "keeps I R (\<lambda>_. True) (sql_exec E ctx (\<lambda>_. on_artifacts (\<lambda>t. Inr (sql_delete p t))))"
  using assms delete_scope[where V = "artifact_ok mine owns" and M = "\<lambda>r. mine (ra_BindingID r)"]
  by (intro artifact_step) auto

lemma artifact_upsert_step:
  assumes "writes" "in_ctx ctx" "artifact_ok mine owns r" "mine (ra_BindingID r)"
    and clash: "\<And>old. artifact_ok mine owns old \<Longrightarrow> clashes artifact_keys r old \<Longrightarrow>
      mine (ra_BindingID old) \<and> mine (ra_BindingID (upd r old)) \<and> artifact_ok mine owns (upd r old)"
  shows "keeps I R (\<lambda>_. True) (sql_exec E ctx (\<lambda>k. on_artifacts (row_checked E cs (sql_upsert k (dialect E) artifact_keys target upd r))))"
  by (rule artifact_step[OF assms(1,2)], unfold row_checked_ok, elim conjE, rule upsert_scope[where V = "artifact_ok mine owns" and M = "\<lambda>r. mine (ra_BindingID r)"])
    (assumption | rule assms keys_sym_schema)+

lemma invalidation_upsert_step:
  assumes "writes" "in_ctx ctx" "mine (gi_BindingID r)"
    and upd: "\<And>old. gi_BindingID (upd r old) = gi_BindingID old \<and> gi_Consumer (upd r old) = gi_Consumer old \<and>
      gi_MinimumGrantVersion old \<le> gi_MinimumGrantVersion (upd r old)"
  shows "keeps I R (\<lambda>_. True) (sql_exec E ctx (\<lambda>k. on_invalidations (row_checked E cs (sql_upsert k (dialect E) invalidation_keys target upd r))))"
proof (rule invalidation_step[OF assms(1,2)])
  fix k t t'
  assume t: "table_scope invalidation_keys (\<lambda>_. True) t"
    and checked: "row_checked E cs (sql_upsert k (dialect E) invalidation_keys target upd r) t = Inr t'"
  have ups: "sql_upsert k (dialect E) invalidation_keys target upd r t = Inr t'" using checked by simp
  have "table_scope invalidation_keys (\<lambda>_. True) t' \<and> same_outside (\<lambda>r. mine (gi_BindingID r)) t t'"
    by (rule upsert_scope[OF t keys_sym_schema(5) _ _ _ ups]) (use assms(3) upd in \<open>auto simp: schema_clashes\<close>)
  moreover have "grants_kept t t'"
    by (rule upsert_grants_kept[OF _ ups upd]) (use t in \<open>simp add: table_scope_def\<close>)
  ultimately show "table_scope invalidation_keys (\<lambda>_. True) t' \<and> same_outside (\<lambda>r. mine (gi_BindingID r)) t t' \<and> grants_kept t t'"
    by simp
qed

end

text \<open>With transactions of the pool, and every context allowed: the laws say how the invariant sees the
  worlds at the start of a transaction, after its rollback, after its commit and after the rollback
  to a savepoint.\<close>

definition tx_started :: "world \<Rightarrow> world" where
  "tx_started w = (next_tick w)\<lparr> w_tx := Some (w_db w) \<rparr>"

definition tx_restored :: "world \<Rightarrow> world \<Rightarrow> world" where
  "tx_restored w w2 = (next_tick w2)\<lparr> w_tx := w_tx w \<rparr>"

definition tx_committed :: "world \<Rightarrow> world \<Rightarrow> world" where
  "tx_committed w w2 = (tx_restored w w2)\<lparr> w_db := db_view WithTx w2 \<rparr>"

lemma begin_tx_steps:
  "begin_tx E body w = (case fault E (ticks w) of
      Some f \<Rightarrow> (Inl (case f of FailBefore e \<Rightarrow> e | FailAfter e \<Rightarrow> e), next_tick w)
    | None \<Rightarrow> (case body WithTx (tx_started w) of
        (Inl e, w2) \<Rightarrow> (Inl e, tx_restored w w2)
      | (Inr x, w2) \<Rightarrow> (case fault E (ticks w2) of
          None \<Rightarrow> (Inr x, tx_committed w w2)
        | Some (FailBefore e) \<Rightarrow> (Inl e, tx_restored w w2)
        | Some (FailAfter e) \<Rightarrow> (Inl e, tx_committed w w2))))"
  by (auto simp: begin_tx_def tx_commit_def tx_started_def tx_restored_def tx_committed_def Let_def
      split: option.splits fault.splits prod.splits sum.splits)

locale pool_contract = sql_contract I R mine owns acct in_ctx writes E
  for I :: "world \<Rightarrow> bool" and R mine owns acct in_ctx writes E +
  assumes any_ctx: "in_ctx ctx"
    and begin_ok: "I w \<Longrightarrow> I (tx_started w)"
    and end_ok: "\<lbrakk> writes; I w; I w2; R (tx_started w) w2 \<rbrakk> \<Longrightarrow>
      I (tx_restored w w2) \<and> R w (tx_restored w w2) \<and> I (tx_committed w w2) \<and> R w (tx_committed w w2)"
    and savepoint_ok: "\<lbrakk> writes; I w; I w2; R w w2 \<rbrakk> \<Longrightarrow> I (tx_restored w w2) \<and> R w (tx_restored w w2)"
begin

lemma begin_keeps:
  assumes "writes" and body: "keeps I R Q (body WithTx)"
  shows "keeps I R Q (begin_tx E body)"
proof (rule keepsI)
  fix w r w'
  assume I: "I w" and m: "begin_tx E body w = (r, w')"
  obtain r2 w2 where b: "body WithTx (tx_started w) = (r2, w2)" by fastforce
  note inside = keepsD[OF body begin_ok[OF I] b]
  show "I w' \<and> R w w' \<and> (\<forall>x. r = Inr x \<longrightarrow> Q x)"
    using m b inside end_ok[OF assms(1) I inside(1,2)] tick_keeps[OF I]
    by (auto simp: begin_tx_steps split: option.splits fault.splits sum.splits)
qed

lemma transaction_keeps:
  assumes "writes" and body: "keeps I R Q (body WithTx)"
  shows "keeps I R Q (transaction E ctx body)"
proof (rule keepsI)
  fix w r w'
  assume I: "I w" and m: "transaction E ctx body w = (r, w')"
  show "I w' \<and> R w w' \<and> (\<forall>x. r = Inr x \<longrightarrow> Q x)"
  proof (cases "ctx = WithTx \<and> w_tx w \<noteq> None")
    case False
    then have "begin_tx E body w = (r, w')" using m by (auto simp: transaction_def)
    then show ?thesis using keepsD[OF begin_keeps[where Q = Q and body = body, OF assms] I] by blast
  next
    case True
    obtain r2 w2 where b: "body WithTx (next_tick w) = (r2, w2)" by fastforce
    have tick: "I (next_tick w)" "R w (next_tick w)" using tick_keeps[OF I] by auto
    note inside = keepsD[OF body tick(1) b]
    have R2: "R w w2" using R_trans tick(2) inside(2) by blast
    have "I (next_tick w2) \<and> R w (next_tick w2)" using tick_keeps[OF inside(1)] R_trans R2 by blast
    then show ?thesis
      using m True b inside tick R2 savepoint_ok[OF assms(1) I inside(1) R2]
      by (auto simp: transaction_def savepoint_def tx_restored_def split: option.splits fault.splits sum.splits)
  qed
qed

end

end
