(* ===== verification/CredentialRepo.thy ===== *)
theory CredentialRepo
  imports SqlContract
begin

text \<open>
  \<open>internal/data/credential_repo.go\<close>: the credential repository over MySQL. \<open>Save\<close> is an insert with
  \<open>OnConflict{binding_id, UpdateAll}\<close>, and \<open>WithinTransaction\<close> runs a closure in a transaction of
  the pool whose handle travels in the closure's context.
\<close>

definition record_of_credential :: "Credential \<Rightarrow> CredentialRecord" where
  "record_of_credential c = \<lparr>
     cd_BindingID = cr_BindingID c, cd_PlatformAccountID = cr_PlatformAccountID c,
     cd_Platform = cr_Platform c, cd_AccountID = cr_AccountID c, cd_Region = cr_Region c,
     cd_CredentialBlob = cr_CredentialBlob c, cd_CredentialVersion = cr_CredentialVersion c,
     cd_Status = cr_Status c, cd_LastValidatedAt = cr_LastValidatedAt c,
     cd_LastRefreshedAt = cr_LastRefreshedAt c, cd_ExpiresAt = cr_ExpiresAt c \<rparr>"

definition credentialFromRecord :: "CredentialRecord \<Rightarrow> Credential" where
  "credentialFromRecord r = \<lparr>
     cr_BindingID = cd_BindingID r, cr_PlatformAccountID = cd_PlatformAccountID r,
     cr_Platform = cd_Platform r, cr_AccountID = cd_AccountID r, cr_Region = cd_Region r,
     cr_CredentialBlob = cd_CredentialBlob r, cr_CredentialVersion = cd_CredentialVersion r,
     cr_Status = cd_Status r, cr_LastValidatedAt = cd_LastValidatedAt r,
     cr_LastRefreshedAt = cd_LastRefreshedAt r, cr_ExpiresAt = cd_ExpiresAt r \<rparr>"

definition CredentialRepo_WithinTransaction :: "env \<Rightarrow> ctx \<Rightarrow> (ctx \<Rightarrow> (world, 'o) io) \<Rightarrow> (world, 'o) io" where
  "CredentialRepo_WithinTransaction E ctx fn = begin_tx E fn"

definition CredentialRepo_Save :: "env \<Rightarrow> ctx \<Rightarrow> Credential \<Rightarrow> (world, unit) io" where
  "CredentialRepo_Save E ctx credential =
     (let record = record_of_credential credential in
      sql_exec E ctx (\<lambda>k. on_credentials (row_checked E (credential_columns record)
        (sql_upsert k (dialect E) credential_keys ''uniq_credential_binding_id'' (\<lambda>new old. new) record))))"

definition CredentialRepo_GetByBindingID :: "env \<Rightarrow> ctx \<Rightarrow> u64 \<Rightarrow> (world, Credential option) io" where
  "CredentialRepo_GetByBindingID E ctx bindingID =
     bind_io (catch_not_found (gorm_first E ctx db_credentials (\<lambda>r. cd_BindingID r = bindingID)))
       (\<lambda>x. ret (map_option (credentialFromRecord \<circ> snd) x))"

definition CredentialRepo_GetByPlatformAccountID :: "env \<Rightarrow> ctx \<Rightarrow> string \<Rightarrow> (world, Credential option) io" where
  "CredentialRepo_GetByPlatformAccountID E ctx platformAccountID =
     bind_io (catch_not_found (gorm_take E ctx db_credentials (\<lambda>r. cd_PlatformAccountID r = platformAccountID)))
       (\<lambda>x. ret (map_option (credentialFromRecord \<circ> snd) x))"

definition CredentialRepo_DeleteByPlatformAccountID :: "env \<Rightarrow> ctx \<Rightarrow> string \<Rightarrow> (world, unit) io" where
  "CredentialRepo_DeleteByPlatformAccountID E ctx platformAccountID =
     sql_exec E ctx (\<lambda>_. on_credentials (\<lambda>t. Inr (sql_delete (\<lambda>r. cd_PlatformAccountID r = platformAccountID) t)))"

definition CredentialRepo :: "env \<Rightarrow> (world, 'o) CredentialRepository" where
  "CredentialRepo E = \<lparr>
     crepo_Save = CredentialRepo_Save E,
     crepo_GetByBindingID = CredentialRepo_GetByBindingID E,
     crepo_GetByPlatformAccountID = CredentialRepo_GetByPlatformAccountID E,
     crepo_DeleteByPlatformAccountID = CredentialRepo_DeleteByPlatformAccountID E,
     crepo_WithinTransaction = Some (CredentialRepo_WithinTransaction E) \<rparr>"

lemma record_of_credential_inverse [simp]: "credentialFromRecord (record_of_credential c) = c"
  by (simp add: record_of_credential_def credentialFromRecord_def)

lemma credentialFromRecord_inverse [simp]: "record_of_credential (credentialFromRecord r) = r"
  by (simp add: record_of_credential_def credentialFromRecord_def)

section \<open>The contract of the credential repository\<close>

context sql_contract
begin

lemma credential_save:
  assumes "writes" "in_ctx ctx" "owns (cr_BindingID c) (cr_PlatformAccountID c)" "acct (cr_Platform c) (cr_AccountID c)"
  shows "keeps I R (\<lambda>_. True) (CredentialRepo_Save E ctx c)"
  unfolding CredentialRepo_Save_def Let_def using assms owns_mine
  by (intro credential_upsert_step) (auto simp: record_of_credential_def schema_clashes rows_ok)

lemma credential_get:
  assumes "in_ctx ctx" "mine b"
  shows "keeps I R (\<lambda>r. \<forall>c. r = Some c \<longrightarrow> cr_BindingID c = b \<and> owns b (cr_PlatformAccountID c) \<and>
    acct (cr_Platform c) (cr_AccountID c)) (CredentialRepo_GetByBindingID E ctx b)"
  unfolding CredentialRepo_GetByBindingID_def
  by (rule io_bind[OF not_found_keeps[OF take_keeps(2)[where Q = "\<lambda>x. cd_BindingID (snd x) = b \<and>
        owns b (cd_PlatformAccountID (snd x)) \<and> acct (cd_Platform (snd x)) (cd_AccountID (snd x))"]]])
    (use assms in \<open>auto intro!: io_ret simp: credentialFromRecord_def rows_ok dest!: scope_rows(1)\<close>)

lemma credential_lookup:
  assumes "in_ctx ctx" "owns b k"
  shows "keeps I R (\<lambda>r. \<forall>c. r = Some c \<longrightarrow> cr_PlatformAccountID c = k \<and> owns (cr_BindingID c) k \<and>
    acct (cr_Platform c) (cr_AccountID c)) (CredentialRepo_GetByPlatformAccountID E ctx k)"
  unfolding CredentialRepo_GetByPlatformAccountID_def
  by (rule io_bind[OF not_found_keeps[OF take_keeps(1)[where Q = "\<lambda>x. cd_PlatformAccountID (snd x) = k \<and>
        owns (cd_BindingID (snd x)) k \<and> acct (cd_Platform (snd x)) (cd_AccountID (snd x))"]]])
    (use assms in \<open>auto intro!: io_ret simp: credentialFromRecord_def rows_ok dest!: scope_rows(1)\<close>)

lemma credential_delete:
  assumes "writes" "in_ctx ctx" "owns b k"
  shows "keeps I R (\<lambda>_. True) (CredentialRepo_DeleteByPlatformAccountID E ctx k)"
  unfolding CredentialRepo_DeleteByPlatformAccountID_def using assms
  by (intro credential_delete_step) (auto simp: rows_ok)

end

end
