(* ===== verification/DeviceRepo.thy ===== *)
theory DeviceRepo
  imports SqlContract
begin

text \<open>
  \<open>internal/data/device_repo.go\<close>: devices, one row per binding and device id. The model's
  \<open>is_valid\<close> column has the tag \<open>default:true\<close>, so gorm leaves a false value out of the insert.
\<close>

definition record_of_device :: "Device \<Rightarrow> DeviceRecord" where
  "record_of_device d = \<lparr>
     dr_BindingID = dv_BindingID d, dr_PlatformAccountID = dv_PlatformAccountID d,
     dr_DeviceID = dv_DeviceID d, dr_DeviceFP = dv_DeviceFP d, dr_DeviceName = dv_DeviceName d,
     dr_IsValid = create_default False True (dv_IsValid d), dr_LastSeenAt = dv_LastSeenAt d \<rparr>"

definition device_assign :: "DeviceRecord \<Rightarrow> DeviceRecord \<Rightarrow> DeviceRecord" where
  "device_assign new old = old\<lparr>
     dr_PlatformAccountID := dr_PlatformAccountID new, dr_DeviceFP := dr_DeviceFP new,
     dr_DeviceName := dr_DeviceName new, dr_IsValid := dr_IsValid new,
     dr_LastSeenAt := dr_LastSeenAt new \<rparr>"

definition DeviceRepo_Save :: "env \<Rightarrow> ctx \<Rightarrow> Device \<Rightarrow> (world, unit) io" where
  "DeviceRepo_Save E ctx device =
     (let record = record_of_device device in
      sql_exec E ctx (\<lambda>k. on_devices
        (row_checked E (device_columns record)
        (sql_upsert k (dialect E) device_keys ''uniq_device_record_binding'' device_assign record))))"

definition devicesFromRecords :: "(u64 \<times> DeviceRecord) list \<Rightarrow> Device list" where
  "devicesFromRecords records = map (\<lambda>(i, r). \<lparr>
     dv_BindingID = dr_BindingID r, dv_PlatformAccountID = dr_PlatformAccountID r,
     dv_DeviceID = dr_DeviceID r, dv_DeviceFP = dr_DeviceFP r, dv_DeviceName = dr_DeviceName r,
     dv_IsValid = dr_IsValid r, dv_LastSeenAt = dr_LastSeenAt r \<rparr>) records"

definition DeviceRepo_ListByBindingID :: "env \<Rightarrow> ctx \<Rightarrow> u64 \<Rightarrow> (world, Device list) io" where
  "DeviceRepo_ListByBindingID E ctx bindingID =
     bind_io (gorm_find E ctx db_devices (\<lambda>r. dr_BindingID r = bindingID)) (\<lambda>rs. ret (devicesFromRecords rs))"

definition DeviceRepo_ListByPlatformAccountID :: "env \<Rightarrow> ctx \<Rightarrow> string \<Rightarrow> (world, Device list) io" where
  "DeviceRepo_ListByPlatformAccountID E ctx platformAccountID =
     bind_io (gorm_find E ctx db_devices (\<lambda>r. dr_PlatformAccountID r = platformAccountID))
       (\<lambda>rs. ret (devicesFromRecords rs))"

definition DeviceRepo_DeleteByBindingID :: "env \<Rightarrow> ctx \<Rightarrow> u64 \<Rightarrow> (world, unit) io" where
  "DeviceRepo_DeleteByBindingID E ctx bindingID =
     sql_exec E ctx (\<lambda>_. on_devices (\<lambda>t. Inr (sql_delete (\<lambda>r. dr_BindingID r = bindingID) t)))"

definition DeviceRepo_DeleteByPlatformAccountID :: "env \<Rightarrow> ctx \<Rightarrow> string \<Rightarrow> (world, unit) io" where
  "DeviceRepo_DeleteByPlatformAccountID E ctx platformAccountID =
     sql_exec E ctx (\<lambda>_. on_devices (\<lambda>t. Inr (sql_delete (\<lambda>r. dr_PlatformAccountID r = platformAccountID) t)))"

definition DeviceRepo :: "env \<Rightarrow> world DeviceRepository" where
  "DeviceRepo E = \<lparr>
     drepo_Save = DeviceRepo_Save E,
     drepo_ListByBindingID = DeviceRepo_ListByBindingID E,
     drepo_ListByPlatformAccountID = DeviceRepo_ListByPlatformAccountID E,
     drepo_DeleteByBindingID = DeviceRepo_DeleteByBindingID E,
     drepo_DeleteByPlatformAccountID = DeviceRepo_DeleteByPlatformAccountID E \<rparr>"

section \<open>The contract of the device repository\<close>

context sql_contract
begin

lemma device_save:
  assumes "writes" "in_ctx ctx" "owns (dv_BindingID d) (dv_PlatformAccountID d)"
  shows "keeps I R (\<lambda>_. True) (DeviceRepo_Save E ctx d)"
  unfolding DeviceRepo_Save_def Let_def using assms owns_mine
  by (intro device_upsert_step) (auto simp: record_of_device_def device_assign_def schema_clashes rows_ok)

lemma device_lists:
  assumes "in_ctx ctx"
  shows "keeps I R (\<lambda>_. True) (DeviceRepo_ListByBindingID E ctx b)"
    and "keeps I R (\<lambda>_. True) (DeviceRepo_ListByPlatformAccountID E ctx k)"
  unfolding DeviceRepo_ListByBindingID_def DeviceRepo_ListByPlatformAccountID_def using assms
  by (intro io_bind[OF find_keeps[where Q = "\<lambda>_. True"]] io_ret; simp)+

lemma device_delete:
  assumes "writes" "in_ctx ctx" "owns b k"
  shows "keeps I R (\<lambda>_. True) (DeviceRepo_DeleteByPlatformAccountID E ctx k)"
  unfolding DeviceRepo_DeleteByPlatformAccountID_def using assms
  by (intro device_delete_step) (auto simp: rows_ok)

lemma device_delete_binding:
  assumes "writes" "in_ctx ctx" "mine b"
  shows "keeps I R (\<lambda>_. True) (DeviceRepo_DeleteByBindingID E ctx b)"
  unfolding DeviceRepo_DeleteByBindingID_def using assms by (intro device_delete_step) auto

end

sublocale sql_contract \<subseteq> device_contract I R mine owns acct in_ctx writes "DeviceRepo E"
  by unfold_locales (simp_all add: DeviceRepo_def device_save device_lists device_delete)

end
