(* ===== verification/ProfileRepo.thy ===== *)
theory ProfileRepo
  imports SqlContract GoStrings
begin

text \<open>
  \<open>internal/data/profile_repo.go\<close>: the game profiles of a binding, unique by player and region, with
  at most one default profile per binding. The default is guarded twice: \<open>saveDefaultProfile\<close> counts
  the other defaults first, and the unique key on the generated marker column catches what slips
  through; \<open>mapDefaultProfileDuplicateError\<close> gives both the same error.
\<close>

definition record_of_profile :: "Profile \<Rightarrow> AccountProfile" where
  "record_of_profile p = \<lparr>
     ap_BindingID = pf_BindingID p, ap_PlatformAccountID = pf_PlatformAccountID p,
     ap_GameBiz = pf_GameBiz p, ap_Region = pf_Region p, ap_PlayerID = pf_PlayerID p,
     ap_Nickname = pf_Nickname p, ap_Level = pf_Level p, ap_IsDefault = pf_IsDefault p,
     ap_DiscoveredAt = pf_DiscoveredAt p \<rparr>"

definition profile_assign :: "AccountProfile \<Rightarrow> AccountProfile \<Rightarrow> AccountProfile" where
  "profile_assign new old = old\<lparr>
     ap_PlatformAccountID := ap_PlatformAccountID new, ap_GameBiz := ap_GameBiz new,
     ap_Nickname := ap_Nickname new, ap_Level := ap_Level new, ap_IsDefault := ap_IsDefault new \<rparr>"

definition mapDefaultProfileDuplicateError :: "error \<Rightarrow> error" where
  "mapDefaultProfileDuplicateError err =
     (if (case err of ErrMySQL number message \<Rightarrow>
            number = 1062 \<and> str_contains message ''uniq_default_profile_per_binding'' | _ \<Rightarrow> False)
      then ErrDefaultProfileAlreadyExists
      else if str_contains (error_text err) ''default_profile_marker'' \<or>
              str_contains (error_text err) ''uniq_default_profile_per_binding''
      then ErrDefaultProfileAlreadyExists
      else err)"

definition same_profile :: "Profile \<Rightarrow> AccountProfile \<Rightarrow> bool" where
  "same_profile p r \<longleftrightarrow> ap_BindingID r = pf_BindingID p \<and> ap_PlayerID r = pf_PlayerID p \<and> ap_Region r = pf_Region p"

definition ensureNoConflictingDefaultProfile :: "env \<Rightarrow> ctx \<Rightarrow> Profile \<Rightarrow> u64 \<Rightarrow> (world, unit) io" where
  "ensureNoConflictingDefaultProfile E db profile excludeID =
     bind_io (sql_query E db (\<lambda>_ d. sql_count (\<lambda>i r.
         ap_BindingID r = pf_BindingID profile \<and> ap_IsDefault r \<and>
         \<not> same_profile profile r \<and> (excludeID \<noteq> 0 \<longrightarrow> i \<noteq> excludeID)) (db_profiles d)))
       (\<lambda>count. if count > 0 then fail ErrDefaultProfileAlreadyExists else ret ())"

text \<open>The columns that the update of an existing default profile writes.\<close>

definition assigned_columns :: "Profile \<Rightarrow> (string \<times> column) list" where
  "assigned_columns p =
     [(''game_biz'', VarChar 64 (pf_GameBiz p)), (''level'', Int32 (pf_Level p)), (''nickname'', VarChar 255 (pf_Nickname p)),
      (''platform_account_id'', VarChar 64 (pf_PlatformAccountID p))]"

definition saveDefaultProfile :: "env \<Rightarrow> ctx \<Rightarrow> Profile \<Rightarrow> AccountProfile \<Rightarrow> (world, unit) io" where
  "saveDefaultProfile E db profile record =
     bind_io (catch_not_found (gorm_take E db db_profiles (same_profile profile))) (\<lambda>found.
     let existingID = (case found of Some (i, _) \<Rightarrow> i | None \<Rightarrow> 0) in
     if existingID \<noteq> 0
     then then_io (ensureNoConflictingDefaultProfile E db profile existingID)
            (map_error mapDefaultProfileDuplicateError
              (sql_exec E db (\<lambda>_. on_profiles (row_checked E (assigned_columns profile) (\<lambda>t. map_sum id snd
                 (sql_update profile_keys (\<lambda>i _. i = existingID)
                    (\<lambda>r. r\<lparr> ap_PlatformAccountID := pf_PlatformAccountID profile,
                            ap_GameBiz := pf_GameBiz profile, ap_Nickname := pf_Nickname profile,
                            ap_Level := pf_Level profile, ap_IsDefault := True \<rparr>) t))))))
     else then_io (ensureNoConflictingDefaultProfile E db profile 0)
            (map_error mapDefaultProfileDuplicateError
              (sql_exec E db (\<lambda>_. on_profiles (row_checked E (profile_columns record) (sql_insert profile_keys record))))))"

definition ProfileRepo_Save :: "env \<Rightarrow> ctx \<Rightarrow> Profile \<Rightarrow> (world, unit) io" where
  "ProfileRepo_Save E ctx profile =
     (let record = record_of_profile profile in
      if pf_IsDefault profile then saveDefaultProfile E ctx profile record
      else sql_exec E ctx (\<lambda>k. on_profiles (row_checked E (profile_columns record)
        (sql_upsert k (dialect E) profile_keys ''uniq_profile_binding_player_region'' profile_assign record))))"

definition ProfileRepo_SetDefaultByBindingAndPlayerID ::
    "env \<Rightarrow> ctx \<Rightarrow> u64 \<Rightarrow> string \<Rightarrow> string \<Rightarrow> (world, unit) io" where
  "ProfileRepo_SetDefaultByBindingAndPlayerID E ctx bindingID platformAccountID playerID =
     transaction E ctx (\<lambda>tx.
       then_io (sql_exec E tx (\<lambda>_. on_profiles (\<lambda>t. map_sum id snd
           (sql_update profile_keys (\<lambda>_ r. ap_BindingID r = bindingID \<and> ap_IsDefault r)
              (\<lambda>r. r\<lparr> ap_IsDefault := False \<rparr>) t))))
       (bind_io (map_error mapDefaultProfileDuplicateError
          (sql_exec E tx (\<lambda>_ d. map_sum id (\<lambda>(n, t). (n, d\<lparr> db_profiles := t \<rparr>))
             (sql_update profile_keys (\<lambda>_ r. ap_BindingID r = bindingID \<and>
                  ap_PlatformAccountID r = platformAccountID \<and> ap_PlayerID r = playerID)
                (\<lambda>r. r\<lparr> ap_IsDefault := True \<rparr>) (db_profiles d)))))
        (\<lambda>rowsAffected. if rowsAffected = 0 then fail ErrRecordNotFound else ret ())))"

definition profilesFromRecords :: "(u64 \<times> AccountProfile) list \<Rightarrow> Profile list" where
  "profilesFromRecords records = map (\<lambda>(i, r). \<lparr>
     pf_ID = i, pf_BindingID = ap_BindingID r, pf_PlatformAccountID = ap_PlatformAccountID r,
     pf_GameBiz = ap_GameBiz r, pf_Region = ap_Region r, pf_PlayerID = ap_PlayerID r,
     pf_Nickname = ap_Nickname r, pf_Level = ap_Level r, pf_IsDefault = ap_IsDefault r,
     pf_DiscoveredAt = ap_DiscoveredAt r \<rparr>) records"

definition ProfileRepo_ListByBindingID :: "env \<Rightarrow> ctx \<Rightarrow> u64 \<Rightarrow> (world, Profile list) io" where
  "ProfileRepo_ListByBindingID E ctx bindingID =
     bind_io (gorm_find E ctx db_profiles (\<lambda>r. ap_BindingID r = bindingID)) (\<lambda>rs. ret (profilesFromRecords rs))"

definition ProfileRepo_ListByPlatformAccountID :: "env \<Rightarrow> ctx \<Rightarrow> string \<Rightarrow> (world, Profile list) io" where
  "ProfileRepo_ListByPlatformAccountID E ctx platformAccountID =
     bind_io (gorm_find E ctx db_profiles (\<lambda>r. ap_PlatformAccountID r = platformAccountID))
       (\<lambda>rs. ret (profilesFromRecords rs))"

definition ProfileRepo_DeleteByPlatformAccountID :: "env \<Rightarrow> ctx \<Rightarrow> string \<Rightarrow> (world, unit) io" where
  "ProfileRepo_DeleteByPlatformAccountID E ctx platformAccountID =
     sql_exec E ctx (\<lambda>_. on_profiles (\<lambda>t. Inr (sql_delete (\<lambda>r. ap_PlatformAccountID r = platformAccountID) t)))"

definition ProfileRepo_DeleteMissingByBindingID ::
    "env \<Rightarrow> ctx \<Rightarrow> u64 \<Rightarrow> ProfileIdentity list \<Rightarrow> (world, unit) io" where
  "ProfileRepo_DeleteMissingByBindingID E ctx bindingID keep =
     (if keep = []
      then sql_exec E ctx (\<lambda>_. on_profiles (\<lambda>t. Inr (sql_delete (\<lambda>r. ap_BindingID r = bindingID) t)))
      else sql_exec E ctx (\<lambda>_. on_profiles (\<lambda>t. Inr (sql_delete (\<lambda>r. ap_BindingID r = bindingID \<and>
             \<not> list_ex (\<lambda>i. ap_PlayerID r = pi_PlayerID i \<and> ap_Region r = pi_Region i) keep) t))))"

definition ProfileRepo_DeleteMissingByPlatformAccountID ::
    "env \<Rightarrow> ctx \<Rightarrow> string \<Rightarrow> ProfileIdentity list \<Rightarrow> (world, unit) io" where
  "ProfileRepo_DeleteMissingByPlatformAccountID E ctx platformAccountID keep =
     bind_io (gorm_find E ctx db_profiles (\<lambda>r. ap_PlatformAccountID r = platformAccountID)) (\<lambda>records.
     let keepSet = (\<lambda>i. pi_PlayerID i @ '':'' @ pi_Region i) ` set keep in
     foreach (\<lambda>(i, r). let key = ap_PlayerID r @ '':'' @ ap_Region r in
        if key \<in> keepSet then ret ()
        else sql_exec E ctx (\<lambda>_. on_profiles (\<lambda>t. Inr (sql_delete_id i t)))) records)"

definition ProfileRepo :: "env \<Rightarrow> world ProfileRepository" where
  "ProfileRepo E = \<lparr>
     prepo_Save = ProfileRepo_Save E,
     prepo_SetDefaultByBindingAndPlayerID = ProfileRepo_SetDefaultByBindingAndPlayerID E,
     prepo_ListByBindingID = ProfileRepo_ListByBindingID E,
     prepo_ListByPlatformAccountID = ProfileRepo_ListByPlatformAccountID E,
     prepo_DeleteMissingByBindingID = ProfileRepo_DeleteMissingByBindingID E,
     prepo_DeleteByPlatformAccountID = ProfileRepo_DeleteByPlatformAccountID E,
     prepo_DeleteMissingByPlatformAccountID = ProfileRepo_DeleteMissingByPlatformAccountID E \<rparr>"

lemma profilesFromRecords_bindings:
  "(\<forall>p \<in> set (profilesFromRecords rs). P (pf_BindingID p)) \<longleftrightarrow> (\<forall>x \<in> set rs. P (ap_BindingID (snd x)))"
  by (auto simp: profilesFromRecords_def split: prod.splits)

section \<open>The contract of the profile repository\<close>

context sql_contract
begin

lemma profile_update_step:
  assumes "writes" "in_ctx ctx"
    and sel: "\<And>i r. profile_ok mine owns r \<Longrightarrow> p i r \<Longrightarrow>
      mine (ap_BindingID r) \<and> mine (ap_BindingID (f r)) \<and> profile_ok mine owns (f r)"
  shows "keeps I R (\<lambda>_. True) (sql_exec E ctx (\<lambda>_. on_profiles (\<lambda>t. map_sum id snd (sql_update profile_keys p f t))))"
    and "keeps I R (\<lambda>_. True) (sql_exec E ctx (\<lambda>_ d. map_sum id (\<lambda>(n, t). (n, d\<lparr> db_profiles := t \<rparr>))
           (sql_update profile_keys p f (db_profiles d))))"
proof -
  have upd: "table_scope profile_keys (profile_ok mine owns) t' \<and> same_outside (\<lambda>r. mine (ap_BindingID r)) t t'"
    if "table_scope profile_keys (profile_ok mine owns) t" "sql_update profile_keys p f t = Inr (n, t')" for t n t'
    using that(1) keys_sym_schema(3) sel that(2) by (rule update_scope)
  show "keeps I R (\<lambda>_. True) (sql_exec E ctx (\<lambda>_. on_profiles (\<lambda>t. map_sum id snd (sql_update profile_keys p f t))))"
    using assms(1,2) upd by (intro profile_step) (auto simp: map_sum_def split: sum.splits)
  show "keeps I R (\<lambda>_. True) (sql_exec E ctx (\<lambda>_ d. map_sum id (\<lambda>(n, t). (n, d\<lparr> db_profiles := t \<rparr>))
           (sql_update profile_keys p f (db_profiles d))))"
    using assms(1,2) by (intro exec_keeps)
      (auto simp: map_sum_def scope_ok_def frame_def dest: upd split: sum.splits)
qed

lemma profile_insert_step:
  assumes "writes" "in_ctx ctx" "profile_ok mine owns r" "mine (ap_BindingID r)"
  shows "keeps I R (\<lambda>_. True) (sql_exec E ctx (\<lambda>_. on_profiles (row_checked E cs (sql_insert profile_keys r))))"
  by (rule profile_step[OF assms(1,2)], unfold row_checked_ok, elim conjE, rule insert_scope[where M = "\<lambda>r. mine (ap_BindingID r)"])
    (assumption | rule assms keys_sym_schema)+

lemma no_conflict_keeps:
  "in_ctx ctx \<Longrightarrow> keeps I R (\<lambda>_. True) (ensureNoConflictingDefaultProfile E ctx p i)"
  unfolding ensureNoConflictingDefaultProfile_def
  by (rule io_bind[OF query_keeps[where Q = "\<lambda>_. True"]]) (auto intro: io_ret io_fail)

lemma default_update:
  assumes w: "writes" "I w" "in_ctx ctx" and own: "owns (pf_BindingID p) (pf_PlatformAccountID p)"
    and row: "(i, r0) \<in> set (tb_rows (db_profiles (db_view ctx w)))" "same_profile p r0"
    and m: "sql_exec E ctx (\<lambda>_. on_profiles (row_checked E cs (\<lambda>t. map_sum id snd
       (sql_update profile_keys (\<lambda>j _. j = i) (\<lambda>r. r\<lparr> ap_PlatformAccountID := pf_PlatformAccountID p,
          ap_GameBiz := pf_GameBiz p, ap_Nickname := pf_Nickname p, ap_Level := pf_Level p,
          ap_IsDefault := True \<rparr>) t)))) w = (r, w')"
  shows "I w' \<and> R w w'"
proof (rule exec_at[OF w _ m])
  fix k x d'
  let ?d = "db_view ctx w" and ?f = "\<lambda>r. r\<lparr> ap_PlatformAccountID := pf_PlatformAccountID p,
          ap_GameBiz := pf_GameBiz p, ap_Nickname := pf_Nickname p, ap_Level := pf_Level p, ap_IsDefault := True \<rparr>"
  assume "on_profiles (row_checked E cs (\<lambda>t. map_sum id snd (sql_update profile_keys (\<lambda>j _. j = i) ?f t))) ?d = Inr (x, d')"
  then have "on_profiles (\<lambda>t. map_sum id snd (sql_update profile_keys (\<lambda>j _. j = i) ?f t)) ?d = Inr (x, d')"
    by (auto simp: on_table_ok)
  then obtain n t' where upd: "sql_update profile_keys (\<lambda>j _. j = i) ?f (db_profiles ?d) = Inr (n, t')"
    and d': "d' = ?d\<lparr> db_profiles := t' \<rparr>"
    by (auto simp: on_profiles_def map_sum_def split: sum.splits)
  have ok: "scope_ok mine owns acct ?d" using view_ok w by blast
  then have t: "table_scope profile_keys (profile_ok mine owns) (db_profiles ?d)" by (simp add: scope_ok_def)
  have sel: "mine (ap_BindingID r') \<and> mine (ap_BindingID (?f r')) \<and> profile_ok mine owns (?f r')"
    if "(j, r') \<in> set (tb_rows (db_profiles ?d))" "profile_ok mine owns r'" "j = i" for j r'
  proof -
    have "(j, r') = (i, r0)"
      using that(1,3) row(1) t ids_ok_inj[of "db_profiles ?d" "(j, r')" "(i, r0)"]
      by (simp add: table_scope_def table_ok_def)
    then have "ap_BindingID r' = pf_BindingID p" using row(2) by (simp add: same_profile_def)
    then show ?thesis using own owns_mine by (auto simp: rows_ok)
  qed
  show "scope_ok mine owns acct d' \<and> frame mine ?d d'"
    using update_scope[OF t keys_sym_schema(3) sel upd] ok by (auto simp: d' scope_ok_def frame_def)
qed

text \<open>The two ways on from the search: a new row, or the row that was found is overwritten.\<close>

lemma default_insert:
  assumes "writes" "in_ctx ctx" and own: "owns (pf_BindingID p) (pf_PlatformAccountID p)"
    and r: "ap_BindingID r = pf_BindingID p" "ap_PlatformAccountID r = pf_PlatformAccountID p"
  shows "keeps I R (\<lambda>_. True) (then_io (ensureNoConflictingDefaultProfile E ctx p 0) (map_error mapDefaultProfileDuplicateError
    (sql_exec E ctx (\<lambda>_. on_profiles (row_checked E (profile_columns r) (sql_insert profile_keys r))))))"
  using assms owns_mine
  by (intro io_then[OF no_conflict_keeps] io_map_error profile_insert_step) (auto simp: rows_ok)

lemma default_overwrite:
  assumes w: "writes" "in_ctx ctx" and own: "owns (pf_BindingID p) (pf_PlatformAccountID p)" and I: "I w1"
    and row: "(i, r0) \<in> set (tb_rows (db_profiles (db_view ctx w1)))" "same_profile p r0"
    and run: "then_io (ensureNoConflictingDefaultProfile E ctx p i) (map_error mapDefaultProfileDuplicateError
      (sql_exec E ctx (\<lambda>_. on_profiles (row_checked E (assigned_columns p) (\<lambda>t. map_sum id snd
         (sql_update profile_keys (\<lambda>j _. j = i) (\<lambda>r. r\<lparr> ap_PlatformAccountID := pf_PlatformAccountID p,
            ap_GameBiz := pf_GameBiz p, ap_Nickname := pf_Nickname p, ap_Level := pf_Level p,
            ap_IsDefault := True \<rparr>) t)))))) w1 = (res, w')" (is "then_io _ (map_error _ ?m) w1 = _")
  shows "I w' \<and> R w1 w'"
proof -
  obtain q w2 where check: "ensureNoConflictingDefaultProfile E ctx p i w1 = (q, w2)" by fastforce
  have w2: "I w2" "R w1 w2" using keepsD(1,2)[OF no_conflict_keeps[OF w(2)] I check] by auto
  have "same_store w1 w2"
    using check reads_store(1)
    by (fastforce simp: ensureNoConflictingDefaultProfile_def bind_io_def split: prod.splits sum.splits if_splits)
  then have "db_view ctx w2 = db_view ctx w1" by (rule db_view_same)
  obtain x w3 where m: "?m w2 = (x, w3)" by fastforce
  have "I w3 \<and> R w2 w3"
    by (rule default_update[OF w(1) w2(1) w(2) own row[folded \<open>db_view ctx w2 = db_view ctx w1\<close>] m])
  moreover have "w' = w2 \<or> w' = w3" using run check m by (cases q) (auto simp: then_io_apply map_error_apply)
  ultimately show ?thesis using w2 R_trans by blast
qed

lemma default_save:
  assumes w: "writes" "in_ctx ctx" and own: "owns (pf_BindingID p) (pf_PlatformAccountID p)"
    and r: "ap_BindingID r = pf_BindingID p" "ap_PlatformAccountID r = pf_PlatformAccountID p"
  shows "keeps I R (\<lambda>_. True) (saveDefaultProfile E ctx p r)"
proof (rule keepsI)
  fix w0 res w'
  assume I: "I w0" and run: "saveDefaultProfile E ctx p r w0 = (res, w')"
  let ?find = "catch_not_found (gorm_take E ctx db_profiles (same_profile p))"
  obtain q w1 where find: "?find w0 = (q, w1)" by fastforce
  have "keeps I R (\<lambda>_. True) ?find"
    using w by (intro keeps_any[OF not_found_keeps[OF take_keeps(1)[where Q = "\<lambda>_. True"]]]) auto
  from keepsD(1,2)[OF this I find] have w1: "I w1" "R w0 w1" .
  have "same_store w0 w1" using find reads_store(2) by (rule catch_not_found_store[rotated])
  then have view: "db_view ctx w1 = db_view ctx w0" by (rule db_view_same)
  note insert = keepsD(1,2)[OF default_insert[OF w own r] w1(1)]
  have overwrite: "(i, r0) \<in> set (tb_rows (db_profiles (db_view ctx w1)))" "same_profile p r0" if "q = Inr (Some (i, r0))" for i r0
    using read_results(1)[OF catch_not_found_okD[OF find[unfolded that]]] by (simp_all add: view)
  have "I w' \<and> R w1 w'"
    using run find w1 insert default_overwrite[OF w own w1(1) overwrite] R_refl[OF w1(1)]
    by (auto simp: saveDefaultProfile_def bind_io_apply Let_def split: sum.splits option.splits if_splits)
  then show "I w' \<and> R w0 w' \<and> (\<forall>x. res = Inr x \<longrightarrow> True)" using w1(2) R_trans by blast
qed

lemma profile_save:
  assumes "writes" "in_ctx ctx" "owns (pf_BindingID p) (pf_PlatformAccountID p)"
  shows "keeps I R (\<lambda>_. True) (ProfileRepo_Save E ctx p)"
proof (cases "pf_IsDefault p")
  case True
  then show ?thesis
    unfolding ProfileRepo_Save_def Let_def using assms by (auto intro: default_save simp: record_of_profile_def)
next
  case False
  have "keeps I R (\<lambda>_. True) (sql_exec E ctx (\<lambda>k. on_profiles (row_checked E (profile_columns (record_of_profile p))
      (sql_upsert k (dialect E) profile_keys ''uniq_profile_binding_player_region'' profile_assign (record_of_profile p)))))"
    using assms owns_mine
    by (intro profile_upsert_step) (auto simp: record_of_profile_def profile_assign_def schema_clashes rows_ok)
  with False show ?thesis by (simp add: ProfileRepo_Save_def Let_def)
qed

lemma profiles_read:
  assumes "in_ctx ctx" "\<And>r. profile_ok mine owns r \<Longrightarrow> p r \<Longrightarrow> P (ap_BindingID r)"
  shows "keeps I R (\<lambda>ps. \<forall>x \<in> set ps. P (pf_BindingID x))
    (bind_io (gorm_find E ctx db_profiles p) (\<lambda>rs. ret (profilesFromRecords rs)))"
proof (rule io_bind)
  show "keeps I R (\<lambda>xs. \<forall>x \<in> set xs. P (ap_BindingID (snd x))) (gorm_find E ctx db_profiles p)"
    using assms scope_rows(2) by (intro find_keeps) blast+
  show "keeps I R (\<lambda>ps. \<forall>x \<in> set ps. P (pf_BindingID x)) (ret (profilesFromRecords xs))"
    if "\<forall>x \<in> set xs. P (ap_BindingID (snd x))" for xs
    using that by (intro io_ret) (simp only: profilesFromRecords_bindings)
qed

lemma profile_list:
  assumes "in_ctx ctx"
  shows "keeps I R (\<lambda>ps. \<forall>p \<in> set ps. pf_BindingID p = b) (ProfileRepo_ListByBindingID E ctx b)"
  unfolding ProfileRepo_ListByBindingID_def using assms by (rule profiles_read)

lemma profile_list_key:
  assumes "in_ctx ctx" "owns b k"
  shows "keeps I R (\<lambda>ps. \<forall>p \<in> set ps. owns (pf_BindingID p) k) (ProfileRepo_ListByPlatformAccountID E ctx k)"
  unfolding ProfileRepo_ListByPlatformAccountID_def
  by (rule profiles_read[where P = "\<lambda>b. owns b k"]) (use assms in \<open>auto simp: rows_ok\<close>)

lemma profile_delete:
  assumes "writes" "in_ctx ctx" "owns b k"
  shows "keeps I R (\<lambda>_. True) (ProfileRepo_DeleteByPlatformAccountID E ctx k)"
  unfolding ProfileRepo_DeleteByPlatformAccountID_def using assms
  by (intro profile_delete_step) (auto simp: rows_ok)

lemma profile_delete_missing:
  assumes "writes" "in_ctx ctx" "mine b"
  shows "keeps I R (\<lambda>_. True) (ProfileRepo_DeleteMissingByBindingID E ctx b keep)"
  unfolding ProfileRepo_DeleteMissingByBindingID_def using assms
  by (cases "keep = []") (auto intro!: profile_delete_step)

end

sublocale sql_contract \<subseteq> profile_contract I R mine owns acct in_ctx writes "ProfileRepo E"
  by unfold_locales
    (simp_all add: ProfileRepo_def profile_save profile_list profile_list_key profile_delete profile_delete_missing)

context pool_contract
begin

lemma profile_set_default:
  assumes "writes" "mine b"
  shows "keeps I R (\<lambda>_. True) (ProfileRepo_SetDefaultByBindingAndPlayerID E ctx b k player)"
  unfolding ProfileRepo_SetDefaultByBindingAndPlayerID_def using assms any_ctx
  by (intro transaction_keeps io_then[OF profile_update_step(1)]
      io_bind[OF io_map_error[OF profile_update_step(2)]])
    (auto simp: rows_ok intro: io_ret io_fail)

end

end
