(* ===== verification/ArtifactJson.thy ===== *)
theory ArtifactJson
  imports JsonStruct Biz
begin

text \<open>
  The cached form of a runtime artifact: \<open>json.Marshal\<close> and \<open>json.Unmarshal\<close> of \<open>biz.Artifact\<close>
  (\<open>internal/biz/artifact.go\<close>), whose fields carry no tags. Reading returns the artifact that was written,
  with what is not UTF-8 in its texts replaced; it fails on every text that is not such a JSON object.
\<close>

definition artifact_fields :: "string list" where
  "artifact_fields = [''BindingID'', ''PlatformAccountID'', ''ArtifactType'', ''ArtifactValue'', ''ScopeKey'', ''ExpiresAt'']"

definition marshal_artifact :: "Artifact \<Rightarrow> error + string" where
  "marshal_artifact a = (case marshal_time (af_ExpiresAt a) of
      Inl e \<Rightarrow> Inl e
    | Inr expires \<Rightarrow> Inr (struct_text [
        (''BindingID'', show_u64 (af_BindingID a)),
        (''PlatformAccountID'', json_string (af_PlatformAccountID a)),
        (''ArtifactType'', json_string (af_ArtifactType a)),
        (''ArtifactValue'', json_string (af_ArtifactValue a)),
        (''ScopeKey'', json_string (af_ScopeKey a)),
        (''ExpiresAt'', expires)]))"

text \<open>\<open>biz.Artifact{}\<close>; the zero time is 1 January of the year 1.\<close>

definition zero_artifact :: Artifact where
  "zero_artifact = \<lparr> af_BindingID = 0, af_PlatformAccountID = [], af_ArtifactType = [], af_ArtifactValue = [],
     af_ScopeKey = [], af_ExpiresAt = - 62135596800000000000 \<rparr>"

text \<open>A member stored into the artifact; \<open>None\<close> is an artifact whose time did not parse.\<close>

definition store_artifact :: "string \<Rightarrow> string \<Rightarrow> Artifact option \<Rightarrow> error option \<times> Artifact option" where
  "store_artifact field raw x = (case x of
      None \<Rightarrow> (None, None)
    | Some a \<Rightarrow>
        if field = ''BindingID'' then
          map_prod id (\<lambda>v. Some (a\<lparr> af_BindingID := v \<rparr>)) (uint64_member ''Artifact'' field raw (af_BindingID a))
        else if field = ''PlatformAccountID'' then
          map_prod id (\<lambda>v. Some (a\<lparr> af_PlatformAccountID := v \<rparr>)) (string_member ''Artifact'' field raw (af_PlatformAccountID a))
        else if field = ''ArtifactType'' then
          map_prod id (\<lambda>v. Some (a\<lparr> af_ArtifactType := v \<rparr>)) (string_member ''Artifact'' field raw (af_ArtifactType a))
        else if field = ''ArtifactValue'' then
          map_prod id (\<lambda>v. Some (a\<lparr> af_ArtifactValue := v \<rparr>)) (string_member ''Artifact'' field raw (af_ArtifactValue a))
        else if field = ''ScopeKey'' then
          map_prod id (\<lambda>v. Some (a\<lparr> af_ScopeKey := v \<rparr>)) (string_member ''Artifact'' field raw (af_ScopeKey a))
        else (None, map_option (\<lambda>t. a\<lparr> af_ExpiresAt := t \<rparr>) (time_member raw (af_ExpiresAt a))))"

text \<open>The callers only look at whether there was an error, so the text of one is dropped.\<close>

definition unmarshal_artifact :: "string \<Rightarrow> Artifact option" where
  "unmarshal_artifact data =
     (case decode_struct store_artifact artifact_fields ''biz.Artifact'' (Some zero_artifact) data of
        Inl _ \<Rightarrow> None
      | Inr x \<Rightarrow> x)"

section \<open>Reading what was written\<close>

definition valid_artifact :: "Artifact \<Rightarrow> Artifact" where
  "valid_artifact a = a\<lparr> af_PlatformAccountID := to_valid (af_PlatformAccountID a), af_ArtifactType := to_valid (af_ArtifactType a),
     af_ArtifactValue := to_valid (af_ArtifactValue a), af_ScopeKey := to_valid (af_ScopeKey a) \<rparr>"

definition artifact_utf8 :: "Artifact \<Rightarrow> bool" where
  "artifact_utf8 a \<longleftrightarrow> valid_utf8 (af_PlatformAccountID a) \<and> valid_utf8 (af_ArtifactType a) \<and>
     valid_utf8 (af_ArtifactValue a) \<and> valid_utf8 (af_ScopeKey a)"

lemma valid_artifact_id: "artifact_utf8 a \<Longrightarrow> valid_artifact a = a"
  by (simp add: valid_artifact_def artifact_utf8_def to_valid_id)

lemma kind_string [simp]: "json_kind (json_string s) = ''string''" "json_kind (quote_mark # s) = ''string''"
  by (simp_all add: json_kind_def json_string_def Let_def)

lemma string_member_string [simp]: "string_member st f (json_string s) old = (None, to_valid s)"
  by (simp add: string_member_def unquote_json_string)

lemma kind_number [simp]: "json_kind (show_nat n) = ''number''"
proof -
  obtain d ds where n: "show_nat n = d # ds" by (cases "show_nat n") simp_all
  then have "is_digit d" using show_nat_digits[of n] by simp
  then have "d \<notin> {CHR ''{'', CHR ''['', quote_mark, CHR ''-'', CHR ''t'', CHR ''f'', CHR ''n''}"
    by (auto simp: is_digit_def byte_code_def)
  then show ?thesis by (simp add: json_kind_def n Let_def)
qed

lemma uint64_member_number [simp]: "uint64_member st f (show_u64 n) old = (None, n)"
  using kind_number[of "unat n"] by (simp add: uint64_member_def show_u64_def[symmetric])

lemma format_time_plain: "in_string (format_time t)"
proof (rule in_string_plain)
  fix c assume c: "c \<in> set (format_time t)"
  have digits: "c \<in> set (pad_digits k n) \<Longrightarrow> is_digit c" for k n using pad_digits_digits[of k n] by (simp add: list_all_iff)
  have "c \<in> set (fraction_text n) \<Longrightarrow> is_digit c \<or> c = CHR ''.''" for n
    using digits[of 9 n] by (auto simp: fraction_text_def dest!: set_dropWhileD split: if_splits)
  then have "is_digit c \<or> c \<in> {CHR ''-'', CHR '':'', CHR ''T'', CHR ''.'', CHR ''Z''}"
    using c digits by (auto simp: format_time_def Let_def split: prod.splits)
  then show "c \<noteq> quote_mark \<and> c \<noteq> backslash \<and> 32 \<le> byte_code c" by (auto simp: is_digit_def byte_code_def)
qed

lemma marshal_time_ok:
  assumes "marshal_time t = Inr raw"
  shows "value_text raw" "time_member raw old = Some t"
proof -
  have raw: "raw = quote_mark # format_time t @ [quote_mark]" "0 \<le> year_of t" "year_of t \<le> 9999"
    using assms by (auto simp: marshal_time_def split: if_splits)
  show "value_text raw" using quoted_scans[OF format_time_plain] raw(1) by simp
  show "time_member raw old = Some t" using parse_format_time[OF raw(2,3)] by (simp add: time_member_def raw(1) butlast_append)
qed

lemma plain_name: "valid_utf8 n \<Longrightarrow> Option.bind (unquote_literal (json_string n)) (field_of ns) = field_of ns n"
  by (simp add: unquote_json_string to_valid_id)

lemma field_names_valid: "list_all valid_utf8 artifact_fields"
  by (simp add: artifact_fields_def byte_code_def)

lemma unmarshal_marshal:
  assumes "marshal_artifact a = Inr p"
  shows "unmarshal_artifact p = Some (valid_artifact a)"
proof -
  obtain t where t: "marshal_time (af_ExpiresAt a) = Inr t" using assms by (auto simp: marshal_artifact_def split: sum.splits)
  let ?ms = "[(''BindingID'', show_u64 (af_BindingID a)),
        (''PlatformAccountID'', json_string (af_PlatformAccountID a)),
        (''ArtifactType'', json_string (af_ArtifactType a)),
        (''ArtifactValue'', json_string (af_ArtifactValue a)),
        (''ScopeKey'', json_string (af_ScopeKey a)),
        (''ExpiresAt'', t)]"
  have p: "p = struct_text ?ms" using assms t by (simp add: marshal_artifact_def)
  have "json_members p = Inr (map (map_prod json_string id) ?ms)"
    unfolding p using marshal_time_ok(1)[OF t]
    by (intro members_of_struct) (simp_all add: value_text_string value_text_number show_u64_def)
  moreover have "field_of artifact_fields n = Some n" if "n \<in> set artifact_fields" for n
    using that by (simp add: field_of_def)
  moreover have "json_kind (dropWhile json_space p) = ''object''" unfolding p by (rule kind_of_struct)
  ultimately show ?thesis
    using field_names_valid
    by (simp add: unmarshal_artifact_def decode_struct_def plain_name artifact_fields_def store_artifact_def zero_artifact_def
        marshal_time_ok(2)[OF t] valid_artifact_def del: valid_utf8.simps)
qed

end
