(* ===== verification/ArtifactRepo.thy ===== *)
theory ArtifactRepo
  imports SqlContract ArtifactJson
begin

text \<open>
  \<open>internal/data/artifact_repo.go\<close>: runtime artifacts (auth keys) in MySQL with a Redis read-through
  cache. \<open>ar_redis\<close> says whether the Redis client is configured. \<open>Put\<close>, \<open>Get\<close> and \<open>GetByBindingID\<close>
  use the pool, never the caller's transaction; the deletions use the handle they are given.
\<close>

record ArtifactRepoConfig =
  ar_redis :: bool
  ar_prefix :: string

definition cacheKey :: "ArtifactRepoConfig \<Rightarrow> string \<Rightarrow> string \<Rightarrow> string \<Rightarrow> string" where
  "cacheKey r platformAccountID artifactType scopeKey =
     ar_prefix r @ ''artifact:'' @ platformAccountID @ '':'' @ artifactType @ '':'' @ scopeKey"

definition cacheKeyByBinding :: "ArtifactRepoConfig \<Rightarrow> u64 \<Rightarrow> string \<Rightarrow> string \<Rightarrow> string" where
  "cacheKeyByBinding r bindingID artifactType scopeKey =
     ar_prefix r @ ''artifact:binding:'' @ show_u64 bindingID @ '':'' @ artifactType @ '':'' @ scopeKey"

definition bindingCachePattern :: "ArtifactRepoConfig \<Rightarrow> u64 \<Rightarrow> string" where
  "bindingCachePattern r bindingID = ar_prefix r @ ''artifact:binding:'' @ show_u64 bindingID @ '':*''"

definition record_of_artifact :: "Artifact \<Rightarrow> RuntimeArtifact" where
  "record_of_artifact a = \<lparr>
     ra_BindingID = af_BindingID a, ra_PlatformAccountID = af_PlatformAccountID a,
     ra_ArtifactType = af_ArtifactType a, ra_ArtifactValue = af_ArtifactValue a,
     ra_ScopeKey = af_ScopeKey a, ra_ExpiresAt = af_ExpiresAt a \<rparr>"

definition artifact_of_record :: "RuntimeArtifact \<Rightarrow> Artifact" where
  "artifact_of_record r = \<lparr>
     af_BindingID = ra_BindingID r, af_PlatformAccountID = ra_PlatformAccountID r,
     af_ArtifactType = ra_ArtifactType r, af_ArtifactValue = ra_ArtifactValue r,
     af_ScopeKey = ra_ScopeKey r, af_ExpiresAt = ra_ExpiresAt r \<rparr>"

text \<open>\<open>time.Until(t)\<close> is \<open>t.Sub(time.Now())\<close>, which saturates at the bounds of \<open>int64\<close>.\<close>

definition time_sub :: "gotime \<Rightarrow> gotime \<Rightarrow> int" where
  "time_sub t u = max (- (2 ^ 63)) (min (2 ^ 63 - 1) (t - u))"

definition time_until :: "env \<Rightarrow> gotime \<Rightarrow> (world, int) io" where
  "time_until E t = bind_io (time_now E) (\<lambda>now. ret (time_sub t now))"

definition ArtifactRepo_Put :: "env \<Rightarrow> ArtifactRepoConfig \<Rightarrow> ctx \<Rightarrow> Artifact \<Rightarrow> (world, unit) io" where
  "ArtifactRepo_Put E r ctx artifact =
     bind_io (if ar_redis r
              then bind_io (attempt (gorm_take E Background db_artifacts (\<lambda>x.
                       ra_BindingID x = af_BindingID artifact \<and> ra_ArtifactType x = af_ArtifactType artifact \<and>
                       ra_ScopeKey x = af_ScopeKey artifact)))
                     (\<lambda>p. ret (case p of Inr (_, x) \<Rightarrow> ra_PlatformAccountID x | Inl _ \<Rightarrow> []))
              else ret [])
     (\<lambda>previousPlatformAccountID.
     let record = record_of_artifact artifact in
     then_io (sql_exec E Background (\<lambda>k. on_artifacts (row_checked E (artifact_columns record)
        (sql_upsert k (dialect E) artifact_keys ''uniq_runtime_artifact_binding'' (\<lambda>new old. new) record))))
     (if \<not> ar_redis r then ret ()
      else bind_io (lift_res (marshal_artifact artifact)) (\<lambda>payload.
        then_io (if previousPlatformAccountID \<noteq> [] \<and> previousPlatformAccountID \<noteq> af_PlatformAccountID artifact
                 then redis_del E [cacheKey r previousPlatformAccountID (af_ArtifactType artifact) (af_ScopeKey artifact)]
                 else ret ())
        (then_io (redis_del E [cacheKey r (af_PlatformAccountID artifact) (af_ArtifactType artifact) (af_ScopeKey artifact)])
        (bind_io (time_until E (af_ExpiresAt artifact)) (\<lambda>ttl.
        let key = cacheKeyByBinding r (af_BindingID artifact) (af_ArtifactType artifact) (af_ScopeKey artifact) in
        if ttl \<le> 0 then redis_del E [key] else redis_set E key payload ttl))))))"

definition ArtifactRepo_get :: "env \<Rightarrow> (RuntimeArtifact \<Rightarrow> bool) \<Rightarrow> (world, Artifact option) io" where
  "ArtifactRepo_get E query =
     bind_io (catch_not_found (gorm_take E Background db_artifacts query))
       (\<lambda>x. ret (map_option (artifact_of_record \<circ> snd) x))"

text \<open>
  The cache probe and the write back that \<open>GetByBindingID\<close> and \<open>Get\<close> share, in the order of the
  code: a hit that decodes is returned as it is, whatever goes wrong in Redis is a miss.
\<close>

definition cache_probe :: "env \<Rightarrow> ArtifactRepoConfig \<Rightarrow> string \<Rightarrow> (world, Artifact option) io" where
  "cache_probe E r key =
     (if ar_redis r
      then bind_io (attempt (redis_get E key)) (\<lambda>p. ret (case p of
             Inr payload \<Rightarrow> unmarshal_artifact payload
           | Inl _ \<Rightarrow> None))
      else ret None)"

definition cache_fill :: "env \<Rightarrow> ArtifactRepoConfig \<Rightarrow> string \<Rightarrow> Artifact \<Rightarrow> (world, Artifact option) io" where
  "cache_fill E r key artifact =
     (if ar_redis r
      then (case marshal_artifact artifact of
              Inl _ \<Rightarrow> ret (Some artifact)
            | Inr payload \<Rightarrow>
                bind_io (time_until E (af_ExpiresAt artifact)) (\<lambda>ttl.
                if ttl \<le> 0
                then then_io (ignore_err (redis_del E [key])) (ret (Some artifact))
                else then_io (ignore_err (redis_set E key payload ttl)) (ret (Some artifact))))
      else ret (Some artifact))"

definition ArtifactRepo_GetByBindingID ::
    "env \<Rightarrow> ArtifactRepoConfig \<Rightarrow> ctx \<Rightarrow> u64 \<Rightarrow> string \<Rightarrow> string \<Rightarrow> (world, Artifact option) io" where
  "ArtifactRepo_GetByBindingID E r ctx bindingID artifactType scopeKey =
     bind_io (cache_probe E r (cacheKeyByBinding r bindingID artifactType scopeKey)) (\<lambda>hit.
     case hit of Some artifact \<Rightarrow> ret (Some artifact)
     | None \<Rightarrow>
         bind_io (time_now E) (\<lambda>now.
         bind_io (ArtifactRepo_get E (\<lambda>x. ra_BindingID x = bindingID \<and> ra_ArtifactType x = artifactType \<and>
                    ra_ScopeKey x = scopeKey \<and> ra_ExpiresAt x > now)) (\<lambda>found.
         case found of None \<Rightarrow> ret None
         | Some artifact \<Rightarrow> cache_fill E r (cacheKeyByBinding r bindingID artifactType scopeKey) artifact)))"

definition ArtifactRepo_Get ::
    "env \<Rightarrow> ArtifactRepoConfig \<Rightarrow> ctx \<Rightarrow> string \<Rightarrow> string \<Rightarrow> string \<Rightarrow> (world, Artifact option) io" where
  "ArtifactRepo_Get E r ctx platformAccountID artifactType scopeKey =
     bind_io (cache_probe E r (cacheKey r platformAccountID artifactType scopeKey)) (\<lambda>hit.
     case hit of Some artifact \<Rightarrow> ret (Some artifact)
     | None \<Rightarrow>
         bind_io (time_now E) (\<lambda>now.
         bind_io (ArtifactRepo_get E (\<lambda>x. ra_PlatformAccountID x = platformAccountID \<and>
                    ra_ArtifactType x = artifactType \<and> ra_ScopeKey x = scopeKey \<and> ra_ExpiresAt x > now)) (\<lambda>found.
         case found of None \<Rightarrow> ret None
         | Some artifact \<Rightarrow> cache_fill E r (cacheKey r platformAccountID artifactType scopeKey) artifact)))"

section \<open>Deletion with the cache keys of the deleted rows\<close>

definition recordsForBindingCacheDeletion ::
    "env \<Rightarrow> ArtifactRepoConfig \<Rightarrow> ctx \<Rightarrow> u64 \<Rightarrow> (world, RuntimeArtifact list) io" where
  "recordsForBindingCacheDeletion E r db bindingID =
     (if \<not> ar_redis r then ret []
      else bind_io (gorm_find E db db_artifacts (\<lambda>x. ra_BindingID x = bindingID)) (\<lambda>rs. ret (map snd rs)))"

definition recordsForPlatformCacheDeletion ::
    "env \<Rightarrow> ArtifactRepoConfig \<Rightarrow> ctx \<Rightarrow> string \<Rightarrow> (world, RuntimeArtifact list) io" where
  "recordsForPlatformCacheDeletion E r db platformAccountID =
     (if \<not> ar_redis r then ret []
      else bind_io (gorm_find E db db_artifacts (\<lambda>x. ra_PlatformAccountID x = platformAccountID))
             (\<lambda>rs. ret (map snd rs)))"

definition cacheKeysForRecords :: "ArtifactRepoConfig \<Rightarrow> RuntimeArtifact list \<Rightarrow> string list" where
  "cacheKeysForRecords r records = concat (map (\<lambda>x.
     [cacheKey r (ra_PlatformAccountID x) (ra_ArtifactType x) (ra_ScopeKey x),
      cacheKeyByBinding r (ra_BindingID x) (ra_ArtifactType x) (ra_ScopeKey x)]) records)"

definition deleteCacheKeys :: "env \<Rightarrow> ArtifactRepoConfig \<Rightarrow> string list \<Rightarrow> (world, unit) io" where
  "deleteCacheKeys E r ks = (if \<not> ar_redis r \<or> ks = [] then ret () else redis_del E ks)"

definition ArtifactRepo_deleteByPlatformAccountID ::
    "env \<Rightarrow> ArtifactRepoConfig \<Rightarrow> ctx \<Rightarrow> string \<Rightarrow> (world, unit) io" where
  "ArtifactRepo_deleteByPlatformAccountID E r db platformAccountID =
     bind_io (recordsForPlatformCacheDeletion E r db platformAccountID) (\<lambda>records.
     then_io (sql_exec E db (\<lambda>_. on_artifacts (\<lambda>t. Inr (sql_delete (\<lambda>x. ra_PlatformAccountID x = platformAccountID) t))))
     (deleteCacheKeys E r (cacheKeysForRecords r records)))"

definition ArtifactRepo_deleteByBindingID ::
    "env \<Rightarrow> ArtifactRepoConfig \<Rightarrow> ctx \<Rightarrow> u64 \<Rightarrow> (world, unit) io" where
  "ArtifactRepo_deleteByBindingID E r db bindingID =
     bind_io (recordsForBindingCacheDeletion E r db bindingID) (\<lambda>records.
     then_io (sql_exec E db (\<lambda>_. on_artifacts (\<lambda>t. Inr (sql_delete (\<lambda>x. ra_BindingID x = bindingID) t))))
     (deleteCacheKeys E r (cacheKeysForRecords r records)))"

definition ArtifactRepo :: "env \<Rightarrow> ArtifactRepoConfig \<Rightarrow> world ArtifactRepository" where
  "ArtifactRepo E r = \<lparr>
     arepo_Put = ArtifactRepo_Put E r,
     arepo_GetByBindingID = ArtifactRepo_GetByBindingID E r,
     arepo_Get = ArtifactRepo_Get E r,
     arepo_DeleteByBindingID = ArtifactRepo_deleteByBindingID E r,
     arepo_DeleteByPlatformAccountID = ArtifactRepo_deleteByPlatformAccountID E r \<rparr>"

lemma record_of_artifact_inverse [simp]: "artifact_of_record (record_of_artifact a) = a"
  by (simp add: record_of_artifact_def artifact_of_record_def)

section \<open>The contract of the artifact repository\<close>

context sql_contract
begin

lemma until_keeps: "keeps I R (\<lambda>_. True) (time_until E t)"
  unfolding time_until_def by (rule io_bind[OF now_keeps]) (simp add: io_ret)

lemma artifact_rows_keeps:
  assumes "in_ctx ctx"
  shows "keeps I R (\<lambda>_. True) (recordsForBindingCacheDeletion E r ctx b)"
    and "keeps I R (\<lambda>_. True) (recordsForPlatformCacheDeletion E r ctx k)"
  unfolding recordsForBindingCacheDeletion_def recordsForPlatformCacheDeletion_def using assms
  by (auto intro!: io_bind[OF find_keeps[where Q = "\<lambda>_. True"]] io_ret)

lemma cache_delete_keeps: "writes \<Longrightarrow> keeps I R (\<lambda>_. True) (deleteCacheKeys E r ks)"
  unfolding deleteCacheKeys_def by (auto intro: io_ret redis_del_keeps)

lemma artifact_delete:
  assumes "writes" "in_ctx ctx"
  shows "mine b \<Longrightarrow> keeps I R (\<lambda>_. True) (ArtifactRepo_deleteByBindingID E r ctx b)"
    and "owns b k \<Longrightarrow> keeps I R (\<lambda>_. True) (ArtifactRepo_deleteByPlatformAccountID E r ctx k)"
  unfolding ArtifactRepo_deleteByBindingID_def ArtifactRepo_deleteByPlatformAccountID_def using assms
  by (intro io_bind[OF artifact_rows_keeps(1)] io_bind[OF artifact_rows_keeps(2)]
        io_then[OF artifact_delete_step] cache_delete_keeps; auto simp: rows_ok)+

lemma artifact_put:
  assumes "writes" "in_ctx Background" "owns (af_BindingID a) (af_PlatformAccountID a)"
  shows "keeps I R (\<lambda>_. True) (ArtifactRepo_Put E r ctx a)"
proof -
  have save: "keeps I R (\<lambda>_. True) (sql_exec E Background (\<lambda>k. on_artifacts (row_checked E (artifact_columns (record_of_artifact a))
      (sql_upsert k (dialect E) artifact_keys ''uniq_runtime_artifact_binding'' (\<lambda>new old. new) (record_of_artifact a)))))"
    using assms owns_mine by (intro artifact_upsert_step) (auto simp: record_of_artifact_def schema_clashes rows_ok)
  have prev: "keeps I R (\<lambda>_. True) (if ar_redis r
      then bind_io (attempt (gorm_take E Background db_artifacts p)) (\<lambda>q. ret (f q)) else ret [])" for p f
    using assms by (auto intro!: io_ret io_bind[OF io_attempt[OF take_keeps(1)[where Q = "\<lambda>_. True"]]])
  show ?thesis
    unfolding ArtifactRepo_Put_def Let_def
    by (rule io_bind[OF prev], rule io_then[OF save])
      (use assms in \<open>auto intro!: io_ret io_lifted io_then[OF redis_del_keeps] io_then[OF io_ret]
        io_bind[OF until_keeps] redis_del_keeps redis_set_keeps\<close>)
qed

lemma cache_keeps:
  shows "keeps I R (\<lambda>_. True) (cache_probe E r key)"
    and "writes \<Longrightarrow> keeps I R (\<lambda>_. True) (cache_fill E r key a)"
  unfolding cache_probe_def cache_fill_def
  by (auto intro!: io_ret io_bind[OF io_attempt[OF redis_get_keeps]] io_bind[OF until_keeps]
      io_then[OF io_ignore[OF redis_del_keeps]] io_then[OF io_ignore[OF redis_set_keeps]] split: sum.split)

lemma artifact_get_keeps:
  assumes "in_ctx Background"
  shows "keeps I R (\<lambda>_. True) (ArtifactRepo_get E q)"
  unfolding ArtifactRepo_get_def using assms
  by (intro io_bind[OF keeps_any[OF not_found_keeps[OF take_keeps(1)[where Q = "\<lambda>_. True"]]]] io_ret) auto

lemma artifact_get:
  assumes "writes" "in_ctx Background"
  shows "keeps I R (\<lambda>_. True) (ArtifactRepo_GetByBindingID E r ctx b ty sc)"
    and "keeps I R (\<lambda>_. True) (ArtifactRepo_Get E r ctx k ty sc)"
  unfolding ArtifactRepo_GetByBindingID_def ArtifactRepo_Get_def using assms
  by (auto intro!: io_bind[OF cache_keeps(1)] io_bind[OF now_keeps] io_bind[OF artifact_get_keeps] cache_keeps(2) io_ret
      split: option.split)

end

sublocale sql_contract \<subseteq> artifact_contract I R mine owns acct in_ctx writes "ArtifactRepo E r"
  by unfold_locales (simp add: ArtifactRepo_def artifact_delete)

end
