(* ===== verification/ManagementRepo.thy ===== *)
theory ManagementRepo
  imports ArtifactRepo
begin

text \<open>
  \<open>internal/data/management_repo.go\<close>: deletion of everything a credential owns, in one transaction of
  the pool. Deleting by account key first resolves the binding ids that any table pairs with the key
  (the \<open>UNION\<close> of four selects, so each id once) and deletes the artifacts of those bindings.
\<close>

definition bindingIDsForPlatformAccountID :: "env \<Rightarrow> ctx \<Rightarrow> string \<Rightarrow> (world, u64 list) io" where
  "bindingIDsForPlatformAccountID E tx platformAccountID =
     bind_io (sql_query E tx (\<lambda>_ d. remdups (
         map (\<lambda>(i, r). cd_BindingID r) (sql_find (\<lambda>r. cd_PlatformAccountID r = platformAccountID) (db_credentials d)) @
         map (\<lambda>(i, r). ra_BindingID r) (sql_find (\<lambda>r. ra_PlatformAccountID r = platformAccountID) (db_artifacts d)) @
         map (\<lambda>(i, r). ap_BindingID r) (sql_find (\<lambda>r. ap_PlatformAccountID r = platformAccountID) (db_profiles d)) @
         map (\<lambda>(i, r). dr_BindingID r) (sql_find (\<lambda>r. dr_PlatformAccountID r = platformAccountID) (db_devices d)))))
       (\<lambda>rows. ret (filter (\<lambda>b. b \<noteq> 0) rows))"

definition ManagementRepo_DeleteCredentialGraph ::
    "env \<Rightarrow> ArtifactRepoConfig \<Rightarrow> ctx \<Rightarrow> string \<Rightarrow> (world, unit) io" where
  "ManagementRepo_DeleteCredentialGraph E r ctx platformAccountID =
     begin_tx E (\<lambda>tx.
       bind_io (bindingIDsForPlatformAccountID E tx platformAccountID) (\<lambda>bindingIDs.
       then_io (if bindingIDs = []
                then ArtifactRepo_deleteByPlatformAccountID E r tx platformAccountID
                else foreach (\<lambda>bindingID. ArtifactRepo_deleteByBindingID E r tx bindingID) bindingIDs)
       (then_io (sql_exec E tx (\<lambda>_. on_profiles (\<lambda>t. Inr (sql_delete (\<lambda>x. ap_PlatformAccountID x = platformAccountID) t))))
       (then_io (sql_exec E tx (\<lambda>_. on_devices (\<lambda>t. Inr (sql_delete (\<lambda>x. dr_PlatformAccountID x = platformAccountID) t))))
       (sql_exec E tx (\<lambda>_. on_credentials (\<lambda>t. Inr (sql_delete (\<lambda>x. cd_PlatformAccountID x = platformAccountID) t))))))))"

definition ManagementRepo_DeleteCredentialGraphByBindingID ::
    "env \<Rightarrow> ArtifactRepoConfig \<Rightarrow> ctx \<Rightarrow> u64 \<Rightarrow> (world, unit) io" where
  "ManagementRepo_DeleteCredentialGraphByBindingID E r ctx bindingID =
     begin_tx E (\<lambda>tx.
       then_io (ArtifactRepo_deleteByBindingID E r tx bindingID)
       (then_io (sql_exec E tx (\<lambda>_. on_profiles (\<lambda>t. Inr (sql_delete (\<lambda>x. ap_BindingID x = bindingID) t))))
       (then_io (sql_exec E tx (\<lambda>_. on_devices (\<lambda>t. Inr (sql_delete (\<lambda>x. dr_BindingID x = bindingID) t))))
       (sql_exec E tx (\<lambda>_. on_credentials (\<lambda>t. Inr (sql_delete (\<lambda>x. cd_BindingID x = bindingID) t)))))))"

definition ManagementRepo :: "env \<Rightarrow> ArtifactRepoConfig \<Rightarrow> world CredentialManagementRepository" where
  "ManagementRepo E r = \<lparr>
     mrepo_DeleteCredentialGraph = ManagementRepo_DeleteCredentialGraph E r,
     mrepo_DeleteCredentialGraphByBindingID = ManagementRepo_DeleteCredentialGraphByBindingID E r \<rparr>"

section \<open>The contract of the management repository\<close>

context pool_contract
begin

lemma binding_ids_keeps:
  assumes "owns b k"
  shows "keeps I R (\<lambda>bs. \<forall>b' \<in> set bs. mine b') (bindingIDsForPlatformAccountID E ctx k)"
  unfolding bindingIDsForPlatformAccountID_def
proof (rule io_bind[OF query_keeps[OF any_ctx]])
  fix d
  assume "scope_ok mine owns acct d"
  then show "\<forall>b' \<in> set (remdups (
         map (\<lambda>(i, r). cd_BindingID r) (sql_find (\<lambda>r. cd_PlatformAccountID r = k) (db_credentials d)) @
         map (\<lambda>(i, r). ra_BindingID r) (sql_find (\<lambda>r. ra_PlatformAccountID r = k) (db_artifacts d)) @
         map (\<lambda>(i, r). ap_BindingID r) (sql_find (\<lambda>r. ap_PlatformAccountID r = k) (db_profiles d)) @
         map (\<lambda>(i, r). dr_BindingID r) (sql_find (\<lambda>r. dr_PlatformAccountID r = k) (db_devices d)))). mine b'"
    using assms by (fastforce simp: scope_ok_def table_scope_def rows_ok sql_find_def)
qed (auto intro: io_ret)

lemma delete_graph_binding_keeps:
  assumes "writes" "mine b"
  shows "keeps I R (\<lambda>_. True) (ManagementRepo_DeleteCredentialGraphByBindingID E r ctx b)"
  unfolding ManagementRepo_DeleteCredentialGraphByBindingID_def using assms any_ctx
  by (intro begin_keeps io_then[OF artifact_delete(1)] io_then[OF profile_delete_step]
      io_then[OF device_delete_step] credential_delete_step) auto

lemma delete_graph_key_keeps:
  assumes "writes" "owns b k"
  shows "keeps I R (\<lambda>_. True) (ManagementRepo_DeleteCredentialGraph E r ctx k)"
proof -
  have arts: "keeps I R (\<lambda>_. True) (if bs = [] then ArtifactRepo_deleteByPlatformAccountID E r tx k
      else foreach (\<lambda>b. ArtifactRepo_deleteByBindingID E r tx b) bs)" if "\<forall>b' \<in> set bs. mine b'" for bs tx
    using assms any_ctx that by (auto intro!: io_loop artifact_delete)
  show ?thesis
    unfolding ManagementRepo_DeleteCredentialGraph_def using assms any_ctx
    by (intro begin_keeps io_bind[OF binding_ids_keeps] io_then[OF arts] io_then[OF profile_delete_step]
        io_then[OF device_delete_step] credential_delete_step) (auto simp: rows_ok)
qed

end

section \<open>What a completed deletion leaves\<close>

text \<open>The database without the rows of a binding; the grant minimums stay.\<close>

definition purge :: "u64 \<Rightarrow> database \<Rightarrow> database" where
  "purge b d = d\<lparr>
     db_artifacts := sql_delete (\<lambda>x. ra_BindingID x = b) (db_artifacts d),
     db_profiles := sql_delete (\<lambda>x. ap_BindingID x = b) (db_profiles d),
     db_devices := sql_delete (\<lambda>x. dr_BindingID x = b) (db_devices d),
     db_credentials := sql_delete (\<lambda>x. cd_BindingID x = b) (db_credentials d) \<rparr>"

lemma artifact_delete_establishes:
  "establishes (in_tx (\<lambda>t. t = d)) (ArtifactRepo_deleteByBindingID E r WithTx b)
     (\<lambda>_. in_tx (\<lambda>t. t = d\<lparr> db_artifacts := sql_delete (\<lambda>x. ra_BindingID x = b) (db_artifacts d) \<rparr>))"
  unfolding ArtifactRepo_deleteByBindingID_def
proof (rule est_bind)
  show "establishes (in_tx (\<lambda>t. t = d)) (recordsForBindingCacheDeletion E r WithTx b) (\<lambda>_. in_tx (\<lambda>t. t = d))"
    unfolding recordsForBindingCacheDeletion_def
    by (auto intro!: est_ret est_bind[OF est_read[OF reads_store(4)]])
  show "establishes (in_tx (\<lambda>t. t = d)) (then_io (sql_exec E WithTx (\<lambda>_. on_artifacts
          (\<lambda>t. Inr (sql_delete (\<lambda>x. ra_BindingID x = b) t)))) (deleteCacheKeys E r (cacheKeysForRecords r records)))
      (\<lambda>_. in_tx (\<lambda>t. t = d\<lparr> db_artifacts := sql_delete (\<lambda>x. ra_BindingID x = b) (db_artifacts d) \<rparr>))" for records
    unfolding deleteCacheKeys_def
    by (rule est_then[OF est_deletes(4)]) (auto intro: est_ret est_redis)
qed

definition purge_transaction :: "env \<Rightarrow> ArtifactRepoConfig \<Rightarrow> u64 \<Rightarrow> ctx \<Rightarrow> (world, unit) io" where
  "purge_transaction E r bindingID tx =
     then_io (ArtifactRepo_deleteByBindingID E r tx bindingID)
     (then_io (sql_exec E tx (\<lambda>_. on_profiles (\<lambda>t. Inr (sql_delete (\<lambda>x. ap_BindingID x = bindingID) t))))
     (then_io (sql_exec E tx (\<lambda>_. on_devices (\<lambda>t. Inr (sql_delete (\<lambda>x. dr_BindingID x = bindingID) t))))
     (sql_exec E tx (\<lambda>_. on_credentials (\<lambda>t. Inr (sql_delete (\<lambda>x. cd_BindingID x = bindingID) t))))))"

lemma delete_graph_transaction:
  "ManagementRepo_DeleteCredentialGraphByBindingID E r ctx b = begin_tx E (purge_transaction E r b)"
  by (simp add: ManagementRepo_DeleteCredentialGraphByBindingID_def purge_transaction_def[abs_def])

lemma purge_establishes:
  "establishes (in_tx (\<lambda>t. t = d)) (purge_transaction E r b WithTx) (\<lambda>_. in_tx (\<lambda>t. t = purge b d))"
  unfolding purge_transaction_def
  by (rule est_then[OF artifact_delete_establishes], rule est_then[OF est_deletes(3)],
      rule est_then[OF est_deletes(2)], rule est_weaken[OF est_deletes(1)], assumption, simp add: purge_def)

end
