(* ===== verification/GrantInvalidationRepo.thy ===== *)
theory GrantInvalidationRepo
  imports SqlContract
begin

text \<open>
  \<open>internal/data/grant_invalidation_repo.go\<close>: the least grant version a consumer's tickets for a
  binding must carry. \<open>Upsert\<close> only ever raises it (the \<open>CASE\<close> of the update); a binding and consumer
  without a row have minimum 0.
\<close>

definition GrantInvalidationRepo_Upsert :: "env \<Rightarrow> ctx \<Rightarrow> u64 \<Rightarrow> string \<Rightarrow> u64 \<Rightarrow> (world, unit) io" where
  "GrantInvalidationRepo_Upsert E ctx bindingID consumer minimumVersion =
     bind_io (time_now E) (\<lambda>now.
     let row = \<lparr> gi_BindingID = bindingID, gi_Consumer = consumer,
                 gi_MinimumGrantVersion = minimumVersion, gi_InvalidatedAt = now \<rparr> in
     sql_exec E Background (\<lambda>k. on_invalidations (row_checked E (invalidation_columns row)
       (sql_upsert k (dialect E) invalidation_keys ''uk_consumer_grant_invalidations_binding_consumer''
          (\<lambda>new old. old\<lparr>
             gi_MinimumGrantVersion := (if gi_MinimumGrantVersion old > minimumVersion
                                        then gi_MinimumGrantVersion old else minimumVersion),
             gi_InvalidatedAt := now \<rparr>) row))))"

definition GrantInvalidationRepo_MinimumVersion :: "env \<Rightarrow> ctx \<Rightarrow> u64 \<Rightarrow> string \<Rightarrow> (world, u64) io" where
  "GrantInvalidationRepo_MinimumVersion E ctx bindingID consumer =
     bind_io (attempt (gorm_first E Background db_invalidations
         (\<lambda>r. gi_BindingID r = bindingID \<and> gi_Consumer r = consumer))) (\<lambda>r.
     case r of
       Inl e \<Rightarrow> if e = ErrRecordNotFound then ret 0 else fail e
     | Inr (_, row) \<Rightarrow> ret (gi_MinimumGrantVersion row))"

section \<open>The contract of the grant store\<close>

context sql_contract
begin

lemma invalidation_upsert:
  assumes "writes" "in_ctx Background" "mine b"
  shows "keeps I R (\<lambda>_. True) (GrantInvalidationRepo_Upsert E ctx b consumer v)"
  unfolding GrantInvalidationRepo_Upsert_def Let_def using assms
  by (intro io_bind[OF now_keeps] invalidation_upsert_step) (auto simp: schema_clashes)

lemma minimum_keeps:
  assumes "in_ctx Background"
  shows "keeps I R (\<lambda>_. True) (GrantInvalidationRepo_MinimumVersion E ctx b consumer)"
  unfolding GrantInvalidationRepo_MinimumVersion_def using assms
  by (auto intro!: io_bind[OF io_attempt[OF take_keeps(2)[where Q = "\<lambda>_. True"]]] io_ret io_fail split: sum.split)

end

end
