(* ===== verification/Bootstrap.thy ===== *)
theory Bootstrap
  imports PlatformAdapter CredentialRepo DeviceRepo ProfileRepo ManagementRepo GrantInvalidationRepo
begin

text \<open>
  \<open>cmd/platform-mihomo-service/main.go\<close> and \<open>internal/conf\<close>: the bootstrap
  configuration and its validation, and how the process wires the repositories, use cases and
  services together. The getters of the generated configuration types read a nil message as zero
  values.
\<close>

section \<open>Configuration\<close>

record Server_GRPC =
  cg_Network :: string
  cg_Addr :: string
  cg_TimeoutSeconds :: i32

record Server =
  cf_Grpc :: "Server_GRPC option"

record Data_Redis =
  cx_Addr :: string
  cx_Password :: string
  cx_Db :: i32
  cx_Prefix :: string

record Data_Database =
  cb_Driver :: string
  cb_Source :: string

record Data =
  ca_Database :: "Data_Database option"
  ca_Redis :: "Data_Redis option"

record Security =
  ck_CredentialEncryptionKey :: string
  ck_ServiceTicketSigningKey :: string
  ck_ServiceTicketIssuer :: string
  ck_ServiceTicketPublicKeyPem :: string
  ck_ServiceTicketKeyId :: string

record Bootstrap =
  bs_Server :: "Server option"
  bs_Data :: "Data option"
  bs_Security :: "Security option"

definition GetGrpc :: "Server option \<Rightarrow> Server_GRPC option" where
  "GetGrpc x = (case x of Some s \<Rightarrow> cf_Grpc s | None \<Rightarrow> None)"

definition GetNetwork :: "Server_GRPC option \<Rightarrow> string" where
  "GetNetwork x = (case x of Some g \<Rightarrow> cg_Network g | None \<Rightarrow> [])"

definition GetAddr :: "Server_GRPC option \<Rightarrow> string" where
  "GetAddr x = (case x of Some g \<Rightarrow> cg_Addr g | None \<Rightarrow> [])"

definition GetTimeoutSeconds :: "Server_GRPC option \<Rightarrow> i32" where
  "GetTimeoutSeconds x = (case x of Some g \<Rightarrow> cg_TimeoutSeconds g | None \<Rightarrow> 0)"

definition GetRedis :: "Data option \<Rightarrow> Data_Redis option" where
  "GetRedis x = (case x of Some d \<Rightarrow> ca_Redis d | None \<Rightarrow> None)"

definition GetPrefix :: "Data_Redis option \<Rightarrow> string" where
  "GetPrefix x = (case x of Some r \<Rightarrow> cx_Prefix r | None \<Rightarrow> [])"

definition GetCredentialEncryptionKey :: "Security option \<Rightarrow> string" where
  "GetCredentialEncryptionKey x = (case x of Some s \<Rightarrow> ck_CredentialEncryptionKey s | None \<Rightarrow> [])"

definition GetServiceTicketIssuer :: "Security option \<Rightarrow> string" where
  "GetServiceTicketIssuer x = (case x of Some s \<Rightarrow> ck_ServiceTicketIssuer s | None \<Rightarrow> [])"

definition GetServiceTicketPublicKeyPem :: "Security option \<Rightarrow> string" where
  "GetServiceTicketPublicKeyPem x = (case x of Some s \<Rightarrow> ck_ServiceTicketPublicKeyPem s | None \<Rightarrow> [])"

definition GetServiceTicketKeyId :: "Security option \<Rightarrow> string" where
  "GetServiceTicketKeyId x = (case x of Some s \<Rightarrow> ck_ServiceTicketKeyId s | None \<Rightarrow> [])"

lemmas conf_getters = GetGrpc_def GetNetwork_def GetAddr_def GetTimeoutSeconds_def GetRedis_def GetPrefix_def
  GetCredentialEncryptionKey_def GetServiceTicketIssuer_def GetServiceTicketPublicKeyPem_def GetServiceTicketKeyId_def

section \<open>Validation\<close>

definition validateBootstrap ::
    "(string \<Rightarrow> string option) \<Rightarrow> (string \<Rightarrow> error + public_key) \<Rightarrow> Bootstrap \<Rightarrow> error + unit" where
  "validateBootstrap pem_decode parse_pkix bc =
     (let grpcConf = GetGrpc (bs_Server bc); security = bs_Security bc in
      if GetNetwork grpcConf = [] then Inl (ErrText ''server.grpc.network is required'')
      else if GetAddr grpcConf = [] then Inl (ErrText ''server.grpc.addr is required'')
      else if sint (GetTimeoutSeconds grpcConf) \<le> 0
      then Inl (ErrText ''server.grpc.timeout_seconds must be greater than zero'')
      else if GetServiceTicketIssuer security = [] then Inl (ErrText ''security.service_ticket_issuer is required'')
      else if length (GetCredentialEncryptionKey security) \<noteq> 32
      then Inl (ErrText ''security.credential_encryption_key must be 32 bytes'')
      else if GetServiceTicketKeyId security = [] then Inl (ErrText ''security.service_ticket_key_id is required'')
      else if GetServiceTicketPublicKeyPem security = []
      then Inl (ErrText ''security.service_ticket_public_key_pem is required'')
      else (case ParseEd25519PublicKeyPEM pem_decode parse_pkix (GetServiceTicketPublicKeyPem security) of
              Inl err \<Rightarrow> Inl err
            | Inr _ \<Rightarrow> Inr ()))"

definition newTicketVerifierFromSecurity :: "(string \<Rightarrow> string option) \<Rightarrow> (string \<Rightarrow> error + public_key) \<Rightarrow>
    Security option \<Rightarrow> error + 'w TicketVerifier" where
  "newTicketVerifierFromSecurity pem_decode parse_pkix security =
     (case ParseEd25519PublicKeyPEM pem_decode parse_pkix (GetServiceTicketPublicKeyPem security) of
        Inl err \<Rightarrow> Inl err
      | Inr publicKey \<Rightarrow>
          Inr (NewStaticKeyTicketVerifier (GetServiceTicketIssuer security) (GetServiceTicketKeyId security) publicKey))"

section \<open>Wiring\<close>

text \<open>
  What \<open>main\<close> builds once the configuration is valid and the database is open. The upstream client is
  an argument: \<open>main\<close> passes \<open>UnconfiguredClient\<close>, the tests pass \<open>StubClient\<close>. The Redis client is
  always configured.
\<close>

definition artifact_config :: "Bootstrap \<Rightarrow> ArtifactRepoConfig" where
  "artifact_config bc = \<lparr> ar_redis = True,
     ar_prefix = GetPrefix (GetRedis (bs_Data bc)) \<rparr>"

definition wired_bind :: "env \<Rightarrow> Bootstrap \<Rightarrow> world Client \<Rightarrow> world BindUsecase" where
  "wired_bind E bc client = NewBindUsecase (CredentialRepo E) (DeviceRepo E) (ProfileRepo E) client
     (GetCredentialEncryptionKey (bs_Security bc)) (Some (ArtifactRepo E (artifact_config bc)))"

definition wired_status ::
    "env \<Rightarrow> Bootstrap \<Rightarrow> world Client \<Rightarrow> (world, BindCredentialOutput option) StatusUsecase" where
  "wired_status E bc client =
     NewStatusUsecase (CredentialRepo E) client (GetCredentialEncryptionKey (bs_Security bc))"

definition wired_profile :: "env \<Rightarrow> world ProfileUsecase" where
  "wired_profile E = NewProfileUsecase (ProfileRepo E)"

definition wired_authkey ::
    "env \<Rightarrow> Bootstrap \<Rightarrow> world Client \<Rightarrow> (world, BindCredentialOutput option) AuthkeyUsecase" where
  "wired_authkey E bc client = NewAuthkeyUsecase (CredentialRepo E) (ArtifactRepo E (artifact_config bc)) client
     (GetCredentialEncryptionKey (bs_Security bc))"

definition wired_management :: "env \<Rightarrow> Bootstrap \<Rightarrow> world Client \<Rightarrow> world ManagementUsecase" where
  "wired_management E bc client = NewManagementUsecase (CredentialRepo E) (DeviceRepo E) (ProfileRepo E)
     (ArtifactRepo E (artifact_config bc)) (ManagementRepo E (artifact_config bc)) (wired_bind E bc client)
     (wired_profile E)"

definition wired_account :: "env \<Rightarrow> Bootstrap \<Rightarrow> world Client \<Rightarrow> world TicketVerifier \<Rightarrow>
    (world, BindCredentialOutput option) MihomoAccountService" where
  "wired_account E bc client verifier = NewMihomoAccountService verifier (wired_bind E bc client)
     (wired_status E bc client) (wired_profile E) (wired_authkey E bc client) (wired_management E bc client)"

definition wired_credential ::
    "env \<Rightarrow> Bootstrap \<Rightarrow> world Client \<Rightarrow> world TicketVerifier \<Rightarrow> world MihomoCredentialService" where
  "wired_credential E bc client verifier = NewMihomoCredentialService verifier (wired_management E bc client)"

definition wired_generic :: "env \<Rightarrow> Bootstrap \<Rightarrow> world Client \<Rightarrow> world TicketVerifier \<Rightarrow>
    (world, BindCredentialOutput option) GenericPlatformService" where
  "wired_generic E bc client verifier = NewGenericPlatformService verifier (wired_bind E bc client)
     (wired_status E bc client) (wired_management E bc client) (Some (GrantInvalidationRepo_Upsert E))"

definition wired_verifier :: "env \<Rightarrow> (string \<Rightarrow> string option) \<Rightarrow> (string \<Rightarrow> error + public_key) \<Rightarrow>
    Bootstrap \<Rightarrow> error + world TicketVerifier" where
  "wired_verifier E pem_decode parse_pkix bc =
     map_sum id (\<lambda>v. WithGrantVersionLookup v (GrantInvalidationRepo_MinimumVersion E))
       (newTicketVerifierFromSecurity pem_decode parse_pkix (bs_Security bc))"

end
