(* ===== verification/Wiring.thy ===== *)
theory Wiring
  imports Bootstrap
begin

text \<open>
  The repositories over MySQL and Redis provide every contract the use cases and services were
  proved against: for any bounds \<open>mine\<close>, \<open>owns\<close>, \<open>acct\<close>, the wired process keeps the databases (the
  committed one and the one of an open transaction) within them and leaves every row outside them
  alone.
\<close>

section \<open>Bounds on the world\<close>

definition world_scope :: "(u64 \<Rightarrow> bool) \<Rightarrow> (u64 \<Rightarrow> string \<Rightarrow> bool) \<Rightarrow> (string \<Rightarrow> string \<Rightarrow> bool) \<Rightarrow> world \<Rightarrow> bool" where
  "world_scope mine owns acct w \<longleftrightarrow>
     scope_ok mine owns acct (w_db w) \<and> (\<forall>d. w_tx w = Some d \<longrightarrow> scope_ok mine owns acct d)"

definition world_frame :: "(u64 \<Rightarrow> bool) \<Rightarrow> world \<Rightarrow> world \<Rightarrow> bool" where
  "world_frame mine w w' \<longleftrightarrow> frame mine (w_db w) (w_db w') \<and>
     (case w_tx w of None \<Rightarrow> w_tx w' = None | Some d \<Rightarrow> (\<exists>d'. w_tx w' = Some d' \<and> frame mine d d'))"

lemma world_scope_same: "same_store w w' \<Longrightarrow> world_scope mine owns acct w \<Longrightarrow> world_scope mine owns acct w'"
  by (simp add: world_scope_def same_store_def)

lemma world_frame_same: "same_store w w' \<Longrightarrow> world_frame mine w w'"
  by (simp add: world_frame_def same_store_def split: option.split)

lemma world_frame_trans: "world_frame mine w w' \<Longrightarrow> world_frame mine w' w'' \<Longrightarrow> world_frame mine w w''"
  by (auto simp: world_frame_def split: option.splits intro: frame_trans)

text \<open>A call that leaves the stores alone, such as one to the upstream service.\<close>

definition leaves_store :: "(world, 'e, 'a) call \<Rightarrow> bool" where
  "leaves_store m \<longleftrightarrow> (\<forall>w. same_store w (snd (m w)))"

lemma leaves_storeD: "leaves_store m \<Longrightarrow> m w = (r, w') \<Longrightarrow> same_store w w'"
  by (metis leaves_store_def snd_conv)

lemma leaves_store_keeps:
  assumes "leaves_store m" "\<And>w x. fst (m w) = Inr x \<Longrightarrow> Q x"
  shows "keeps (world_scope mine owns acct) (world_frame mine) Q m"
  using assms world_scope_same world_frame_same unfolding keeps_def leaves_store_def by blast

definition client_inert :: "world Client \<Rightarrow> bool" where
  "client_inert client \<longleftrightarrow>
     (\<forall>ctx a b. leaves_store (cl_ValidateAndDiscover client ctx a b) \<and> leaves_store (cl_IssueAuthKey client ctx a b))"

lemma client_inert_stub [simp]: "client_inert StubClient" "client_inert UnconfiguredClient"
  by (simp_all add: client_inert_def leaves_store_def StubClient_def UnconfiguredClient_def)

section \<open>The repositories within bounds\<close>

locale store_scope =
  fixes mine :: "u64 \<Rightarrow> bool" and owns :: "u64 \<Rightarrow> string \<Rightarrow> bool" and acct :: "string \<Rightarrow> string \<Rightarrow> bool" and E :: env
  assumes owns_mine: "owns b k \<Longrightarrow> mine b"
    and mine_owns: "mine b \<Longrightarrow> key_binding k = Some b \<Longrightarrow> owns b k"

sublocale store_scope \<subseteq> store: pool_contract "world_scope mine owns acct" "world_frame mine" mine owns acct
  "\<lambda>_. True" True E
proof unfold_locales
  show "world_frame mine w w" for w by (rule world_frame_same) simp
  show "world_scope mine owns acct (next_tick w) \<and> world_frame mine w (next_tick w)"
    if "world_scope mine owns acct w" for w
    using that world_scope_same world_frame_same same_store_refl(2) by blast
  show "scope_ok mine owns acct (db_view ctx w)" if "world_scope mine owns acct w" for w ctx
    using that by (auto simp: world_scope_def db_view_def split: ctx.split option.split)
  show "world_scope mine owns acct (put_view ctx d w) \<and> world_frame mine w (put_view ctx d w)"
    if "world_scope mine owns acct w" "scope_ok mine owns acct d" "frame mine (db_view ctx w) d" for w ctx d
    using that by (auto simp: world_scope_def world_frame_def put_view_def db_view_def
        split: ctx.splits option.splits)
  show "world_scope mine owns acct (w\<lparr> w_redis := c \<rparr>) \<and> world_frame mine w (w\<lparr> w_redis := c \<rparr>)"
    if "world_scope mine owns acct w" for w c
    using that by (simp add: world_scope_def world_frame_def split: option.split)
  show "world_scope mine owns acct (tx_started w)" if "world_scope mine owns acct w" for w
    using that by (simp add: world_scope_def tx_started_def)
  show "world_scope mine owns acct (tx_restored w w2) \<and> world_frame mine w (tx_restored w w2) \<and>
      world_scope mine owns acct (tx_committed w w2) \<and> world_frame mine w (tx_committed w w2)"
    if "world_scope mine owns acct w" "world_scope mine owns acct w2" "world_frame mine (tx_started w) w2" for w w2
    using that by (auto simp: world_scope_def world_frame_def tx_started_def tx_restored_def tx_committed_def
        db_view_def split: option.splits)
  show "world_scope mine owns acct (tx_restored w w2) \<and> world_frame mine w (tx_restored w w2)"
    if "world_scope mine owns acct w" "world_scope mine owns acct w2" "world_frame mine w w2" for w w2
    using that by (auto simp: world_scope_def world_frame_def tx_restored_def split: option.splits)
qed (use owns_mine mine_owns world_frame_trans in auto)

section \<open>The services within bounds\<close>

locale service_scope = store_scope mine owns acct E
  for mine :: "u64 \<Rightarrow> bool" and owns acct E +
  fixes bc :: Bootstrap and client :: "world Client" and jwt :: jwt_parser and verifier :: "world TicketVerifier"
    and tickets :: "string \<Rightarrow> bool"
  assumes inert: "client_inert client"
    and accounts: "fst (cl_ValidateAndDiscover client ctx cookies hint w) = Inr (a, region, ps) \<Longrightarrow> acct ''mihomo'' a"
    and looks_up: "tv_lookup verifier = Some lookup \<Longrightarrow> leaves_store (lookup ctx b consumer)"
    and ticket_bindings: "tickets raw \<Longrightarrow>
      fst (VerifyContext E jwt verifier ctx raw serviceTicketAudience w) = Inr c \<Longrightarrow> mine (tc_BindingID c)"
begin

lemma grant_check_store: "leaves_store (check_consumer_grant verifier ctx c)"
proof (cases "tv_lookup verifier")
  case (Some lookup)
  then show ?thesis
    using looks_up[OF Some, of ctx "jc_BindingID c" "jc_Consumer c"]
    by (auto simp: leaves_store_def check_consumer_grant_def bind_io_def split: prod.splits sum.splits)
      (metis snd_conv)+
qed (auto simp: leaves_store_def check_consumer_grant_def)

lemma verify_store: "leaves_store (VerifyContext E jwt verifier ctx raw aud)"
  unfolding leaves_store_def
proof
  fix w
  have "same_store w (snd (check_consumer_grant verifier ctx c (next_tick w)))" for c
    using grant_check_store[of ctx c] same_store_trans[of w "next_tick w"] by (simp add: leaves_store_def)
  then show "same_store w (snd (VerifyContext E jwt verifier ctx raw aud w))"
    by (auto simp: VerifyContext_def time_now_def then_io_apply bind_io_apply split: sum.splits prod.splits)
      (metis snd_conv)+
qed

end

sublocale service_scope \<subseteq> services "world_scope mine owns acct" "world_frame mine" mine owns acct
  "\<lambda>_. True" True "CredentialRepo E" "DeviceRepo E" "ProfileRepo E" "ArtifactRepo E (artifact_config bc)"
  "ManagementRepo E (artifact_config bc)" client "CredentialRepo_WithinTransaction E" E jwt verifier
  "GrantInvalidationRepo_Upsert E" tickets "GetCredentialEncryptionKey (bs_Security bc)"
proof unfold_locales
  fix ctx :: ctx and raw cookies hint player :: string
  show "keeps (world_scope mine owns acct) (world_frame mine) (\<lambda>(a, _, _). acct ''mihomo'' a)
      (cl_ValidateAndDiscover client ctx cookies hint)"
    using inert accounts by (intro leaves_store_keeps) (auto simp: client_inert_def)
  show "keeps (world_scope mine owns acct) (world_frame mine) (\<lambda>_. True) (cl_IssueAuthKey client ctx cookies player)"
    using inert by (intro leaves_store_keeps) (auto simp: client_inert_def)
  assume t: "tickets raw"
  show "keeps (world_scope mine owns acct) (world_frame mine) (\<lambda>c. mine (tc_BindingID c))
      (verifyServiceTicket E jwt verifier ctx raw)"
    unfolding verifyServiceTicket_def
    using verify_store ticket_bindings[OF t] by (intro store.io_map_error leaves_store_keeps) auto
qed (simp_all add: CredentialRepo_def ProfileRepo_def ArtifactRepo_def ManagementRepo_def CredentialRepo_WithinTransaction_def
  store.credential_save store.credential_get store.credential_lookup store.credential_delete
  store.begin_keeps store.profile_set_default store.artifact_get store.artifact_put
  store.delete_graph_binding_keeps store.delete_graph_key_keeps store.invalidation_upsert)

end
