(* ===== verification/Requests.thy ===== *)
theory Requests
  imports Wiring
begin

text \<open>
  The process as a whole: the requests its three services accept, what the wired process does to the
  world with each, and the worlds it can reach, whatever fails on the way.
\<close>

datatype request =
    Account_Bind "BindCredentialRequest option"
  | Account_Status "AccountRequest option"
  | Account_Validate "AccountRequest option"
  | Account_Refresh "AccountRequest option"
  | Account_ListProfiles "AccountRequest option"
  | Account_PrimaryProfile "AccountRequest option"
  | Account_AuthKey "PlayerRequest option"
  | Account_Summary "AccountRequest option"
  | Account_Update "UpdateCredentialRequest option"
  | Account_Delete "AccountRequest option"
  | Account_UpsertDevice "UpsertDeviceRequest option"
  | Account_Confirm "PlayerRequest option"
  | Shared_Summary "AccountRequest option"
  | Platform_Summary "AccountRequest option"
  | Platform_Put "PutCredentialRequest option"
  | Platform_Refresh "AccountRequest option"
  | Platform_Delete "AccountRequest option"
  | Platform_Invalidate "InvalidateConsumerGrantRequest option"

fun request_ticket :: "request \<Rightarrow> string option" where
  "request_ticket (Account_Bind r) = map_option bcr_ServiceTicket r"
| "request_ticket (Account_Status r) = map_option acr_ServiceTicket r"
| "request_ticket (Account_Validate r) = map_option acr_ServiceTicket r"
| "request_ticket (Account_Refresh r) = map_option acr_ServiceTicket r"
| "request_ticket (Account_ListProfiles r) = map_option acr_ServiceTicket r"
| "request_ticket (Account_PrimaryProfile r) = map_option acr_ServiceTicket r"
| "request_ticket (Account_AuthKey r) = map_option plr_ServiceTicket r"
| "request_ticket (Account_Summary r) = map_option acr_ServiceTicket r"
| "request_ticket (Account_Update r) = map_option ucr_ServiceTicket r"
| "request_ticket (Account_Delete r) = map_option acr_ServiceTicket r"
| "request_ticket (Account_UpsertDevice r) = map_option udr_ServiceTicket r"
| "request_ticket (Account_Confirm r) = map_option plr_ServiceTicket r"
| "request_ticket (Shared_Summary r) = map_option acr_ServiceTicket r"
| "request_ticket (Platform_Summary r) = map_option acr_ServiceTicket r"
| "request_ticket (Platform_Put r) = map_option pcr_ServiceTicket r"
| "request_ticket (Platform_Refresh r) = map_option acr_ServiceTicket r"
| "request_ticket (Platform_Delete r) = map_option acr_ServiceTicket r"
| "request_ticket (Platform_Invalidate r) = map_option icr_ServiceTicket r"

text \<open>The outside of a process: the environment, its configuration, the upstream client, the JWT
  library the handlers use and the base of its ticket verifier.\<close>

record process =
  pr_env :: env
  pr_conf :: Bootstrap
  pr_client :: "world Client"
  pr_jwt :: jwt_parser
  pr_verifier :: "world TicketVerifier"

text \<open>\<open>main\<close> gives the verifier the grant store to look minimum versions up in.\<close>

definition main_verifier :: "process \<Rightarrow> world TicketVerifier" where
  "main_verifier P = WithGrantVersionLookup (pr_verifier P) (GrantInvalidationRepo_MinimumVersion (pr_env P))"

definition main_account where
  "main_account P = wired_account (pr_env P) (pr_conf P) (pr_client P) (main_verifier P)"

definition main_credential where
  "main_credential P = wired_credential (pr_env P) (pr_conf P) (pr_client P) (main_verifier P)"

definition main_generic where
  "main_generic P = wired_generic (pr_env P) (pr_conf P) (pr_client P) (main_verifier P)"

definition answered :: "('w, 'e, 'a) call \<Rightarrow> ('w, 'e, unit) call" where
  "answered m = bind_io m (\<lambda>_. ret ())"

fun serve :: "process \<Rightarrow> request \<Rightarrow> (world, Status, unit) call" where
  "serve P (Account_Bind r) = answered (MihomoAccount_BindCredential (pr_env P) (pr_jwt P) (main_account P) Background r)"
| "serve P (Account_Status r) = answered (MihomoAccount_GetCredentialStatus (pr_env P) (pr_jwt P) (main_account P) Background r)"
| "serve P (Account_Validate r) = answered (MihomoAccount_ValidateCredential (pr_env P) (pr_jwt P) (main_account P) Background r)"
| "serve P (Account_Refresh r) = answered (MihomoAccount_RefreshCredential (pr_env P) (pr_jwt P) (main_account P) Background r)"
| "serve P (Account_ListProfiles r) = answered (MihomoAccount_ListProfiles (pr_env P) (pr_jwt P) (main_account P) Background r)"
| "serve P (Account_PrimaryProfile r) = answered (MihomoAccount_GetPrimaryProfile (pr_env P) (pr_jwt P) (main_account P) Background r)"
| "serve P (Account_AuthKey r) = answered (MihomoAccount_GetAuthKey (pr_env P) (pr_jwt P) (main_account P) Background r)"
| "serve P (Account_Summary r) = answered (MihomoAccount_GetCredentialSummary (pr_env P) (pr_jwt P) (main_account P) Background r)"
| "serve P (Account_Update r) = answered (MihomoAccount_UpdateCredential (pr_env P) (pr_jwt P) (main_account P) Background r)"
| "serve P (Account_Delete r) = answered (MihomoAccount_DeleteCredential (pr_env P) (pr_jwt P) (main_account P) Background r)"
| "serve P (Account_UpsertDevice r) = answered (MihomoAccount_UpsertDevice (pr_env P) (pr_jwt P) (main_account P) Background r)"
| "serve P (Account_Confirm r) = answered (MihomoAccount_ConfirmPrimaryProfile (pr_env P) (pr_jwt P) (main_account P) Background r)"
| "serve P (Shared_Summary r) = answered (MihomoCredential_GetCredentialSummary (pr_env P) (pr_jwt P) (main_credential P) Background r)"
| "serve P (Platform_Summary r) = answered (Generic_GetCredentialSummary (pr_env P) (pr_jwt P) (main_generic P) Background r)"
| "serve P (Platform_Put r) = answered (Generic_PutCredential (pr_env P) (pr_jwt P) (main_generic P) Background r)"
| "serve P (Platform_Refresh r) = answered (Generic_RefreshCredential (pr_env P) (pr_jwt P) (main_generic P) Background r)"
| "serve P (Platform_Delete r) = answered (Generic_DeleteCredential (pr_env P) (pr_jwt P) (main_generic P) Background r)"
| "serve P (Platform_Invalidate r) = answered (Generic_InvalidateConsumerGrant (pr_env P) (pr_jwt P) (main_generic P) Background r)"

section \<open>Every request keeps the contracts\<close>

lemma wired_services:
  "wired_account E bc client v = \<lparr> ms_ticketVerifier = v,
     ms_bindUC = \<lparr> bu_credentialRepo = CredentialRepo E, bu_deviceRepo = DeviceRepo E, bu_profileRepo = ProfileRepo E,
       bu_artifactRepo = Some (ArtifactRepo E (artifact_config bc)), bu_client = client,
       bu_encryptionKey = GetCredentialEncryptionKey (bs_Security bc) \<rparr>,
     ms_statusUC = \<lparr> su_credentials = CredentialRepo E, su_hoyoClient = client,
       su_encryptionKey = GetCredentialEncryptionKey (bs_Security bc) \<rparr>,
     ms_profileUC = \<lparr> pu_profileRepo = ProfileRepo E \<rparr>,
     ms_authkeyUC = \<lparr> au_credentialRepo = CredentialRepo E, au_artifactRepo = ArtifactRepo E (artifact_config bc),
       au_client = client, au_encryptionKey = GetCredentialEncryptionKey (bs_Security bc) \<rparr>,
     ms_managementUC = wired_management E bc client \<rparr>"
  "wired_management E bc client = \<lparr> mu_credentials = CredentialRepo E, mu_devices = DeviceRepo E,
     mu_profiles = ProfileRepo E, mu_artifacts = ArtifactRepo E (artifact_config bc),
     mu_management = ManagementRepo E (artifact_config bc),
     mu_bindUC = \<lparr> bu_credentialRepo = CredentialRepo E, bu_deviceRepo = DeviceRepo E, bu_profileRepo = ProfileRepo E,
       bu_artifactRepo = Some (ArtifactRepo E (artifact_config bc)), bu_client = client,
       bu_encryptionKey = GetCredentialEncryptionKey (bs_Security bc) \<rparr>,
     mu_profileUC = \<lparr> pu_profileRepo = ProfileRepo E \<rparr> \<rparr>"
  "wired_credential E bc client v = \<lparr> mc_ticketVerifier = v, mc_managementUC = wired_management E bc client \<rparr>"
  "wired_generic E bc client v = \<lparr> gs_ticketVerifier = v,
     gs_bindUC = \<lparr> bu_credentialRepo = CredentialRepo E, bu_deviceRepo = DeviceRepo E, bu_profileRepo = ProfileRepo E,
       bu_artifactRepo = Some (ArtifactRepo E (artifact_config bc)), bu_client = client,
       bu_encryptionKey = GetCredentialEncryptionKey (bs_Security bc) \<rparr>,
     gs_statusUC = \<lparr> su_credentials = CredentialRepo E, su_hoyoClient = client,
       su_encryptionKey = GetCredentialEncryptionKey (bs_Security bc) \<rparr>,
     gs_managementUC = wired_management E bc client, gs_invalidationRepo = Some (GrantInvalidationRepo_Upsert E) \<rparr>"
  by (simp_all add: wired_account_def NewMihomoAccountService_def wired_credential_def NewMihomoCredentialService_def wired_generic_def NewGenericPlatformService_def wired_management_def NewManagementUsecase_def wired_bind_def NewBindUsecase_def
      wired_status_def NewStatusUsecase_def wired_profile_def NewProfileUsecase_def wired_authkey_def NewAuthkeyUsecase_def)

lemma minimum_version_store: "leaves_store (GrantInvalidationRepo_MinimumVersion E ctx b consumer)"
proof -
  have "same_store w w'" if "gorm_first E Background db_invalidations p w = (r, w')" for w p r w'
    using that by (rule reads_store(3))
  then show ?thesis
    by (auto simp: leaves_store_def GrantInvalidationRepo_MinimumVersion_def bind_io_def attempt_apply
        split: prod.splits sum.splits if_splits) (metis prod.collapse)+
qed

context service_scope
begin

lemma serve_keeps:
  assumes P: "pr_env P = E" "pr_conf P = bc" "pr_client P = client" "pr_jwt P = jwt" "main_verifier P = verifier"
    and t: "\<And>raw. request_ticket req = Some raw \<Longrightarrow> tickets raw"
  shows "keeps (world_scope mine owns acct) (world_frame mine) (\<lambda>_. True) (serve P req)"
proof -
  have ans: "keeps (world_scope mine owns acct) (world_frame mine) (\<lambda>_. True) (answered m)"
    if "keeps (world_scope mine owns acct) (world_frame mine) (\<lambda>_. True) m" for m :: "(world, Status, 'x) call"
    unfolding answered_def using that by (rule store.io_bind) (rule store.io_ret, simp)
  show ?thesis
    using t
    by (cases req; simp add: P main_account_def main_credential_def main_generic_def wired_services; intro ans)
      (intro rpc_bind_keeps rpc_status_keeps rpc_validate_keeps rpc_refresh_keeps rpc_list_keeps rpc_primary_keeps
        rpc_auth_key_keeps rpc_summary_keeps rpc_update_keeps rpc_delete_keeps rpc_device_keeps rpc_confirm_keeps
        rpc_shared_summary_keeps generic_summary_keeps generic_put_keeps generic_refresh_keeps generic_delete_keeps
        generic_invalidate_keeps; simp)+
qed

end

end
