(* ===== verification/Reachability.thy ===== *)
theory Reachability
  imports Requests
begin

text \<open>
  The worlds the deployed service can reach from an empty database: any requests, in any order, to
  processes with any configuration, environment (so any failures) and tickets, with time passing and
  the cache losing or changing entries in between. What holds in all of them, and what a request for
  one binding cannot do to the others.
\<close>

section \<open>Reachable worlds\<close>

inductive reachable :: "world \<Rightarrow> bool" where
  start: "w_db w = empty_database \<Longrightarrow> w_tx w = None \<Longrightarrow> reachable w"
| request: "reachable w \<Longrightarrow> client_inert (pr_client P) \<Longrightarrow> reachable (snd (serve P req w))"
| time: "reachable w \<Longrightarrow> reachable (w\<lparr> ticks := n \<rparr>)"
| cache: "reachable w \<Longrightarrow> reachable (w\<lparr> w_redis := c \<rparr>)"

inductive_cases reachable_cases: "reachable w"

text \<open>Every row's account key names the row's binding.\<close>

definition keys_match :: "database \<Rightarrow> bool" where
  "keys_match d \<longleftrightarrow>
     (\<forall>x \<in> set (tb_rows (db_credentials d)). key_binding (cd_PlatformAccountID (snd x)) = Some (cd_BindingID (snd x))) \<and>
     (\<forall>x \<in> set (tb_rows (db_devices d)). key_binding (dr_PlatformAccountID (snd x)) = Some (dr_BindingID (snd x))) \<and>
     (\<forall>x \<in> set (tb_rows (db_profiles d)). key_binding (ap_PlatformAccountID (snd x)) = Some (ap_BindingID (snd x))) \<and>
     (\<forall>x \<in> set (tb_rows (db_artifacts d)). key_binding (ra_PlatformAccountID (snd x)) = Some (ra_BindingID (snd x)))"

lemma keys_match_scope:
  "scope_ok (\<lambda>_. True) (\<lambda>b k. key_binding k = Some b) (\<lambda>_ _. True) d \<longleftrightarrow> database_ok d \<and> keys_match d"
  by (auto simp: scope_ok_def database_ok_def keys_match_def table_scope_def rows_ok)

text \<open>The wired process is an instance of the contracts for any bounds its tickets and its upstream
  client respect.\<close>

lemma service_scope_main:
  assumes "\<And>b k. owns b k \<Longrightarrow> mine b" "\<And>b k. mine b \<Longrightarrow> key_binding k = Some b \<Longrightarrow> owns b k"
    and "client_inert (pr_client P)"
    and "\<And>ctx cookies hint w a region ps.
      fst (cl_ValidateAndDiscover (pr_client P) ctx cookies hint w) = Inr (a, region, ps) \<Longrightarrow> acct ''mihomo'' a"
    and "\<And>raw ctx w c. tickets raw \<Longrightarrow>
      fst (VerifyContext (pr_env P) (pr_jwt P) (main_verifier P) ctx raw serviceTicketAudience w) = Inr c \<Longrightarrow>
      mine (tc_BindingID c)"
  shows "service_scope mine owns acct (pr_env P) (pr_client P) (pr_jwt P) (main_verifier P) tickets"
proof
  show "leaves_store (lookup ctx b consumer)" if "tv_lookup (main_verifier P) = Some lookup" for lookup ctx b consumer
    using that minimum_version_store by (auto simp: main_verifier_def WithGrantVersionLookup_def)
qed (use assms in auto)

lemma serve_scope:
  assumes "service_scope mine owns acct (pr_env P) (pr_client P) (pr_jwt P) (main_verifier P) tickets"
    and "\<And>raw. request_ticket req = Some raw \<Longrightarrow> tickets raw" and "world_scope mine owns acct w"
  shows "world_scope mine owns acct (snd (serve P req w))" "world_frame mine w (snd (serve P req w))"
  using service_scope.serve_keeps[OF assms(1) refl refl refl refl refl, of req] assms(2,3)
  by (simp_all add: keeps_def)

text \<open>The instance with every binding in scope and keys matched to bindings.\<close>

lemma serve_well_formed:
  assumes "client_inert (pr_client P)" "database_ok (w_db w)" "keys_match (w_db w)" "w_tx w = None"
  shows "database_ok (w_db (snd (serve P req w))) \<and> keys_match (w_db (snd (serve P req w))) \<and>
    w_tx (snd (serve P req w)) = None"
proof -
  have "service_scope (\<lambda>_. True) (\<lambda>b k. key_binding k = Some b) (\<lambda>_ _. True)
      (pr_env P) (pr_client P) (pr_jwt P) (main_verifier P) (\<lambda>_. True)"
    using assms by (intro service_scope_main) auto
  from serve_scope[OF this, of req w] show ?thesis
    using assms by (simp add: world_scope_def world_frame_def keys_match_scope)
qed

definition good_world :: "world \<Rightarrow> bool" where
  "good_world w \<longleftrightarrow> database_ok (w_db w) \<and> keys_match (w_db w) \<and> w_tx w = None"

lemma reachable_good:
  assumes "reachable w"
  shows "good_world w"
  using assms
proof induction
  case (start w)
  have "keys_match empty_database" by (simp add: keys_match_def empty_database_def empty_table_def)
  with start show ?case by (simp add: good_world_def)
qed (use serve_well_formed in \<open>auto simp: good_world_def\<close>)

text \<open>C3: In every world the service can reach, whatever requests came in, whatever failed in between and
  whichever SQL dialect is below: the tables are well-formed (ids ascending and unused ones ahead, no
  two rows equal on a unique key, so one credential per binding and per upstream account and at most
  one default profile per binding), the account key on every row names the row's own binding, and no
  transaction is left open.\<close>

theorem reachable_well_formed:
  assumes "reachable w"
  shows "database_ok (w_db w) \<and> keys_match (w_db w) \<and> w_tx w = None"
  using reachable_good[OF assms] by (simp add: good_world_def)

section \<open>One binding cannot touch another\<close>

text \<open>All tickets of a text are for one binding; the upstream accounts the client can discover.\<close>

definition ticket_for :: "process \<Rightarrow> string \<Rightarrow> u64 \<Rightarrow> bool" where
  "ticket_for P raw b \<longleftrightarrow> (\<forall>ctx v c.
     fst (VerifyContext (pr_env P) (pr_jwt P) (main_verifier P) ctx raw serviceTicketAudience v) = Inr c \<longrightarrow>
     tc_BindingID c = b)"

definition discovers_only :: "process \<Rightarrow> (string \<Rightarrow> bool) \<Rightarrow> bool" where
  "discovers_only P S \<longleftrightarrow> (\<forall>ctx cookies hint v a region ps.
     fst (cl_ValidateAndDiscover (pr_client P) ctx cookies hint v) = Inr (a, region, ps) \<longrightarrow> S a)"

definition account_free :: "u64 \<Rightarrow> database \<Rightarrow> string \<Rightarrow> string \<Rightarrow> bool" where
  "account_free b d platform account \<longleftrightarrow> (\<forall>x \<in> set (tb_rows (db_credentials d)).
     cd_Platform (snd x) = platform \<and> cd_AccountID (snd x) = account \<longrightarrow> cd_BindingID (snd x) = b)"

text \<open>The bounds of one binding: its own rows, its own keys, the accounts no other binding holds.\<close>

lemma binding_scope_ok:
  assumes ok: "database_ok d" and keys: "keys_match d"
  shows "scope_ok (\<lambda>x. x = b) (\<lambda>b' k. b' = b \<and> key_binding k = Some b) (account_free b d) d"
proof -
  have "account_free b d (cd_Platform (snd x)) (cd_AccountID (snd x)) \<longleftrightarrow> cd_BindingID (snd x) = b"
    if x: "x \<in> set (tb_rows (db_credentials d))" for x
  proof
    assume own: "cd_BindingID (snd x) = b"
    have "y = x" if "y \<in> set (tb_rows (db_credentials d))" "cd_Platform (snd y) = cd_Platform (snd x)"
      "cd_AccountID (snd y) = cd_AccountID (snd x)" for y
      using that x ok unique_ok_inj[of credential_keys "db_credentials d" y x]
      by (simp add: database_ok_def table_ok_def schema_clashes)
    then show "account_free b d (cd_Platform (snd x)) (cd_AccountID (snd x))"
      using own by (auto simp: account_free_def)
  qed (use x in \<open>auto simp: account_free_def\<close>)
  then show ?thesis
    using ok keys by (auto simp: scope_ok_def table_scope_def database_ok_def keys_match_def rows_ok)
qed

lemma serve_isolates:
  assumes "good_world w" "client_inert (pr_client P)" "request_ticket req = Some raw" "ticket_for P raw b"
    "discovers_only P (account_free b (w_db w) ''mihomo'')"
  shows "frame (\<lambda>x. x = b) (w_db w) (w_db (snd (serve P req w)))"
proof -
  have "service_scope (\<lambda>x. x = b) (\<lambda>b' k. b' = b \<and> key_binding k = Some b) (account_free b (w_db w))
      (pr_env P) (pr_client P) (pr_jwt P) (main_verifier P) (\<lambda>t. t = raw)"
    using assms(2,4,5) unfolding ticket_for_def discovers_only_def by (intro service_scope_main; blast)
  moreover have "world_scope (\<lambda>x. x = b) (\<lambda>b' k. b' = b \<and> key_binding k = Some b) (account_free b (w_db w)) w"
    using assms(1) binding_scope_ok by (simp add: world_scope_def good_world_def)
  ultimately show ?thesis
    using serve_scope(2)[of _ _ _ P _ req w] assms(3) by (fastforce simp: world_frame_def)
qed


end
