(* ===== verification/Atomicity.thy ===== *)
theory Atomicity
  imports Samples
begin

text \<open>
  What a transaction makes of a bind, an update and a deletion: either the committed database is as
  it was before, or it is the one the completed transaction produced. The only error after which
  the second holds is a commit whose acknowledgement was lost.
\<close>

section \<open>Inside a transaction\<close>

text \<open>The committed database is \<open>d0\<close> and a transaction is open on a well-formed one.\<close>

definition inside :: "database \<Rightarrow> world \<Rightarrow> bool" where
  "inside d0 w \<longleftrightarrow> w_db w = d0 \<and> (\<exists>t. w_tx w = Some t \<and> database_ok t)"

interpretation tx: sql_contract "inside d0" "\<lambda>_ _. True" "\<lambda>_. True" "\<lambda>_ _. True" "\<lambda>_ _. True" "\<lambda>c. c = WithTx" True E
  for d0 E
  by unfold_locales (auto simp: inside_def scope_ok_all db_view_def put_view_def)

interpretation tx: bind_usecase "inside d0" "\<lambda>_ _. True" "\<lambda>_. True" "\<lambda>_ _. True" "\<lambda>_ _. True" "\<lambda>c. c = WithTx" True
  "CredentialRepo E" "DeviceRepo E" "ProfileRepo E" "ArtifactRepo E r"
  for d0 E r
  by unfold_locales
    (simp_all add: CredentialRepo_def tx.credential_save tx.credential_get[simplified]
      tx.credential_lookup[simplified] tx.credential_delete)

lemma tx_started_inside: "database_ok (w_db w) \<Longrightarrow> inside (w_db w) (tx_started w)"
  by (simp add: inside_def tx_started_def)

text \<open>\<open>committed_by\<close>: the result and the database after a transaction that completed.\<close>

definition committed_by :: "env \<Rightarrow> (ctx \<Rightarrow> (world, 'a) io) \<Rightarrow> world \<Rightarrow> error + 'a \<Rightarrow> world \<Rightarrow> bool" where
  "committed_by E body w r w' \<longleftrightarrow> (\<exists>x w2. body WithTx (tx_started w) = (Inr x, w2) \<and>
     w_db w' = db_view WithTx w2 \<and> (r = Inr x \<or> (\<exists>n e. r = Inl e \<and> fault E n = Some (FailAfter e))))"

lemma begin_tx_atomic:
  assumes ok: "database_ok (w_db w)" and body: "keeps (inside (w_db w)) (\<lambda>_ _. True) (\<lambda>_. True) (body WithTx)"
    and run: "begin_tx E body w = (r, w')"
  shows "((\<exists>e. r = Inl e) \<and> w_db w' = w_db w) \<or> committed_by E body w r w'"
proof -
  obtain r2 w2 where b: "body WithTx (tx_started w) = (r2, w2)" by fastforce
  have db: "w_db w2 = w_db w"
    using keepsD(1)[OF body tx_started_inside[OF ok] b] by (simp add: inside_def)
  have ends: "w_db (tx_restored w w2) = w_db w2" "w_db (tx_committed w w2) = db_view WithTx w2"
    by (simp_all add: tx_restored_def tx_committed_def)
  show ?thesis
  proof (cases "fault E (ticks w)")
    case (Some f)
    then show ?thesis using run by (auto simp: begin_tx_steps)
  next
    case None
    show ?thesis
    proof (cases r2)
      case (Inl e)
      then show ?thesis using run None b db ends by (auto simp: begin_tx_steps)
    next
      case (Inr x)
      then consider "r = Inr x \<and> w' = tx_committed w w2"
        | e where "r = Inl e \<and> w' = tx_restored w w2"
        | e where "r = Inl e \<and> w' = tx_committed w w2 \<and> fault E (ticks w2) = Some (FailAfter e)"
        using run None b by (cases "fault E (ticks w2)") (auto simp: begin_tx_steps split: fault.splits)
      then show ?thesis
        by cases (use b Inr db ends in \<open>auto simp: committed_by_def\<close>)
    qed
  qed
qed

section \<open>Binding\<close>

definition bind_transaction :: "env \<Rightarrow> world BindUsecase \<Rightarrow> BindCredentialInput \<Rightarrow> bindCredentialPreparation \<Rightarrow> ctx \<Rightarrow>
    (world, BindCredentialOutput option) io" where
  "bind_transaction E uc input prepared tx =
     bind_io (bindPreparedCredential E uc tx input (Some prepared)) (\<lambda>result. ret (Some result))"

lemma wired_bind_simps: "wired_bind E bc client = tx.bind_uc E (artifact_config bc) client (GetCredentialEncryptionKey (bs_Security bc))"
  by (simp add: wired_bind_def NewBindUsecase_def)

lemma bind_transaction_inside:
  "keeps (inside d0) (\<lambda>_ _. True) (\<lambda>_. True) (bind_transaction E (wired_bind E bc client) input prepared WithTx)"
  unfolding bind_transaction_def wired_bind_simps
  by (rule tx.io_bind[OF tx.bind_prepared_keeps]) (simp_all add: tx.io_ret)

lemma prepare_store:
  assumes "client_inert client" "prepareBindCredential E (wired_bind E bc client) ctx input w = (r, w')"
  shows "same_store w w'"
proof -
  obtain q w1 where d: "cl_ValidateAndDiscover client ctx (bi_CookieBundleJSON input) (bi_RegionHint input) w = (q, w1)"
    by fastforce
  have s: "same_store w w1" 
    by (rule leaves_storeD[where m = "cl_ValidateAndDiscover client ctx (bi_CookieBundleJSON input) (bi_RegionHint input)"])
      (use assms(1) d in \<open>simp_all add: client_inert_def\<close>)
  have "same_store w w'" if "q = Inl e" for e
    using assms(2) d s that by (auto simp: prepareBindCredential_def wired_bind_def NewBindUsecase_def bind_io_apply split: if_splits)
  moreover have "same_store w w'" if "q = Inr (a, region, ps)" for a region ps
    using assms(2) d s that same_store_trans[OF s same_store_refl(2)]
    by (auto simp: prepareBindCredential_def wired_bind_def NewBindUsecase_def bind_io_apply then_io_apply EncryptString_def rand_read_def
        Let_def split: if_splits sum.splits prod.splits)
  ultimately show ?thesis by (cases q) auto
qed

lemma bind_outcomes:
  assumes "database_ok (w_db w)" "client_inert client"
    and run: "BindCredential E (wired_bind E bc client) ctx input w = (r, w')"
  shows "((\<exists>e. r = Inl e) \<and> w_db w' = w_db w) \<or>
    (\<exists>prepared w1. prepareBindCredential E (wired_bind E bc client) ctx input w = (Inr prepared, w1) \<and>
       same_store w w1 \<and> committed_by E (bind_transaction E (wired_bind E bc client) input prepared) w1 r w')"
proof -
  obtain q w1 where p: "prepareBindCredential E (wired_bind E bc client) ctx input w = (q, w1)" by fastforce
  have s: "same_store w w1" by (rule prepare_store[OF assms(2) p])
  show ?thesis
  proof (cases q)
    case (Inl e)
    then show ?thesis using run p s by (auto simp: BindCredential_def same_store_def)
  next
    case (Inr prepared)
    have "begin_tx E (bind_transaction E (wired_bind E bc client) input prepared) w1 = (r, w')"
      using run p Inr
      by (simp add: BindCredential_def runInTransaction_def wired_bind_def NewBindUsecase_def CredentialRepo_def
          CredentialRepo_WithinTransaction_def bind_transaction_def[abs_def])
    moreover have "w_db w1 = w_db w" using s by (simp add: same_store_def)
    ultimately show ?thesis
      using begin_tx_atomic[of w1 "bind_transaction E (wired_bind E bc client) input prepared" E r w']
        bind_transaction_inside assms(1) p s Inr by auto
  qed
qed

text \<open>C6: Binding is all or nothing. However a BindCredential of the wired service ends and whatever
  fails on the way, the committed database is either untouched, and the caller gets an error, or
  exactly what the completed transaction of the prepared credential made of it; an error with the
  second outcome can only be a commit whose acknowledgement was lost.\<close>

theorem bind_all_or_nothing:
  assumes "database_ok (w_db w)" and "client_inert client"
    and "BindCredential E (wired_bind E bc client) ctx input w = (r, w')"
  shows "((\<exists>e. r = Inl e) \<and> w_db w' = w_db w) \<or>
    (\<exists>prepared w1. prepareBindCredential E (wired_bind E bc client) ctx input w = (Inr prepared, w1) \<and>
       same_store w w1 \<and> committed_by E (bind_transaction E (wired_bind E bc client) input prepared) w1 r w')"
  using assms by (rule bind_outcomes)

text \<open>A bind of binding 1 on the empty database.\<close>

theorem bind_all_or_nothing_witness:
  "case BindCredential (sample_env MySQL) (wired_bind (sample_env MySQL) sample_conf StubClient) Background sample_input empty_world of
     (r, w') \<Rightarrow> ((\<exists>e. r = Inl e) \<and> w_db w' = empty_database) \<or>
       (\<exists>prepared w1. prepareBindCredential (sample_env MySQL) (wired_bind (sample_env MySQL) sample_conf StubClient)
            Background sample_input empty_world = (Inr prepared, w1) \<and> same_store empty_world w1 \<and>
          committed_by (sample_env MySQL) (bind_transaction (sample_env MySQL)
            (wired_bind (sample_env MySQL) sample_conf StubClient) sample_input prepared) w1 r w')"
proof (cases "BindCredential (sample_env MySQL) (wired_bind (sample_env MySQL) sample_conf StubClient) Background sample_input empty_world")
  case (Pair r w')
  show ?thesis using bind_all_or_nothing[OF _ _ Pair] unfolding Pair by simp
qed

end
