(* ===== verification/BindResult.thy ===== *)
theory BindResult
  imports Atomicity
begin

text \<open>
  What a bind that succeeds has stored: the credential of the account it discovered, encrypted under
  the service's key, the device of the request and a profile row for every discovered profile.
\<close>

definition has_credential :: "Credential \<Rightarrow> database \<Rightarrow> bool" where
  "has_credential c t \<longleftrightarrow> (\<exists>i. (i, record_of_credential c) \<in> set (tb_rows (db_credentials t)))"

definition has_device :: "Device \<Rightarrow> database \<Rightarrow> bool" where
  "has_device d t \<longleftrightarrow> (\<exists>i. (i, record_of_device d) \<in> set (tb_rows (db_devices t)))"

definition profile_row :: "u64 \<Rightarrow> string \<Rightarrow> string \<Rightarrow> string \<Rightarrow> AccountProfile sqltable \<Rightarrow> bool" where
  "profile_row b k player region pt \<longleftrightarrow> (\<exists>i r. (i, r) \<in> set (tb_rows pt) \<and> ap_BindingID r = b \<and>
     ap_PlatformAccountID r = k \<and> ap_PlayerID r = player \<and> ap_Region r = region)"

lemma profile_rowI:
  "(i, r) \<in> set (tb_rows pt) \<Longrightarrow> ap_BindingID r = b \<Longrightarrow> ap_PlatformAccountID r = k \<Longrightarrow>
    ap_PlayerID r = player \<Longrightarrow> ap_Region r = region \<Longrightarrow> profile_row b k player region pt"
  unfolding profile_row_def by blast

lemma profile_rowE:
  assumes "profile_row b k player region pt"
  obtains i r where "(i, r) \<in> set (tb_rows pt)" "ap_BindingID r = b" "ap_PlatformAccountID r = k"
    "ap_PlayerID r = player" "ap_Region r = region"
  using assms unfolding profile_row_def by blast

definition has_profile :: "u64 \<Rightarrow> string \<Rightarrow> DiscoveredProfile \<Rightarrow> database \<Rightarrow> bool" where
  "has_profile b k d t \<longleftrightarrow> profile_row b k (dp_PlayerID d) (dp_Region d) (db_profiles t)"

lemma has_other_table [simp]:
  "has_credential c (t\<lparr> db_devices := dt \<rparr>) = has_credential c t"
  "has_credential c (t\<lparr> db_profiles := pt \<rparr>) = has_credential c t"
  "has_device d (t\<lparr> db_profiles := pt \<rparr>) = has_device d t"
  "has_device d (t\<lparr> db_credentials := ct \<rparr>) = has_device d t"
  "has_profile b k p (t\<lparr> db_devices := dt \<rparr>) = has_profile b k p t"
  "has_profile b k p (t\<lparr> db_credentials := ct \<rparr>) = has_profile b k p t"
  by (simp_all add: has_credential_def has_device_def has_profile_def)

section \<open>The single writes\<close>

lemma credential_saved:
  "establishes (in_tx A) (CredentialRepo_Save E WithTx c) (\<lambda>_. in_tx (has_credential c))"
  unfolding CredentialRepo_Save_def Let_def
  by (rule est_exec) (auto simp: on_credentials_def map_sum_def has_credential_def split: sum.splits dest!: upsert_result)

lemma device_saved:
  assumes "\<And>t dt. A (t\<lparr> db_devices := dt \<rparr>) = A t"
  shows "establishes (in_tx A) (DeviceRepo_Save E WithTx d) (\<lambda>_. in_tx (\<lambda>t. A t \<and> has_device d t))"
  unfolding DeviceRepo_Save_def Let_def
proof (rule est_exec)
  fix k t t' and x :: unit
  assume A: "A t" and run: "on_devices (row_checked E (device_columns (record_of_device d))
      (sql_upsert k (dialect E) device_keys ''uniq_device_record_binding'' device_assign (record_of_device d))) t = Inr (x, t')"
  then obtain dt where ups: "sql_upsert k (dialect E) device_keys ''uniq_device_record_binding''
      device_assign (record_of_device d) (db_devices t) = Inr dt" and t': "t' = t\<lparr> db_devices := dt \<rparr>"
    by (auto simp: on_devices_def map_sum_def split: sum.splits)
  have "device_assign (record_of_device d) old = record_of_device d"
    if "conflicting (dialect E) device_keys ''uniq_device_record_binding'' (record_of_device d) old" for old
    using that by (auto simp: conflicting_def clashes_def device_keys_def device_assign_def record_of_device_def
        split: dialect.splits)
  then have "has_device d t'" using upsert_result[OF ups] by (auto simp: has_device_def t')
  then show "A t' \<and> has_device d t'" using A assms t' by simp
qed

lemma profiles_deleted:
  assumes "\<And>t pt. A (t\<lparr> db_profiles := pt \<rparr>) = A t"
  shows "establishes (in_tx A) (ProfileRepo_DeleteByPlatformAccountID E WithTx k) (\<lambda>_. in_tx A)"
  unfolding ProfileRepo_DeleteByPlatformAccountID_def
  by (rule est_exec) (auto simp: on_profiles_def assms)

section \<open>Saving the discovered profiles\<close>

text \<open>What is known of the profiles while they are saved: \<open>ds\<close> are those saved so far.\<close>

definition saved_profiles :: "(database \<Rightarrow> bool) \<Rightarrow> u64 \<Rightarrow> string \<Rightarrow> DiscoveredProfile set \<Rightarrow> database \<Rightarrow> bool" where
  "saved_profiles A b k ds t \<longleftrightarrow> A t \<and> (\<forall>d \<in> ds. has_profile b k d t)"

lemma saved_none: "saved_profiles A b k {} = A"
  by (simp add: saved_profiles_def fun_eq_iff)

text \<open>A profile write adds its own row or rewrites a row without changing whose profile it is.\<close>

definition profile_write :: "u64 \<Rightarrow> string \<Rightarrow> DiscoveredProfile \<Rightarrow> AccountProfile sqltable \<Rightarrow> AccountProfile sqltable \<Rightarrow> bool" where
  "profile_write b k d pt pt' \<longleftrightarrow> profile_row b k (dp_PlayerID d) (dp_Region d) pt' \<and>
     (\<forall>b' player region. profile_row b' k player region pt \<longrightarrow> profile_row b' k player region pt')"

lemma profile_write_saved:
  assumes "saved_profiles A b k ds t" "profile_write b k d (db_profiles t) pt" "\<And>t pt. A (t\<lparr> db_profiles := pt \<rparr>) = A t"
  shows "saved_profiles A b k (insert d ds) (t\<lparr> db_profiles := pt \<rparr>)"
  using assms by (simp add: saved_profiles_def profile_write_def has_profile_def)

definition profile_of :: "u64 \<Rightarrow> string \<Rightarrow> DiscoveredProfile \<Rightarrow> Profile \<Rightarrow> bool" where
  "profile_of b k d p \<longleftrightarrow> pf_BindingID p = b \<and> pf_PlatformAccountID p = k \<and> pf_PlayerID p = dp_PlayerID d \<and>
     pf_Region p = dp_Region d"

lemma upsert_write:
  assumes p: "profile_of b k d p" "\<not> pf_IsDefault p"
    and ups: "sql_upsert n dia profile_keys target profile_assign (record_of_profile p) pt = Inr pt'"
  shows "profile_write b k d pt pt'"
proof -
  have same: "ap_BindingID old = b \<and> ap_PlayerID old = dp_PlayerID d \<and> ap_Region old = dp_Region d"
    if "conflicting dia profile_keys target (record_of_profile p) old" for old
  proof -
    have "clashes profile_keys (record_of_profile p) old"
      using that by (cases dia) (force simp: conflicting_def clashes_def)+
    then show ?thesis using p by (auto simp: schema_clashes record_of_profile_def profile_of_def)
  qed
  have "profile_row b k (dp_PlayerID d) (dp_Region d) pt'"
    using upsert_result[OF ups]
  proof
    assume "\<exists>i. (i, record_of_profile p) \<in> set (tb_rows pt')"
    then obtain i where "(i, record_of_profile p) \<in> set (tb_rows pt')" by blast
    then show ?thesis
      by (rule profile_rowI) (use p(1) in \<open>simp_all add: record_of_profile_def profile_of_def\<close>)
  next
    assume "\<exists>i old. (i, old) \<in> set (tb_rows pt) \<and> conflicting dia profile_keys target (record_of_profile p) old \<and>
        (i, profile_assign (record_of_profile p) old) \<in> set (tb_rows pt')"
    then obtain i old where old: "conflicting dia profile_keys target (record_of_profile p) old"
      and row: "(i, profile_assign (record_of_profile p) old) \<in> set (tb_rows pt')" by blast
    from row show ?thesis
      by (rule profile_rowI)
        (use same[OF old] p(1) in \<open>simp_all add: record_of_profile_def profile_assign_def profile_of_def\<close>)
  qed
  moreover have "profile_row b' k player region pt'" if old: "profile_row b' k player region pt" for b' player region
    using old
  proof (rule profile_rowE)
    fix i r
    assume r: "(i, r) \<in> set (tb_rows pt)" "ap_BindingID r = b'" "ap_PlatformAccountID r = k"
      "ap_PlayerID r = player" "ap_Region r = region"
    have "(i, r) \<in> set (tb_rows pt') \<or> (i, profile_assign (record_of_profile p) r) \<in> set (tb_rows pt')"
      using rows_after_upsert[OF ups r(1)] by simp
    then show ?thesis
      by (elim disjE; elim profile_rowI)
        (use r p(1) in \<open>simp_all add: record_of_profile_def profile_assign_def profile_of_def\<close>)
  qed
  ultimately show ?thesis by (simp add: profile_write_def)
qed

lemma insert_write:
  assumes p: "profile_of b k d p" and ins: "sql_insert profile_keys (record_of_profile p) pt = Inr pt'"
  shows "profile_write b k d pt pt'"
proof -
  note rows = sql_insert_rows(1)[OF ins]
  have "(of_nat (tb_next pt), record_of_profile p) \<in> set (tb_rows pt')" by (simp add: rows)
  then have "profile_row b k (dp_PlayerID d) (dp_Region d) pt'"
    by (rule profile_rowI) (use p in \<open>simp_all add: record_of_profile_def profile_of_def\<close>)
  moreover have "profile_row b' k player region pt'" if "profile_row b' k player region pt" for b' player region
    using that by (rule profile_rowE) (auto intro: profile_rowI simp: rows)
  ultimately show ?thesis by (simp add: profile_write_def)
qed

lemma update_write:
  assumes p: "profile_of b k d p" and row: "(i, r0) \<in> set (tb_rows pt)" "same_profile p r0"
    and f: "\<And>r. ap_BindingID (f r) = ap_BindingID r \<and> ap_PlatformAccountID (f r) = k \<and>
      ap_PlayerID (f r) = ap_PlayerID r \<and> ap_Region (f r) = ap_Region r"
    and upd: "sql_update profile_keys (\<lambda>j _. j = i) f pt = Inr (n, pt')"
  shows "profile_write b k d pt pt'"
proof -
  have "(i, f r0) \<in> set (tb_rows pt')" using update_result[OF upd row(1)] by simp
  then have "profile_row b k (dp_PlayerID d) (dp_Region d) pt'"
    by (rule profile_rowI) (use f[of r0] p row(2) in \<open>simp_all add: same_profile_def profile_of_def\<close>)
  moreover have "profile_row b' k player region pt'" if old: "profile_row b' k player region pt" for b' player region
    using old
  proof (rule profile_rowE)
    fix j r
    assume r: "(j, r) \<in> set (tb_rows pt)" "ap_BindingID r = b'" "ap_PlatformAccountID r = k"
      "ap_PlayerID r = player" "ap_Region r = region"
    have "(j, r) \<in> set (tb_rows pt') \<or> (j, f r) \<in> set (tb_rows pt')"
      using update_result[OF upd r(1)] by (simp split: if_splits)
    then show ?thesis by (elim disjE; elim profile_rowI) (use r f[of r] in simp_all)
  qed
  ultimately show ?thesis by (simp add: profile_write_def)
qed

lemma est_take:
  "establishes (in_tx A) (catch_not_found (gorm_take E WithTx sel p))
     (\<lambda>r. in_tx (\<lambda>t. A t \<and> (\<forall>x. r = Some x \<longrightarrow> x \<in> set (tb_rows (sel t)) \<and> p (snd x))))"
  unfolding establishes_def
proof (intro allI impI)
  fix w r w'
  assume A: "in_tx A w" and run: "catch_not_found (gorm_take E WithTx sel p) w = (Inr r, w')"
  have s: "same_store w w'" using reads_store(2) run by (rule catch_not_found_store)
  have "x \<in> set (tb_rows (sel (db_view WithTx w))) \<and> p (snd x)" if "r = Some x" for x
    using read_results(1)[OF catch_not_found_okD[OF run[unfolded that]]] .
  then show "in_tx (\<lambda>t. A t \<and> (\<forall>x. r = Some x \<longrightarrow> x \<in> set (tb_rows (sel t)) \<and> p (snd x))) w'"
    using A s by (auto simp: in_tx_def same_store_def db_view_def)
qed

lemma conflict_check_reads:
  "establishes (in_tx A) (ensureNoConflictingDefaultProfile E WithTx p i) (\<lambda>_. in_tx A)"
  unfolding ensureNoConflictingDefaultProfile_def
  by (rule est_bind[OF est_read[OF reads_store(1)]]) (auto intro: est_ret est_fail)

lemma default_profile_saved:
  assumes p: "profile_of b k d p" and A: "\<And>t pt. A (t\<lparr> db_profiles := pt \<rparr>) = A t"
  shows "establishes (in_tx (saved_profiles A b k ds)) (saveDefaultProfile E WithTx p (record_of_profile p))
    (\<lambda>_. in_tx (saved_profiles A b k (insert d ds)))"
  unfolding saveDefaultProfile_def
proof (rule est_bind[OF est_take], goal_cases)
  case (1 found)
  let ?S = "\<lambda>t. saved_profiles A b k ds t \<and> (\<forall>x. found = Some x \<longrightarrow> x \<in> set (tb_rows (db_profiles t)) \<and> same_profile p (snd x))"
  have ins: "establishes (in_tx ?S) (then_io (ensureNoConflictingDefaultProfile E WithTx p j)
      (map_error mapDefaultProfileDuplicateError (sql_exec E WithTx (\<lambda>_. on_profiles
        (row_checked E (profile_columns (record_of_profile p)) (sql_insert profile_keys (record_of_profile p)))))))
      (\<lambda>_. in_tx (saved_profiles A b k (insert d ds)))" for j
    by (rule est_then[OF conflict_check_reads est_map_error[OF est_exec]])
      (auto simp: on_profiles_def map_sum_def split: sum.splits intro: profile_write_saved[OF _ insert_write[OF p] A])
  have upd: "establishes (in_tx ?S) (then_io (ensureNoConflictingDefaultProfile E WithTx p j)
      (map_error mapDefaultProfileDuplicateError (sql_exec E WithTx (\<lambda>_. on_profiles (row_checked E (assigned_columns p) (\<lambda>t. map_sum id snd
         (sql_update profile_keys (\<lambda>i _. i = j) (\<lambda>r. r\<lparr> ap_PlatformAccountID := pf_PlatformAccountID p,
            ap_GameBiz := pf_GameBiz p, ap_Nickname := pf_Nickname p, ap_Level := pf_Level p,
            ap_IsDefault := True \<rparr>) t)))))))
      (\<lambda>_. in_tx (saved_profiles A b k (insert d ds)))" if "found = Some (j, r0)" for j r0
  proof (rule est_then[OF conflict_check_reads est_map_error[OF est_exec]], goal_cases)
    case (1 n t x t')
    then obtain m pt where u: "sql_update profile_keys (\<lambda>i _. i = j) (\<lambda>r. r\<lparr> ap_PlatformAccountID := pf_PlatformAccountID p,
            ap_GameBiz := pf_GameBiz p, ap_Nickname := pf_Nickname p, ap_Level := pf_Level p,
            ap_IsDefault := True \<rparr>) (db_profiles t) = Inr (m, pt)" and t': "t' = t\<lparr> db_profiles := pt \<rparr>"
      by (auto simp: on_profiles_def map_sum_def split: sum.splits)
    have "profile_write b k d (db_profiles t) pt"
      by (rule update_write[OF p _ _ _ u, of r0]) (use 1 that p in \<open>auto simp: profile_of_def\<close>)
    then show ?case using 1(1) A unfolding t' by (intro profile_write_saved) auto
  qed
  show ?case
    using ins upd by (auto simp: Let_def split: option.split)
qed

lemma profile_saved:
  assumes p: "profile_of b k d p" and A: "\<And>t pt. A (t\<lparr> db_profiles := pt \<rparr>) = A t"
  shows "establishes (in_tx (saved_profiles A b k ds)) (ProfileRepo_Save E WithTx p)
    (\<lambda>_. in_tx (saved_profiles A b k (insert d ds)))"
proof (cases "pf_IsDefault p")
  case True
  then show ?thesis using default_profile_saved[OF p A] by (simp add: ProfileRepo_Save_def)
next
  case False
  have "establishes (in_tx (saved_profiles A b k ds)) (sql_exec E WithTx (\<lambda>n. on_profiles (row_checked E (profile_columns (record_of_profile p))
      (sql_upsert n (dialect E) profile_keys ''uniq_profile_binding_player_region'' profile_assign (record_of_profile p)))))
      (\<lambda>_. in_tx (saved_profiles A b k (insert d ds)))"
    by (rule est_exec)
      (auto simp: on_profiles_def map_sum_def split: sum.splits intro: profile_write_saved[OF _ upsert_write[OF p False] A])
  then show ?thesis using False by (simp add: ProfileRepo_Save_def Let_def)
qed

lemma profiles_saved:
  assumes mk: "\<And>i d. profile_of b k d (mk i d)" and A: "\<And>t pt. A (t\<lparr> db_profiles := pt \<rparr>) = A t"
  shows "establishes (in_tx (saved_profiles A b k ds)) (save_profiles (ProfileRepo E) WithTx mk n xs)
    (\<lambda>_. in_tx (saved_profiles A b k (set xs \<union> ds)))"
proof (induction xs arbitrary: n ds)
  case (Cons x xs)
  have "establishes (in_tx (saved_profiles A b k ds)) (prepo_Save (ProfileRepo E) WithTx (mk n x))
      (\<lambda>_. in_tx (saved_profiles A b k (insert x ds)))"
    using profile_saved[OF mk A] by (simp add: ProfileRepo_def)
  then show ?case
    by (auto intro!: est_then est_bind[OF Cons.IH] est_ret)
qed (auto intro: est_ret)

section \<open>The whole transaction\<close>

text \<open>The state a bind leaves: the bound credential and device, and the discovered profiles.\<close>

definition bound_state :: "BindCredentialInput \<Rightarrow> bindCredentialPreparation \<Rightarrow> gotime \<Rightarrow> database \<Rightarrow> bool" where
  "bound_state input prepared now t \<longleftrightarrow>
     has_credential (bound_credential input prepared now) t \<and> has_device (bound_device input prepared now) t \<and>
     list_all (\<lambda>d. has_profile (bi_BindingID input) (bp_platformAccountID prepared) d t) (bp_discoveredProfiles prepared)"

lemma bound_profile_of:
  "profile_of (bi_BindingID input) (bp_platformAccountID prepared) d (bound_profile input prepared now i d)"
  by (simp add: profile_of_def bound_profile_def)

lemma artifacts_cleared:
  "establishes (in_tx (\<lambda>_. True)) (ArtifactRepo_deleteByBindingID E r WithTx b) (\<lambda>_. in_tx (\<lambda>_. True))"
  unfolding ArtifactRepo_deleteByBindingID_def
proof (rule est_bind)
  show "establishes (in_tx (\<lambda>_. True)) (recordsForBindingCacheDeletion E r WithTx b) (\<lambda>_. in_tx (\<lambda>_. True))"
    unfolding recordsForBindingCacheDeletion_def by (auto intro!: est_ret est_bind[OF est_read[OF reads_store(4)]])
  show "establishes (in_tx (\<lambda>_. True)) (then_io (sql_exec E WithTx (\<lambda>_. on_artifacts
          (\<lambda>t. Inr (sql_delete (\<lambda>x. ra_BindingID x = b) t)))) (deleteCacheKeys E r (cacheKeysForRecords r records)))
      (\<lambda>_. in_tx (\<lambda>_. True))" for records
    unfolding deleteCacheKeys_def
    by (rule est_then[OF est_exec[where B = "\<lambda>_ _. True"]]) (auto intro: est_ret est_redis)
qed

lemma previous_differs: "previous_account existing prepared \<noteq> bp_platformAccountID prepared \<or> previous_account existing prepared = []"
  by (auto simp: previous_account_def split: option.splits if_splits)

lemma devices_dropped:
  assumes "k \<noteq> dv_PlatformAccountID d" "\<And>t dt. A (t\<lparr> db_devices := dt \<rparr>) = A t"
  shows "establishes (in_tx (\<lambda>t. A t \<and> has_device d t)) (DeviceRepo_DeleteByPlatformAccountID E WithTx k)
    (\<lambda>_. in_tx (\<lambda>t. A t \<and> has_device d t))"
  unfolding DeviceRepo_DeleteByPlatformAccountID_def
proof (rule est_exec, goal_cases)
  case (1 n t x t')
  then have t': "t' = t\<lparr> db_devices := sql_delete (\<lambda>r. dr_PlatformAccountID r = k) (db_devices t) \<rparr>"
    by (simp add: on_devices_def)
  obtain i where "(i, record_of_device d) \<in> set (tb_rows (db_devices t))" using 1(1) by (auto simp: has_device_def)
  from rows_after_delete[OF this, of "\<lambda>r. dr_PlatformAccountID r = k"] have "has_device d t'"
    using assms(1) by (auto simp: t' has_device_def record_of_device_def)
  then show ?case using 1(1) assms(2) t' by simp
qed

lemma credentials_dropped:
  assumes "k \<noteq> cr_PlatformAccountID c" "\<And>t ct. A (t\<lparr> db_credentials := ct \<rparr>) = A t"
  shows "establishes (in_tx (\<lambda>t. A t \<and> has_credential c t)) (CredentialRepo_DeleteByPlatformAccountID E WithTx k)
    (\<lambda>_. in_tx (\<lambda>t. A t \<and> has_credential c t))"
  unfolding CredentialRepo_DeleteByPlatformAccountID_def
proof (rule est_exec, goal_cases)
  case (1 n t x t')
  then have t': "t' = t\<lparr> db_credentials := sql_delete (\<lambda>r. cd_PlatformAccountID r = k) (db_credentials t) \<rparr>"
    by (simp add: on_credentials_def)
  obtain i where "(i, record_of_credential c) \<in> set (tb_rows (db_credentials t))" using 1(1) by (auto simp: has_credential_def)
  from rows_after_delete[OF this, of "\<lambda>r. cd_PlatformAccountID r = k"] have "has_credential c t'"
    using assms(1) by (auto simp: t' has_credential_def record_of_credential_def)
  then show ?case using 1(1) assms(2) t' by simp
qed

lemma bind_relations_establishes:
  assumes prev: "previous \<noteq> bp_platformAccountID prepared \<or> previous = []"
  shows "establishes (in_tx (has_credential (bound_credential input prepared now)))
    (bind_relations (wired_bind E bc client) WithTx input prepared now previous)
    (\<lambda>out. in_tx (\<lambda>t. bound_state input prepared now t \<and> bo_PlatformAccountID out = bp_platformAccountID prepared \<and>
       bo_BindingID out = bi_BindingID input \<and> bo_Status out = CREDENTIAL_STATUS_ACTIVE))"
proof -
  let ?c = "bound_credential input prepared now" and ?d = "bound_device input prepared now"
    and ?b = "bi_BindingID input" and ?k = "bp_platformAccountID prepared" and ?ds = "bp_discoveredProfiles prepared"
  let ?A = "\<lambda>t. has_credential ?c t \<and> has_device ?d t"
  let ?S = "saved_profiles ?A ?b ?k (set ?ds)"
  have prof_delete: "establishes (in_tx ?A)
      (if previous \<noteq> [] then ProfileRepo_DeleteByPlatformAccountID E WithTx previous
       else ProfileRepo_DeleteByPlatformAccountID E WithTx ?k) (\<lambda>_. in_tx (saved_profiles ?A ?b ?k {}))"
    using profiles_deleted[of ?A E] by (simp add: saved_none)
  have saved: "establishes (in_tx (saved_profiles ?A ?b ?k {}))
      (save_profiles (ProfileRepo E) WithTx (bound_profile input prepared now) 0 ?ds) (\<lambda>_. in_tx ?S)"
    using profiles_saved[of ?b ?k "bound_profile input prepared now" ?A "{}" E 0 ?ds] bound_profile_of by simp
  let ?P = "\<lambda>t. \<forall>d \<in> set ?ds. has_profile ?b ?k d t"
  have dev: "establishes (in_tx ?S) (DeviceRepo_DeleteByPlatformAccountID E WithTx previous) (\<lambda>_. in_tx ?S)"
    if "previous \<noteq> []"
    by (rule est_weaken[OF devices_dropped[of previous ?d "\<lambda>t. has_credential ?c t \<and> ?P t"]])
      (use prev that in \<open>auto simp: saved_profiles_def bound_device_def in_tx_def\<close>)
  have cred: "establishes (in_tx ?S) (CredentialRepo_DeleteByPlatformAccountID E WithTx previous) (\<lambda>_. in_tx ?S)"
    if "previous \<noteq> []"
    by (rule est_weaken[OF credentials_dropped[of previous ?c "\<lambda>t. has_device ?d t \<and> ?P t"]])
      (use prev that in \<open>auto simp: saved_profiles_def bound_credential_def in_tx_def\<close>)
  have drop: "establishes (in_tx ?S)
      (if previous \<noteq> [] then then_io (DeviceRepo_DeleteByPlatformAccountID E WithTx previous)
                                    (CredentialRepo_DeleteByPlatformAccountID E WithTx previous)
       else ret ()) (\<lambda>_. in_tx ?S)"
    using dev cred by (auto intro: est_then est_ret)
  have out: "in_tx ?S w \<Longrightarrow> in_tx (bound_state input prepared now) w" for w
    by (auto simp: in_tx_def saved_profiles_def bound_state_def list_all_iff)
  show ?thesis
    unfolding bind_relations_def wired_bind_def NewBindUsecase_def BindUsecase.select_convs DeviceRepo_def ProfileRepo_def CredentialRepo_def
      DeviceRepository.select_convs ProfileRepository.select_convs CredentialRepository.select_convs
    by (rule est_then[OF device_saved], simp, rule est_then[OF prof_delete], rule est_bind[OF saved[unfolded ProfileRepo_def]],
        rule est_then[OF drop], rule est_ret, drule out) (auto simp: in_tx_def)
qed

lemma wired_bind_repos:
  "bu_credentialRepo (wired_bind E bc client) = CredentialRepo E"
  "bu_artifactRepo (wired_bind E bc client) = Some (ArtifactRepo E (artifact_config bc))"
  by (simp_all add: wired_bind_def NewBindUsecase_def)

lemma wired_prepared:
  "bindPreparedCredential E (wired_bind E bc client) WithTx input (Some prepared) =
     bind_io (CredentialRepo_GetByBindingID E WithTx (bi_BindingID input)) (\<lambda>existing.
     then_io (ArtifactRepo_deleteByBindingID E (artifact_config bc) WithTx (bi_BindingID input))
     (bind_io (time_now E) (\<lambda>now.
      then_io (CredentialRepo_Save E WithTx (bound_credential input prepared now))
      (on_error (bind_relations (wired_bind E bc client) WithTx input prepared now (previous_account existing prepared))
                (bind_rollback (wired_bind E bc client) WithTx prepared existing (previous_account existing prepared))))))"
  by (simp add: bindPreparedCredential_def Let_def wired_bind_repos CredentialRepo_def ArtifactRepo_def)

lemma credential_read: "establishes (in_tx A) (CredentialRepo_GetByBindingID E WithTx b) (\<lambda>_. in_tx A)"
  unfolding CredentialRepo_GetByBindingID_def
  by (rule est_bind[OF est_read]) (auto intro: est_ret elim!: catch_not_found_store[rotated] reads_store(3))

text \<open>What the caller is told and what is stored when the transaction of a bind returns.\<close>

definition bound_as :: "BindCredentialInput \<Rightarrow> bindCredentialPreparation \<Rightarrow> BindCredentialOutput \<Rightarrow> database \<Rightarrow> bool" where
  "bound_as input prepared out t \<longleftrightarrow> (\<exists>now. bound_state input prepared now t) \<and>
     bo_PlatformAccountID out = bp_platformAccountID prepared \<and> bo_BindingID out = bi_BindingID input \<and>
     bo_Status out = CREDENTIAL_STATUS_ACTIVE"

lemma prepared_establishes:
  "establishes (in_tx (\<lambda>_. True)) (bindPreparedCredential E (wired_bind E bc client) WithTx input (Some prepared))
    (\<lambda>out. in_tx (bound_as input prepared out))"
proof -
  have guarded: "establishes (in_tx (has_credential (bound_credential input prepared now)))
      (on_error (bind_relations (wired_bind E bc client) WithTx input prepared now (previous_account existing prepared)) undo)
      (\<lambda>out. in_tx (bound_as input prepared out))" for now existing undo
    by (rule est_on_error, rule est_weaken[OF bind_relations_establishes[OF previous_differs]])
      (auto simp: in_tx_def bound_as_def)
  show ?thesis
    unfolding wired_prepared
    by (rule est_bind[OF credential_read], rule est_then[OF artifacts_cleared], rule est_bind[OF est_now],
        rule est_then[OF credential_saved], rule guarded)
qed

lemma bind_transaction_establishes:
  "establishes (in_tx (\<lambda>_. True)) (bind_transaction E (wired_bind E bc client) input prepared WithTx)
    (\<lambda>r. in_tx (\<lambda>t. \<exists>out. r = Some out \<and> bound_as input prepared out t))"
  unfolding bind_transaction_def
  by (rule est_bind[OF prepared_establishes]) (auto intro!: est_ret simp: in_tx_def)

lemma prepared_fields:
  assumes "prepareBindCredential E (wired_bind E bc client) ctx input w = (Inr prepared, w')"
  shows "bi_BindingID input \<noteq> 0 \<and>
    bp_platformAccountID prepared = FormatPlatformAccountID (bi_BindingID input) (bp_accountID prepared) \<and>
    fst (cl_ValidateAndDiscover client ctx (bi_CookieBundleJSON input) (bi_RegionHint input) w) =
      Inr (bp_accountID prepared, bp_region prepared, bp_discoveredProfiles prepared)"
  using assms by (auto simp: prepareBindCredential_def wired_bind_def NewBindUsecase_def Let_def split: if_splits elim!: bind_io_okE)

lemma prepared_blob:
  assumes "rand_law E" "prepareBindCredential E (wired_bind E bc client) ctx input w = (Inr prepared, w')"
  shows "DecryptString (GetCredentialEncryptionKey (bs_Security bc)) (bp_encryptedBlob prepared) = Inr (bi_CookieBundleJSON input)"
  using assms(2) decrypt_encrypt[OF assms(1)]
  by (auto simp: prepareBindCredential_def wired_bind_def NewBindUsecase_def Let_def split: if_splits elim!: bind_io_okE)

text \<open>What a bind that returns has prepared and committed.\<close>

lemma bind_committed:
  assumes "database_ok (w_db w)" and "client_inert client"
    and "BindCredential E (wired_bind E bc client) ctx input w = (Inr result, w')"
  obtains out prepared w1 where "result = Some out" and "bound_as input prepared out (w_db w')"
    and "prepareBindCredential E (wired_bind E bc client) ctx input w = (Inr prepared, w1)"
    and "database_ok (w_db w')"
proof -
  obtain prepared w1 where prep: "prepareBindCredential E (wired_bind E bc client) ctx input w = (Inr prepared, w1)"
    and s: "same_store w w1"
    and com: "committed_by E (bind_transaction E (wired_bind E bc client) input prepared) w1 (Inr result) w'"
    using bind_outcomes[OF assms] by blast
  obtain w2 where body: "bind_transaction E (wired_bind E bc client) input prepared WithTx (tx_started w1) = (Inr result, w2)"
    and db: "w_db w' = db_view WithTx w2"
    using com by (auto simp: committed_by_def)
  have "database_ok (w_db w1)" using assms(1) s by (simp add: same_store_def)
  then have "inside (w_db w1) w2" using keepsD(1)[OF bind_transaction_inside tx_started_inside body] by simp
  then have ok: "database_ok (w_db w')" using db by (auto simp: inside_def db_view_def)
  have "in_tx (\<lambda>_. True) (tx_started w1)" by (simp add: in_tx_def tx_started_def)
  from establishesD[OF bind_transaction_establishes this body]
  obtain out where "result = Some out" "bound_as input prepared out (w_db w')" using db by (auto simp: in_tx_def db_view_def)
  then show thesis using prep ok by (rule that)
qed

text \<open>C7: A bind that returns without error is for a non-zero binding, answers with the account key of that
  binding and the account the upstream discovered and with status active, and has committed: the
  credential of that account with a blob that decrypts to the submitted cookie bundle, the submitted
  device, and a profile row for every discovered profile.\<close>

theorem bind_stores_account:
  assumes "database_ok (w_db w)" and "client_inert client" and "rand_law E"
    and "BindCredential E (wired_bind E bc client) ctx input w = (Inr result, w')"
  shows "bi_BindingID input \<noteq> 0 \<and> (\<exists>out prepared now. result = Some out \<and>
    fst (cl_ValidateAndDiscover client ctx (bi_CookieBundleJSON input) (bi_RegionHint input) w) =
      Inr (bp_accountID prepared, bp_region prepared, bp_discoveredProfiles prepared) \<and>
    bo_BindingID out = bi_BindingID input \<and>
    bo_PlatformAccountID out = FormatPlatformAccountID (bi_BindingID input) (bp_accountID prepared) \<and>
    bo_Status out = CREDENTIAL_STATUS_ACTIVE \<and>
    DecryptString (GetCredentialEncryptionKey (bs_Security bc)) (bp_encryptedBlob prepared) = Inr (bi_CookieBundleJSON input) \<and>
    has_credential (bound_credential input prepared now) (w_db w') \<and>
    has_device (bound_device input prepared now) (w_db w') \<and>
    list_all (\<lambda>d. has_profile (bi_BindingID input) (bo_PlatformAccountID out) d (w_db w')) (bp_discoveredProfiles prepared))"
proof -
  obtain out prepared w1 where "result = Some out" "bound_as input prepared out (w_db w')"
    and prep: "prepareBindCredential E (wired_bind E bc client) ctx input w = (Inr prepared, w1)"
    using bind_committed[OF assms(1,2,4)] by metis
  then show ?thesis using prepared_fields[OF prep] prepared_blob[OF assms(3) prep] by (fastforce simp: bound_as_def bound_state_def)
qed

end
