(* ===== verification/Liveness.thy ===== *)
theory Liveness
  imports BindResult
begin

text \<open>
  What a healthy system does: when no server fails, the random source delivers and the tables have
  ids left, calls return. Total correctness of a call is \<open>returns\<close>; its rules mirror those of
  \<open>establishes\<close>.
\<close>

definition healthy :: "env \<Rightarrow> bool" where
  "healthy E \<longleftrightarrow> fault E = (\<lambda>_. None) \<and> (\<forall>t n. \<not> isl (rand E t n))"

definition returns :: "('w \<Rightarrow> bool) \<Rightarrow> ('w, 'e, 'a) call \<Rightarrow> ('a \<Rightarrow> 'w \<Rightarrow> bool) \<Rightarrow> bool" where
  "returns P m Q \<longleftrightarrow> (\<forall>w. P w \<longrightarrow> (\<exists>x w'. m w = (Inr x, w') \<and> Q x w'))"

lemma returnsD:
  assumes "returns P m Q" "P w"
  obtains x w' where "m w = (Inr x, w')" "Q x w'"
  using assms by (auto simp: returns_def)

lemma rets_weaken:
  "returns P m Q \<Longrightarrow> (\<And>w. P' w \<Longrightarrow> P w) \<Longrightarrow> (\<And>x w. Q x w \<Longrightarrow> Q' x w) \<Longrightarrow> returns P' m Q'"
  unfolding returns_def by blast

lemma rets_ret: "(\<And>w. P w \<Longrightarrow> Q x w) \<Longrightarrow> returns P (ret x) Q"
  by (simp add: returns_def)

lemma rets_bind:
  assumes "returns P m Q" "\<And>x. returns (Q x) (f x) S"
  shows "returns P (bind_io m f) S"
  using assms unfolding returns_def bind_io_def by fastforce

lemma rets_then:
  assumes "returns P m (\<lambda>_. Q)" "returns Q k S"
  shows "returns P (then_io m k) S"
  unfolding then_io_def using assms by (rule rets_bind)

lemma rets_map_error: "returns P m Q \<Longrightarrow> returns P (map_error f m) Q"
  unfolding returns_def by (force simp: map_error_apply)

lemma rets_on_error: "returns P m Q \<Longrightarrow> returns P (on_error m c) Q"
  unfolding returns_def by (force simp: on_error_def)

section \<open>Statements in a transaction\<close>

lemma rets_exec:
  assumes "healthy E" "\<And>k t. A t \<Longrightarrow> \<exists>x t'. f k t = Inr (x, t') \<and> B x t'"
  shows "returns (in_tx A) (sql_exec E WithTx f) (\<lambda>x. in_tx (B x))"
  unfolding returns_def
proof (intro allI impI)
  fix w assume "in_tx A w"
  then obtain t where t: "w_tx w = Some t" "A t" by (auto simp: in_tx_def)
  obtain x t' where "f (pick E (ticks w)) t = Inr (x, t')" "B x t'" using assms(2) t(2) by blast
  then show "\<exists>x w'. sql_exec E WithTx f w = (Inr x, w') \<and> in_tx (B x) w'"
    using t assms(1)
    by (auto simp: sql_exec_def interact_def healthy_def Let_def db_view_def put_view_def in_tx_def)
qed

lemma rets_first:
  assumes "healthy E" and none: "\<And>t. A t \<Longrightarrow> \<forall>x \<in> set (tb_rows (sel t)). \<not> p (snd x)"
  shows "returns (in_tx A) (catch_not_found (gorm_first E WithTx sel p)) (\<lambda>r w. r = None \<and> in_tx A w)"
    "returns (in_tx A) (catch_not_found (gorm_take E WithTx sel p)) (\<lambda>r w. r = None \<and> in_tx A w)"
proof -
  have "sql_first p (sel t) = None" "sql_take k p (sel t) = None" if "A t" for t k
    using none[OF that] by (auto simp: sql_first_def find_None_iff sql_take_None)
  then show "returns (in_tx A) (catch_not_found (gorm_first E WithTx sel p)) (\<lambda>r w. r = None \<and> in_tx A w)"
    "returns (in_tx A) (catch_not_found (gorm_take E WithTx sel p)) (\<lambda>r w. r = None \<and> in_tx A w)"
    using assms(1)
    by (auto simp: returns_def catch_not_found_def gorm_first_def gorm_take_def interact_def healthy_def Let_def
        in_tx_def db_view_def attempt_apply bind_io_apply)
qed

lemma rets_query:
  assumes "healthy E" "\<And>k t. A t \<Longrightarrow> B (f k t) t"
  shows "returns (in_tx A) (sql_query E WithTx f) (\<lambda>x. in_tx (B x))"
  using assms by (auto simp: returns_def sql_query_def interact_def healthy_def Let_def in_tx_def db_view_def)

lemma rets_redis:
  assumes "healthy E"
  shows "returns (in_tx A) (redis_del E ks) (\<lambda>_. in_tx A)"
  using assms by (auto simp: returns_def redis_del_def interact_def healthy_def Let_def in_tx_def)

lemma rets_now: "returns (in_tx A) (time_now E) (\<lambda>_. in_tx A)"
  by (auto simp: returns_def time_now_def in_tx_def)

section \<open>Statements that find room\<close>

lemma upsert_fresh:
  assumes "\<forall>x \<in> set (tb_rows t). \<not> clashes ks r (snd x)" "tb_next t < 2 ^ 64"
  shows "sql_upsert k d ks target upd r t = Inr \<lparr> tb_next = Suc (tb_next t), tb_rows = tb_rows t @ [(of_nat (tb_next t), r)] \<rparr>"
proof -
  have "sql_find (conflicting d ks target r) t = []"
    using assms(1) by (cases d) (force simp: sql_find_def filter_empty_conv conflicting_def clashes_def)+
  moreover have "clash_key ks r (tb_rows t) = None" using assms(1) by (simp add: clash_key_None)
  ultimately show ?thesis using assms(2) by (simp add: sql_upsert_def sql_insert_def)
qed

text \<open>A profile of the binding is saved: the first as its default, a further one beside the rows there are.\<close>

definition profiles_room :: "nat \<Rightarrow> database \<Rightarrow> bool" where
  "profiles_room n t \<longleftrightarrow> table_ok profile_keys (db_profiles t) \<and> tb_next (db_profiles t) + n \<le> 2 ^ 64"

lemma update_rows_skip:
  "\<forall>z \<in> set us. \<not> p (fst z) (snd z) \<Longrightarrow> update_rows ks p f before (us @ xs) = update_rows ks p f (before @ us) xs"
  by (induction us arbitrary: before) auto

lemma update_one_succeeds:
  assumes ok: "table_ok ks t" and x: "x \<in> set (tb_rows t)"
    and free: "\<And>y. y \<in> set (tb_rows t) \<Longrightarrow> y \<noteq> x \<Longrightarrow> \<not> clashes ks (f (snd x)) (snd y)"
  shows "\<exists>n t'. sql_update ks (\<lambda>i _. i = fst x) f t = Inr (n, t')"
proof -
  obtain us vs where split: "tb_rows t = us @ x # vs" using x by (meson split_list)
  have ids: "fst z \<noteq> fst x" if "z \<in> set us \<union> set vs" for z
    using ok that unfolding table_ok_def ids_ok_def split by (auto simp: sorted_wrt_append)
  then have "clash_key ks (f (snd x)) (us @ vs) = None"
    using free by (fastforce simp: clash_key_None split)
  moreover have "update_rows ks (\<lambda>i _. i = fst x) f d vs = Inr (d @ vs)" for d
    using update_rows_skip[of vs "\<lambda>i _. i = fst x" ks f d "[]"] ids by simp
  ultimately have "update_rows ks (\<lambda>i _. i = fst x) f [] (us @ x # vs) = Inr (us @ (fst x, f (snd x)) # vs)"
    using ids by (simp add: update_rows_skip)
  then show ?thesis by (simp add: sql_update_def split)
qed

text \<open>An upsert succeeds when every clash is one on its target and the update clashes with no other row.\<close>

lemma upsert_returns:
  assumes ok: "table_ok ks t" "tb_next t < 2 ^ 64"
    and target: "\<And>y. y \<in> set (tb_rows t) \<Longrightarrow> clashes ks r (snd y) \<Longrightarrow> conflicting d ks target r (snd y)"
    and free: "\<And>x y. x \<in> set (tb_rows t) \<Longrightarrow> y \<in> set (tb_rows t) \<Longrightarrow> y \<noteq> x \<Longrightarrow> conflicting d ks target r (snd x) \<Longrightarrow>
      \<not> clashes ks (upd r (snd x)) (snd y)"
  shows "\<exists>t'. sql_upsert k d ks target upd r t = Inr t' \<and> tb_next t' \<le> Suc (tb_next t)"
proof (cases "pick_row k (sql_find (conflicting d ks target r) t)")
  case None
  then have "\<not> clashes ks r (snd x)" if "x \<in> set (tb_rows t)" for x
    using that target[of x] by (auto simp: sql_find_def filter_empty_conv)
  then show ?thesis using upsert_fresh[of t ks r k d] ok(2) by auto
next
  case (Some x)
  then have x: "x \<in> set (tb_rows t)" "conflicting d ks target r (snd x)" using pick_row_Some by (fastforce simp: set_sql_find)+
  from update_one_succeeds[where f = "upd r", OF ok(1) x(1) free[OF x(1) _ _ x(2)]] obtain m t' where
    "sql_update ks (\<lambda>i _. i = fst x) (upd r) t = Inr (m, t')" by blast
  then show ?thesis using Some sql_update_rows(2) by (fastforce simp: sql_upsert_def)
qed

section \<open>Texts that fit\<close>

text \<open>What MySQL takes of a bind: the account key and the texts of the upstream and of the caller fit their
  columns, and so does the encryption of the cookies.\<close>

definition profile_texts_fit :: "DiscoveredProfile \<Rightarrow> bool" where
  "profile_texts_fit d \<longleftrightarrow> varchar_fits 64 (dp_GameBiz d) \<and> varchar_fits 32 (dp_Region d) \<and>
     varchar_fits 64 (dp_PlayerID d) \<and> varchar_fits 255 (dp_Nickname d)"

definition bind_texts_fit :: "env \<Rightarrow> BindCredentialInput \<Rightarrow> string \<Rightarrow> string \<Rightarrow> DiscoveredProfile list \<Rightarrow> bool" where
  "bind_texts_fit E input a region ds \<longleftrightarrow> (dialect E = MySQL \<longrightarrow>
     varchar_fits 64 (FormatPlatformAccountID (bi_BindingID input) a) \<and> varchar_fits 64 a \<and> varchar_fits 32 region \<and>
     length (bi_CookieBundleJSON input) \<le> 49121 \<and> varchar_fits 64 (bi_DeviceID input) \<and> varchar_fits 64 (bi_DeviceFP input) \<and>
     varchar_fits 128 (bi_DeviceName input) \<and> list_all profile_texts_fit ds)"

text \<open>The same of the rows.\<close>

definition rows_fit :: "env \<Rightarrow> BindCredentialInput \<Rightarrow> bindCredentialPreparation \<Rightarrow> bool" where
  "rows_fit E input prepared \<longleftrightarrow>
     (\<forall>now. fits E (credential_columns (record_of_credential (bound_credential input prepared now)))) \<and>
     (\<forall>now. fits E (device_columns (record_of_device (bound_device input prepared now)))) \<and>
     (\<forall>now i d. d \<in> set (bp_discoveredProfiles prepared) \<longrightarrow>
        fits E (profile_columns (record_of_profile (bound_profile input prepared now i d))))"

lemma level_fits [simp]: "- 2147483648 \<le> sint (signed (v :: i32) :: i64)" "sint (signed (v :: i32) :: i64) < 2147483648"
proof -
  have "sint (signed v :: i64) = sint v" by (rule sint_up_scast) (simp add: is_up)
  then show "- 2147483648 \<le> sint (signed (v :: i32) :: i64)" "sint (signed (v :: i32) :: i64) < 2147483648"
    using sint_ge[of v] sint_lt[of v] by simp_all
qed

lemma ascii_constants [simp]: "varchar_fits 32 ''mihomo''" "varchar_fits 32 ''v1''" "varchar_fits 32 ''active''" "varchar_fits n []"
  by (rule ascii_fits; simp add: byte_code_def)+

lemma rows_fit_texts:
  assumes "bp_platformAccountID prepared = FormatPlatformAccountID (bi_BindingID input) (bp_accountID prepared)"
    and "valid_utf8 (bp_encryptedBlob prepared)"
    and "length (bp_encryptedBlob prepared) \<le> 65535 \<longleftrightarrow> length (bi_CookieBundleJSON input) \<le> 49121"
  shows "rows_fit E input prepared \<longleftrightarrow>
    bind_texts_fit E input (bp_accountID prepared) (bp_region prepared) (bp_discoveredProfiles prepared)"
proof -
  have "fits E (credential_columns (record_of_credential (bound_credential input prepared now))) \<longleftrightarrow> (dialect E = MySQL \<longrightarrow>
      varchar_fits 64 (FormatPlatformAccountID (bi_BindingID input) (bp_accountID prepared)) \<and> varchar_fits 64 (bp_accountID prepared) \<and>
      varchar_fits 32 (bp_region prepared) \<and> length (bi_CookieBundleJSON input) \<le> 49121)" for now
    using assms by (auto simp: fits_def row_fits credential_columns_def column_fits record_of_credential_def bound_credential_def)
  moreover have "fits E (device_columns (record_of_device (bound_device input prepared now))) \<longleftrightarrow> (dialect E = MySQL \<longrightarrow>
      varchar_fits 64 (FormatPlatformAccountID (bi_BindingID input) (bp_accountID prepared)) \<and>
      varchar_fits 64 (bi_DeviceID input) \<and> varchar_fits 64 (bi_DeviceFP input) \<and> varchar_fits 128 (bi_DeviceName input))" for now
    using assms(1) by (auto simp: fits_def row_fits device_columns_def column_fits record_of_device_def bound_device_def)
  moreover have "fits E (profile_columns (record_of_profile (bound_profile input prepared now i d))) \<longleftrightarrow> (dialect E = MySQL \<longrightarrow>
      varchar_fits 64 (FormatPlatformAccountID (bi_BindingID input) (bp_accountID prepared)) \<and> profile_texts_fit d)" for now i d
    using assms(1) by (auto simp: fits_def row_fits profile_columns_def column_fits record_of_profile_def bound_profile_def profile_texts_fit_def)
  ultimately show ?thesis by (auto simp: rows_fit_def bind_texts_fit_def list_all_iff)
qed

section \<open>Binding it\<close>

lemma further_profile_upsert:
  assumes ok: "table_ok profile_keys t" "tb_next t + Suc n \<le> 2 ^ 64" and r: "\<not> ap_IsDefault r"
  shows "\<exists>t'. sql_upsert k d profile_keys ''uniq_profile_binding_player_region'' profile_assign r t = Inr t' \<and>
    table_ok profile_keys t' \<and> tb_next t' + n \<le> 2 ^ 64"
proof -
  let ?conf = "conflicting d profile_keys ''uniq_profile_binding_player_region'' r"
  have conf: "?conf old \<longleftrightarrow> ap_BindingID r = ap_BindingID old \<and> ap_PlayerID r = ap_PlayerID old \<and> ap_Region r = ap_Region old"
    for old
    using r by (cases d) (auto simp: conflicting_def schema_clashes, auto simp: clashes_def profile_keys_def)
  have "\<exists>t'. sql_upsert k d profile_keys ''uniq_profile_binding_player_region'' profile_assign r t = Inr t' \<and>
      tb_next t' \<le> Suc (tb_next t)"
  proof (rule upsert_returns[OF ok(1)])
    fix x y
    assume "x \<in> set (tb_rows t)" "y \<in> set (tb_rows t)" "y \<noteq> x" "?conf (snd x)"
    then show "\<not> clashes profile_keys (profile_assign r (snd x)) (snd y)"
      using unique_ok_inj[of profile_keys t y x] ok(1) r conf[of "snd x"] by (auto simp: table_ok_def schema_clashes profile_assign_def)
  qed (use ok(2) r conf in \<open>auto simp: schema_clashes\<close>)
  then show ?thesis using table_ok_upsert[OF ok(1)] ok(2) by fastforce
qed

lemma further_profile_returns:
  assumes "healthy E" "\<not> pf_IsDefault p" "fits E (profile_columns (record_of_profile p))"
  shows "returns (in_tx (profiles_room (Suc n))) (ProfileRepo_Save E WithTx p) (\<lambda>_. in_tx (profiles_room n))"
proof -
  have "returns (in_tx (profiles_room (Suc n))) (sql_exec E WithTx (\<lambda>k. on_profiles (sql_upsert k (dialect E)
      profile_keys ''uniq_profile_binding_player_region'' profile_assign (record_of_profile p))))
      (\<lambda>_. in_tx (profiles_room n))"
  proof (rule rets_exec[OF assms(1)])
    fix k t
    assume "profiles_room (Suc n) t"
    then show "\<exists>x t'. on_profiles (sql_upsert k (dialect E) profile_keys ''uniq_profile_binding_player_region''
        profile_assign (record_of_profile p)) t = Inr (x, t') \<and> profiles_room n t'"
      using further_profile_upsert[of "db_profiles t" n "record_of_profile p" k "dialect E"] assms(2)
      by (auto simp: profiles_room_def on_profiles_def record_of_profile_def)
  qed
  then show ?thesis using assms(2,3) by (simp add: ProfileRepo_Save_def row_checked_fits)
qed

lemma first_profile_returns:
  assumes "healthy E" "pf_IsDefault p" "fits E (profile_columns (record_of_profile p))"
  shows "returns (in_tx (\<lambda>t. profiles_room (Suc n) t \<and> (\<forall>x \<in> set (tb_rows (db_profiles t)). ap_BindingID (snd x) \<noteq> pf_BindingID p)))
    (ProfileRepo_Save E WithTx p) (\<lambda>_. in_tx (profiles_room n))"
proof -
  let ?A = "\<lambda>t. profiles_room (Suc n) t \<and> (\<forall>x \<in> set (tb_rows (db_profiles t)). ap_BindingID (snd x) \<noteq> pf_BindingID p)"
  let ?r = "record_of_profile p"
  have find: "returns (in_tx ?A) (catch_not_found (gorm_take E WithTx db_profiles (same_profile p))) (\<lambda>r w. r = None \<and> in_tx ?A w)"
    by (rule rets_first(2)[OF assms(1)]) (auto simp: same_profile_def)
  have free: "returns (in_tx ?A) (ensureNoConflictingDefaultProfile E WithTx p 0) (\<lambda>_. in_tx ?A)"
    unfolding ensureNoConflictingDefaultProfile_def
    by (rule rets_bind[OF rets_query[OF assms(1), where B = "\<lambda>c t. c = 0 \<and> ?A t"]])
      (auto simp: sql_count_def filter_empty_conv returns_def in_tx_def)
  have ins: "returns (in_tx ?A) (sql_exec E WithTx (\<lambda>_. on_profiles (sql_insert profile_keys ?r))) (\<lambda>_. in_tx (profiles_room n))"
  proof (rule rets_exec[OF assms(1)])
    fix k t
    assume A: "?A t"
    then have "clash_key profile_keys ?r (tb_rows (db_profiles t)) = None"
      by (auto simp: clash_key_None schema_clashes record_of_profile_def)
    then obtain t' where i: "sql_insert profile_keys ?r (db_profiles t) = Inr t'"
      using A by (auto simp: sql_insert_def profiles_room_def)
    with A show "\<exists>x t'. on_profiles (sql_insert profile_keys ?r) t = Inr (x, t') \<and> profiles_room n t'"
      using table_ok_insert[OF _ _ i] sql_insert_rows(2)[OF i] by (auto simp: profiles_room_def on_profiles_def)
  qed
  have "returns (\<lambda>w. found = None \<and> in_tx ?A w) (k found) Q" if "returns (in_tx ?A) (k None) Q" for found k Q
    using that by (cases found) (simp_all add: returns_def)
  note none = this
  show ?thesis
    unfolding ProfileRepo_Save_def saveDefaultProfile_def Let_def if_P[OF assms(2)] row_checked_fits[OF assms(3)]
    by (rule rets_bind[OF find], rule none) (simp add: rets_then[OF free rets_map_error[OF ins]])
qed

lemma further_profiles_return:
  assumes "healthy E" "\<And>i d. n \<le> i \<Longrightarrow> \<not> pf_IsDefault (mk i d)"
    and "\<And>i d. d \<in> set ds \<Longrightarrow> fits E (profile_columns (record_of_profile (mk i d)))"
  shows "returns (in_tx (profiles_room (length ds))) (save_profiles (ProfileRepo E) WithTx mk n ds) (\<lambda>_. in_tx (\<lambda>_. True))"
  using assms(2,3)
proof (induction ds arbitrary: n)
  case (Cons d ds)
  have "returns (in_tx (profiles_room (length ds))) (save_profiles (ProfileRepo E) WithTx mk (Suc n) ds) (\<lambda>_. in_tx (\<lambda>_. True))"
    by (rule Cons.IH) (simp_all add: Cons.prems)
  then show ?case
    using further_profile_returns[OF assms(1), of "mk n d" "length ds"] Cons.prems(1)[of n d] Cons.prems(2)[of d n]
    by (auto simp: ProfileRepo_def intro!: rets_then rets_bind rets_ret)
qed (auto intro!: rets_ret simp: in_tx_def)

text \<open>The profile table has room and no profile of the binding.\<close>

definition no_profiles :: "u64 \<Rightarrow> nat \<Rightarrow> database \<Rightarrow> bool" where
  "no_profiles b n t \<longleftrightarrow> profiles_room n t \<and> (\<forall>x \<in> set (tb_rows (db_profiles t)). ap_BindingID (snd x) \<noteq> b)"

definition device_room :: "database \<Rightarrow> bool" where
  "device_room t \<longleftrightarrow> table_ok device_keys (db_devices t) \<and> tb_next (db_devices t) < 2 ^ 64"

lemma bound_profiles_return:
  assumes "healthy E" "\<And>i d. d \<in> set ds \<Longrightarrow> fits E (profile_columns (record_of_profile (bound_profile input prepared now i d)))"
  shows "returns (in_tx (no_profiles (bi_BindingID input) (length ds)))
    (save_profiles (ProfileRepo E) WithTx (bound_profile input prepared now) 0 ds) (\<lambda>_. in_tx (\<lambda>_. True))"
proof (cases ds)
  case (Cons d rest)
  let ?p = "bound_profile input prepared now 0 d"
  have first: "returns (in_tx (no_profiles (bi_BindingID input) (Suc (length rest)))) (prepo_Save (ProfileRepo E) WithTx ?p)
      (\<lambda>_. in_tx (profiles_room (length rest)))"
    using first_profile_returns[OF assms(1), of ?p "length rest"] assms(2)[of d 0]
    by (simp add: Cons bound_profile_def ProfileRepo_def no_profiles_def[abs_def])
  have "returns (in_tx (profiles_room (length rest)))
      (save_profiles (ProfileRepo E) WithTx (bound_profile input prepared now) (Suc 0) rest) (\<lambda>_. in_tx (\<lambda>_. True))"
    by (rule further_profiles_return[OF assms(1)]) (simp add: bound_profile_def, simp add: assms(2) Cons)
  with first show ?thesis
    unfolding Cons save_profiles.simps by (auto intro!: rets_then rets_bind rets_ret)
qed (auto intro!: rets_ret simp: in_tx_def)

lemma device_returns:
  assumes "healthy E" "\<And>t dt. A (t\<lparr> db_devices := dt \<rparr>) = A t" "fits E (device_columns (record_of_device d))"
  shows "returns (in_tx (\<lambda>t. device_room t \<and> A t)) (DeviceRepo_Save E WithTx d) (\<lambda>_. in_tx A)"
  unfolding DeviceRepo_Save_def Let_def row_checked_fits[OF assms(3)]
proof (rule rets_exec[OF assms(1)])
  fix k t
  assume A: "device_room t \<and> A t"
  let ?r = "record_of_device d"
  have conf: "conflicting (dialect E) device_keys ''uniq_device_record_binding'' ?r old \<longleftrightarrow> clashes device_keys ?r old" for old
    by (cases "dialect E") (auto simp: conflicting_def clashes_def device_keys_def)
  have "\<exists>t'. sql_upsert k (dialect E) device_keys ''uniq_device_record_binding'' device_assign ?r (db_devices t) = Inr t' \<and>
      tb_next t' \<le> Suc (tb_next (db_devices t))"
  proof (rule upsert_returns)
    fix x y
    assume "x \<in> set (tb_rows (db_devices t))" "y \<in> set (tb_rows (db_devices t))" "y \<noteq> x"
    then show "\<not> clashes device_keys (device_assign ?r (snd x)) (snd y)"
      using unique_ok_inj[of device_keys "db_devices t" y x] A
      by (auto simp: device_room_def table_ok_def schema_clashes device_assign_def)
  qed (use A conf in \<open>auto simp: device_room_def\<close>)
  then show "\<exists>x t'. on_devices (sql_upsert k (dialect E) device_keys ''uniq_device_record_binding'' device_assign ?r) t = Inr (x, t') \<and> A t'"
    using A assms(2) by (auto simp: on_table_ok)
qed

lemma delete_rows:
  "tb_next (sql_delete p t) = tb_next t" "x \<in> set (tb_rows (sql_delete p t)) \<longleftrightarrow> x \<in> set (tb_rows t) \<and> \<not> p (snd x)"
  by (auto simp: sql_delete_def)

lemma artifact_delete_returns:
  assumes "healthy E" "\<And>t at. A (t\<lparr> db_artifacts := at \<rparr>) = A t"
  shows "returns (in_tx A) (ArtifactRepo_deleteByBindingID E r WithTx b) (\<lambda>_. in_tx A)"
  unfolding ArtifactRepo_deleteByBindingID_def
proof (rule rets_bind)
  show "returns (in_tx A) (recordsForBindingCacheDeletion E r WithTx b) (\<lambda>_. in_tx A)"
    unfolding recordsForBindingCacheDeletion_def gorm_find_def
    by (auto intro!: rets_ret rets_bind[OF rets_query[OF assms(1), where B = "\<lambda>_. A"]])
  show "returns (in_tx A) (then_io (sql_exec E WithTx (\<lambda>_. on_artifacts
          (\<lambda>t. Inr (sql_delete (\<lambda>x. ra_BindingID x = b) t)))) (deleteCacheKeys E r (cacheKeysForRecords r records)))
      (\<lambda>_. in_tx A)" for records
    unfolding deleteCacheKeys_def
    by (rule rets_then[OF rets_exec[OF assms(1), where B = "\<lambda>_. A"]])
      (auto intro: rets_ret rets_redis[OF assms(1)] simp: on_artifacts_def assms(2))
qed

text \<open>A database in which a binding can be made or made anew: well-formed as the service keeps it, the account
  with no other binding, the profiles of the binding those of its credential, and ids left for a
  credential, a device and \<open>n\<close> profiles.\<close>

definition settled :: "u64 \<Rightarrow> database \<Rightarrow> bool" where
  "settled b t \<longleftrightarrow> (\<forall>x \<in> set (tb_rows (db_profiles t)). ap_BindingID (snd x) = b \<longrightarrow>
     (\<exists>y \<in> set (tb_rows (db_credentials t)). cd_BindingID (snd y) = b \<and> cd_PlatformAccountID (snd y) = ap_PlatformAccountID (snd x)))"

definition room_for :: "nat \<Rightarrow> database \<Rightarrow> bool" where
  "room_for n t \<longleftrightarrow> tb_next (db_credentials t) < 2 ^ 64 \<and> tb_next (db_devices t) < 2 ^ 64 \<and>
     tb_next (db_profiles t) + n \<le> 2 ^ 64"

definition bindable :: "u64 \<Rightarrow> string \<Rightarrow> nat \<Rightarrow> database \<Rightarrow> bool" where
  "bindable b a n t \<longleftrightarrow> database_ok t \<and> keys_match t \<and> account_free b t ''mihomo'' a \<and> settled b t \<and> room_for n t"

text \<open>What of that the statements of the transaction need: the three tables they write.\<close>

definition ready :: "u64 \<Rightarrow> string \<Rightarrow> nat \<Rightarrow> database \<Rightarrow> bool" where
  "ready b a n t \<longleftrightarrow> table_ok credential_keys (db_credentials t) \<and> table_ok device_keys (db_devices t) \<and>
     table_ok profile_keys (db_profiles t) \<and>
     (\<forall>x \<in> set (tb_rows (db_credentials t)). key_binding (cd_PlatformAccountID (snd x)) = Some (cd_BindingID (snd x))) \<and>
     (\<forall>x \<in> set (tb_rows (db_profiles t)). key_binding (ap_PlatformAccountID (snd x)) = Some (ap_BindingID (snd x))) \<and>
     account_free b t ''mihomo'' a \<and> settled b t \<and> room_for n t"

lemma bindable_ready: "bindable b a n t \<Longrightarrow> ready b a n t"
  by (simp add: bindable_def ready_def database_ok_def keys_match_def)

text \<open>The credential that was there before, and where the profiles of the binding can then be.\<close>

definition prior :: "u64 \<Rightarrow> Credential option \<Rightarrow> database \<Rightarrow> bool" where
  "prior b existing t \<longleftrightarrow> (case existing of
      None \<Rightarrow> \<forall>x \<in> set (tb_rows (db_credentials t)). cd_BindingID (snd x) \<noteq> b
    | Some c \<Rightarrow> cr_BindingID c = b \<and> (\<exists>i. (i, record_of_credential c) \<in> set (tb_rows (db_credentials t))))"

definition replaceable :: "u64 \<Rightarrow> Credential option \<Rightarrow> nat \<Rightarrow> database \<Rightarrow> bool" where
  "replaceable b existing n t \<longleftrightarrow> profiles_room n t \<and> (\<forall>x \<in> set (tb_rows (db_profiles t)). ap_BindingID (snd x) = b \<longrightarrow>
     (\<exists>c. existing = Some c \<and> cr_PlatformAccountID c = ap_PlatformAccountID (snd x) \<and> cr_PlatformAccountID c \<noteq> []))"

lemma no_key: "key_binding [] = None"
  by code_simp

lemma prior_returns:
  assumes "healthy E"
  shows "returns (in_tx A) (CredentialRepo_GetByBindingID E WithTx b) (\<lambda>r. in_tx (\<lambda>t. A t \<and> prior b r t))"
  unfolding returns_def
proof (intro allI impI)
  fix w assume "in_tx A w"
  then obtain t where t: "w_tx w = Some t" "A t" by (auto simp: in_tx_def)
  let ?found = "sql_first (\<lambda>r. cd_BindingID r = b) (db_credentials t)"
  have "CredentialRepo_GetByBindingID E WithTx b w = (Inr (map_option (credentialFromRecord \<circ> snd) ?found), next_tick w)"
    using t(1) assms
    by (auto simp: CredentialRepo_GetByBindingID_def catch_not_found_def gorm_first_def interact_def healthy_def Let_def db_view_def
        attempt_apply bind_io_apply split: option.split)
  moreover have "prior b (map_option (credentialFromRecord \<circ> snd) ?found) t"
  proof (cases ?found)
    case None
    have "\<forall>x \<in> set (tb_rows (db_credentials t)). cd_BindingID (snd x) \<noteq> b" using None by (simp add: sql_first_None)
    then show ?thesis unfolding None prior_def by simp
  next
    case (Some x)
    then have x: "x \<in> set (tb_rows (db_credentials t))" "cd_BindingID (snd x) = b" using sql_first_Some by blast+
    have "cr_BindingID (credentialFromRecord (snd x)) = b" using x(2) by (simp add: credentialFromRecord_def)
    moreover have "(fst x, record_of_credential (credentialFromRecord (snd x))) \<in> set (tb_rows (db_credentials t))" using x(1) by simp
    ultimately show ?thesis unfolding Some prior_def option.map option.case comp_apply by blast
  qed
  ultimately show "\<exists>x w'. CredentialRepo_GetByBindingID E WithTx b w = (Inr x, w') \<and> in_tx (\<lambda>t. A t \<and> prior b x t) w'"
    using t by (auto simp: in_tx_def)
qed

lemma ready_replaceable:
  assumes "ready b a n t" "prior b existing t"
  shows "device_room t \<and> replaceable b existing n t"
proof -
  have "\<exists>c. existing = Some c \<and> cr_PlatformAccountID c = ap_PlatformAccountID (snd x) \<and> cr_PlatformAccountID c \<noteq> []"
    if x: "x \<in> set (tb_rows (db_profiles t))" "ap_BindingID (snd x) = b" for x
  proof -
    obtain y where y: "y \<in> set (tb_rows (db_credentials t))" "cd_BindingID (snd y) = b"
      "cd_PlatformAccountID (snd y) = ap_PlatformAccountID (snd x)"
      using assms(1) x by (auto simp: ready_def settled_def)
    obtain c i where c: "existing = Some c" "cr_BindingID c = b" "(i, record_of_credential c) \<in> set (tb_rows (db_credentials t))"
      using assms(2) y by (cases existing) (auto simp: prior_def)
    have "y = (i, record_of_credential c)"
      using unique_ok_inj[of credential_keys "db_credentials t" y "(i, record_of_credential c)"] assms(1) y c(2,3)
      by (simp add: ready_def table_ok_def schema_clashes record_of_credential_def)
    then have "cr_PlatformAccountID c = ap_PlatformAccountID (snd x)" using y(3) by (simp add: record_of_credential_def)
    moreover have "key_binding (ap_PlatformAccountID (snd x)) = Some b" using assms(1) x by (auto simp: ready_def keys_match_def)
    ultimately show ?thesis using c(1) by (auto simp: no_key)
  qed
  then show ?thesis
    using assms(1) by (auto simp: ready_def device_room_def replaceable_def profiles_room_def room_for_def)
qed

lemma credential_returns:
  assumes "healthy E" and c: "cr_BindingID c = b" "cr_PlatformAccountID c = FormatPlatformAccountID b a" "cr_Platform c = ''mihomo''"
    "cr_AccountID c = a" and A: "\<And>t ct. A (t\<lparr> db_credentials := ct \<rparr>) = A t" and fit: "fits E (credential_columns (record_of_credential c))"
  shows "returns (in_tx (\<lambda>t. ready b a n t \<and> A t)) (CredentialRepo_Save E WithTx c) (\<lambda>_. in_tx A)"
  unfolding CredentialRepo_Save_def Let_def row_checked_fits[OF fit]
proof (rule rets_exec[OF assms(1)])
  fix k t
  assume t: "ready b a n t \<and> A t"
  let ?r = "record_of_credential c" and ?rows = "set (tb_rows (db_credentials t))"
  have own: "cd_BindingID (snd y) = b" if "y \<in> ?rows" "clashes credential_keys ?r (snd y)" for y
  proof -
    have "key_binding (cd_PlatformAccountID (snd y)) = Some (cd_BindingID (snd y))"
      "cd_Platform (snd y) = ''mihomo'' \<and> cd_AccountID (snd y) = a \<longrightarrow> cd_BindingID (snd y) = b"
      using that(1) t by (simp_all add: ready_def account_free_def)
    moreover have "cd_BindingID (snd y) = b \<or> cd_PlatformAccountID (snd y) = FormatPlatformAccountID b a \<or>
        cd_Platform (snd y) = ''mihomo'' \<and> cd_AccountID (snd y) = a"
      using that(2) c by (auto simp: schema_clashes record_of_credential_def)
    ultimately show ?thesis by auto
  qed
  have same: "y = x" if "x \<in> ?rows" "y \<in> ?rows" "cd_BindingID (snd x) = b" "cd_BindingID (snd y) = b" for x y
    using unique_ok_inj[of credential_keys "db_credentials t" y x] t that
    by (simp add: ready_def table_ok_def schema_clashes)
  have conf: "conflicting (dialect E) credential_keys ''uniq_credential_binding_id'' ?r old \<longleftrightarrow>
      (if dialect E = MySQL then clashes credential_keys ?r old else cd_BindingID ?r = cd_BindingID old)" for old
    by (cases "dialect E") (simp_all add: conflicting_def clashes_def credential_keys_def)
  have r_b: "cd_BindingID ?r = b" using c(1) by (simp add: record_of_credential_def)
  have "\<exists>t'. sql_upsert k (dialect E) credential_keys ''uniq_credential_binding_id'' (\<lambda>new old. new) ?r (db_credentials t) = Inr t' \<and>
      tb_next t' \<le> Suc (tb_next (db_credentials t))"
  proof (rule upsert_returns)
    fix y assume "y \<in> ?rows" "clashes credential_keys ?r (snd y)"
    then show "conflicting (dialect E) credential_keys ''uniq_credential_binding_id'' ?r (snd y)"
      using own[of y] r_b by (simp add: conf)
  next
    fix x y assume x: "x \<in> ?rows" "y \<in> ?rows" "y \<noteq> x" "conflicting (dialect E) credential_keys ''uniq_credential_binding_id'' ?r (snd x)"
    have "cd_BindingID (snd x) = b" using x(1,4) own[of x] r_b by (simp add: conf split: if_splits)
    then show "\<not> clashes credential_keys ?r (snd y)" using own same x(1-3) by blast
  qed (use t in \<open>auto simp: ready_def room_for_def\<close>)
  then show "\<exists>x t'. on_credentials (sql_upsert k (dialect E) credential_keys ''uniq_credential_binding_id'' (\<lambda>new old. new) ?r) t = Inr (x, t') \<and> A t'"
    using t A by (auto simp: on_table_ok)
qed

text \<open>The profiles of the account before are removed with the key of that account or of the new one.\<close>

lemma profiles_cleared:
  assumes "healthy E"
  shows "returns (in_tx (replaceable b existing n))
    (if previous_account existing prepared \<noteq> [] then ProfileRepo_DeleteByPlatformAccountID E WithTx (previous_account existing prepared)
     else ProfileRepo_DeleteByPlatformAccountID E WithTx (bp_platformAccountID prepared)) (\<lambda>_. in_tx (no_profiles b n))"
proof -
  let ?k = "if previous_account existing prepared \<noteq> [] then previous_account existing prepared else bp_platformAccountID prepared"
  have gone: "ap_PlatformAccountID (snd x) = ?k"
    if x: "replaceable b existing n t" "x \<in> set (tb_rows (db_profiles t))" "ap_BindingID (snd x) = b" for t x
  proof -
    obtain c where "existing = Some c" "cr_PlatformAccountID c = ap_PlatformAccountID (snd x)" "cr_PlatformAccountID c \<noteq> []"
      using x unfolding replaceable_def by blast
    then show ?thesis by (simp add: previous_account_def)
  qed
  have "returns (in_tx (replaceable b existing n)) (ProfileRepo_DeleteByPlatformAccountID E WithTx ?k) (\<lambda>_. in_tx (no_profiles b n))"
    unfolding ProfileRepo_DeleteByPlatformAccountID_def
    by (rule rets_exec[OF assms]) (use gone in \<open>auto simp: on_profiles_def no_profiles_def profiles_room_def delete_rows replaceable_def\<close>)
  then show ?thesis by (simp split: if_splits)
qed

lemma relations_return:
  assumes "healthy E" "rows_fit E input prepared"
  shows "returns (in_tx (\<lambda>t. device_room t \<and> replaceable (bi_BindingID input) existing (length (bp_discoveredProfiles prepared)) t))
    (bind_relations (wired_bind E bc client) WithTx input prepared now (previous_account existing prepared)) (\<lambda>_ _. True)"
proof -
  let ?P = "replaceable (bi_BindingID input) existing (length (bp_discoveredProfiles prepared))"
  have dev_fits: "fits E (device_columns (record_of_device (bound_device input prepared now)))"
    and prof_fits: "\<And>i d. d \<in> set (bp_discoveredProfiles prepared) \<Longrightarrow>
      fits E (profile_columns (record_of_profile (bound_profile input prepared now i d)))"
    using assms(2) by (simp_all add: rows_fit_def)
  have dev: "returns (in_tx (\<lambda>t. device_room t \<and> ?P t)) (DeviceRepo_Save E WithTx (bound_device input prepared now)) (\<lambda>_. in_tx ?P)"
    by (rule device_returns[OF assms(1) _ dev_fits]) (simp add: replaceable_def profiles_room_def)
  have drop: "returns (in_tx (\<lambda>_. True)) (if key \<noteq> [] then then_io (DeviceRepo_DeleteByPlatformAccountID E WithTx key)
      (CredentialRepo_DeleteByPlatformAccountID E WithTx key) else ret ()) (\<lambda>_ _. True)" for key
  proof -
    have devices: "returns (in_tx (\<lambda>_. True)) (DeviceRepo_DeleteByPlatformAccountID E WithTx key) (\<lambda>_. in_tx (\<lambda>_. True))"
      unfolding DeviceRepo_DeleteByPlatformAccountID_def by (rule rets_exec[OF assms(1)]) (simp add: on_devices_def)
    have creds: "returns (in_tx (\<lambda>_. True)) (CredentialRepo_DeleteByPlatformAccountID E WithTx key) (\<lambda>_. in_tx (\<lambda>_. True))"
      unfolding CredentialRepo_DeleteByPlatformAccountID_def by (rule rets_exec[OF assms(1)]) (simp add: on_credentials_def)
    show ?thesis using rets_then[OF devices rets_weaken[OF creds]] by (simp add: rets_ret)
  qed
  show ?thesis
    unfolding bind_relations_def wired_bind_def NewBindUsecase_def BindUsecase.select_convs DeviceRepo_def DeviceRepository.select_convs
      CredentialRepo_def CredentialRepository.select_convs
    by (rule rets_then[OF dev], simp only: ProfileRepo_def ProfileRepository.select_convs)
      (rule rets_then[OF profiles_cleared[OF assms(1)]],
       rule rets_bind[OF bound_profiles_return[OF assms(1) prof_fits, unfolded ProfileRepo_def]], assumption,
       rule rets_then[OF drop[THEN rets_weaken]], auto intro: rets_ret)
qed

lemma bind_prepared_returns:
  assumes ok: "healthy E" and key: "bp_platformAccountID prepared = FormatPlatformAccountID (bi_BindingID input) (bp_accountID prepared)"
    and rows: "rows_fit E input prepared"
  shows "returns (in_tx (bindable (bi_BindingID input) (bp_accountID prepared) (length (bp_discoveredProfiles prepared))))
    (bindPreparedCredential E (wired_bind E bc client) WithTx input (Some prepared)) (\<lambda>_ _. True)"
proof -
  let ?b = "bi_BindingID input" and ?n = "length (bp_discoveredProfiles prepared)"
  let ?B = "ready ?b (bp_accountID prepared) ?n" and ?D = "\<lambda>existing t. device_room t \<and> replaceable ?b existing ?n t"
  have clear: "returns (in_tx (\<lambda>t. ?B t \<and> prior ?b existing t)) (ArtifactRepo_deleteByBindingID E r WithTx ?b)
      (\<lambda>_. in_tx (\<lambda>t. ?B t \<and> ?D existing t))" for r existing
  proof -
    have "?B (t\<lparr> db_artifacts := at \<rparr>) \<and> prior ?b existing (t\<lparr> db_artifacts := at \<rparr>) \<longleftrightarrow> ?B t \<and> prior ?b existing t" for t at
      by (simp add: ready_def settled_def account_free_def room_for_def prior_def cong: option.case_cong)
    from artifact_delete_returns[OF ok this] show ?thesis
      by (rule rets_weaken) (use ready_replaceable in \<open>auto simp: in_tx_def\<close>)
  qed
  have save: "returns (in_tx (\<lambda>t. ?B t \<and> ?D existing t)) (CredentialRepo_Save E WithTx (bound_credential input prepared now))
      (\<lambda>_. in_tx (?D existing))" for now existing
    by (rule credential_returns[OF ok]) (use rows key in \<open>simp_all add: bound_credential_def rows_fit_def device_room_def replaceable_def profiles_room_def\<close>)
  have "returns (in_tx ?B) (bindPreparedCredential E (wired_bind E bc client) WithTx input (Some prepared)) (\<lambda>_ _. True)"
    unfolding wired_prepared
    by (rule rets_bind[OF prior_returns[OF ok]], rule rets_then[OF clear], rule rets_bind[OF rets_now],
        rule rets_then[OF save], rule rets_on_error, rule relations_return[OF ok rows])
  then show ?thesis by (rule rets_weaken) (auto simp: in_tx_def bindable_ready)
qed

text \<open>With a key of a legal size and a client that answers, the preparation returns what the transaction takes.\<close>

lemma prepare_returns:
  assumes E: "healthy E" and key: "length (GetCredentialEncryptionKey (bs_Security bc)) \<in> {16, 24, 32}"
    and b: "bi_BindingID input \<noteq> 0"
    and discovered: "fst (cl_ValidateAndDiscover client ctx (bi_CookieBundleJSON input) (bi_RegionHint input) w) = Inr (a, region, ds)"
    and rand: "rand_law E" and texts: "bind_texts_fit E input a region ds"
  obtains prepared w' where "prepareBindCredential E (wired_bind E bc client) ctx input w = (Inr prepared, w')"
    "bp_platformAccountID prepared = FormatPlatformAccountID (bi_BindingID input) (bp_accountID prepared)"
    "bp_accountID prepared = a" "bp_discoveredProfiles prepared = ds" "rows_fit E input prepared"
proof -
  obtain w1 where d: "cl_ValidateAndDiscover client ctx (bi_CookieBundleJSON input) (bi_RegionHint input) w = (Inr (a, region, ds), w1)"
    using discovered by (metis prod.collapse)
  obtain nonce where "rand E (ticks w1) gcm_nonce_size = Inr nonce"
    using E by (metis healthy_def sum.collapse(2))
  from EncryptString_succeeds[OF key this] obtain blob w2 where
    blob: "EncryptString E (GetCredentialEncryptionKey (bs_Security bc)) (bi_CookieBundleJSON input) w1 = (Inr blob, w2)" by blast
  obtain prepared where p: "prepareBindCredential E (wired_bind E bc client) ctx input w = (Inr prepared, w2)"
    "bp_platformAccountID prepared = FormatPlatformAccountID (bi_BindingID input) (bp_accountID prepared)"
    "bp_accountID prepared = a" "bp_discoveredProfiles prepared = ds" "bp_region prepared = region" "bp_encryptedBlob prepared = blob"
    using d b blob that[of "\<lparr> bp_platformAccountID = FormatPlatformAccountID (bi_BindingID input) a, bp_accountID = a,
      bp_region = region, bp_discoveredProfiles = ds, bp_encryptedBlob = blob \<rparr>"]
    by (simp add: prepareBindCredential_def wired_bind_def NewBindUsecase_def bind_io_apply Let_def)
  moreover have "rows_fit E input prepared"
    using rows_fit_texts[OF p(2), of E] blob_size[OF rand blob] texts by (simp add: p(3-6))
  ultimately show ?thesis by (intro that)
qed

lemma begin_tx_returns:
  assumes "healthy E" "returns (in_tx A) (body WithTx) Q" "A (w_db w)"
  obtains x w2 where "begin_tx E body w = (Inr x, tx_committed w w2)" "Q x w2"
proof -
  have "in_tx A (tx_started w)" using assms(3) by (simp add: in_tx_def tx_started_def)
  then obtain x w2 where "body WithTx (tx_started w) = (Inr x, w2)" "Q x w2" using assms(2) by (auto elim!: returnsD)
  then show ?thesis using assms(1) that by (simp add: begin_tx_steps healthy_def)
qed

lemma bind_returns:
  assumes E: "healthy E" and inert: "client_inert client" and key: "length (GetCredentialEncryptionKey (bs_Security bc)) \<in> {16, 24, 32}"
    and b: "bi_BindingID input \<noteq> 0"
    and discovered: "fst (cl_ValidateAndDiscover client ctx (bi_CookieBundleJSON input) (bi_RegionHint input) w) = Inr (a, region, ds)"
    and db: "bindable (bi_BindingID input) a (length ds) (w_db w)"
    and rand: "rand_law E" and texts: "bind_texts_fit E input a region ds"
  shows "\<exists>result w'. BindCredential E (wired_bind E bc client) ctx input w = (Inr result, w')"
proof -
  let ?uc = "wired_bind E bc client"
  from prepare_returns[OF E key b discovered rand texts] obtain prepared w1 where p:
    "prepareBindCredential E ?uc ctx input w = (Inr prepared, w1)"
    "bp_platformAccountID prepared = FormatPlatformAccountID (bi_BindingID input) (bp_accountID prepared)"
    "bp_accountID prepared = a" "bp_discoveredProfiles prepared = ds" "rows_fit E input prepared" .
  have body: "returns (in_tx (bindable (bi_BindingID input) a (length ds))) (bind_transaction E ?uc input prepared WithTx) (\<lambda>_ _. True)"
    unfolding bind_transaction_def
    by (rule rets_bind[OF bind_prepared_returns[OF E p(2,5), unfolded p(3,4)]]) (simp add: rets_ret)
  have "w_db w1 = w_db w" using prepare_store[OF inert p(1)] by (simp add: same_store_def)
  with db have "bindable (bi_BindingID input) a (length ds) (w_db w1)" by simp
  from begin_tx_returns[where body = "bind_transaction E ?uc input prepared", OF E body this] obtain r w2 where
    "begin_tx E (bind_transaction E ?uc input prepared) w1 = (Inr r, tx_committed w1 w2)" .
  then show ?thesis
    using p(1) by (simp add: BindCredential_def runInTransaction_def wired_bind_repos CredentialRepo_def
        CredentialRepo_WithinTransaction_def bind_transaction_def[abs_def])
qed


lemma sample_healthy [simp]: "healthy (sample_env d)"
  by (simp add: healthy_def)

lemma sample_bindable: "bindable 1 ''10001'' (Suc 0) (w_db sample_world)"
  using sample_world_good
  by (simp add: bindable_def good_world_def settled_def room_for_def account_free_def sample_world_def sample_row_def
      empty_database_def empty_table_def)

lemma sample_discovers:
  "fst (cl_ValidateAndDiscover StubClient ctx cookies hint w) = Inr (''10001'', ''cn_gf01'',
     [\<lparr> dp_GameBiz = ''hk4e_cn'', dp_Region = ''cn_gf01'', dp_PlayerID = ''1008611'', dp_Nickname = ''Traveler'', dp_Level = 60 \<rparr>])"
  by (simp add: StubClient_def)

lemma sample_conf_key [simp]: "GetCredentialEncryptionKey (bs_Security sample_conf) = replicate 32 CHR ''k''"
  by (simp add: sample_conf_def conf_getters)

lemma sample_input_simps [simp]: "bi_BindingID sample_input = 1" "bi_CookieBundleJSON sample_input = ''{}''"
  by (simp_all add: sample_input_def)

lemma sample_laws [simp]: "rand_law (sample_env d)"
  by (simp add: rand_law_def)

lemma sample_key_fits: "varchar_fits 64 (FormatPlatformAccountID 1 ''10001'')"
proof -
  have "FormatPlatformAccountID 1 ''10001'' = ''binding_1_10001''" by code_simp
  then show ?thesis by (simp add: ascii_fits byte_code_def)
qed

lemma sample_texts_fit: "bind_texts_fit E sample_input ''10001'' ''cn_gf01''
    [\<lparr> dp_GameBiz = ''hk4e_cn'', dp_Region = ''cn_gf01'', dp_PlayerID = ''1008611'', dp_Nickname = ''Traveler'', dp_Level = 60 \<rparr>]"
  using sample_key_fits by (simp add: bind_texts_fit_def profile_texts_fit_def sample_input_def ascii_fits byte_code_def)


theorem bind_stores_account_witness:
  "\<exists>out w'. BindCredential (sample_env MySQL) (wired_bind (sample_env MySQL) sample_conf StubClient) Background
     sample_input sample_world = (Inr (Some out), w') \<and>
     bo_PlatformAccountID out = FormatPlatformAccountID 1 ''10001'' \<and> bo_Status out = CREDENTIAL_STATUS_ACTIVE"
proof -
  let ?uc = "wired_bind (sample_env MySQL) sample_conf StubClient"
  have "\<exists>result w'. BindCredential (sample_env MySQL) ?uc Background sample_input sample_world = (Inr result, w')"
    by (rule bind_returns[OF _ _ _ _ sample_discovers]) (simp_all add: sample_bindable sample_texts_fit)
  then obtain result w' where
    run: "BindCredential (sample_env MySQL) ?uc Background sample_input sample_world = (Inr result, w')" by blast
  have "database_ok (w_db sample_world)" using sample_world_good by (simp add: good_world_def)
  from bind_stores_account[OF this _ sample_laws run] run show ?thesis by (clarsimp simp: sample_discovers)
qed

end
