(* ===== verification/GraphResult.thy ===== *)
theory GraphResult
  imports Liveness
begin

text \<open>
  What deleting a credential with everything it owns leaves in the database.
\<close>

section \<open>Deleting\<close>

lemma purge_inside: "keeps (inside d0) (\<lambda>_ _. True) (\<lambda>_. True) (purge_transaction E r b WithTx)"
  unfolding purge_transaction_def
  by (intro tx.io_then[OF tx.artifact_delete(1)] tx.io_then[OF tx.profile_delete_step]
      tx.io_then[OF tx.device_delete_step] tx.credential_delete_step) auto

lemma delete_graph_outcomes:
  assumes "database_ok (w_db w)" and run: "ManagementRepo_DeleteCredentialGraphByBindingID E r ctx b w = (res, w')"
  shows "((\<exists>e. res = Inl e) \<and> w_db w' = w_db w) \<or>
    (w_db w' = purge b (w_db w) \<and> (res = Inr () \<or> (\<exists>n e. res = Inl e \<and> fault E n = Some (FailAfter e))))"
proof -
  have "w_db w' = purge b (w_db w) \<and> (res = Inr () \<or> (\<exists>n e. res = Inl e \<and> fault E n = Some (FailAfter e)))"
    if "committed_by E (purge_transaction E r b) w res w'"
  proof -
    from that obtain w2 where body: "purge_transaction E r b WithTx (tx_started w) = (Inr (), w2)"
      and w': "w_db w' = db_view WithTx w2" "res = Inr () \<or> (\<exists>n e. res = Inl e \<and> fault E n = Some (FailAfter e))"
      by (auto simp: committed_by_def)
    have "in_tx (\<lambda>t. t = w_db w) (tx_started w)" by (simp add: in_tx_def tx_started_def)
    from establishesD[OF purge_establishes this body] w' show ?thesis by (auto simp: in_tx_def db_view_def)
  qed
  then show ?thesis
    using begin_tx_atomic[where body = "purge_transaction E r b", OF assms(1) purge_inside] run
    by (simp add: delete_graph_transaction) blast
qed

lemma credential_found:
  assumes "CredentialRepo_GetByBindingID E ctx b w = (r, w')"
  shows "same_store w w'" "r = Inr (Some c) \<Longrightarrow>
    \<exists>x \<in> set (tb_rows (db_credentials (db_view ctx w))). cd_BindingID (snd x) = b \<and> c = credentialFromRecord (snd x)"
proof -
  obtain q w1 where q: "catch_not_found (gorm_first E ctx db_credentials (\<lambda>r. cd_BindingID r = b)) w = (q, w1)" by fastforce
  have "w' = w1" "r = map_sum id (map_option (credentialFromRecord \<circ> snd)) q"
    using assms q by (auto simp: CredentialRepo_GetByBindingID_def bind_io_apply split: sum.splits)
  moreover have "same_store w w1" using reads_store(3) q by (rule catch_not_found_store)
  moreover have "x \<in> set (tb_rows (db_credentials (db_view ctx w))) \<and> cd_BindingID (snd x) = b" if "q = Inr (Some x)" for x
    using read_results(2)[OF catch_not_found_okD[OF q[unfolded that]]] .
  ultimately show "same_store w w'" "r = Inr (Some c) \<Longrightarrow>
      \<exists>x \<in> set (tb_rows (db_credentials (db_view ctx w))). cd_BindingID (snd x) = b \<and> c = credentialFromRecord (snd x)"
    by (auto simp: map_sum_def split: sum.splits) (metis snd_conv)
qed

text \<open>The binding has a credential with this account key.\<close>

definition credential_of :: "database \<Rightarrow> u64 \<Rightarrow> string \<Rightarrow> bool" where
  "credential_of d b k \<longleftrightarrow> list_ex (\<lambda>x. cd_BindingID (snd x) = b \<and> cd_PlatformAccountID (snd x) = k) (tb_rows (db_credentials d))"

lemma delete_scoped_outcomes:
  assumes ok: "database_ok (w_db w)"
    and run: "ManagementUsecase_DeleteCredentialWithScope (wired_management E bc client) Background guard k w = (r, w')"
  shows "((\<exists>e. r = Inl e) \<and> w_db w' = w_db w) \<or>
    (RequirePlatformAccountID guard k = Inr () \<and> RequireBindingWide guard = Inr () \<and>
     credential_of (w_db w) (sg_BindingID guard) k \<and> w_db w' = purge (sg_BindingID guard) (w_db w) \<and>
     (r = Inr () \<or> (\<exists>n e. r = Inl e \<and> fault E n = Some (FailAfter e))))"
proof (cases "RequirePlatformAccountID guard k = Inr () \<and> RequireBindingWide guard = Inr ()")
  case False
  then consider e where "RequirePlatformAccountID guard k = Inl e"
    | e where "RequirePlatformAccountID guard k = Inr ()" "RequireBindingWide guard = Inl e"
    by (cases "RequirePlatformAccountID guard k"; cases "RequireBindingWide guard") auto
  then have "\<exists>e. (r, w') = (Inl e, w)"
    using run unfolding ManagementUsecase_DeleteCredentialWithScope_def by cases (simp only: then_io_lift_Inl then_io_lift_Inr fail_apply; metis)+
  then show ?thesis by auto
next
  case True
  obtain q w1 where q: "CredentialRepo_GetByBindingID E Background (sg_BindingID guard) w = (q, w1)" by fastforce
  note found = credential_found[OF q]
  have db: "w_db w1 = w_db w" using found(1) by (simp add: same_store_def)
  have steps: "(case q of Inl e \<Rightarrow> (Inl e, w1) | Inr None \<Rightarrow> (Inl ErrCredentialNotFound, w1)
      | Inr (Some c) \<Rightarrow> if cr_PlatformAccountID c \<noteq> k then (Inl ErrPlatformAccountMismatch, w1)
          else ManagementRepo_DeleteCredentialGraphByBindingID E (artifact_config bc) Background (sg_BindingID guard) w1) = (r, w')"
    using run True q
    by (auto simp: ManagementUsecase_DeleteCredentialWithScope_def wired_management_def NewManagementUsecase_def CredentialRepo_def ManagementRepo_def
        bind_io_apply split: sum.splits option.splits if_splits)
  show ?thesis
  proof (cases "\<exists>c. q = Inr (Some c) \<and> cr_PlatformAccountID c = k")
    case False
    then show ?thesis using steps db by (auto split: sum.splits option.splits if_splits)
  next
    case True': True
    then obtain c where c: "q = Inr (Some c)" "cr_PlatformAccountID c = k" by blast
    have "credential_of (w_db w) (sg_BindingID guard) k"
      using found(2)[OF c(1)] c(2) by (auto simp: credential_of_def list_ex_iff credentialFromRecord_def db_view_def)
    moreover have "ManagementRepo_DeleteCredentialGraphByBindingID E (artifact_config bc) Background (sg_BindingID guard) w1 = (r, w')"
      using steps c by simp
    ultimately show ?thesis using delete_graph_outcomes[of w1] ok db True by auto
  qed
qed

text \<open>C9: Deletion refines the removal of the binding. However a scoped DeleteCredential of the wired
  service ends and whatever fails on the way, the database is either untouched, and the caller gets an
  error, or it is the old one without exactly the artifacts, profiles, devices and credential of the
  guard's binding; the second happens only for a credential with the requested key, and with an error
  only if the acknowledgement of the commit was lost.\<close>

theorem delete_all_or_nothing:
  assumes "database_ok (w_db w)"
    and "ManagementUsecase_DeleteCredentialWithScope (wired_management E bc client) Background guard k w = (r, w')"
  shows "((\<exists>e. r = Inl e) \<and> w_db w' = w_db w) \<or>
    (RequirePlatformAccountID guard k = Inr () \<and> RequireBindingWide guard = Inr () \<and>
     credential_of (w_db w) (sg_BindingID guard) k \<and> w_db w' = purge (sg_BindingID guard) (w_db w) \<and>
     (r = Inr () \<or> (\<exists>n e. r = Inl e \<and> fault E n = Some (FailAfter e))))"
  using assms by (rule delete_scoped_outcomes)

lemma rets_delete:
  assumes "healthy E"
  shows "returns (in_tx (\<lambda>_. True)) (sql_exec E WithTx (\<lambda>_. on_profiles (\<lambda>t. Inr (sql_delete p t)))) (\<lambda>_. in_tx (\<lambda>_. True))"
    "returns (in_tx (\<lambda>_. True)) (sql_exec E WithTx (\<lambda>_. on_devices (\<lambda>t. Inr (sql_delete q t)))) (\<lambda>_. in_tx (\<lambda>_. True))"
    "returns (in_tx (\<lambda>_. True)) (sql_exec E WithTx (\<lambda>_. on_credentials (\<lambda>t. Inr (sql_delete s t)))) (\<lambda>_. in_tx (\<lambda>_. True))"
  by (rule rets_exec[OF assms]; simp add: on_table_defs)+

lemma delete_graph_returns:
  assumes "healthy E"
  shows "\<exists>w'. ManagementRepo_DeleteCredentialGraphByBindingID E r ctx b w = (Inr (), w')"
proof -
  have "returns (in_tx (\<lambda>_. True)) (purge_transaction E r b WithTx) (\<lambda>_. in_tx (\<lambda>_. True))"
    unfolding purge_transaction_def
    by (rule rets_then[OF artifact_delete_returns[OF assms]], simp, rule rets_then[OF rets_delete(1)[OF assms]],
        rule rets_then[OF rets_delete(2)[OF assms]], rule rets_delete(3)[OF assms])
  moreover have "in_tx (\<lambda>_. True) (tx_started w)" by (simp add: in_tx_def tx_started_def)
  ultimately obtain w2 where "purge_transaction E r b WithTx (tx_started w) = (Inr (), w2)"
    by (auto elim!: returnsD)
  then show ?thesis using assms by (simp add: delete_graph_transaction begin_tx_steps healthy_def)
qed

lemma credential_lookup_succeeds:
  assumes "healthy E" "database_ok (db_view ctx w)" "credential_of (db_view ctx w) b k"
  shows "\<exists>c w'. CredentialRepo_GetByBindingID E ctx b w = (Inr (Some c), w') \<and> cr_PlatformAccountID c = k \<and> cr_BindingID c = b"
proof -
  let ?t = "db_credentials (db_view ctx w)"
  obtain x where x: "x \<in> set (tb_rows ?t)" "cd_BindingID (snd x) = b" "cd_PlatformAccountID (snd x) = k"
    using assms(3) by (auto simp: credential_of_def list_ex_iff)
  then obtain y where y: "sql_first (\<lambda>r. cd_BindingID r = b) ?t = Some y"
    unfolding sql_first_def by (metis (mono_tags, lifting) find_None_iff not_None_eq)
  have "y = x"
    using sql_first_Some[OF y] x assms(2) unique_ok_inj[of credential_keys ?t y x]
    by (auto simp: database_ok_def table_ok_def schema_clashes)
  then show ?thesis
    using y x assms(1)
    by (simp add: CredentialRepo_GetByBindingID_def catch_not_found_def gorm_first_def interact_def healthy_def Let_def
        bind_io_apply attempt_apply credentialFromRecord_def)
qed

lemma delete_scoped_returns:
  assumes "healthy E" "database_ok (w_db w)" "RequirePlatformAccountID guard k = Inr ()" "RequireBindingWide guard = Inr ()"
    "credential_of (w_db w) (sg_BindingID guard) k"
  shows "\<exists>w'. ManagementUsecase_DeleteCredentialWithScope (wired_management E bc client) Background guard k w = (Inr (), w')"
proof -
  obtain c w1 where "CredentialRepo_GetByBindingID E Background (sg_BindingID guard) w = (Inr (Some c), w1)"
    "cr_PlatformAccountID c = k"
    using credential_lookup_succeeds[of E Background w "sg_BindingID guard" k] assms(1,2,5) by (auto simp: db_view_def)
  moreover obtain w2 where "ManagementRepo_DeleteCredentialGraphByBindingID E (artifact_config bc) Background (sg_BindingID guard) w1 = (Inr (), w2)"
    using delete_graph_returns[OF assms(1)] by blast
  ultimately have "ManagementUsecase_DeleteCredentialWithScope (wired_management E bc client) Background guard k w = (Inr (), w2)"
    unfolding ManagementUsecase_DeleteCredentialWithScope_def assms(3,4)
    by (simp add: wired_management_def NewManagementUsecase_def CredentialRepo_def ManagementRepo_def bind_io_apply)
  then show ?thesis by blast
qed

text \<open>C14: A permitted deletion of a credential that is there succeeds on a healthy system, and then nothing
  of the binding is left in any of the four tables.\<close>

theorem delete_succeeds:
  assumes "healthy E" and "database_ok (w_db w)" and "RequirePlatformAccountID guard k = Inr ()"
    and "RequireBindingWide guard = Inr ()" and "credential_of (w_db w) (sg_BindingID guard) k"
  shows "\<exists>w'. ManagementUsecase_DeleteCredentialWithScope (wired_management E bc client) Background guard k w = (Inr (), w') \<and>
    (\<forall>x. x \<in> set (tb_rows (db_credentials (w_db w'))) \<longleftrightarrow>
       x \<in> set (tb_rows (db_credentials (w_db w))) \<and> cd_BindingID (snd x) \<noteq> sg_BindingID guard) \<and>
    (\<forall>x. x \<in> set (tb_rows (db_devices (w_db w'))) \<longleftrightarrow>
       x \<in> set (tb_rows (db_devices (w_db w))) \<and> dr_BindingID (snd x) \<noteq> sg_BindingID guard) \<and>
    (\<forall>x. x \<in> set (tb_rows (db_profiles (w_db w'))) \<longleftrightarrow>
       x \<in> set (tb_rows (db_profiles (w_db w))) \<and> ap_BindingID (snd x) \<noteq> sg_BindingID guard) \<and>
    (\<forall>x. x \<in> set (tb_rows (db_artifacts (w_db w'))) \<longleftrightarrow>
       x \<in> set (tb_rows (db_artifacts (w_db w))) \<and> ra_BindingID (snd x) \<noteq> sg_BindingID guard) \<and>
    db_invalidations (w_db w') = db_invalidations (w_db w)"
proof -
  obtain w' where run: "ManagementUsecase_DeleteCredentialWithScope (wired_management E bc client) Background guard k w = (Inr (), w')"
    using delete_scoped_returns[OF assms] by blast
  moreover from delete_scoped_outcomes[OF assms(2) run] have "w_db w' = purge (sg_BindingID guard) (w_db w)" by simp
  ultimately show ?thesis by (simp add: purge_def delete_rows)
qed

section \<open>At a concrete world\<close>

definition sample_guard :: ScopeGuard where
  "sample_guard = \<lparr> sg_AllowedActions = {ActionCredentialDelete}, sg_BindingID = 2, sg_ProfileID = 0 \<rparr>"

lemma sample_permitted:
  "RequirePlatformAccountID sample_guard (FormatPlatformAccountID 2 ''20002'') = Inr ()"
  "RequireBindingWide sample_guard = Inr ()"
  "credential_of (w_db sample_world) (sg_BindingID sample_guard) (FormatPlatformAccountID 2 ''20002'')"
  by (simp_all add: sample_guard_def sample_world_def sample_row_def credential_of_def RequireBindingWide_def)

theorem delete_all_or_nothing_witness:
  "\<exists>r w'. ManagementUsecase_DeleteCredentialWithScope (wired_management (sample_env MySQL) sample_conf StubClient) Background
     sample_guard (FormatPlatformAccountID 2 ''20002'') sample_world = (r, w') \<and>
     (w_db w' = w_db sample_world \<or> w_db w' = purge 2 (w_db sample_world))"
proof -
  have ok: "database_ok (w_db sample_world)" using sample_world_good by (simp add: good_world_def)
  obtain r w' where run: "ManagementUsecase_DeleteCredentialWithScope (wired_management (sample_env MySQL) sample_conf StubClient)
     Background sample_guard (FormatPlatformAccountID 2 ''20002'') sample_world = (r, w')" by fastforce
  from delete_all_or_nothing[OF ok run] run show ?thesis by (auto simp: sample_guard_def)
qed

theorem delete_succeeds_witness:
  "\<exists>w'. ManagementUsecase_DeleteCredentialWithScope (wired_management (sample_env MySQL) sample_conf StubClient) Background
     sample_guard (FormatPlatformAccountID 2 ''20002'') sample_world = (Inr (), w') \<and>
     db_invalidations (w_db w') = db_invalidations (w_db sample_world)"
proof -
  have "database_ok (w_db sample_world)" using sample_world_good by (simp add: good_world_def)
  from delete_succeeds[OF sample_healthy this sample_permitted] show ?thesis by blast
qed

end
