(* ===== verification/ReadOnly.thy ===== *)
theory ReadOnly
  imports Samples
begin

text \<open>
  The requests that only read. The contracts of the services are interpreted once more, with writing
  not allowed and with \<open>same_store\<close> as the relation between the worlds before and after: every lemma
  about a reading handler then says that it leaves the databases and the cache alone.
\<close>

abbreviation whole_store :: "world \<Rightarrow> bool" where
  "whole_store \<equiv> world_scope (\<lambda>_. True) (\<lambda>_ _. True) (\<lambda>_ _. True)"

interpretation reads: pool_contract whole_store same_store "\<lambda>_. True" "\<lambda>_ _. True" "\<lambda>_ _. True" "\<lambda>_. True" False E
  for E
proof unfold_locales
  show "whole_store (next_tick w) \<and> same_store w (next_tick w)" if "whole_store w" for w
    using that world_scope_same same_store_refl(2) by blast
  show "scope_ok (\<lambda>_. True) (\<lambda>_ _. True) (\<lambda>_ _. True) (db_view ctx w)" if "whole_store w" for w ctx
    using that by (auto simp: world_scope_def db_view_def split: ctx.split option.split)
  show "whole_store (tx_started w)" if "whole_store w" for w
    using that by (simp add: world_scope_def tx_started_def)
qed (auto intro: same_store_trans)

locale read_scope =
  fixes E :: env and bc :: Bootstrap and client :: "world Client" and jwt :: jwt_parser and verifier :: "world TicketVerifier"
  assumes upstream_inert: "client_inert client"
    and lookup_reads: "tv_lookup verifier = Some lookup \<Longrightarrow> leaves_store (lookup ctx b consumer)"

sublocale read_scope \<subseteq> service_scope "\<lambda>_. True" "\<lambda>_ _. True" "\<lambda>_ _. True" E bc client jwt verifier "\<lambda>_. True"
  by unfold_locales (use upstream_inert lookup_reads in auto)

context read_scope
begin

lemma store_keeps: "leaves_store m \<Longrightarrow> keeps whole_store same_store (\<lambda>_. True) m"
  unfolding keeps_def leaves_store_def using world_scope_same by blast

end

sublocale read_scope \<subseteq> only: services whole_store same_store "\<lambda>_. True" "\<lambda>_ _. True" "\<lambda>_ _. True"
  "\<lambda>_. True" False "CredentialRepo E" "DeviceRepo E" "ProfileRepo E" "ArtifactRepo E (artifact_config bc)"
  "ManagementRepo E (artifact_config bc)" client "CredentialRepo_WithinTransaction E" E jwt verifier
  "GrantInvalidationRepo_Upsert E" "\<lambda>_. True" "GetCredentialEncryptionKey (bs_Security bc)"
proof unfold_locales
  show "keeps whole_store same_store (\<lambda>(a, _, _). True) (cl_ValidateAndDiscover client ctx cookies hint)" for ctx cookies hint
    using upstream_inert by (auto simp: client_inert_def split_def intro: store_keeps)
  show "keeps whole_store same_store (\<lambda>_. True) (cl_IssueAuthKey client ctx cookies player)" for ctx cookies player
    using upstream_inert by (auto simp: client_inert_def intro: store_keeps)
  show "keeps whole_store same_store (\<lambda>c. True) (verifyServiceTicket E jwt verifier ctx raw)" for ctx raw
    unfolding verifyServiceTicket_def by (intro reads.io_map_error store_keeps verify_store)
qed (simp_all add: CredentialRepo_def DeviceRepo_def ProfileRepo_def ArtifactRepo_def ManagementRepo_def
  reads.credential_get[simplified] reads.credential_lookup[simplified])

fun reading :: "request \<Rightarrow> bool" where
  "reading (Account_Status _) = True"
| "reading (Account_ListProfiles _) = True"
| "reading (Account_PrimaryProfile _) = True"
| "reading (Account_Summary _) = True"
| "reading (Shared_Summary _) = True"
| "reading (Platform_Summary _) = True"
| "reading _ = False"

context read_scope
begin

lemma reading_keeps:
  assumes P: "pr_env P = E" "pr_conf P = bc" "pr_client P = client" "pr_jwt P = jwt" "main_verifier P = verifier"
    and "reading req"
  shows "keeps whole_store same_store (\<lambda>_. True) (serve P req)"
proof -
  have ans: "keeps whole_store same_store (\<lambda>_. True) (answered m)" if "keeps whole_store same_store (\<lambda>_. True) m"
    for m :: "(world, Status, 'x) call"
    unfolding answered_def using that by (rule reads.io_bind) (rule reads.io_ret, simp)
  show ?thesis
    using assms(6)
    by (cases req; simp add: P main_account_def main_credential_def main_generic_def wired_services; intro ans)
      (intro only.rpc_status_keeps only.rpc_list_keeps only.rpc_primary_keeps only.rpc_summary_keeps
        only.rpc_shared_summary_keeps only.generic_summary_keeps; simp)+
qed

end

text \<open>The deployed process: \<open>main\<close> passes the unconfigured client and the grant store.\<close>

interpretation deployed: read_scope E bc UnconfiguredClient jwt "WithGrantVersionLookup v (GrantInvalidationRepo_MinimumVersion E)"
  for E bc jwt v
  by unfold_locales (auto simp: WithGrantVersionLookup_def minimum_version_store)

lemma serve_reading:
  assumes "client_inert (pr_client P)" "reading req" "good_world w"
  shows "same_store w (snd (serve P req w))"
proof -
  have "read_scope (pr_client P) (main_verifier P)"
    using assms(1) by unfold_locales (auto simp: main_verifier_def WithGrantVersionLookup_def minimum_version_store)
  note keeps = read_scope.reading_keeps[OF this refl refl refl refl refl assms(2)]
  have "whole_store w" using assms(3) by (simp add: world_scope_def good_world_def scope_ok_all)
  from keepsD(2)[OF keeps this, of "fst (serve P req w)"] show ?thesis by simp
qed

text \<open>C15: The six requests that only read change nothing: whatever they answer and whatever fails while
  they are served, the committed database, an open transaction and the cache are as before.\<close>

theorem reading_requests_change_nothing:
  assumes "client_inert (pr_client P)" and "reading req" and "good_world w"
  shows "same_store w (snd (serve P req w))"
  using assms by (rule serve_reading)

theorem reading_requests_change_nothing_witness:
  "same_store sample_world (snd (serve (sample_process MySQL) (Account_Status (Some \<lparr> acr_ServiceTicket = ''2'',
     acr_PlatformAccountId = FormatPlatformAccountID 2 ''20002'' \<rparr>)) sample_world))"
  by (rule reading_requests_change_nothing) (simp_all add: sample_world_good)

end
