(* ===== verification/UpdateResult.thy ===== *)
theory UpdateResult
  imports GraphResult ReadOnly
begin

text \<open>
  What replacing the cookie bundle of a credential leaves in the database: all of the new state, with
  no profile beyond the newly discovered ones, or none of it.
\<close>

section \<open>The stored profiles\<close>

text \<open>Every profile row of the binding is one of the discovered profiles.\<close>

definition only_profiles :: "u64 \<Rightarrow> DiscoveredProfile list \<Rightarrow> database \<Rightarrow> bool" where
  "only_profiles b ds t \<longleftrightarrow> (\<forall>x \<in> set (tb_rows (db_profiles t)). ap_BindingID (snd x) = b \<longrightarrow>
     (\<exists>d \<in> set ds. ap_PlayerID (snd x) = dp_PlayerID d \<and> ap_Region (snd x) = dp_Region d))"

definition names_of :: "DiscoveredProfile list \<Rightarrow> (string \<times> string) list" where
  "names_of ds = map (\<lambda>d. (dp_PlayerID d, dp_Region d)) ds"

lemma est_and: "establishes P m Q \<Longrightarrow> establishes P m S \<Longrightarrow> establishes P m (\<lambda>x w. Q x w \<and> S x w)"
  by (auto simp: establishes_def)

lemma est_lift: "establishes P (lift_res r) (\<lambda>x w. r = Inr x \<and> P w)"
  by (simp add: establishes_def)

lemma saved_names:
  "establishes P (save_profiles repo ctx (bound_profile input prepared now) n ds)
    (\<lambda>outs _. map (\<lambda>p. (ps_PlayerId p, ps_Region p)) outs = names_of ds)"
proof (induction ds arbitrary: n P)
  case (Cons d ds)
  have any: "establishes P m (\<lambda>_ _. True)" for P and m :: "('b, error, 'x) call" by (simp add: establishes_def)
  show ?case
    unfolding save_profiles.simps
    by (rule est_then[OF any], rule est_bind[OF Cons.IH], rule est_ret)
      (simp add: names_of_def toProfileSummary_def bound_profile_def)
qed (simp add: est_ret names_of_def)

lemma bound_names:
  "establishes P (bindPreparedCredential E uc tx input (Some prepared))
    (\<lambda>out _. map (\<lambda>p. (ps_PlayerId p, ps_Region p)) (bo_Profiles out) = names_of (bp_discoveredProfiles prepared))"
proof -
  have any: "establishes P m (\<lambda>_ _. True)" for P and m :: "('b base_world_scheme, error, 'x) call"
    by (simp add: establishes_def)
  have relations: "establishes P (bind_relations uc tx input prepared now previous)
      (\<lambda>out _. map (\<lambda>p. (ps_PlayerId p, ps_Region p)) (bo_Profiles out) = names_of (bp_discoveredProfiles prepared))"
    for P now previous
    unfolding bind_relations_def
    by (rule est_then[OF any], rule est_then[OF any], rule est_bind[OF saved_names])
      (auto simp: establishes_def elim!: then_io_okE)
  show ?thesis
    unfolding bindPreparedCredential_def option.case Let_def
    by (rule est_bind[OF any], rule est_then[OF any], rule est_bind[OF any], rule est_then[OF any],
        rule est_on_error[OF relations])
qed

text \<open>What is left when the profiles that are not of the list are deleted.\<close>

definition undiscovered :: "u64 \<Rightarrow> DiscoveredProfile list \<Rightarrow> AccountProfile \<Rightarrow> bool" where
  "undiscovered b ds r \<longleftrightarrow> ap_BindingID r = b \<and> \<not> (\<exists>d \<in> set ds. ap_PlayerID r = dp_PlayerID d \<and> ap_Region r = dp_Region d)"

lemma undiscovered_deleted:
  assumes "db_profiles t' = sql_delete (undiscovered b ds) (db_profiles t)"
  shows "list_all (\<lambda>d. has_profile b k d t) ds \<Longrightarrow> list_all (\<lambda>d. has_profile b k d t') ds" and "only_profiles b ds t'"
proof -
  assume had: "list_all (\<lambda>d. has_profile b k d t) ds"
  have "has_profile b k d t'" if d: "d \<in> set ds" for d
  proof -
    have "has_profile b k d t" using had d by (simp add: list_all_iff)
    then obtain i r where r: "(i, r) \<in> set (tb_rows (db_profiles t))" "ap_BindingID r = b" "ap_PlatformAccountID r = k"
      "ap_PlayerID r = dp_PlayerID d" "ap_Region r = dp_Region d"
      unfolding has_profile_def by (rule profile_rowE)
    have "(i, r) \<in> set (tb_rows (db_profiles t'))"
      using rows_after_delete[OF r(1), of "undiscovered b ds"] d r(4,5) by (auto simp: assms undiscovered_def)
    then show ?thesis unfolding has_profile_def by (rule profile_rowI) (use r in simp_all)
  qed
  then show "list_all (\<lambda>d. has_profile b k d t') ds" by (simp add: list_all_iff)
next
  show "only_profiles b ds t'" by (auto simp: only_profiles_def assms delete_rows undiscovered_def)
qed

lemma prune_establishes:
  assumes outs: "map (\<lambda>p. (ps_PlayerId p, ps_Region p)) outs = names_of ds" and key: "key_binding k = Some b"
    and A: "\<And>t pt. A (t\<lparr> db_profiles := pt \<rparr>) = A t"
  shows "establishes (in_tx (\<lambda>t. A t \<and> list_all (\<lambda>d. has_profile b k d t) ds))
    (pruneStaleProfiles (wired_management E bc client) WithTx k outs)
    (\<lambda>_. in_tx (\<lambda>t. A t \<and> list_all (\<lambda>d. has_profile b k d t) ds \<and> only_profiles b ds t))"
proof -
  let ?A = "\<lambda>t. A t \<and> list_all (\<lambda>d. has_profile b k d t) ds"
  let ?keep = "map (\<lambda>p. \<lparr> pi_PlayerID = ps_PlayerId p, pi_Region = ps_Region p \<rparr>) outs"
  let ?gone = "\<lambda>r. ap_BindingID r = b \<and> \<not> list_ex (\<lambda>i. ap_PlayerID r = pi_PlayerID i \<and> ap_Region r = pi_Region i) ?keep"
  have "list_ex (\<lambda>i. ap_PlayerID r = pi_PlayerID i \<and> ap_Region r = pi_Region i) ?keep \<longleftrightarrow>
      (ap_PlayerID r, ap_Region r) \<in> set (map (\<lambda>p. (ps_PlayerId p, ps_Region p)) outs)" for r
    by (auto simp: list_ex_iff)
  then have gone: "?gone = undiscovered b ds" unfolding outs by (auto simp: names_of_def undiscovered_def fun_eq_iff)
  have step: "establishes (in_tx ?A) (sql_exec E WithTx (\<lambda>_. on_profiles (\<lambda>t. Inr (sql_delete ?gone t))))
      (\<lambda>_. in_tx (\<lambda>t. ?A t \<and> only_profiles b ds t))"
    unfolding gone by (rule est_exec) (auto simp: on_profiles_def A intro: undiscovered_deleted)
  have "establishes (in_tx ?A) (ProfileRepo_DeleteMissingByBindingID E WithTx b ?keep)
      (\<lambda>_. in_tx (\<lambda>t. ?A t \<and> only_profiles b ds t))"
    using step by (cases outs) (simp_all add: ProfileRepo_DeleteMissingByBindingID_def)
  then show ?thesis
    unfolding pruneStaleProfiles_def wired_management_def NewManagementUsecase_def ManagementUsecase.select_convs ProfileRepo_def
      ProfileRepository.select_convs Let_def using key
    by (auto simp: key_binding_def bind_io_def establishes_def split: sum.splits)
qed

section \<open>The whole update\<close>

definition update_transaction :: "env \<Rightarrow> world ManagementUsecase \<Rightarrow> UpdateCredentialInput \<Rightarrow> bindCredentialPreparation \<Rightarrow> ctx \<Rightarrow>
    (world, BindCredentialOutput option) io" where
  "update_transaction E uc input prepared tx =
     bind_io (bindPreparedCredential E (mu_bindUC uc) tx (ui_BindCredentialInput input) (Some prepared)) (\<lambda>result.
     then_io (pruneStaleProfiles uc tx (ui_PlatformAccountID input) (bo_Profiles result)) (ret None))"

lemma wired_management_repos:
  "mu_bindUC (wired_management E bc client) = wired_bind E bc client"
  "mu_credentials (wired_management E bc client) = CredentialRepo E"
  by (simp_all add: wired_management_def NewManagementUsecase_def)

lemma update_transaction_inside:
  "keeps (inside d0) (\<lambda>_ _. True) (\<lambda>_. True) (update_transaction E (wired_management E bc client) input prepared WithTx)"
proof -
  have "keeps (inside d0) (\<lambda>_ _. True) (\<lambda>_. True) (pruneStaleProfiles (wired_management E bc client) WithTx k outs)" for k outs
    unfolding pruneStaleProfiles_def wired_management_def NewManagementUsecase_def ManagementUsecase.select_convs Let_def ProfileRepo_def
      ProfileRepository.select_convs
    by (rule tx.io_lifted) (simp add: tx.profile_delete_missing)
  then show ?thesis
    unfolding update_transaction_def wired_management_repos wired_bind_simps
    by (intro tx.io_bind[OF tx.bind_prepared_keeps] tx.io_then[where k = "ret None"]) (simp_all add: tx.io_ret)
qed

text \<open>The new state: the one of a bind, without other profiles of the binding.\<close>

definition updated_state :: "BindCredentialInput \<Rightarrow> bindCredentialPreparation \<Rightarrow> database \<Rightarrow> bool" where
  "updated_state input prepared t \<longleftrightarrow> (\<exists>now. bound_state input prepared now t) \<and>
     only_profiles (bi_BindingID input) (bp_discoveredProfiles prepared) t"

lemma update_transaction_establishes:
  assumes key: "bp_platformAccountID prepared = ui_PlatformAccountID input"
    "key_binding (ui_PlatformAccountID input) = Some (bi_BindingID (ui_BindCredentialInput input))"
  shows "establishes (in_tx (\<lambda>_. True)) (update_transaction E (wired_management E bc client) input prepared WithTx)
    (\<lambda>_. in_tx (updated_state (ui_BindCredentialInput input) prepared))"
proof -
  let ?i = "ui_BindCredentialInput input" and ?ds = "bp_discoveredProfiles prepared"
  let ?A = "\<lambda>now t. has_credential (bound_credential ?i prepared now) t \<and> has_device (bound_device ?i prepared now) t"
  have bound: "establishes (in_tx (\<lambda>_. True)) (bindPreparedCredential E (wired_bind E bc client) WithTx ?i (Some prepared))
      (\<lambda>out w. \<exists>now. in_tx (\<lambda>t. ?A now t \<and> list_all (\<lambda>d. has_profile (bi_BindingID ?i) (ui_PlatformAccountID input) d t) ?ds) w \<and>
        map (\<lambda>p. (ps_PlayerId p, ps_Region p)) (bo_Profiles out) = names_of ?ds)"
  proof (rule est_weaken[OF est_and[OF prepared_establishes bound_names]], simp, elim conjE)
    fix out w
    assume "in_tx (bound_as ?i prepared out) w"
      and names: "map (\<lambda>p. (ps_PlayerId p, ps_Region p)) (bo_Profiles out) = names_of ?ds"
    then obtain now where "in_tx (bound_state ?i prepared now) w" by (auto simp: in_tx_def bound_as_def)
    with names show "\<exists>now. in_tx (\<lambda>t. ?A now t \<and> list_all (\<lambda>d. has_profile (bi_BindingID ?i) (ui_PlatformAccountID input) d t) ?ds) w \<and>
        map (\<lambda>p. (ps_PlayerId p, ps_Region p)) (bo_Profiles out) = names_of ?ds"
      by (intro exI[of _ now]) (simp add: bound_state_def[abs_def] key(1) conj_assoc)
  qed
  have prune: "establishes (\<lambda>w. \<exists>now. in_tx (\<lambda>t. ?A now t \<and> list_all (\<lambda>d. has_profile (bi_BindingID ?i) (ui_PlatformAccountID input) d t) ?ds) w \<and>
        map (\<lambda>p. (ps_PlayerId p, ps_Region p)) outs = names_of ?ds)
      (pruneStaleProfiles (wired_management E bc client) WithTx (ui_PlatformAccountID input) outs)
      (\<lambda>_. in_tx (updated_state ?i prepared))" for outs
    unfolding establishes_def
  proof (intro allI impI, elim exE conjE)
    fix w x w' now
    assume w: "in_tx (\<lambda>t. ?A now t \<and> list_all (\<lambda>d. has_profile (bi_BindingID ?i) (ui_PlatformAccountID input) d t) ?ds) w"
      and outs: "map (\<lambda>p. (ps_PlayerId p, ps_Region p)) outs = names_of ?ds"
      and run: "pruneStaleProfiles (wired_management E bc client) WithTx (ui_PlatformAccountID input) outs w = (Inr x, w')"
    have "?A now (t\<lparr> db_profiles := pt \<rparr>) = ?A now t" for t pt by simp
    from establishesD[OF prune_establishes[OF outs key(2) this] w run]
    show "in_tx (updated_state ?i prepared) w'"
      by (auto simp: in_tx_def updated_state_def bound_state_def key)
  qed
  show ?thesis
    unfolding update_transaction_def wired_management_repos
    by (rule est_bind[OF bound], rule est_then[OF prune], rule est_ret)
qed

lemma leaves_bind: "leaves_store m \<Longrightarrow> (\<And>x. leaves_store (f x)) \<Longrightarrow> leaves_store (bind_io m f)"
  unfolding leaves_store_def bind_io_def
  by (auto split: prod.splits sum.splits) (metis same_store_trans snd_conv)+

lemma leaves_value: "leaves_store (ret x)" "leaves_store (fail e)" "leaves_store (lift_res r)"
  by (simp_all add: leaves_store_def)

lemma leaves_reads:
  "leaves_store (gorm_find E ctx sel p)" "leaves_store (catch_not_found (gorm_take E ctx sel p))"
  "leaves_store (catch_not_found (gorm_first E ctx sel p))"
  unfolding leaves_store_def
  by (metis prod.collapse reads_store(4), metis prod.collapse reads_store(2) catch_not_found_store,
      metis prod.collapse reads_store(3) catch_not_found_store)

lemma lookup_store: "leaves_store (CredentialRepo_GetByPlatformAccountID E ctx k)"
  unfolding CredentialRepo_GetByPlatformAccountID_def by (intro leaves_bind leaves_reads leaves_value)

lemma summary_store: "leaves_store (ManagementUsecase_GetCredentialSummary (wired_management E bc client) ctx k)"
  unfolding ManagementUsecase_GetCredentialSummary_def wired_management_def NewManagementUsecase_def wired_profile_def NewProfileUsecase_def ListProfiles_def
    ManagementUsecase.select_convs CredentialRepo_def CredentialRepository.select_convs DeviceRepo_def
    DeviceRepository.select_convs ProfileUsecase.select_convs ProfileRepo_def ProfileRepository.select_convs
    DeviceRepo_ListByPlatformAccountID_def ProfileRepo_ListByPlatformAccountID_def
  by (auto intro!: leaves_bind lookup_store leaves_reads leaves_value split: option.split)

lemma update_outcomes:
  assumes ok: "database_ok (w_db w)" and inert: "client_inert client"
    and key: "key_binding (ui_PlatformAccountID input) = Some (bi_BindingID (ui_BindCredentialInput input))"
    and run: "ManagementUsecase_UpdateCredential E (wired_management E bc client) Background input w = (r, w')"
  shows "((\<exists>e. r = Inl e) \<and> w_db w' = w_db w) \<or>
    (\<exists>prepared w1 w2. prepareBindCredential E (wired_bind E bc client) Background (ui_BindCredentialInput input) w1 = (Inr prepared, w2) \<and>
       same_store w w1 \<and> bp_platformAccountID prepared = ui_PlatformAccountID input \<and>
       updated_state (ui_BindCredentialInput input) prepared (w_db w'))"
proof -
  let ?uc = "wired_management E bc client" and ?b = "wired_bind E bc client" and ?i = "ui_BindCredentialInput input"
    and ?k = "ui_PlatformAccountID input"
  obtain q w1 where q: "CredentialRepo_GetByPlatformAccountID E Background ?k w = (q, w1)" by fastforce
  obtain p w2 where p: "prepareBindCredential E ?b Background ?i w1 = (p, w2)" by fastforce
  have s: "same_store w w1" "same_store w1 w2"
    using leaves_storeD[OF lookup_store q] prepare_store[OF inert p] by blast+
  then have db: "w_db w1 = w_db w" "w_db w2 = w_db w" by (auto simp: same_store_def)
  show ?thesis
  proof (cases "\<exists>c prepared. q = Inr (Some c) \<and> p = Inr prepared \<and> bp_platformAccountID prepared = ?k")
    case False
    then have "(\<exists>e. r = Inl e) \<and> (w' = w1 \<or> w' = w2)"
      using run q p
      by (auto simp: ManagementUsecase_UpdateCredential_def wired_management_repos CredentialRepo_def bind_io_apply
          split: sum.splits option.splits if_splits)
    then show ?thesis using db by auto
  next
    case True
    then obtain c prepared where c: "q = Inr (Some c)" "p = Inr prepared" "bp_platformAccountID prepared = ?k" by blast
    obtain t w3 where t: "begin_tx E (update_transaction E ?uc input prepared) w2 = (t, w3)" by fastforce
    have run': "(case t of Inl e \<Rightarrow> (Inl e, w3) | Inr _ \<Rightarrow> ManagementUsecase_GetCredentialSummary ?uc Background ?k w3) = (r, w')"
      using run q p c t
      by (simp add: ManagementUsecase_UpdateCredential_def wired_management_repos CredentialRepo_def bind_io_apply then_io_apply
          runInTransaction_def wired_bind_repos CredentialRepo_WithinTransaction_def update_transaction_def[abs_def] split: sum.splits)
    have w': "w_db w' = w_db w3 \<and> ((\<exists>e. t = Inl e) \<longrightarrow> (\<exists>e. r = Inl e))"
      using run' leaves_storeD[OF summary_store] by (auto simp: same_store_def split: sum.splits)
    have "updated_state ?i prepared (w_db w3)" if "committed_by E (update_transaction E ?uc input prepared) w2 t w3"
    proof -
      from that obtain x w4 where body: "update_transaction E ?uc input prepared WithTx (tx_started w2) = (Inr x, w4)"
        and d: "w_db w3 = db_view WithTx w4" by (auto simp: committed_by_def)
      have "in_tx (\<lambda>_. True) (tx_started w2)" by (simp add: in_tx_def tx_started_def)
      from establishesD[OF update_transaction_establishes[OF c(3) key] this body] d show ?thesis
        by (auto simp: in_tx_def db_view_def)
    qed
    moreover have "database_ok (w_db w2)" using ok db by simp
    ultimately show ?thesis
      using begin_tx_atomic[where body = "update_transaction E ?uc input prepared", OF _ update_transaction_inside t] w' db p s c by metis
  qed
qed


definition sample_update :: UpdateCredentialInput where
  "sample_update = \<lparr> ui_PlatformAccountID = FormatPlatformAccountID 1 ''10001'', ui_BindCredentialInput = sample_input \<rparr>"

text \<open>A world in which binding 1 holds the upstream account 10001, with a blob the sample key opens.\<close>

definition bound_blob :: string where
  "bound_blob = (let nonce = replicate 12 CHR ''r'' in b64_encode (nonce @ gcm_seal (replicate 32 CHR ''k'') nonce ''{}''))"

definition bound_row :: CredentialRecord where
  "bound_row = sample_row\<lparr> cd_BindingID := 1, cd_PlatformAccountID := FormatPlatformAccountID 1 ''10001'',
     cd_AccountID := ''10001'', cd_CredentialBlob := bound_blob \<rparr>"

definition bound_world :: world where
  "bound_world = empty_world\<lparr> w_db := empty_database\<lparr> db_credentials := \<lparr> tb_next = 2, tb_rows = [(1, bound_row)] \<rparr> \<rparr> \<rparr>"

lemma bound_world_ok [simp]: "database_ok (w_db bound_world)"
  by (simp add: bound_world_def database_ok_def empty_database_def table_ok_def ids_ok_def unique_ok_def empty_table_def)

lemma bound_decrypts:
  "DecryptString (GetCredentialEncryptionKey (bs_Security sample_conf)) (cd_CredentialBlob bound_row) = Inr ''{}''"
  unfolding DecryptString_ok
  by (intro conjI exI[of _ "replicate 12 CHR ''r''"]) (simp_all add: bound_row_def bound_blob_def Let_def gcm_nonce_size_def)

lemma bound_row_fits: "fits E (credential_columns bound_row)"
proof -
  have "valid_utf8 bound_blob" unfolding bound_blob_def Let_def by (rule valid_ascii[OF b64_ascii])
  moreover have "length bound_blob \<le> 65535"
    by (simp add: bound_blob_def Let_def length_b64_encode gcm_seal_def gcm_tag_size_def)
  ultimately show ?thesis
    using sample_key_fits
    by (simp add: fits_def row_fits credential_columns_def column_fits bound_row_def sample_row_def ascii_fits byte_code_def)
qed

lemma bound_row_simps [simp]:
  "cd_BindingID bound_row = 1" "cd_PlatformAccountID bound_row = FormatPlatformAccountID 1 ''10001''"
  "cd_AccountID bound_row = ''10001''" "cd_Platform bound_row = cd_Platform sample_row"
  by (simp_all add: bound_row_def)

lemma bound_credential_lookup:
  "w_db w = w_db bound_world \<Longrightarrow> CredentialRepo_GetByPlatformAccountID (sample_env MySQL) Background
     (FormatPlatformAccountID 1 ''10001'') w = (Inr (Some (credentialFromRecord bound_row)), next_tick w)"
  by (simp add: CredentialRepo_GetByPlatformAccountID_def gorm_take_def interact_def catch_not_found_def db_view_def
      bound_world_def sql_take_def sql_find_def Let_def bind_io_apply attempt_apply)

text \<open>Saving a credential under the keys of the bound row rewrites that row.\<close>

lemma bound_credential_save:
  assumes "w_db w = w_db bound_world" "w_tx w = None" "clashes credential_keys (record_of_credential c) bound_row"
    and "fits (sample_env MySQL) (credential_columns (record_of_credential c))"
  shows "CredentialRepo_Save (sample_env MySQL) Background c w = (Inr (), (next_tick w)\<lparr> w_db :=
    (w_db w)\<lparr> db_credentials := \<lparr> tb_next = 2, tb_rows = [(1, record_of_credential c)] \<rparr> \<rparr> \<rparr>)"
  using assms
  by (simp add: row_checked_fits CredentialRepo_Save_def sql_exec_def interact_def Let_def db_view_def put_view_def on_credentials_def
      bound_world_def sql_upsert_def sql_find_def conflicting_def sql_update_def pick_row_def clash_key_None[where rows = "[]", simplified])


end
