(* ===== verification/Grants.thy ===== *)
theory Grants
  imports UpdateResult
begin

text \<open>
  Tickets and their revocation: what a ticket that verifies has shown, what the grant store makes of an
  invalidation, and that a revoked grant stays revoked through every later request.
\<close>

section \<open>A ticket that verifies\<close>

definition token_accepted :: "'w TicketVerifier \<Rightarrow> JwtToken \<Rightarrow> string \<Rightarrow> bool" where
  "token_accepted v token key \<longleftrightarrow> tk_alg token = ''EdDSA'' \<and> tk_header token ''typ'' = Some (HStr ''service_ticket'') \<and>
     (\<exists>kid resolve. tk_header token ''kid'' = Some (HStr kid) \<and> kid \<noteq> [] \<and> tv_resolver v = Some resolve \<and> resolve kid = Inr key)"

lemma verified_authentic:
  assumes "jwt_law decode sig_ok jwt" and "VerifyContext E jwt v ctx raw aud w = (Inr claims, w')"
  shows "\<exists>token c key. decode raw = Some (token, c) \<and> token_accepted v token key \<and> sig_ok raw key \<and>
    aud \<in> set (jc_AudienceList c) \<and> jc_Issuer c = tv_issuer v \<and>
    (\<exists>exp. jc_ExpiresAt c = Some exp \<and> clock E (ticks w) < exp) \<and>
    jc_ActorType c \<noteq> [] \<and> jc_ActorID c \<noteq> [] \<and> jc_OwnerUserID c \<noteq> 0 \<and> jc_Platform c \<noteq> [] \<and>
    jc_BindingID c \<noteq> 0 \<and> (jc_PlatformAccountRefID c = 0 \<or> jc_PlatformAccountRefID c = jc_BindingID c) \<and>
    claims = claims_of c aud"
  using assms(2)
proof (rule VerifyContext_okE)
  fix c
  assume p: "jwt raw (verifier_keyfunc v) aud (tv_issuer v) (clock E (ticks w)) = Inr (c, True)"
    and c: "check_claims c = Inr ()" "claims = claims_of c aud"
  from p assms(1) obtain token key where "decode raw = Some (token, c)" "verifier_keyfunc v token = Inr key" "sig_ok raw key"
    "aud \<in> set (jc_AudienceList c)" "jc_Issuer c = tv_issuer v" "\<exists>exp. jc_ExpiresAt c = Some exp \<and> clock E (ticks w) < exp"
    unfolding jwt_law_def by blast
  then show ?thesis using c by (auto simp: verifier_keyfunc_ok token_accepted_def check_claims_ok)
qed

text \<open>C4: A verified ticket is authentic and complete. If VerifyContext accepts a ticket, then it is an
  EdDSA token of type service_ticket with a kid that the verifier's resolver has a key for, its
  signature verifies under that key, it was issued by the configured issuer for the expected audience
  and has not expired at the time of the check, and the claims handed on name an actor, an owner, a
  platform and a non-zero binding, which is also the one the platform account reference names.\<close>

theorem verified_ticket_is_authentic:
  assumes "jwt_law decode sig_ok jwt" and "VerifyContext E jwt v ctx raw aud w = (Inr claims, w')"
  shows "\<exists>token c key. decode raw = Some (token, c) \<and> token_accepted v token key \<and> sig_ok raw key \<and>
    aud \<in> set (jc_AudienceList c) \<and> jc_Issuer c = tv_issuer v \<and>
    (\<exists>exp. jc_ExpiresAt c = Some exp \<and> clock E (ticks w) < exp) \<and>
    jc_ActorType c \<noteq> [] \<and> jc_ActorID c \<noteq> [] \<and> jc_OwnerUserID c \<noteq> 0 \<and> jc_Platform c \<noteq> [] \<and>
    jc_BindingID c \<noteq> 0 \<and> (jc_PlatformAccountRefID c = 0 \<or> jc_PlatformAccountRefID c = jc_BindingID c) \<and>
    claims = claims_of c aud"
  using assms by (rule verified_authentic)

theorem verified_ticket_is_authentic_witness:
  "\<exists>claims w' token c key. VerifyContext (sample_env MySQL) sample_jwt (pr_verifier (sample_process MySQL)) Background ''2''
       serviceTicketAudience sample_world = (Inr claims, w') \<and>
     sample_decode ''2'' = Some (token, c) \<and> token_accepted (pr_verifier (sample_process MySQL)) token key \<and> tc_BindingID claims = 2"
proof -
  have "parse_uint ''2'' = Inr 2" by code_simp
  then obtain claims w' where run: "VerifyContext (sample_env MySQL) sample_jwt (pr_verifier (sample_process MySQL)) Background ''2''
      serviceTicketAudience sample_world = (Inr claims, w')"
    by (simp add: VerifyContext_def time_now_def bind_io_apply then_io_apply sample_jwt_def sample_decode_def sample_jwt_claims_def
        sample_process_def NewStaticKeyTicketVerifier_def NewTicketVerifierWithResolver_def verifier_keyfunc_def sample_token_def
        StaticPublicKeyResolver_Resolve_def NewStaticPublicKeyResolver_def check_claims_def check_consumer_grant_def
        sample_world_def)
  from run have "fst (VerifyContext (sample_env MySQL) sample_jwt (pr_verifier (sample_process MySQL)) Background ''2''
      serviceTicketAudience sample_world) = Inr claims" by simp
  from sample_verifies[OF this] have "tc_BindingID claims = 2" using \<open>parse_uint ''2'' = Inr 2\<close> by simp
  with verified_ticket_is_authentic[OF sample_jwt_law run] run show ?thesis by blast
qed

section \<open>Revocation\<close>

text \<open>The minimum of a consumer depends on the rows of that consumer only.\<close>

lemma minimum_of_same:
  assumes "table_ok invalidation_keys t" "table_ok invalidation_keys t'"
    and same: "\<And>x. gi_BindingID (snd x) = b \<Longrightarrow> gi_Consumer (snd x) = c \<Longrightarrow> x \<in> set (tb_rows t') \<longleftrightarrow> x \<in> set (tb_rows t)"
  shows "minimum_of t' b c = minimum_of t b c"
proof (cases "\<exists>x \<in> set (tb_rows t). gi_BindingID (snd x) = b \<and> gi_Consumer (snd x) = c")
  case True
  then obtain x where x: "x \<in> set (tb_rows t)" "gi_BindingID (snd x) = b" "gi_Consumer (snd x) = c" by blast
  then show ?thesis using minimum_of_row[OF assms(1) x(1)] minimum_of_row[OF assms(2), of x] same[OF x(2,3)] by simp
next
  case False
  then have "minimum_of t b c = 0" "minimum_of t' b c = 0" using same by (auto intro!: minimum_of_none)
  then show ?thesis by simp
qed

lemma upsert_minimum:
  assumes ok: "table_ok invalidation_keys t" and ups: "sql_upsert k d invalidation_keys target upd r t = Inr t'"
    and target: "target = ''uk_consumer_grant_invalidations_binding_consumer''"
    and upd: "\<And>old. gi_BindingID (upd r old) = gi_BindingID old \<and> gi_Consumer (upd r old) = gi_Consumer old \<and>
      gi_MinimumGrantVersion (upd r old) = max (gi_MinimumGrantVersion old) (gi_MinimumGrantVersion r)"
  shows "minimum_of t' b c = (if b = gi_BindingID r \<and> c = gi_Consumer r
    then max (minimum_of t b c) (gi_MinimumGrantVersion r) else minimum_of t b c)"
proof -
  have ok': "table_ok invalidation_keys t'" by (rule table_ok_upsert[OF ok _ ups]) simp
  have conf: "conflicting d invalidation_keys target r old \<longleftrightarrow> gi_BindingID r = gi_BindingID old \<and> gi_Consumer r = gi_Consumer old" for old
    by (cases d) (simp_all add: conflicting_def target clashes_def invalidation_keys_def)
  show ?thesis
    using ups
  proof (cases rule: sql_upsert_cases)
    case insert
    note rows = sql_insert_rows(1)[OF insert(2)]
    have "minimum_of t (gi_BindingID r) (gi_Consumer r) = 0"
      using insert(1) by (intro minimum_of_none) (auto simp: conf)
    moreover have "minimum_of t' (gi_BindingID r) (gi_Consumer r) = gi_MinimumGrantVersion r"
      using minimum_of_row[OF ok', of "(of_nat (tb_next t), r)"] by (simp add: rows)
    moreover have "minimum_of t' b c = minimum_of t b c" if "\<not> (b = gi_BindingID r \<and> c = gi_Consumer r)"
      by (rule minimum_of_same[OF ok ok']) (use that in \<open>auto simp: rows\<close>)
    ultimately show ?thesis by auto
  next
    case (update y n)
    note rows = sql_update_rows(1)[OF update(3)]
    have y: "gi_BindingID (snd y) = gi_BindingID r" "gi_Consumer (snd y) = gi_Consumer r" using update(2) by (auto simp: conf)
    have "(fst y, upd r (snd y)) \<in> set (tb_rows t')" using update_result[OF update(3,1)] by simp
    then have "minimum_of t' (gi_BindingID r) (gi_Consumer r) = max (minimum_of t (gi_BindingID r) (gi_Consumer r)) (gi_MinimumGrantVersion r)"
      using minimum_of_row[OF ok', of "(fst y, upd r (snd y))"] minimum_of_row[OF ok update(1)] upd[of "snd y"] y by simp
    moreover have "minimum_of t' b c = minimum_of t b c" if other: "\<not> (b = gi_BindingID r \<and> c = gi_Consumer r)"
    proof (rule minimum_of_same[OF ok ok'])
      fix x :: "u64 \<times> ConsumerGrantInvalidation"
      assume x: "gi_BindingID (snd x) = b" "gi_Consumer (snd x) = c"
      have id: "z = y" if "z \<in> set (tb_rows t)" "fst z = fst y" for z
        using ids_ok_inj[of t z y] ok that update(1) by (simp add: table_ok_def)
      have "x \<in> set (tb_rows t')" if "x \<in> set (tb_rows t)"
        using update_result[OF update(3) that] id[OF that] x y other by (auto split: if_splits)
      moreover have "x \<in> set (tb_rows t)" if "x \<in> set (tb_rows t')"
        using that x y other upd id by (fastforce simp: rows split: if_splits)
      ultimately show "x \<in> set (tb_rows t') \<longleftrightarrow> x \<in> set (tb_rows t)" by blast
    qed
    ultimately show ?thesis by auto
  qed
qed

text \<open>The abstract grant store: a map from binding and consumer to the least version, and raising it.\<close>

definition raise_minimum :: "u64 \<Rightarrow> string \<Rightarrow> u64 \<Rightarrow> (u64 \<Rightarrow> string \<Rightarrow> u64) \<Rightarrow> u64 \<Rightarrow> string \<Rightarrow> u64" where
  "raise_minimum bindingID consumer v m = (\<lambda>b c. if b = bindingID \<and> c = consumer then max (m b c) v else m b c)"

lemma grant_upsert_outcomes:
  assumes ok: "database_ok (w_db w)" and run: "GrantInvalidationRepo_Upsert E ctx b c v w = (r, w')"
  shows "(\<exists>e. r = Inl e) \<and> w_db w' = w_db w \<or>
    recorded_minimum (w_db w') = raise_minimum b c v (recorded_minimum (w_db w)) \<and>
    w_db w' = (w_db w)\<lparr> db_invalidations := db_invalidations (w_db w') \<rparr> \<and>
    (r = Inr () \<or> (\<exists>n e. r = Inl e \<and> fault E n = Some (FailAfter e)))"
proof -
  let ?row = "\<lparr> gi_BindingID = b, gi_Consumer = c, gi_MinimumGrantVersion = v, gi_InvalidatedAt = clock E (ticks w) \<rparr>"
  let ?upd = "\<lambda>new old. old\<lparr> gi_MinimumGrantVersion := (if gi_MinimumGrantVersion old > v then gi_MinimumGrantVersion old else v),
    gi_InvalidatedAt := clock E (ticks w) \<rparr>"
  let ?ups = "sql_upsert (pick E (Suc (ticks w))) (dialect E) invalidation_keys
    ''uk_consumer_grant_invalidations_binding_consumer'' ?upd ?row (db_invalidations (w_db w))"
  have raised: "minimum_of t' = raise_minimum b c v (recorded_minimum (w_db w))" if "?ups = Inr t'" for t'
  proof (intro ext)
    fix b' c'
    have "table_ok invalidation_keys (db_invalidations (w_db w))" using ok by (simp add: database_ok_def)
    have "gi_BindingID (?upd ?row old) = gi_BindingID old \<and> gi_Consumer (?upd ?row old) = gi_Consumer old \<and>
        gi_MinimumGrantVersion (?upd ?row old) = max (gi_MinimumGrantVersion old) (gi_MinimumGrantVersion ?row)" for old
      by (auto simp: max_def)
    from upsert_minimum[OF \<open>table_ok _ _\<close> that refl this, of b' c'] show "minimum_of t' b' c' = raise_minimum b c v (recorded_minimum (w_db w)) b' c'"
      by (simp add: raise_minimum_def)
  qed
  show ?thesis
    using run raised
    by (auto simp: GrantInvalidationRepo_Upsert_def time_now_def bind_io_apply Let_def sql_exec_def interact_def db_view_def
        put_view_def on_invalidations_def map_sum_def split: option.splits fault.splits sum.splits)
qed

text \<open>C11: The grant store refines a map that only goes up. Whatever fails, Upsert either reports an error
  and changes nothing, or raises the minimum of its binding and consumer to the given version if that
  is higher, and changes the minimum of no other pair and no other table.\<close>

theorem grant_upsert_refines_raise:
  assumes "database_ok (w_db w)" and "GrantInvalidationRepo_Upsert E ctx b c v w = (r, w')"
  shows "(\<exists>e. r = Inl e) \<and> w_db w' = w_db w \<or>
    recorded_minimum (w_db w') = raise_minimum b c v (recorded_minimum (w_db w)) \<and>
    w_db w' = (w_db w)\<lparr> db_invalidations := db_invalidations (w_db w') \<rparr> \<and>
    (r = Inr () \<or> (\<exists>n e. r = Inl e \<and> fault E n = Some (FailAfter e)))"
  using assms by (rule grant_upsert_outcomes)

lemma sample_world_ok [simp]: "database_ok (w_db sample_world)"
  using sample_world_good by (simp add: good_world_def)

theorem grant_upsert_refines_raise_witness:
  "\<exists>r w'. GrantInvalidationRepo_Upsert (sample_env SQLite) Background 2 ''bot'' 5 sample_world = (r, w') \<and>
     (w_db w' = w_db sample_world \<or>
      recorded_minimum (w_db w') = raise_minimum 2 ''bot'' 5 (recorded_minimum (w_db sample_world)))"
proof -
  obtain r w' where run: "GrantInvalidationRepo_Upsert (sample_env SQLite) Background 2 ''bot'' 5 sample_world = (r, w')" by fastforce
  from grant_upsert_refines_raise[OF sample_world_ok run] run show ?thesis by blast
qed

section \<open>What comes after an invalidation\<close>

inductive evolves :: "world \<Rightarrow> world \<Rightarrow> bool" for w where
  stays: "evolves w w"
| request: "evolves w v \<Longrightarrow> client_inert (pr_client P) \<Longrightarrow> evolves w (snd (serve P req v))"
| time: "evolves w v \<Longrightarrow> evolves w (v\<lparr> ticks := n \<rparr>)"
| cache: "evolves w v \<Longrightarrow> evolves w (v\<lparr> w_redis := c \<rparr>)"

lemma serve_grants_kept:
  assumes "client_inert (pr_client P)" "good_world w"
  shows "grants_kept (db_invalidations (w_db w)) (db_invalidations (w_db (snd (serve P req w))))"
proof -
  have "service_scope (\<lambda>_. True) (\<lambda>b k. key_binding k = Some b) (\<lambda>_ _. True)
      (pr_env P) (pr_client P) (pr_jwt P) (main_verifier P) (\<lambda>_. True)"
    using assms by (intro service_scope_main) auto
  from serve_scope(2)[OF this, of req w] show ?thesis
    using assms(2) by (simp add: world_scope_def world_frame_def keys_match_scope good_world_def frame_def)
qed

lemma evolves_good:
  assumes "evolves w v" "good_world w"
  shows "good_world v \<and> grants_kept (db_invalidations (w_db w)) (db_invalidations (w_db v))"
  using assms
proof induction
  case (request v P req)
  then show ?case
    using serve_grants_kept[of P v req] serve_well_formed[of P v req] grants_kept_trans by (auto simp: good_world_def)
qed (auto simp: good_world_def)

text \<open>\<open>gorm.ErrRecordNotFound\<close> is gorm's own: no failure of a server is that value.\<close>

definition driver_faults :: "env \<Rightarrow> bool" where
  "driver_faults E \<longleftrightarrow> (\<forall>n. fault E n \<notin> {Some (FailBefore ErrRecordNotFound), Some (FailAfter ErrRecordNotFound)})"

lemma minimum_version_reads:
  assumes "driver_faults E" "GrantInvalidationRepo_MinimumVersion E ctx b c w = (Inr m, w')"
  shows "m = recorded_minimum (w_db w) b c"
proof -
  let ?q = "gorm_first E Background db_invalidations (\<lambda>r. gi_BindingID r = b \<and> gi_Consumer r = c)"
  obtain q w1 where q: "?q w = (q, w1)" by fastforce
  have "fault E (ticks w) \<notin> {Some (FailBefore ErrRecordNotFound), Some (FailAfter ErrRecordNotFound)}"
    using assms(1) by (simp add: driver_faults_def)
  then show ?thesis
    using assms(2) q
    by (auto simp: GrantInvalidationRepo_MinimumVersion_def bind_io_apply attempt_apply gorm_first_def interact_def Let_def
        db_view_def minimum_of_def split: option.splits fault.splits sum.splits if_splits)
qed

lemma consumer_ticket_version:
  assumes "driver_faults (pr_env P)"
    and run: "VerifyContext (pr_env P) jwt (main_verifier P) ctx raw aud w = (Inr claims, w')"
    and "tc_ActorType claims = ''consumer''"
  shows "recorded_minimum (w_db w) (tc_BindingID claims) (tc_Consumer claims) \<le> tc_GrantVersion claims"
  using run
proof (rule VerifyContext_okE)
  fix c
  assume g: "check_consumer_grant (main_verifier P) ctx c (next_tick w) = (Inr (), w')" and c: "claims = claims_of c aud"
  have "jc_ActorType c = ''consumer''" using assms(3) c by (simp add: claims_of_def)
  with g obtain m w1 where "GrantInvalidationRepo_MinimumVersion (pr_env P) ctx (jc_BindingID c) (jc_Consumer c) (next_tick w) = (Inr m, w1)"
    "\<not> (m > 0 \<and> jc_GrantVersion c < m)"
    by (auto simp: check_consumer_grant_def main_verifier_def WithGrantVersionLookup_def split: if_splits elim!: bind_io_okE)
  with minimum_version_reads[OF assms(1)] show ?thesis
    using c by (fastforce simp: claims_of_def word_gt_0 not_less)
qed

lemma invalidation_records:
  assumes good: "good_world w" and inert: "client_inert (pr_client P)"
    and run: "serve P (Platform_Invalidate (Some req)) w = (Inr (), w')"
  shows "icr_MinimumGrantVersion req \<le> recorded_minimum (w_db w') (icr_BindingId req) (icr_Consumer req)"
proof -
  let ?E = "pr_env P"
  have "service_scope (\<lambda>_. True) (\<lambda>b k. key_binding k = Some b) (\<lambda>_ _. True)
      ?E (pr_client P) (pr_jwt P) (main_verifier P) (\<lambda>_. True)"
    using inert by (intro service_scope_main) auto
  note store = service_scope.verify_store[OF this]
  from run obtain x where "Generic_InvalidateConsumerGrant ?E (pr_jwt P) (main_generic P) Background (Some req) w = (Inr x, w')"
    by (auto simp: answered_def elim!: bind_io_okE)
  then obtain claims w1 w2 u where
    v: "verifyServiceTicket ?E (pr_jwt P) (main_verifier P) Background (icr_ServiceTicket req) w = (Inr claims, w1)"
    and up: "GrantInvalidationRepo_Upsert ?E Background (icr_BindingId req) (icr_Consumer req) (icr_MinimumGrantVersion req) w1 = (Inr u, w')"
    by (auto simp: Generic_InvalidateConsumerGrant_def main_generic_def wired_services split: if_splits
        elim!: bind_io_okE then_io_okE dest!: map_error_okE)
  have "same_store w w1"
    using leaves_storeD[OF store map_error_okE[OF v[unfolded verifyServiceTicket_def]]] .
  then have "database_ok (w_db w1)" using good by (simp add: same_store_def good_world_def)
  from grant_upsert_outcomes[OF this up] show ?thesis by (auto simp: raise_minimum_def)
qed

text \<open>C5: Revocation is permanent. Once an InvalidateConsumerGrant request for a binding, a consumer and a
  version has been answered with success, no later ticket of that consumer for that binding with a
  lower grant version verifies, in any process wired to the database and in any world that any further
  requests, the passing of time and changes of the cache lead to.\<close>

theorem revocation_is_permanent:
  assumes "good_world w" and "client_inert (pr_client P0)"
    and "serve P0 (Platform_Invalidate (Some req)) w = (Inr (), w1)" and "evolves w1 w2"
    and "driver_faults (pr_env P)"
    and "VerifyContext (pr_env P) (pr_jwt P) (main_verifier P) ctx raw aud w2 = (Inr claims, w3)"
    and "tc_ActorType claims = ''consumer''" and "tc_BindingID claims = icr_BindingId req"
    and "tc_Consumer claims = icr_Consumer req"
  shows "icr_MinimumGrantVersion req \<le> tc_GrantVersion claims"
proof -
  have "icr_MinimumGrantVersion req \<le> recorded_minimum (w_db w1) (icr_BindingId req) (icr_Consumer req)"
    by (rule invalidation_records[OF assms(1-3)])
  also have "good_world w1"
    using serve_well_formed[of P0 w "Platform_Invalidate (Some req)"] assms(1-3) by (simp add: good_world_def)
  then have "recorded_minimum (w_db w1) (icr_BindingId req) (icr_Consumer req) \<le> recorded_minimum (w_db w2) (icr_BindingId req) (icr_Consumer req)"
    using evolves_good[OF assms(4)] by (simp add: grants_kept_def)
  also have "... \<le> tc_GrantVersion claims"
    using consumer_ticket_version[OF assms(5,6,7)] assms(8,9) by simp
  finally show ?thesis .
qed

section \<open>At a concrete world\<close>

lemma sample_verify:
  assumes "parse_uint raw = Inr b" "b \<noteq> 0" "ticks w < 1000000"
  shows "VerifyContext (sample_env d) sample_jwt (main_verifier (sample_process d)) ctx raw serviceTicketAudience w =
    (Inr (claims_of (sample_jwt_claims b) serviceTicketAudience), next_tick w)"
  using assms
  by (simp add: VerifyContext_def time_now_def bind_io_apply then_io_apply sample_jwt_def sample_decode_def sample_jwt_claims_def
        sample_process_def NewStaticKeyTicketVerifier_def NewTicketVerifierWithResolver_def verifier_keyfunc_def sample_token_def
        StaticPublicKeyResolver_Resolve_def NewStaticPublicKeyResolver_def check_claims_def check_consumer_grant_def
        main_verifier_def WithGrantVersionLookup_def)

definition sample_invalidation :: InvalidateConsumerGrantRequest where
  "sample_invalidation = \<lparr> icr_ServiceTicket = ''2'', icr_BindingId = 2, icr_Consumer = ''bot'', icr_MinimumGrantVersion = 5 \<rparr>"

lemma parse_two [simp]: "parse_uint ''2'' = Inr 2"
  by code_simp


definition sample_scope :: "u64 \<Rightarrow> ScopeGuard" where
  "sample_scope b = \<lparr> sg_AllowedActions = set (dpr_SupportedActions Generic_DescribePlatform), sg_BindingID = b, sg_ProfileID = 0 \<rparr>"

lemma sample_claims [simp]:
  "tc_ActorType (claims_of (sample_jwt_claims b) aud) = ''user''" "tc_BindingID (claims_of (sample_jwt_claims b) aud) = b"
  by (simp_all add: claims_of_def sample_jwt_claims_def)

lemma sample_scoped:
  "set as \<subseteq> set (dpr_SupportedActions Generic_DescribePlatform) \<Longrightarrow>
    scopedGuard (claims_of (sample_jwt_claims b) aud) as = Inr (sample_scope b)"
  by (simp add: scopedGuard_ok sample_scope_def claims_of_def sample_jwt_claims_def)


lemma first_invalidation:
  assumes "healthy E" "tb_rows (db_invalidations (w_db w)) = []" "tb_next (db_invalidations (w_db w)) = 1" "varchar_fits 64 c"
  shows "\<exists>w'. GrantInvalidationRepo_Upsert E ctx b c v w = (Inr (), w') \<and> ticks w' = Suc (Suc (ticks w))"
  using assms
  by (simp add: row_checked_fits fits_def row_fits invalidation_columns_def column_fits GrantInvalidationRepo_Upsert_def time_now_def bind_io_apply Let_def sql_exec_def interact_def healthy_def
      on_invalidations_def db_view_def upsert_fresh put_view_def)


lemma minimum_version_returns:
  assumes "healthy E"
  shows "GrantInvalidationRepo_MinimumVersion E ctx b c w = (Inr (recorded_minimum (w_db w) b c), next_tick w)"
  using assms
  by (auto simp: GrantInvalidationRepo_MinimumVersion_def bind_io_apply attempt_apply gorm_first_def interact_def Let_def
      healthy_def db_view_def minimum_of_def split: option.split)

lemma sample_invalidated:
  "\<exists>w1. serve (sample_process MySQL) (Platform_Invalidate (Some sample_invalidation)) sample_world = (Inr (), w1) \<and>
     ticks w1 = 3 \<and> recorded_minimum (w_db w1) 2 ''bot'' = 5"
proof -
  have g: "scopedGuard (claims_of (sample_jwt_claims 2) aud) [consumerGrantInvalidateScope] = Inr (sample_scope 2)" for aud
    by (rule sample_scoped) (simp add: Generic_DescribePlatform_def)
  have wide: "RequireBindingWide (sample_scope 2) = Inr ()" by (simp add: sample_scope_def)
  obtain w1 where up: "GrantInvalidationRepo_Upsert (sample_env MySQL) Background 2 ''bot'' 5 (next_tick sample_world) = (Inr (), w1)"
    and n: "ticks w1 = 3"
    using first_invalidation[of "sample_env MySQL" "next_tick sample_world" "''bot''" Background 2 5]
    by (auto simp: sample_world_def empty_database_def empty_table_def ascii_fits byte_code_def)
  have "recorded_minimum (w_db sample_world) 2 ''bot'' = 0"
    by (rule minimum_of_none) (simp add: sample_world_def empty_database_def empty_table_def)
  with grant_upsert_outcomes[OF _ up] have "recorded_minimum (w_db w1) 2 ''bot'' = 5"
    by (auto simp: raise_minimum_def)
  moreover have "ticks sample_world = 0" by (simp add: sample_world_def)
  ultimately show ?thesis
    using up n by (simp add: answered_def bind_io_apply then_io_apply Generic_InvalidateConsumerGrant_def main_generic_def wired_services
      verifyServiceTicket_def map_error_apply sample_verify sample_invalidation_def g wide)
qed

text \<open>A parser whose tickets are those of the consumer \<open>bot\<close> with grant version 9.\<close>

definition consumer_jwt :: jwt_parser where
  "consumer_jwt raw keyfunc aud iss now = map_sum id (\<lambda>(c, valid).
     (c\<lparr> jc_ActorType := ''consumer'', jc_Consumer := ''bot'', jc_GrantVersion := 9 \<rparr>, valid)) (sample_jwt raw keyfunc aud iss now)"

definition consumer_process :: process where
  "consumer_process = (sample_process MySQL)\<lparr> pr_jwt := consumer_jwt \<rparr>"

theorem revocation_is_permanent_witness:
  "\<exists>w1 claims w3. serve (sample_process MySQL) (Platform_Invalidate (Some sample_invalidation)) sample_world = (Inr (), w1) \<and>
     VerifyContext (pr_env consumer_process) consumer_jwt (main_verifier consumer_process) Background ''2''
       serviceTicketAudience (w1\<lparr> ticks := 50 \<rparr>) = (Inr claims, w3) \<and>
     5 \<le> tc_GrantVersion claims"
proof -
  obtain w1 where served: "serve (sample_process MySQL) (Platform_Invalidate (Some sample_invalidation)) sample_world = (Inr (), w1)"
    and m: "recorded_minimum (w_db w1) 2 ''bot'' = 5" using sample_invalidated by blast
  let ?w2 = "w1\<lparr> ticks := 50 \<rparr>"
  have later: "evolves w1 ?w2" by (intro evolves.intros)
  obtain claims w3 where run: "VerifyContext (pr_env consumer_process) (pr_jwt consumer_process) (main_verifier consumer_process)
      Background ''2'' serviceTicketAudience ?w2 = (Inr claims, w3)"
    "tc_ActorType claims = ''consumer''" "tc_BindingID claims = 2" "tc_Consumer claims = ''bot''"
    by (simp add: VerifyContext_def time_now_def bind_io_apply then_io_apply consumer_process_def consumer_jwt_def sample_jwt_def
        sample_decode_def sample_jwt_claims_def sample_process_def NewStaticKeyTicketVerifier_def NewTicketVerifierWithResolver_def
        verifier_keyfunc_def sample_token_def StaticPublicKeyResolver_Resolve_def NewStaticPublicKeyResolver_def check_claims_def
        check_consumer_grant_def main_verifier_def WithGrantVersionLookup_def minimum_version_returns m claims_of_def)
  have "driver_faults (pr_env consumer_process)" by (simp add: driver_faults_def consumer_process_def)
  from revocation_is_permanent[OF sample_world_good _ served later this run(1,2)] run(3,4)
  have "5 \<le> tc_GrantVersion claims" by (simp add: sample_invalidation_def)
  then show ?thesis using served run(1) by (auto simp: consumer_process_def)
qed

end
