(* ===== verification/GrpcServer.thy ===== *)
theory GrpcServer
  imports Bootstrap
begin

text \<open>
  \<open>internal/server/grpc.go\<close> and the start-up sequence of \<open>cmd/platform-mihomo-service/main.go\<close>. The
  kratos and gRPC libraries are parameters: \<open>preset\<close> is what the library's \<open>NewServer\<close> registers by
  itself, \<open>provides_info\<close> whether the server lists its services. Loading the configuration file, opening
  the database and running the application are I/O and are answers of the record \<open>startup\<close>.
\<close>

section \<open>The server\<close>

datatype registration =
    HealthServer bool
  | AccountService "(world, BindCredentialOutput option) MihomoAccountService"
  | CredentialService "world MihomoCredentialService"
  | PlatformService "(world, BindCredentialOutput option) GenericPlatformService"

record GrpcServer =
  gv_Network :: string
  gv_Address :: string
  gv_Timeout :: i64
  gv_Recovery :: bool
  gv_Services :: "registration list"

definition register :: "registration \<Rightarrow> GrpcServer \<Rightarrow> GrpcServer" where
  "register s srv = srv\<lparr> gv_Services := gv_Services srv @ [s] \<rparr>"

fun is_health :: "registration \<Rightarrow> bool" where
  "is_health (HealthServer serving) = True"
| "is_health _ = False"

definition registerHealthServer :: "bool \<Rightarrow> GrpcServer \<Rightarrow> GrpcServer" where
  "registerHealthServer provides_info srv =
     (if provides_info \<and> list_ex is_health (gv_Services srv) then srv
      else register (HealthServer True) srv)"

text \<open>\<open>time.Duration(seconds) * time.Second\<close>, a product of \<open>int64\<close>s.\<close>

definition timeout_duration :: "i32 \<Rightarrow> i64" where
  "timeout_duration seconds = signed seconds * 1000000000"

definition register_some :: "('s \<Rightarrow> registration) \<Rightarrow> 's option \<Rightarrow> GrpcServer \<Rightarrow> GrpcServer" where
  "register_some f s srv = (case s of Some svc \<Rightarrow> register (f svc) srv | None \<Rightarrow> srv)"

definition NewGRPCServer :: "registration list \<Rightarrow> bool \<Rightarrow> Bootstrap \<Rightarrow>
    (world, BindCredentialOutput option) MihomoAccountService option \<Rightarrow> world MihomoCredentialService option \<Rightarrow>
    (world, BindCredentialOutput option) GenericPlatformService option \<Rightarrow> GrpcServer" where
  "NewGRPCServer preset provides_info bc mihomoSvc sharedSvc genericSvc =
     (let grpcConf = GetGrpc (bs_Server bc);
          srv0 = \<lparr> gv_Network = GetNetwork grpcConf, gv_Address = GetAddr grpcConf,
                   gv_Timeout = timeout_duration (GetTimeoutSeconds grpcConf), gv_Recovery = True,
                   gv_Services = preset \<rparr>;
          srv1 = registerHealthServer provides_info srv0;
          srv2 = register_some AccountService mihomoSvc srv1;
          srv3 = register_some CredentialService sharedSvc srv2
      in register_some PlatformService genericSvc srv3)"

section \<open>Start-up\<close>

record startup =
  sp_Load :: "error option"
  sp_Scan :: "error + Bootstrap"
  sp_OpenDatabase :: "string \<Rightarrow> error option"
  sp_pem_decode :: "string \<Rightarrow> string option"
  sp_parse_pkix :: "string \<Rightarrow> error + public_key"
  sp_preset :: "registration list"
  sp_provides_info :: bool

definition GetSource :: "Data option \<Rightarrow> string" where
  "GetSource x = (case x of None \<Rightarrow> [] | Some d \<Rightarrow> (case ca_Database d of None \<Rightarrow> [] | Some b \<Rightarrow> cb_Source b))"

text \<open>\<open>main\<close> up to \<open>app.Run\<close>: the server it runs, or the error it exits with.\<close>

definition main_server :: "env \<Rightarrow> startup \<Rightarrow> error + GrpcServer" where
  "main_server E S = (case sp_Load S of
      Some err \<Rightarrow> Inl err
    | None \<Rightarrow> (case sp_Scan S of
          Inl err \<Rightarrow> Inl err
        | Inr bc \<Rightarrow> (case validateBootstrap (sp_pem_decode S) (sp_parse_pkix S) bc of
              Inl err \<Rightarrow> Inl err
            | Inr _ \<Rightarrow> (case sp_OpenDatabase S (GetSource (bs_Data bc)) of
                  Some err \<Rightarrow> Inl err
                | None \<Rightarrow> (let client = UnconfiguredClient in
                    case wired_verifier E (sp_pem_decode S) (sp_parse_pkix S) bc of
                      Inl err \<Rightarrow> Inl err
                    | Inr ticketVerifier \<Rightarrow>
                        Inr (NewGRPCServer (sp_preset S) (sp_provides_info S) bc
                          (Some (wired_account E bc client ticketVerifier))
                          (Some (wired_credential E bc client ticketVerifier))
                          (Some (wired_generic E bc client ticketVerifier))))))))"

end
