(* ===== verification/Startup.thy ===== *)
theory Startup
  imports Grants GrpcServer
begin

text \<open>
  What a process that has started is like: its configuration is valid, its server offers each service
  once, and the tickets it accepts are signed with the configured key.
\<close>

text \<open>The timeout of any \<open>int32\<close> number of seconds fits \<open>int64\<close> nanoseconds.\<close>

lemma timeout_exact: "sint (timeout_duration t) = sint t * 1000000000"
proof -
  have "- (2 ^ 31) \<le> sint t" "sint t < 2 ^ 31"
    using sint_ge[of t] sint_lt[of t] by simp_all
  then have "- (2 ^ 63) \<le> sint t * 1000000000" "sint t * 1000000000 < 2 ^ 63" by simp_all
  moreover have "timeout_duration t = word_of_int (sint t * 1000000000)"
    by (simp add: timeout_duration_def)
  ultimately show ?thesis by (simp only: sint_sbintrunc') (simp add: signed_take_bit_int_eq_self)
qed

lemma ed25519_key: "ParseEd25519PublicKeyPEM pem pkix text = Inr key \<Longrightarrow> length key = 32"
  by (auto simp: ParseEd25519PublicKeyPEM_def split: option.splits sum.splits public_key.splits if_splits)

definition configured :: "startup \<Rightarrow> Bootstrap \<Rightarrow> string \<Rightarrow> bool" where
  "configured S bc key \<longleftrightarrow> sp_Scan S = Inr bc \<and>
     ParseEd25519PublicKeyPEM (sp_pem_decode S) (sp_parse_pkix S) (GetServiceTicketPublicKeyPem (bs_Security bc)) = Inr key"

text \<open>The verifier that all three services share.\<close>

definition started_verifier :: "env \<Rightarrow> Bootstrap \<Rightarrow> string \<Rightarrow> world TicketVerifier" where
  "started_verifier E bc key = WithGrantVersionLookup
     (NewStaticKeyTicketVerifier (GetServiceTicketIssuer (bs_Security bc)) (GetServiceTicketKeyId (bs_Security bc)) key)
     (GrantInvalidationRepo_MinimumVersion E)"

lemma validate_ok:
  assumes "validateBootstrap pem pkix bc = Inr u"
  obtains key where "ParseEd25519PublicKeyPEM pem pkix (GetServiceTicketPublicKeyPem (bs_Security bc)) = Inr key"
    "0 < sint (GetTimeoutSeconds (GetGrpc (bs_Server bc)))" "length (GetCredentialEncryptionKey (bs_Security bc)) = 32"
    "GetServiceTicketKeyId (bs_Security bc) \<noteq> []" "GetServiceTicketIssuer (bs_Security bc) \<noteq> []"
    "GetNetwork (GetGrpc (bs_Server bc)) \<noteq> []" "GetAddr (GetGrpc (bs_Server bc)) \<noteq> []"
  using assms that by (auto simp: validateBootstrap_def Let_def split: if_splits sum.splits)

lemma validated_key: "validateBootstrap pem pkix bc = Inr u \<Longrightarrow>
    \<exists>key. ParseEd25519PublicKeyPEM pem pkix (GetServiceTicketPublicKeyPem (bs_Security bc)) = Inr key"
  by (elim validate_ok) blast

lemma main_server_ok:
  "main_server E S = Inr srv \<longleftrightarrow> sp_Load S = None \<and> (\<exists>bc key. configured S bc key \<and>
     validateBootstrap (sp_pem_decode S) (sp_parse_pkix S) bc = Inr () \<and> sp_OpenDatabase S (GetSource (bs_Data bc)) = None \<and>
     srv = NewGRPCServer (sp_preset S) (sp_provides_info S) bc
       (Some (wired_account E bc UnconfiguredClient (started_verifier E bc key)))
       (Some (wired_credential E bc UnconfiguredClient (started_verifier E bc key)))
       (Some (wired_generic E bc UnconfiguredClient (started_verifier E bc key))))"
  (is "?L \<longleftrightarrow> ?R")
proof
  assume ?L
  then show ?R
    by (auto simp: main_server_def configured_def wired_verifier_def newTicketVerifierFromSecurity_def started_verifier_def Let_def
        elim!: validate_ok split: option.splits sum.splits)
next
  assume ?R
  then show ?L
    by (auto simp: main_server_def configured_def wired_verifier_def newTicketVerifierFromSecurity_def started_verifier_def Let_def)
qed

lemma new_server_fields:
  "gv_Network (NewGRPCServer preset info bc a c g) = GetNetwork (GetGrpc (bs_Server bc))"
  "gv_Address (NewGRPCServer preset info bc a c g) = GetAddr (GetGrpc (bs_Server bc))"
  "gv_Timeout (NewGRPCServer preset info bc a c g) = timeout_duration (GetTimeoutSeconds (GetGrpc (bs_Server bc)))"
  "gv_Services (NewGRPCServer preset info bc (Some sa) (Some sc) (Some sg)) =
     preset @ (if info \<and> list_ex is_health preset then [] else [HealthServer True]) @
     [AccountService sa, CredentialService sc, PlatformService sg]"
  by (simp_all add: NewGRPCServer_def Let_def register_some_def register_def registerHealthServer_def split: option.split)


definition sample_startup :: startup where
  "sample_startup = \<lparr> sp_Load = None, sp_Scan = Inr sample_conf, sp_OpenDatabase = (\<lambda>_. None),
     sp_pem_decode = Some, sp_parse_pkix = (\<lambda>_. Inr (Ed25519Key (replicate 32 CHR ''p''))),
     sp_preset = [HealthServer True], sp_provides_info = True \<rparr>"

lemma sample_validates: "validateBootstrap (sp_pem_decode sample_startup) (sp_parse_pkix sample_startup) sample_conf = Inr ()"
  by (simp add: validateBootstrap_def conf_getters sample_conf_def sample_startup_def ParseEd25519PublicKeyPEM_def)


text \<open>C29: The services of a started process accept only tickets that are signed with the key of the
  configured PEM text, carry the configured key id and come from the configured issuer.\<close>

theorem started_service_trusts_configured_key:
  assumes "jwt_law decode sig_ok jwt" and "main_server E S = Inr srv" and "configured S bc key"
    and "AccountService svc \<in> set (gv_Services srv) \<and> v = ms_ticketVerifier svc \<or>
      CredentialService sc \<in> set (gv_Services srv) \<and> v = mc_ticketVerifier sc \<or>
      PlatformService sg \<in> set (gv_Services srv) \<and> v = gs_ticketVerifier sg"
    and "list_all is_health (sp_preset S)"
    and "VerifyContext E jwt v ctx raw aud w = (Inr claims, w')"
  shows "\<exists>token c. decode raw = Some (token, c) \<and> sig_ok raw key \<and> length key = 32 \<and>
    tk_header token ''kid'' = Some (HStr (GetServiceTicketKeyId (bs_Security bc))) \<and>
    jc_Issuer c = GetServiceTicketIssuer (bs_Security bc) \<and> claims = claims_of c aud"
proof -
  have key: "bc' = bc \<and> key' = key" if "configured S bc' key'" for bc' key'
    using that assms(3) by (simp add: configured_def)
  have "x \<notin> set (sp_preset S)" if "\<not> is_health x" for x
    using assms(5) that by (auto simp: list_all_iff)
  then have "AccountService svc \<notin> set (sp_preset S)" "CredentialService sc \<notin> set (sp_preset S)" "PlatformService sg \<notin> set (sp_preset S)"
    by simp_all
  moreover obtain bc' key' where "configured S bc' key'" and srv: "srv = NewGRPCServer (sp_preset S) (sp_provides_info S) bc'
       (Some (wired_account E bc' UnconfiguredClient (started_verifier E bc' key')))
       (Some (wired_credential E bc' UnconfiguredClient (started_verifier E bc' key')))
       (Some (wired_generic E bc' UnconfiguredClient (started_verifier E bc' key')))"
    using assms(2) unfolding main_server_ok by blast
  ultimately have "v = started_verifier E bc key"
    using assms(4) key
    by (auto simp: new_server_fields wired_account_def NewMihomoAccountService_def wired_credential_def
        NewMihomoCredentialService_def wired_generic_def NewGenericPlatformService_def split: if_splits)
  then obtain token c k where "decode raw = Some (token, c)" "token_accepted (started_verifier E bc key) token k" "sig_ok raw k"
    "jc_Issuer c = tv_issuer (started_verifier E bc key)" "claims = claims_of c aud"
    using verified_authentic[OF assms(1,6)] by metis
  then show ?thesis
    using ed25519_key assms(3)
    by (auto simp: token_accepted_def started_verifier_def WithGrantVersionLookup_def NewStaticKeyTicketVerifier_def
        NewTicketVerifierWithResolver_def StaticPublicKeyResolver_Resolve_def NewStaticPublicKeyResolver_def configured_def
        split: if_splits option.splits)
qed

text \<open>The ticket of binding 2 at the sample process.\<close>

lemma sample_configured: "configured sample_startup sample_conf (replicate 32 CHR ''p'')"
  by (simp add: configured_def sample_startup_def ParseEd25519PublicKeyPEM_def)

lemma sample_started:
  "\<exists>srv sc. main_server (sample_env MySQL) sample_startup = Inr srv \<and> CredentialService sc \<in> set (gv_Services srv) \<and>
     mc_ticketVerifier sc = started_verifier (sample_env MySQL) sample_conf (replicate 32 CHR ''p'')"
proof -
  let ?E = "sample_env MySQL" and ?v = "started_verifier (sample_env MySQL) sample_conf (replicate 32 CHR ''p'')"
  let ?srv = "NewGRPCServer (sp_preset sample_startup) (sp_provides_info sample_startup) sample_conf
    (Some (wired_account ?E sample_conf UnconfiguredClient ?v)) (Some (wired_credential ?E sample_conf UnconfiguredClient ?v))
    (Some (wired_generic ?E sample_conf UnconfiguredClient ?v))"
  have "sp_Load sample_startup = None" "sp_OpenDatabase sample_startup x = None" for x by (simp_all add: sample_startup_def)
  then have "main_server ?E sample_startup = Inr ?srv"
    using sample_validates sample_configured main_server_ok[of ?E sample_startup ?srv] by blast
  moreover have "CredentialService (wired_credential ?E sample_conf UnconfiguredClient ?v) \<in> set (gv_Services ?srv)"
    by (simp add: new_server_fields)
  moreover have "mc_ticketVerifier (wired_credential ?E sample_conf UnconfiguredClient ?v) = ?v"
    by (simp add: wired_credential_def NewMihomoCredentialService_def)
  ultimately show ?thesis by blast
qed

lemma sample_accepts:
  "\<exists>claims w'. VerifyContext (sample_env MySQL) sample_jwt (started_verifier (sample_env MySQL) sample_conf (replicate 32 CHR ''p''))
     Background ''2'' serviceTicketAudience sample_world = (Inr claims, w')"
proof -
  have "parse_uint ''2'' = Inr 2" by code_simp
  then show ?thesis
    by (simp add: VerifyContext_def time_now_def bind_io_apply then_io_apply sample_jwt_def sample_decode_def sample_jwt_claims_def
        started_verifier_def WithGrantVersionLookup_def conf_getters sample_conf_def
        NewStaticKeyTicketVerifier_def NewTicketVerifierWithResolver_def verifier_keyfunc_def sample_token_def
        StaticPublicKeyResolver_Resolve_def NewStaticPublicKeyResolver_def check_claims_def check_consumer_grant_def
        sample_world_def)
qed

theorem started_service_trusts_configured_key_witness:
  "\<exists>token c. sample_decode ''2'' = Some (token, c) \<and> tk_header token ''kid'' = Some (HStr ''k1'') \<and> jc_Issuer c = ''paigram''"
proof -
  obtain srv sc where s: "main_server (sample_env MySQL) sample_startup = Inr srv" "CredentialService sc \<in> set (gv_Services srv)"
    "mc_ticketVerifier sc = started_verifier (sample_env MySQL) sample_conf (replicate 32 CHR ''p'')"
    using sample_started by blast
  obtain claims w' where v: "VerifyContext (sample_env MySQL) sample_jwt (mc_ticketVerifier sc)
     Background ''2'' serviceTicketAudience sample_world = (Inr claims, w')"
    using sample_accepts s(3) by metis
  have "list_all is_health (sp_preset sample_startup)" by (simp add: sample_startup_def)
  from started_service_trusts_configured_key[OF sample_jwt_law s(1) sample_configured disjI2[OF disjI1[OF conjI[OF s(2) refl]]] this v]
  show ?thesis by (auto simp: sample_conf_def conf_getters)
qed

end
