(* ===== verification/Access.thy ===== *)
theory Access
  imports ReadOnly
begin

text \<open>
  Who may do what. For every request the actions, the account key and the breadth of ticket it needs;
  a request whose ticket does not verify or does not permit it is refused before anything is written.
\<close>

section \<open>What a request needs\<close>

fun required_actions :: "request \<Rightarrow> string list" where
  "required_actions (Account_Bind _) = [ActionCredentialBind]"
| "required_actions (Account_Status _) = [ActionStatusRead]"
| "required_actions (Account_Validate _) = [ActionStatusRead]"
| "required_actions (Account_Refresh _) = [ActionCredentialRefresh]"
| "required_actions (Account_ListProfiles _) = [ActionProfileRead]"
| "required_actions (Account_PrimaryProfile _) = [ActionProfileRead]"
| "required_actions (Account_AuthKey _) = [ActionAuthKeyIssue]"
| "required_actions (Account_Summary _) = [ActionCredentialRead]"
| "required_actions (Account_Update _) = [ActionCredentialUpdate]"
| "required_actions (Account_Delete _) = [ActionCredentialDelete]"
| "required_actions (Account_UpsertDevice _) = [ActionDeviceUpdate]"
| "required_actions (Account_Confirm _) = [ActionProfileWrite]"
| "required_actions (Shared_Summary _) = [ActionCredentialRead]"
| "required_actions (Platform_Summary _) = [ActionCredentialRead]"
| "required_actions (Platform_Put (Some r)) =
     [if pcr_PlatformAccountId r = [] then ActionCredentialBind else ActionCredentialUpdate]"
| "required_actions (Platform_Put None) = []"
| "required_actions (Platform_Refresh _) = [ActionCredentialRefresh]"
| "required_actions (Platform_Delete _) = [ActionCredentialDelete]"
| "required_actions (Platform_Invalidate _) = [consumerGrantInvalidateScope]"

text \<open>The account key that must be the ticket's: the request's, or for the generic refresh and delete
  without one the ticket's own.\<close>

fun needed_key :: "request \<Rightarrow> ServiceTicketClaims \<Rightarrow> string option" where
  "needed_key (Account_Bind _) c = None"
| "needed_key (Account_Status r) c = map_option acr_PlatformAccountId r"
| "needed_key (Account_Validate r) c = map_option acr_PlatformAccountId r"
| "needed_key (Account_Refresh r) c = map_option acr_PlatformAccountId r"
| "needed_key (Account_ListProfiles r) c = map_option acr_PlatformAccountId r"
| "needed_key (Account_PrimaryProfile r) c = map_option acr_PlatformAccountId r"
| "needed_key (Account_AuthKey r) c = map_option plr_PlatformAccountId r"
| "needed_key (Account_Summary r) c = map_option acr_PlatformAccountId r"
| "needed_key (Account_Update r) c = map_option ucr_PlatformAccountId r"
| "needed_key (Account_Delete r) c = map_option acr_PlatformAccountId r"
| "needed_key (Account_UpsertDevice r) c = map_option udr_PlatformAccountId r"
| "needed_key (Account_Confirm r) c = map_option plr_PlatformAccountId r"
| "needed_key (Shared_Summary r) c = map_option acr_PlatformAccountId r"
| "needed_key (Platform_Summary r) c = map_option acr_PlatformAccountId r"
| "needed_key (Platform_Put (Some r)) c = (if pcr_PlatformAccountId r = [] then None else Some (pcr_PlatformAccountId r))"
| "needed_key (Platform_Put None) c = None"
| "needed_key (Platform_Refresh (Some r)) c =
     Some (if acr_PlatformAccountId r = [] then tc_PlatformAccountID c else acr_PlatformAccountId r)"
| "needed_key (Platform_Refresh None) c = None"
| "needed_key (Platform_Delete (Some r)) c =
     Some (if acr_PlatformAccountId r = [] then tc_PlatformAccountID c else acr_PlatformAccountId r)"
| "needed_key (Platform_Delete None) c = None"
| "needed_key (Platform_Invalidate _) c = None"

text \<open>The requests a ticket for a single profile may make too.\<close>

fun profile_level :: "request \<Rightarrow> bool" where
  "profile_level (Account_ListProfiles _) = True"
| "profile_level (Account_PrimaryProfile _) = True"
| "profile_level (Account_AuthKey _) = True"
| "profile_level _ = False"

text \<open>Only an admin or a user may invalidate a grant, and only one of the ticket's binding.\<close>

fun may_invalidate :: "request \<Rightarrow> ServiceTicketClaims \<Rightarrow> bool" where
  "may_invalidate (Platform_Invalidate (Some r)) c \<longleftrightarrow>
     (tc_ActorType c = ''admin'' \<or> tc_ActorType c = ''user'') \<and> tc_BindingID c = icr_BindingId r"
| "may_invalidate _ c \<longleftrightarrow> True"

definition permits :: "ServiceTicketClaims \<Rightarrow> request \<Rightarrow> bool" where
  "permits c req \<longleftrightarrow> tc_Platform c = ''mihomo'' \<and> set (required_actions req) \<subseteq> set (tc_Scopes c) \<and>
     (case needed_key req c of None \<Rightarrow> True | Some k \<Rightarrow> tc_BindingID c \<noteq> 0 \<and> key_binding k = Some (tc_BindingID c)) \<and>
     (profile_level req \<or> tc_ProfileID c = 0) \<and> may_invalidate req c"

section \<open>Refusals\<close>

definition refused :: "world \<Rightarrow> (Status + 'a) \<times> world \<Rightarrow> bool" where
  "refused w res \<longleftrightarrow> (\<exists>s w'. res = (Inl s, w') \<and>
     st_code s \<in> {Unauthenticated, PermissionDenied, InvalidArgument} \<and> same_store w w')"

lemma refused_answered: "refused w (m v) \<Longrightarrow> refused w (answered m v)"
  by (auto simp: refused_def answered_def)

lemma refused_fail [simp]:
  "refused w (Inl s, v) \<longleftrightarrow> st_code s \<in> {Unauthenticated, PermissionDenied, InvalidArgument} \<and> same_store w v"
  by (simp add: refused_def)

lemma refusal_codes [simp]:
  "st_code (status_error c m) = c" "st_code request_is_required = InvalidArgument" "st_code device_is_required = InvalidArgument"
  "st_code platform_account_id_is_required = InvalidArgument"
  "e \<in> {ErrActionScopeDenied, ErrBindingScopeDenied, ErrProfileScopeDenied} \<Longrightarrow> st_code (mapUsecaseError e) = PermissionDenied"
  "st_code (mapTicketVerificationError e) \<in> {Unauthenticated, PermissionDenied}"
  by (auto simp: status_error_def request_is_required_def device_is_required_def platform_account_id_is_required_def
      mapUsecaseError_def mapTicketVerificationError_def)

text \<open>A check at the head of a handler: if it must fail, the handler refuses.\<close>

lemma refused_check:
  assumes "\<And>e. g = Inl e \<Longrightarrow> e \<in> {ErrActionScopeDenied, ErrBindingScopeDenied, ErrProfileScopeDenied}" "same_store w v"
    and "\<And>x. g = Inr x \<Longrightarrow> refused w (f x v)"
  shows "refused w (bind_io (mapped (lift_res g)) f v)"
  using assms(1)[THEN refusal_codes(5)] assms(2,3) by (cases g) (auto simp: bind_io_apply map_error_apply)

lemma refused_guard:
  assumes "\<And>e. g = Inl e \<Longrightarrow> e \<in> {ErrActionScopeDenied, ErrBindingScopeDenied, ErrProfileScopeDenied}" "same_store w v"
    and "g = Inr () \<Longrightarrow> refused w (k v)"
  shows "refused w (then_io (mapped (lift_res g)) k v)"
  unfolding then_io_def by (rule refused_check) (use assms in auto)

lemma refused_decode:
  assumes "same_store w v" "\<And>x. r = Inr x \<Longrightarrow> refused w (f x v)"
  shows "refused w (bind_io (map_error (\<lambda>err. status_error InvalidArgument (error_text err)) (lift_res r)) f v)"
  using assms by (cases r) (auto simp: bind_io_apply map_error_apply)

lemma scoped_guard_err: "scopedGuard c as = Inl e \<Longrightarrow> e \<in> {ErrActionScopeDenied, ErrBindingScopeDenied, ErrProfileScopeDenied}"
  by (auto simp: scopedGuard_def toScopeGuard_def split: sum.splits if_splits dest: require_actions_err)

lemma account_guard_err:
  "scopedGuardForPlatformAccount c k as = Inl e \<Longrightarrow> e \<in> {ErrActionScopeDenied, ErrBindingScopeDenied, ErrProfileScopeDenied}"
  by (auto simp: scopedGuardForPlatformAccount_scoped split: sum.splits dest: scoped_guard_err RequirePlatformAccountID_err)

lemmas refusals = refused_check refused_guard
lemmas refusal_errors = scoped_guard_err account_guard_err RequireAction_err RequirePlatformAccountID_err RequireBindingWide_err

text \<open>The ticket check itself.\<close>

lemma verify_reads: "leaves_store (VerifyContext (pr_env P) (pr_jwt P) (main_verifier P) ctx raw aud)"
proof -
  have "service_scope (\<lambda>_. True) (\<lambda>_ _. True) (\<lambda>_ _. True) (pr_env P) UnconfiguredClient (pr_jwt P) (main_verifier P) (\<lambda>_. True)"
    by unfold_locales (auto simp: main_verifier_def WithGrantVersionLookup_def minimum_version_store)
  then show ?thesis by (rule service_scope.verify_store)
qed

definition verified :: "process \<Rightarrow> string \<Rightarrow> world \<Rightarrow> ServiceTicketClaims \<Rightarrow> bool" where
  "verified P raw w c \<longleftrightarrow> fst (VerifyContext (pr_env P) (pr_jwt P) (main_verifier P) Background raw serviceTicketAudience w) = Inr c"

text \<open>A request that no ticket in it permits.\<close>

definition denied :: "process \<Rightarrow> world \<Rightarrow> request \<Rightarrow> bool" where
  "denied P w req \<longleftrightarrow> (\<forall>raw c. request_ticket req = Some raw \<longrightarrow> verified P raw w c \<longrightarrow> \<not> permits c req)"

lemma denied_ticket:
  assumes "denied P w req" "request_ticket req = Some raw" "\<And>c v. \<not> permits c req \<Longrightarrow> same_store w v \<Longrightarrow> refused w (f c v)"
  shows "refused w (bind_io (verifyServiceTicket (pr_env P) (pr_jwt P) (main_verifier P) Background raw) f w)"
proof -
  obtain r v where run: "VerifyContext (pr_env P) (pr_jwt P) (main_verifier P) Background raw serviceTicketAudience w = (r, v)"
    by fastforce
  have s: "same_store w v" using verify_reads run by (rule leaves_storeD)
  show ?thesis
    using assms run s refusal_codes(6)
    by (cases r) (auto simp: denied_def verified_def verifyServiceTicket_def bind_io_apply map_error_apply)
qed

section \<open>The handlers\<close>

text \<open>A use case that starts with the checks of the key and of the breadth of the ticket.\<close>

lemma refused_usecase:
  assumes "RequirePlatformAccountID g k = Inr () \<Longrightarrow> RequireBindingWide g = Inr () \<Longrightarrow> False" "same_store w v"
  shows "refused w (bind_io (mapped (then_io (lift_res (RequirePlatformAccountID g k)) (then_io (lift_res (RequireBindingWide g)) m))) f v)"
proof -
  obtain e where "then_io (lift_res (RequirePlatformAccountID g k)) (then_io (lift_res (RequireBindingWide g)) m) v = (Inl e, v)"
    "e \<in> {ErrActionScopeDenied, ErrBindingScopeDenied, ErrProfileScopeDenied}"
    using assms(1) RequirePlatformAccountID_err[of g k] RequireBindingWide_err[of g]
    by (cases "RequirePlatformAccountID g k"; cases "RequireBindingWide g") (auto simp del: RequirePlatformAccountID_ok RequireBindingWide_ok)
  then show ?thesis using refusal_codes(5)[of e] assms(2) by (simp add: bind_io_apply map_error_apply)
qed

lemma refused_usecase_then:
  assumes "RequirePlatformAccountID g k = Inr () \<Longrightarrow> RequireBindingWide g = Inr () \<Longrightarrow> False" "same_store w v"
  shows "refused w (then_io (mapped (then_io (lift_res (RequirePlatformAccountID g k)) (then_io (lift_res (RequireBindingWide g)) m))) n v)"
  unfolding then_io_def[of "mapped _"] by (rule refused_usecase[OF assms])

lemmas permit_simps = permits_def scopedGuard_ok scopedGuardForPlatformAccount_ok

text \<open>The handlers with their wiring, down to the checks at their heads.\<close>

lemmas account_handlers = MihomoAccount_BindCredential_def MihomoAccount_GetCredentialStatus_def
  MihomoAccount_ValidateCredential_def MihomoAccount_RefreshCredential_def MihomoAccount_ListProfiles_def
  MihomoAccount_GetPrimaryProfile_def MihomoAccount_GetAuthKey_def MihomoAccount_GetCredentialSummary_def
  MihomoAccount_UpdateCredential_def MihomoAccount_DeleteCredential_def MihomoAccount_UpsertDevice_def
  MihomoAccount_ConfirmPrimaryProfile_def

lemmas other_handlers = MihomoCredential_GetCredentialSummary_def Generic_GetCredentialSummary_def Generic_PutCredential_def
  Generic_RefreshCredential_def Generic_DeleteCredential_def Generic_InvalidateConsumerGrant_def requested_account_def

lemmas wired_handlers = account_handlers other_handlers main_account_def main_credential_def main_generic_def wired_services

lemmas scoped_usecases = ManagementUsecase_GetCredentialSummaryWithScope_def ManagementUsecase_UpdateCredentialWithScope_def
  ManagementUsecase_DeleteCredentialWithScope_def

lemma serve_refused: "denied P w req \<Longrightarrow> refused w (serve P req w)"
  by (cases req; hypsubst_thin; unfold serve.simps; rule refused_answered;
     (simp add: wired_handlers split: option.split)?; (intro conjI impI allI)?; (erule denied_ticket, simp)?;
     (auto simp: permit_simps scoped_usecases Let_def intro!: refusals refused_usecase refused_usecase_then refused_decode dest: refusal_errors
       split: option.split)?)

text \<open>C2: Nothing without permission. A request whose ticket does not verify, or verifies for claims that do
  not permit it (another platform, a missing action, an account key of another binding, a ticket for a
  single profile where one for the whole binding is needed, or an invalidation by another actor or of
  another binding), is answered with Unauthenticated, PermissionDenied or InvalidArgument and leaves
  the databases and the cache as they were.\<close>

theorem unauthorized_requests_are_refused:
  assumes "\<And>raw c. request_ticket req = Some raw \<Longrightarrow> verified P raw w c \<Longrightarrow> \<not> permits c req"
  shows "\<exists>s w'. serve P req w = (Inl s, w') \<and> st_code s \<in> {Unauthenticated, PermissionDenied, InvalidArgument} \<and> same_store w w'"
  using serve_refused[of P w req] assms by (simp add: refused_def denied_def)

text \<open>A ticket for binding 1 and a deletion of the credential of binding 2.\<close>

theorem unauthorized_requests_are_refused_witness:
  "\<exists>s w'. serve (sample_process MySQL) (Account_Delete (Some \<lparr> acr_ServiceTicket = ''1'',
       acr_PlatformAccountId = FormatPlatformAccountID 2 ''20002'' \<rparr>)) sample_world = (Inl s, w') \<and>
     st_code s \<in> {Unauthenticated, PermissionDenied, InvalidArgument} \<and> same_store sample_world w'"
proof (rule unauthorized_requests_are_refused)
  fix raw c
  assume r: "request_ticket (Account_Delete (Some \<lparr> acr_ServiceTicket = ''1'', acr_PlatformAccountId = FormatPlatformAccountID 2 ''20002'' \<rparr>)) = Some raw"
    and v: "verified (sample_process MySQL) raw sample_world c"
  have "parse_uint raw = Inr (tc_BindingID c)" using v by (auto simp: verified_def dest: sample_verifies)
  moreover have "parse_uint ''1'' = Inr (1 :: u64)" by code_simp
  ultimately have "tc_BindingID c = 1" using r by simp
  then show "\<not> permits c (Account_Delete (Some \<lparr> acr_ServiceTicket = ''1'', acr_PlatformAccountId = FormatPlatformAccountID 2 ''20002'' \<rparr>))"
    by (simp add: permits_def)
qed

section \<open>Answers\<close>

definition answers :: "(world, Status, 'a) call \<Rightarrow> bool" where
  "answers m \<longleftrightarrow> (\<forall>w s w'. m w = (Inl s, w') \<longrightarrow> st_code s \<noteq> GoPanic)"

lemma answers_bind:
  assumes "answers m" "\<And>w x w'. m w = (Inr x, w') \<Longrightarrow> answers (f x)"
  shows "answers (bind_io m f)"
  using assms unfolding answers_def bind_io_def by (fastforce split: prod.splits sum.splits)

lemma answers_then: "answers m \<Longrightarrow> answers k \<Longrightarrow> answers (then_io m k)"
  unfolding then_io_def by (rule answers_bind)

lemma answers_simple [simp]:
  "answers (ret x)" "answers (mapped m)" "answers (map_error mapTicketVerificationError m2)"
  "c \<noteq> GoPanic \<Longrightarrow> answers (fail (status_error c t))" "c \<noteq> GoPanic \<Longrightarrow> answers (map_error (\<lambda>e. status_error c (g e)) m3)"
  "answers (fail request_is_required)" "answers (fail device_is_required)"
  "answers (lift_res (requested_account k claims))"
  by (auto simp: answers_def map_error_apply map_sum_def mapUsecaseError_def mapTicketVerificationError_def status_error_def
      request_is_required_def device_is_required_def requested_account_def platform_account_id_is_required_def Let_def
      split: sum.splits if_splits)

lemma bind_has_output:
  assumes "mapped (BindCredential E (wired_bind E bc client) ctx input) w = (Inr out, w')"
  shows "out \<noteq> None"
proof -
  have "BindCredential E (wired_bind E bc client) ctx input w = (Inr out, w')" using assms by (rule map_error_okE)
  then show ?thesis
    by (auto simp: BindCredential_def runInTransaction_def wired_bind_def NewBindUsecase_def CredentialRepo_def CredentialRepo_WithinTransaction_def
        begin_tx_steps split: option.splits fault.splits prod.splits sum.splits elim!: bind_io_okE)
qed

lemma serve_answers: "answers (serve P req)"
proof -
  have ans: "answers (answered m)" if "answers m" for m :: "(world, Status, 'x) call"
    unfolding answered_def using that by (rule answers_bind) simp
  note out = bind_has_output[of "pr_env P" "pr_conf P" "pr_client P"]
  show ?thesis
    by (cases req; simp; rule ans)
      (auto intro!: answers_bind answers_then simp: verifyServiceTicket_def main_account_def main_credential_def main_generic_def
        wired_account_def NewMihomoAccountService_def wired_generic_def NewGenericPlatformService_def wired_credential_def NewMihomoCredentialService_def Let_def
        MihomoAccount_BindCredential_def MihomoAccount_GetCredentialStatus_def MihomoAccount_ValidateCredential_def
        MihomoAccount_RefreshCredential_def MihomoAccount_ListProfiles_def MihomoAccount_GetPrimaryProfile_def
        MihomoAccount_GetAuthKey_def MihomoAccount_GetCredentialSummary_def MihomoAccount_UpdateCredential_def
        MihomoAccount_DeleteCredential_def MihomoAccount_UpsertDevice_def MihomoAccount_ConfirmPrimaryProfile_def
        MihomoCredential_GetCredentialSummary_def Generic_GetCredentialSummary_def Generic_PutCredential_def
        Generic_RefreshCredential_def Generic_DeleteCredential_def Generic_InvalidateConsumerGrant_def
        split: option.split dest!: out)
qed


end
