(* ===== verification/GoText.thy ===== *)
theory GoText
  imports GoStrings
begin

text \<open>
  More of Go's standard library, for the packages that read configuration and build names:
  \<open>strings.Split\<close>, \<open>Cut\<close>, \<open>Trim\<close>, \<open>TrimSpace\<close>, \<open>HasSuffix\<close> and \<open>Join\<close>,
  \<open>strconv.Atoi\<close>, the verbs \<open>%d\<close>, \<open>%t\<close> and \<open>%08x\<close>, and \<open>hex.EncodeToString\<close>. Text is
  bytes; white space is the ASCII white space of \<open>unicode.IsSpace\<close>.
\<close>

section \<open>Package strings\<close>

fun str_split :: "char \<Rightarrow> string \<Rightarrow> string list" where
  "str_split c [] = [[]]"
| "str_split c (x # xs) =
     (if x = c then [] # str_split c xs
      else (case str_split c xs of [] \<Rightarrow> [[x]] | s # ss \<Rightarrow> (x # s) # ss))"

fun str_join :: "string \<Rightarrow> string list \<Rightarrow> string" where
  "str_join sep [] = []"
| "str_join sep [x] = x"
| "str_join sep (x # y # ys) = x @ sep @ str_join sep (y # ys)"

text \<open>\<open>strings.Cut\<close> at a byte: the text before and after its first occurrence.\<close>

fun str_cut :: "char \<Rightarrow> string \<Rightarrow> (string \<times> string) option" where
  "str_cut c [] = None"
| "str_cut c (x # xs) = (if x = c then Some ([], xs) else map_option (\<lambda>(a, b). (x # a, b)) (str_cut c xs))"

definition trim_by :: "(char \<Rightarrow> bool) \<Rightarrow> string \<Rightarrow> string" where
  "trim_by p s = rev (dropWhile p (rev (dropWhile p s)))"

definition str_trim :: "char \<Rightarrow> string \<Rightarrow> string" where
  "str_trim c = trim_by (\<lambda>x. x = c)"

definition is_space :: "char \<Rightarrow> bool" where
  "is_space c \<longleftrightarrow> byte_code c = 32 \<or> 9 \<le> byte_code c \<and> byte_code c \<le> 13"

definition trim_space :: "string \<Rightarrow> string" where
  "trim_space = trim_by is_space"

definition has_suffix :: "string \<Rightarrow> string \<Rightarrow> bool" where
  "has_suffix s t \<longleftrightarrow> has_prefix (rev s) (rev t)"

section \<open>Numbers\<close>

text \<open>\<open>strconv.Atoi\<close>: an optional sign, then the digits of an unsigned number within \<open>int64\<close>.\<close>

definition atoi_magnitude :: "bool \<Rightarrow> string \<Rightarrow> num_error + i64" where
  "atoi_magnitude negative digits = (case parse_uint digits of
      Inl ErrSyntax \<Rightarrow> Inl ErrSyntax
    | Inl ErrRange \<Rightarrow> Inl ErrRange
    | Inr un \<Rightarrow>
        if \<not> negative \<and> 9223372036854775808 \<le> un then Inl ErrRange
        else if negative \<and> 9223372036854775808 < un then Inl ErrRange
        else Inr (if negative then - un else un))"

definition atoi :: "string \<Rightarrow> num_error + i64" where
  "atoi s = (case s of
      [] \<Rightarrow> Inl ErrSyntax
    | c # cs \<Rightarrow>
        if c = CHR ''+'' then atoi_magnitude False cs
        else if c = CHR ''-'' then atoi_magnitude True cs
        else atoi_magnitude False s)"

definition atoi_error_text :: "string \<Rightarrow> num_error \<Rightarrow> string" where
  "atoi_error_text s e = ''strconv.Atoi: parsing '' @ go_quote s @
     (case e of ErrSyntax \<Rightarrow> '': invalid syntax'' | ErrRange \<Rightarrow> '': value out of range'')"

definition show_i64 :: "i64 \<Rightarrow> string" where
  "show_i64 x = (if sint x < 0 then CHR ''-'' # show_nat (nat (- sint x)) else show_nat (nat (sint x)))"

definition show_bool :: "bool \<Rightarrow> string" where
  "show_bool b = (if b then ''true'' else ''false'')"

fun show_hex :: "nat \<Rightarrow> string" where
  "show_hex n = (if n < 16 then [hex_digit n] else show_hex (n div 16) @ [hex_digit (n mod 16)])"

declare show_hex.simps [simp del]

text \<open>\<open>%08x\<close> of an \<open>int64\<close>: the sign counts for the width and comes before the zeros.\<close>

definition show_hex_padded :: "nat \<Rightarrow> i64 \<Rightarrow> string" where
  "show_hex_padded width x =
     (let sign = (if sint x < 0 then ''-'' else []); digits = show_hex (nat \<bar>sint x\<bar>)
      in sign @ replicate (width - length sign - length digits) CHR ''0'' @ digits)"

definition hex_encode :: "8 word list \<Rightarrow> string" where
  "hex_encode bs = concat (map (\<lambda>b. [hex_digit (unat b div 16), hex_digit (unat b mod 16)]) bs)"

section \<open>Splitting and joining\<close>

lemma str_split_nonempty [simp]: "str_split c s \<noteq> []"
  by (induction s) (auto split: list.split)

lemma str_join_Cons: "xs \<noteq> [] \<Longrightarrow> str_join sep (x # xs) = x @ sep @ str_join sep xs"
  by (cases xs) auto

lemma str_join_split [simp]: "str_join [c] (str_split c s) = s"
proof (induction s)
  case (Cons x xs)
  then show ?case by (cases "str_split c xs"; cases "tl (str_split c xs)") (auto simp: str_join_Cons)
qed simp

lemma str_split_no_sep [simp]: "c \<notin> set s \<Longrightarrow> str_split c s = [s]"
  by (induction s) auto

lemma str_split_append [simp]: "c \<notin> set s \<Longrightarrow> str_split c (s @ c # t) = s # str_split c t"
  by (induction s) auto

lemma str_split_join: "xs \<noteq> [] \<Longrightarrow> list_all (\<lambda>x. c \<notin> set x) xs \<Longrightarrow> str_split c (str_join [c] xs) = xs"
proof (induction xs)
  case (Cons x xs)
  then show ?case by (cases xs) auto
qed simp

lemma str_split_snoc: "str_split c (s @ [c]) = str_split c s @ [[]]"
proof (induction s)
  case (Cons x xs)
  then show ?case by (cases "str_split c xs") auto
qed simp

lemma str_cut_append [simp]: "c \<notin> set s \<Longrightarrow> str_cut c (s @ c # t) = Some (s, t)"
  by (induction s) auto

section \<open>Trimming\<close>

lemma trim_by_id: "(s \<noteq> [] \<Longrightarrow> \<not> p (hd s) \<and> \<not> p (last s)) \<Longrightarrow> trim_by p s = s"
  using dropWhile_eq_self_iff[of p s] dropWhile_eq_self_iff[of p "rev s"]
  by (cases "s = []") (simp_all add: trim_by_def hd_rev)

lemma trim_by_ends: "trim_by p s \<noteq> [] \<Longrightarrow> \<not> p (hd (trim_by p s)) \<and> \<not> p (last (trim_by p s))"
proof -
  assume n: "trim_by p s \<noteq> []"
  let ?t = "dropWhile p s" and ?u = "dropWhile p (rev (dropWhile p s))"
  have u: "?u \<noteq> []" using n by (simp add: trim_by_def)
  obtain ds where d: "rev ?t = ds @ ?u" by (metis takeWhile_dropWhile_id)
  then have "hd ?t = last (rev ?t)" by (auto simp: last_rev)
  then have "last ?u = hd ?t" using d u by (metis last_appendR)
  moreover have "\<not> p (hd ?t)" using d u by (metis append_is_Nil_conv hd_dropWhile rev_is_Nil_conv)
  ultimately show ?thesis using u by (simp add: trim_by_def hd_rev last_rev hd_dropWhile)
qed

lemma set_trim_by: "set (trim_by p s) \<subseteq> set s"
  by (auto simp: trim_by_def dest!: set_dropWhileD)

lemma length_trim_by: "length (trim_by p s) \<le> length s"
  unfolding trim_by_def by (metis length_dropWhile_le length_rev order_trans)

lemma trim_by_suffix:
  assumes "t \<noteq> []" "\<not> p (hd t)" "\<not> p (last t)"
  shows "\<exists>r. trim_by p (s @ t) = r @ t"
proof -
  have "dropWhile p (s @ t) = dropWhile p s @ t"
    using assms(1,2) dropWhile_eq_self_iff[of p t] by (induction s) auto
  moreover have "dropWhile p (rev t @ rev (dropWhile p s)) = rev t @ rev (dropWhile p s)"
    using assms(1,3) dropWhile_eq_self_iff[of p "rev t @ rev (dropWhile p s)"] by (simp add: hd_rev)
  ultimately show ?thesis by (simp add: trim_by_def)
qed

section \<open>Hexadecimal\<close>

lemma length_hex_encode [simp]: "length (hex_encode bs) = 2 * length bs"
  by (induction bs) (auto simp: hex_encode_def)

definition is_lower_hex :: "char \<Rightarrow> bool" where
  "is_lower_hex c \<longleftrightarrow> 48 \<le> byte_code c \<and> byte_code c \<le> 57 \<or> 97 \<le> byte_code c \<and> byte_code c \<le> 102"

lemma hex_digit_lower [simp]: "n < 16 \<Longrightarrow> is_lower_hex (hex_digit n)"
  by (auto simp: is_lower_hex_def hex_digit_def byte_code_def)

lemma hex_digit_inject: "m < 16 \<Longrightarrow> n < 16 \<Longrightarrow> hex_digit m = hex_digit n \<Longrightarrow> m = n"
  by (auto simp: hex_digit_def split: if_splits)

lemma nibbles: "unat (b :: 8 word) div 16 < 16" "unat (b :: 8 word) mod 16 < 16"
  using unsigned_less[of b, where ?'a = nat] by simp_all

lemma hex_encode_lower: "c \<in> set (hex_encode bs) \<Longrightarrow> is_lower_hex c"
  using nibbles by (auto simp: hex_encode_def)

lemma show_hex_lower: "c \<in> set (show_hex n) \<Longrightarrow> is_lower_hex c"
proof (induction n rule: show_hex.induct)
  case (1 n)
  from "1.prems" show ?case by (subst (asm) show_hex.simps) (use 1 in \<open>auto split: if_splits\<close>)
qed

lemma hex_encode_inject: "length as = length bs \<Longrightarrow> hex_encode as = hex_encode bs \<Longrightarrow> as = bs"
proof (induction as bs rule: list_induct2)
  case (Cons a as b bs)
  then have "unat a div 16 = unat b div 16 \<and> unat a mod 16 = unat b mod 16"
    using nibbles by (auto simp: hex_encode_def intro: hex_digit_inject)
  then have "unat a = unat b" by (metis div_mult_mod_eq)
  with Cons show ?case by (auto simp: hex_encode_def dest: unsigned_word_eqI)
qed simp

end
