(* ===== verification/GoPath.thy ===== *)
theory GoPath
  imports GoText
begin

text \<open>
  \<open>path/filepath\<close> on Unix: \<open>Clean\<close>, \<open>Join\<close>, \<open>Dir\<close>, \<open>IsAbs\<close> and \<open>Abs\<close>. The lemmas show that
  \<open>Dir\<close> shortens a path until it reaches a fixed point, which is why a search through the parents of a
  directory ends.
\<close>

section \<open>The functions\<close>

text \<open>The elements of a path that \<open>Clean\<close> keeps, in reverse: empty elements and \<open>.\<close> go, \<open>..\<close> removes
  the element before it, is dropped at the root and kept at the front of a relative path.\<close>

fun clean_elements :: "bool \<Rightarrow> string list \<Rightarrow> string list \<Rightarrow> string list" where
  "clean_elements rooted acc [] = acc"
| "clean_elements rooted acc (e # es) =
     (if e = [] \<or> e = ''.'' then clean_elements rooted acc es
      else if e = ''..'' then
        (case acc of
           a # as \<Rightarrow> if a = ''..'' then clean_elements rooted (e # acc) es else clean_elements rooted as es
         | [] \<Rightarrow> if rooted then clean_elements rooted [] es else clean_elements rooted [e] es)
      else clean_elements rooted (e # acc) es)"

definition path_clean :: "string \<Rightarrow> string" where
  "path_clean path = (if path = [] then ''.''
     else (let rooted = (hd path = CHR ''/'');
               out = str_join ''/'' (rev (clean_elements rooted [] (str_split CHR ''/'' path)))
           in if rooted then CHR ''/'' # out else if out = [] then ''.'' else out))"

definition path_join :: "string list \<Rightarrow> string" where
  "path_join elems = (case dropWhile (\<lambda>e. e = []) elems of
      [] \<Rightarrow> []
    | es \<Rightarrow> path_clean (str_join ''/'' es))"

definition upto_last_slash :: "string \<Rightarrow> string" where
  "upto_last_slash path = rev (dropWhile (\<lambda>c. c \<noteq> CHR ''/'') (rev path))"

definition path_dir :: "string \<Rightarrow> string" where
  "path_dir path = path_clean (upto_last_slash path)"

definition is_abs :: "string \<Rightarrow> bool" where
  "is_abs path = has_prefix path ''/''"

text \<open>\<open>Abs\<close> asks for the working directory when the path is relative.\<close>

definition path_abs :: "error + string \<Rightarrow> string \<Rightarrow> error + string" where
  "path_abs getwd path = (if is_abs path then Inr (path_clean path)
     else (case getwd of Inl err \<Rightarrow> Inl err | Inr wd \<Rightarrow> Inr (path_join [wd, path])))"

section \<open>Cleaning does not lengthen a path\<close>

definition joined_length :: "string list \<Rightarrow> nat" where
  "joined_length es = sum_list (map (\<lambda>e. length e + 1) es)"

lemma joined_length_simps [simp]:
  "joined_length [] = 0" "joined_length (e # es) = length e + 1 + joined_length es"
  "joined_length (es @ fs) = joined_length es + joined_length fs" "joined_length (rev es) = joined_length es"
  by (simp_all add: joined_length_def rev_map[symmetric] sum_list_rev)

lemma length_str_join: "length (str_join [c] es) = joined_length es - 1"
proof (induction es)
  case (Cons e es)
  then show ?case by (cases es) auto
qed simp

lemma joined_length_split: "joined_length (str_split c s) = length s + 1"
proof (induction s)
  case (Cons x xs)
  then show ?case by (cases "str_split c xs") auto
qed simp

lemma clean_elements_length: "joined_length (clean_elements rooted acc es) \<le> joined_length acc + joined_length es"
proof (induction rooted acc es rule: clean_elements.induct)
  case (2 rooted acc e es)
  then show ?case by (cases acc) (auto split: if_splits)
qed simp

lemma clean_elements_skip_last: "clean_elements rooted acc (es @ [[]]) = clean_elements rooted acc es"
  by (induction rooted acc es rule: clean_elements.induct) (auto split: list.split)

lemma length_path_clean: "path \<noteq> [] \<Longrightarrow> length (path_clean path) \<le> length path"
proof -
  assume n: "path \<noteq> []"
  obtain c cs where p: "path = c # cs" using n by (cases path) auto
  let ?es = "str_split CHR ''/'' path"
  show ?thesis
  proof (cases "c = CHR ''/''")
    case True
    have "joined_length (clean_elements True [] ?es) \<le> length cs + 1"
      using clean_elements_length[of True "[]" "str_split CHR ''/'' cs"] joined_length_split[of "CHR ''/''" cs] p True by simp
    then show ?thesis using p True by (simp add: path_clean_def length_str_join)
  next
    case False
    have "joined_length (clean_elements False [] ?es) \<le> length path + 1"
      using clean_elements_length[of False "[]" ?es] joined_length_split[of "CHR ''/''" path] by simp
    then show ?thesis using p False by (auto simp: path_clean_def Let_def length_str_join)
  qed
qed

lemma path_clean_trailing: "path \<noteq> [] \<Longrightarrow> path_clean (path @ ''/'') = path_clean path"
  by (simp add: path_clean_def str_split_snoc clean_elements_skip_last)

section \<open>Going up ends\<close>

lemma upto_last_slash_cases: "upto_last_slash path = [] \<or> (\<exists>p t. upto_last_slash path = p @ ''/'' \<and> path = p @ ''/'' @ t)"
proof (cases "upto_last_slash path = []")
  case False
  let ?d = "dropWhile (\<lambda>c. c \<noteq> CHR ''/'') (rev path)"
  have d: "?d \<noteq> []" using False by (simp add: upto_last_slash_def)
  from hd_dropWhile[OF this] have "hd ?d = CHR ''/''" by blast
  then obtain ds where ds: "?d = CHR ''/'' # ds" using d by (cases ?d) auto
  obtain ts where "rev path = ts @ ?d" using takeWhile_dropWhile_id[of "\<lambda>c. c \<noteq> CHR ''/''" "rev path"] by metis
  then have "rev (rev path) = rev (ts @ CHR ''/'' # ds)" using ds by simp
  then have "path = rev ds @ ''/'' @ rev ts" by simp
  then show ?thesis using ds by (auto simp: upto_last_slash_def)
qed simp

lemma path_dir_fixed: "path_dir ''.'' = ''.''" "path_dir ''/'' = ''/''"
  by (simp_all add: path_dir_def upto_last_slash_def path_clean_def)

lemma path_dir_cases: "path_dir path = ''.'' \<or> path_dir path = ''/'' \<or> length (path_dir path) < length path"
  using upto_last_slash_cases[of path]
proof (elim disjE exE conjE)
  fix p t assume u: "upto_last_slash path = p @ ''/''" and path: "path = p @ ''/'' @ t"
  show ?thesis
  proof (cases "p = []")
    case True
    then show ?thesis using u by (simp add: path_dir_def path_clean_def)
  next
    case False
    then show ?thesis using length_path_clean[of p] u path by (simp add: path_dir_def path_clean_trailing)
  qed
qed (simp add: path_dir_def path_clean_def)

text \<open>How far a path is from the end of the search.\<close>

definition path_height :: "string \<Rightarrow> nat" where
  "path_height path = (if path_dir path = path then 0 else length path + 1)"

lemma path_height_dir: "path_dir path \<noteq> path \<Longrightarrow> path_height (path_dir path) < path_height path"
  using path_dir_cases[of path] by (auto simp: path_height_def path_dir_fixed)

end
