(* ===== verification/IntegrationEnv.thy ===== *)
theory IntegrationEnv
  imports GoPath
begin

text \<open>
  \<open>internal/testutil/integrationenv/env.go\<close> and \<open>cmd/integration-doctor/main.go\<close>: the settings of
  the integration tests (the shell before the file \<open>.env.integration.local\<close> before the defaults, each
  with its source), the names of the temporary database and Redis prefix, the search for the
  repository root and the report of the doctor. What the operating system, MySQL and Redis answer is
  the record \<open>host\<close>; \<open>ToLower\<close> is modelled on ASCII.
\<close>

section \<open>The host\<close>

datatype file_result = FileContent string | FileMissing | FileUnreadable error

record host =
  ho_LookupEnv :: "string \<Rightarrow> string option"
  ho_ReadFile :: "string \<Rightarrow> file_result"
  ho_Stat :: "string \<Rightarrow> bool option"
  ho_Getwd :: "error + string"
  ho_OpenMySQL :: "string \<Rightarrow> error option"
  ho_PingMySQL :: "string \<Rightarrow> error option"
  ho_PingRedis :: "string \<Rightarrow> string \<Rightarrow> i64 \<Rightarrow> error option"

text \<open>\<open>ho_Stat\<close> answers whether the path is a directory, \<open>None\<close> for an error. A random read gives
  its four bytes or fails, and then the clock in nanoseconds is used.\<close>

record random_read =
  rr_bytes :: "8 word list option"
  rr_UnixNano :: i64

section \<open>The settings\<close>

datatype Source = SourceShell | SourceFile | SourceDefault

fun source_text :: "Source \<Rightarrow> string" where
  "source_text SourceShell = ''shell''"
| "source_text SourceFile = ''file''"
| "source_text SourceDefault = ''default''"

type_synonym sources = "string \<Rightarrow> Source option"

record Env =
  en_DatabaseAddr :: string
  en_DatabaseUsername :: string
  en_DatabasePassword :: string
  en_DatabaseBaseName :: string
  en_DatabaseConfig :: string
  en_RedisAddr :: string
  en_RedisPassword :: string
  en_RedisDB :: i64
  en_RedisPrefix :: string
  en_EnvFile :: string
  en_Sources :: sources

definition empty_env :: Env where
  "empty_env = \<lparr> en_DatabaseAddr = [], en_DatabaseUsername = [], en_DatabasePassword = [], en_DatabaseBaseName = [],
     en_DatabaseConfig = [], en_RedisAddr = [], en_RedisPassword = [], en_RedisDB = 0, en_RedisPrefix = [],
     en_EnvFile = [], en_Sources = (\<lambda>_. None) \<rparr>"

definition defaultDatabaseConfig :: string where
  "defaultDatabaseConfig = ''charset=utf8mb4&parseTime=True&loc=UTC&multiStatements=true''"

section \<open>The dot-env file\<close>

definition unquote :: "string \<Rightarrow> string" where
  "unquote value = (if 2 \<le> length value then
     (let v1 = (if has_prefix value [CHR 0x22] \<and> has_suffix value [CHR 0x22] then str_trim CHR 0x22 value else value)
      in if has_prefix v1 [CHR 0x27] \<and> has_suffix v1 [CHR 0x27] then str_trim CHR 0x27 v1 else v1)
     else value)"

fun read_lines :: "string \<Rightarrow> string list \<Rightarrow> (string \<Rightarrow> string option) \<Rightarrow> error + (string \<Rightarrow> string option)" where
  "read_lines path [] values = Inr values"
| "read_lines path (rawLine # rest) values =
     (let line = trim_space rawLine in
      if line = [] \<or> has_prefix line ''#'' then read_lines path rest values
      else (case str_cut CHR ''='' line of
          None \<Rightarrow> Inl (ErrText (''parse '' @ path @ '': invalid line '' @ go_quote rawLine))
        | Some (key0, value0) \<Rightarrow>
            let key = trim_space key0 in
            if key = [] then Inl (ErrText (''parse '' @ path @ '': empty key in line '' @ go_quote rawLine))
            else read_lines path rest (values(key \<mapsto> unquote (trim_space value0)))))"

definition readDotEnv :: "host \<Rightarrow> string \<Rightarrow> error + (string \<Rightarrow> string option)" where
  "readDotEnv H path = (case ho_ReadFile H path of
      FileMissing \<Rightarrow> Inr (\<lambda>_. None)
    | FileUnreadable err \<Rightarrow> Inl (ErrText (''read '' @ path @ '': '' @ error_text err))
    | FileContent content \<Rightarrow> read_lines path (str_split CHR 0x0A content) (\<lambda>_. None))"

section \<open>Picking a value\<close>

definition pickString :: "host \<Rightarrow> string \<Rightarrow> (string \<Rightarrow> string option) \<Rightarrow> sources \<Rightarrow> string \<times> sources" where
  "pickString H key fileValues sources = (case ho_LookupEnv H key of
      Some value \<Rightarrow> (value, sources(key \<mapsto> SourceShell))
    | None \<Rightarrow> (case fileValues key of
          Some value \<Rightarrow> (value, sources(key \<mapsto> SourceFile))
        | None \<Rightarrow> ([], sources)))"

definition pickStringDefault ::
    "host \<Rightarrow> string \<Rightarrow> (string \<Rightarrow> string option) \<Rightarrow> string \<Rightarrow> sources \<Rightarrow> string \<times> sources" where
  "pickStringDefault H key fileValues fallback sources =
     (case pickString H key fileValues sources of (value, sources1) \<Rightarrow>
        if value \<noteq> [] \<or> sources1 key \<noteq> None then (value, sources1)
        else (fallback, sources1(key \<mapsto> SourceDefault)))"

definition parse_picked :: "string \<Rightarrow> Source \<Rightarrow> string \<Rightarrow> i64 \<Rightarrow> i64 \<times> error option" where
  "parse_picked key source raw fallback = (case atoi (trim_space raw) of
      Inl err \<Rightarrow> (fallback, Some (ErrText (''parse '' @ key @ '' from '' @ source_text source @ '': '' @
        atoi_error_text (trim_space raw) err)))
    | Inr value \<Rightarrow> (value, None))"

definition pickIntDefault ::
    "host \<Rightarrow> string \<Rightarrow> (string \<Rightarrow> string option) \<Rightarrow> i64 \<Rightarrow> sources \<Rightarrow> (i64 \<times> error option) \<times> sources" where
  "pickIntDefault H key fileValues fallback sources = (case ho_LookupEnv H key of
      Some raw \<Rightarrow> (parse_picked key SourceShell raw fallback, sources(key \<mapsto> SourceShell))
    | None \<Rightarrow> (case fileValues key of
          Some raw \<Rightarrow> (parse_picked key SourceFile raw fallback, sources(key \<mapsto> SourceFile))
        | None \<Rightarrow> ((fallback, None), sources(key \<mapsto> SourceDefault))))"

text \<open>\<open>Load\<close> returns the settings with the error, if any: after a bad \<open>PAI_TEST_REDIS_DB\<close> the
  fields before it are set. The pointer to \<open>env.Sources\<close> is the \<open>sources\<close> that each pick returns.\<close>

definition Load :: "host \<Rightarrow> string \<Rightarrow> Env \<times> error option" where
  "Load H repoRoot = (let envFile = path_join [repoRoot, ''.env.integration.local''] in
     case readDotEnv H envFile of
       Inl err \<Rightarrow> (empty_env, Some err)
     | Inr f \<Rightarrow>
         (case pickString H ''PAI_TEST_DATABASE_ADDR'' f (\<lambda>_. None) of (addr, s1) \<Rightarrow>
         (case pickString H ''PAI_TEST_DATABASE_USERNAME'' f s1 of (username, s2) \<Rightarrow>
         (case pickString H ''PAI_TEST_DATABASE_PASSWORD'' f s2 of (password, s3) \<Rightarrow>
         (case pickString H ''PAI_TEST_DATABASE_DBNAME'' f s3 of (dbname, s4) \<Rightarrow>
         (case pickStringDefault H ''PAI_TEST_DATABASE_CONFIG'' f defaultDatabaseConfig s4 of (config, s5) \<Rightarrow>
         (case pickString H ''PAI_TEST_REDIS_ADDR'' f s5 of (redisAddr, s6) \<Rightarrow>
         (case pickString H ''PAI_TEST_REDIS_PASSWORD'' f s6 of (redisPassword, s7) \<Rightarrow>
         (case pickIntDefault H ''PAI_TEST_REDIS_DB'' f 0 s7 of ((redisDB, err), s8) \<Rightarrow>
            (let env = empty_env\<lparr> en_EnvFile := envFile, en_DatabaseAddr := addr, en_DatabaseUsername := username,
                   en_DatabasePassword := password, en_DatabaseBaseName := dbname, en_DatabaseConfig := config,
                   en_RedisAddr := redisAddr, en_RedisPassword := redisPassword \<rparr>
             in case err of
                  Some e \<Rightarrow> (env\<lparr> en_Sources := s8 \<rparr>, Some e)
                | None \<Rightarrow>
                    (case pickStringDefault H ''PAI_TEST_REDIS_PREFIX'' f ''itest'' s8 of (prefix, s9) \<Rightarrow>
                      (env\<lparr> en_RedisDB := redisDB, en_RedisPrefix := prefix, en_Sources := s9 \<rparr>, None))))))))))))"

section \<open>The report\<close>

definition sourceOrUnset :: "sources \<Rightarrow> string \<Rightarrow> string" where
  "sourceOrUnset sources key = (case sources key of Some source \<Rightarrow> source_text source | None \<Rightarrow> ''unset'')"

definition valueOrUnset :: "string \<Rightarrow> string" where
  "valueOrUnset value = (if trim_space value = [] then ''<unset>'' else value)"

definition redactSecret :: "string \<Rightarrow> string" where
  "redactSecret value = (if value = [] then ''<empty>'' else ''<redacted>'')"

definition sourced :: "Env \<Rightarrow> string \<Rightarrow> string \<Rightarrow> string \<Rightarrow> string" where
  "sourced e label value key = label @ ''='' @ value @ '' (source='' @ sourceOrUnset (en_Sources e) key @ '')''"

definition Summary :: "Env \<Rightarrow> string \<Rightarrow> string \<Rightarrow> string \<Rightarrow> bool \<Rightarrow> string list" where
  "Summary e generatedDBName generatedRedisPrefix gowork requireRedis =
    [''env.file='' @ valueOrUnset (en_EnvFile e),
     sourced e ''database.addr'' (valueOrUnset (en_DatabaseAddr e)) ''PAI_TEST_DATABASE_ADDR'',
     sourced e ''database.username'' (valueOrUnset (en_DatabaseUsername e)) ''PAI_TEST_DATABASE_USERNAME'',
     sourced e ''database.password'' (redactSecret (en_DatabasePassword e)) ''PAI_TEST_DATABASE_PASSWORD'',
     sourced e ''database.base'' (valueOrUnset (en_DatabaseBaseName e)) ''PAI_TEST_DATABASE_DBNAME'',
     ''database.name='' @ valueOrUnset generatedDBName,
     sourced e ''database.config'' (valueOrUnset (en_DatabaseConfig e)) ''PAI_TEST_DATABASE_CONFIG'',
     ''redis.required='' @ show_bool requireRedis,
     sourced e ''redis.addr'' (valueOrUnset (en_RedisAddr e)) ''PAI_TEST_REDIS_ADDR'',
     sourced e ''redis.password'' (redactSecret (en_RedisPassword e)) ''PAI_TEST_REDIS_PASSWORD'',
     sourced e ''redis.db'' (show_i64 (en_RedisDB e)) ''PAI_TEST_REDIS_DB'',
     sourced e ''redis.prefix'' (valueOrUnset generatedRedisPrefix) ''PAI_TEST_REDIS_PREFIX'',
     ''gowork='' @ (if gowork = [] then ''<unset>'' else gowork)]"

section \<open>Names\<close>

fun sanitize_loop :: "char \<Rightarrow> bool \<Rightarrow> string \<Rightarrow> string" where
  "sanitize_loop separator lastWasSeparator [] = []"
| "sanitize_loop separator lastWasSeparator (r # rs) =
     (if 97 \<le> byte_code r \<and> byte_code r \<le> 122 \<or> 48 \<le> byte_code r \<and> byte_code r \<le> 57
      then r # sanitize_loop separator False rs
      else if \<not> lastWasSeparator then separator # sanitize_loop separator True rs
      else sanitize_loop separator lastWasSeparator rs)"

definition sanitizeIdentifier :: "string \<Rightarrow> char \<Rightarrow> string \<Rightarrow> string" where
  "sanitizeIdentifier value separator fallback =
     (let trimmed = trim_space (to_lower value) in
      if trimmed = [] then fallback
      else (let result = str_trim separator (sanitize_loop separator False trimmed)
            in if result = [] then fallback else result))"

definition randomSuffix :: "random_read \<Rightarrow> string" where
  "randomSuffix R = (case rr_bytes R of
      None \<Rightarrow> take 8 (show_hex_padded 8 (rr_UnixNano R))
    | Some buf \<Rightarrow> hex_encode buf)"

definition UniqueDatabaseName :: "random_read \<Rightarrow> string \<Rightarrow> string \<Rightarrow> string" where
  "UniqueDatabaseName R baseName testName =
     (let base = sanitizeIdentifier baseName CHR ''_'' ''itest'';
          name = sanitizeIdentifier testName CHR ''_'' ''test'';
          suffix = randomSuffix R;
          value = str_join ''_'' [base, name, suffix]
      in if length value \<le> 64 then value
         else (let room = 64 - int (length name) - int (length suffix) - 2;
                   maxBaseLen = nat (if room < 8 then 8 else room);
                   cut = str_trim CHR ''_'' (take maxBaseLen base);
                   base1 = (if maxBaseLen < length base then (if cut = [] then ''itest'' else cut) else base);
                   value1 = str_join ''_'' [base1, name, suffix];
                   value2 = (if 64 < length value1 then drop (length value1 - 64) value1 else value1)
               in str_trim CHR ''_'' value2))"

definition UniqueRedisPrefix :: "random_read \<Rightarrow> string \<Rightarrow> string \<Rightarrow> string" where
  "UniqueRedisPrefix R basePrefix testName =
     (let base = sanitizeIdentifier basePrefix CHR '':'' ''itest'';
          name = sanitizeIdentifier testName CHR '':'' ''test''
      in str_join '':'' [base, name, randomSuffix R])"

section \<open>The checks\<close>

definition mysqlDSN :: "Env \<Rightarrow> string \<Rightarrow> string" where
  "mysqlDSN env dbName = (let query = trim_prefix (en_DatabaseConfig env) ''?'';
      dsn = en_DatabaseUsername env @ '':'' @ en_DatabasePassword env @ ''@tcp('' @ en_DatabaseAddr env @ '')/'' @ dbName
    in if query = [] then dsn else dsn @ ''?'' @ query)"

definition CheckMySQL :: "host \<Rightarrow> Env \<Rightarrow> error option" where
  "CheckMySQL H env =
     (if trim_space (en_DatabaseAddr env) = [] then Some (ErrText ''PAI_TEST_DATABASE_ADDR is required'')
      else if trim_space (en_DatabaseUsername env) = [] then Some (ErrText ''PAI_TEST_DATABASE_USERNAME is required'')
      else if trim_space (en_DatabaseBaseName env) = [] then Some (ErrText ''PAI_TEST_DATABASE_DBNAME is required'')
      else (let dsn = mysqlDSN env [] in
        case ho_OpenMySQL H dsn of
          Some err \<Rightarrow> Some (ErrText (''open mysql: '' @ error_text err))
        | None \<Rightarrow> (case ho_PingMySQL H dsn of
              Some err \<Rightarrow> Some (ErrText (''ping mysql: '' @ error_text err))
            | None \<Rightarrow> None)))"

definition CheckRedis :: "host \<Rightarrow> Env \<Rightarrow> bool \<Rightarrow> error option" where
  "CheckRedis H env requireRedis =
     (if trim_space (en_RedisAddr env) = []
      then (if requireRedis then Some (ErrText ''PAI_TEST_REDIS_ADDR is required'') else None)
      else (case ho_PingRedis H (en_RedisAddr env) (en_RedisPassword env) (en_RedisDB env) of
          Some err \<Rightarrow> Some (ErrText (''ping redis: '' @ error_text err))
        | None \<Rightarrow> None))"

section \<open>The repository root\<close>

definition fileExists :: "host \<Rightarrow> string \<Rightarrow> bool" where
  "fileExists H path = (case ho_Stat H path of Some isDir \<Rightarrow> \<not> isDir | None \<Rightarrow> False)"

definition isRepoRoot :: "host \<Rightarrow> string \<Rightarrow> bool" where
  "isRepoRoot H dir = fileExists H (path_join [dir, ''go.mod''])"

function find_root_from :: "host \<Rightarrow> string \<Rightarrow> error + string" where
  "find_root_from H current =
     (if isRepoRoot H current then Inr current
      else (let parent = path_dir current in
        if parent = current then Inl (ErrText ''repository root not found from current working directory'')
        else find_root_from H parent))"
  by auto

termination
  by (relation "measure (\<lambda>(_, current). path_height current)") (auto simp: path_height_dir)

declare find_root_from.simps [simp del]

definition FindRepoRoot :: "host \<Rightarrow> string \<Rightarrow> error + string" where
  "FindRepoRoot H start = (case path_abs (ho_Getwd H) start of
      Inl err \<Rightarrow> Inl (ErrText (''resolve start path: '' @ error_text err))
    | Inr current \<Rightarrow> find_root_from H current)"

section \<open>The doctor\<close>

text \<open>What the command prints, or the error it ends with; the two names are built with a random read
  each.\<close>

definition doctor_main :: "host \<Rightarrow> random_read \<Rightarrow> random_read \<Rightarrow> error + string list" where
  "doctor_main H R1 R2 = (case ho_Getwd H of
      Inl err \<Rightarrow> Inl err
    | Inr wd \<Rightarrow> (case FindRepoRoot H wd of
          Inl err \<Rightarrow> Inl err
        | Inr repoRoot \<Rightarrow> (case Load H repoRoot of
              (_, Some err) \<Rightarrow> Inl err
            | (env, None) \<Rightarrow> (case CheckMySQL H env of
                  Some err \<Rightarrow> Inl err
                | None \<Rightarrow>
                    (case (if en_RedisAddr env \<noteq> [] then CheckRedis H env False else None) of
                       Some err \<Rightarrow> Inl err
                     | None \<Rightarrow> Inr (Summary env (UniqueDatabaseName R1 (en_DatabaseBaseName env) ''doctor'')
                         (UniqueRedisPrefix R2 (en_RedisPrefix env) ''doctor'')
                         (case ho_LookupEnv H ''GOWORK'' of Some g \<Rightarrow> g | None \<Rightarrow> []) False))))))"

end
