(* ===== verification/EnvSearch.thy ===== *)
theory EnvSearch
  imports IntegrationEnv
begin

text \<open>
  The search for the repository root and the generated names: the search ends with the nearest
  directory that has a \<open>go.mod\<close>, and a database name fits MySQL's limit and keeps its random suffix.
\<close>

section \<open>The nearest root\<close>

lemma find_root_found:
  "find_root_from H current = Inr d \<Longrightarrow>
     \<exists>n. d = (path_dir ^^ n) current \<and> isRepoRoot H d \<and> (\<forall>m < n. \<not> isRepoRoot H ((path_dir ^^ m) current))"
proof (induction H current rule: find_root_from.induct)
  case (1 H current)
  show ?case
  proof (cases "isRepoRoot H current")
    case True
    then show ?thesis using "1.prems" by (intro exI[of _ 0]) (simp add: find_root_from.simps)
  next
    case False
    then have up: "path_dir current \<noteq> current" "find_root_from H (path_dir current) = Inr d"
      using "1.prems" by (auto simp: find_root_from.simps[of H current] Let_def split: if_splits)
    with "1.IH"[OF False refl] obtain n where n: "d = (path_dir ^^ n) (path_dir current)" "isRepoRoot H d"
      "\<forall>m < n. \<not> isRepoRoot H ((path_dir ^^ m) (path_dir current))" by blast
    have "\<not> isRepoRoot H ((path_dir ^^ m) current)" if "m < Suc n" for m
      using that False n(3) by (cases m) (auto simp: funpow_swap1)
    then show ?thesis using n by (intro exI[of _ "Suc n"]) (auto simp: funpow_swap1)
  qed
qed

lemma find_root_missing:
  "find_root_from H current = Inl e \<Longrightarrow> \<not> isRepoRoot H ((path_dir ^^ n) current)"
proof (induction H current arbitrary: n rule: find_root_from.induct)
  case (1 H current)
  then have none: "\<not> isRepoRoot H current" by (auto simp: find_root_from.simps[of H current])
  show ?case
  proof (cases "path_dir current = current")
    case True
    then have "(path_dir ^^ n) current = current" by (induction n) auto
    then show ?thesis using none by simp
  next
    case False
    then have "find_root_from H (path_dir current) = Inl e"
      using "1.prems" none by (simp add: find_root_from.simps[of H current] Let_def)
    then have "\<not> isRepoRoot H ((path_dir ^^ m) (path_dir current))" for m
      using "1.IH"[OF none refl False] by blast
    then show ?thesis using none by (cases n) (auto simp: funpow_swap1)
  qed
qed

text \<open>C40: The search for the repository root ends, with the nearest directory at or above the start that
  has a go.mod file, or with an error when no directory up to the root of the file system has one.\<close>

theorem search_finds_nearest_root:
  assumes "path_abs (ho_Getwd H) start = Inr current"
  shows "case FindRepoRoot H start of
      Inr d \<Rightarrow> \<exists>n. d = (path_dir ^^ n) current \<and> isRepoRoot H d \<and> (\<forall>m < n. \<not> isRepoRoot H ((path_dir ^^ m) current))
    | Inl _ \<Rightarrow> \<forall>n. \<not> isRepoRoot H ((path_dir ^^ n) current)"
  using find_root_found find_root_missing assms by (auto simp: FindRepoRoot_def split: sum.split)

definition sample_shell :: "string \<Rightarrow> string \<Rightarrow> string option" where
  "sample_shell password = map_of [(''PAI_TEST_DATABASE_ADDR'', ''db:3306''), (''PAI_TEST_DATABASE_USERNAME'', ''root''),
     (''PAI_TEST_DATABASE_PASSWORD'', password), (''PAI_TEST_DATABASE_DBNAME'', ''mihomo'')]"

definition sample_host :: host where
  "sample_host = \<lparr> ho_LookupEnv = sample_shell ''secret'', ho_ReadFile = (\<lambda>_. FileMissing),
     ho_Stat = (\<lambda>p. if p = ''/repo/go.mod'' then Some False else None), ho_Getwd = Inr ''/repo/cmd/doctor'',
     ho_OpenMySQL = (\<lambda>_. None), ho_PingMySQL = (\<lambda>_. None), ho_PingRedis = (\<lambda>_ _ _. None) \<rparr>"

lemma sample_host_simps [simp]:
  "ho_Stat sample_host p = (if p = ''/repo/go.mod'' then Some False else None)"
  "ho_Getwd sample_host = Inr ''/repo/cmd/doctor''" "ho_LookupEnv sample_host = sample_shell ''secret''"
  "ho_ReadFile sample_host p = FileMissing" "ho_OpenMySQL sample_host d = None" "ho_PingMySQL sample_host d = None"
  by (simp_all add: sample_host_def)

lemma sample_abs: "path_abs (ho_Getwd sample_host) ''/repo/cmd/doctor'' = Inr ''/repo/cmd/doctor''"
  by (simp add: path_abs_def is_abs_def has_prefix_def path_clean_def)

lemma sample_root: "FindRepoRoot sample_host ''/repo/cmd/doctor'' = Inr ''/repo''"
  unfolding FindRepoRoot_def sample_abs sum.case
  by (simp add: find_root_from.simps isRepoRoot_def fileExists_def path_join_def path_clean_def
      path_dir_def upto_last_slash_def)

theorem search_finds_nearest_root_witness:
  "\<exists>n. ''/repo'' = (path_dir ^^ n) ''/repo/cmd/doctor'' \<and> isRepoRoot sample_host ''/repo''"
  using search_finds_nearest_root[OF sample_abs] sample_root by auto

section \<open>Names\<close>

definition word_byte :: "char \<Rightarrow> bool" where
  "word_byte c \<longleftrightarrow> 97 \<le> byte_code c \<and> byte_code c \<le> 122 \<or> 48 \<le> byte_code c \<and> byte_code c \<le> 57"

definition random_ok :: "random_read \<Rightarrow> bool" where
  "random_ok R \<longleftrightarrow> (case rr_bytes R of None \<Rightarrow> 0 \<le> sint (rr_UnixNano R) | Some buf \<Rightarrow> length buf = 4)"

lemma lower_hex_word: "is_lower_hex c \<Longrightarrow> word_byte c"
  by (auto simp: is_lower_hex_def word_byte_def)

lemma underscore_not_word [simp]: "\<not> word_byte CHR ''_''"
  by (simp add: word_byte_def byte_code_def)

lemma sanitize_loop_bytes: "set (sanitize_loop s b v) \<subseteq> {c. word_byte c} \<union> {s}"
  by (induction s b v rule: sanitize_loop.induct) (auto simp: word_byte_def)

text \<open>A sanitised name is not empty and is made of lower case letters, digits and inner separators.\<close>

definition clean_name :: "char \<Rightarrow> string \<Rightarrow> bool" where
  "clean_name s n \<longleftrightarrow> n \<noteq> [] \<and> set n \<subseteq> {c. word_byte c} \<union> {s} \<and> hd n \<noteq> s \<and> last n \<noteq> s"

lemma clean_defaults: "clean_name CHR ''_'' ''itest''" "clean_name CHR ''_'' ''test''"
  "clean_name CHR '':'' ''itest''" "clean_name CHR '':'' ''test''"
  by (auto simp: clean_name_def word_byte_def byte_code_def)

lemma sanitize_clean: "clean_name s fallback \<Longrightarrow> clean_name s (sanitizeIdentifier value s fallback)"
proof -
  assume f: "clean_name s fallback"
  let ?r = "str_trim s (sanitize_loop s False (trim_space (to_lower value)))"
  have "clean_name s ?r" if "?r \<noteq> []"
    using trim_by_ends[OF that[unfolded str_trim_def]] set_trim_by sanitize_loop_bytes that
    unfolding clean_name_def str_trim_def by blast
  then show ?thesis using f by (simp add: sanitizeIdentifier_def Let_def)
qed

lemma random_suffix:
  assumes "random_ok R"
  shows "length (randomSuffix R) = 8" "set (randomSuffix R) \<subseteq> {c. word_byte c}"
proof -
  show "length (randomSuffix R) = 8"
    using assms by (auto simp: random_ok_def randomSuffix_def show_hex_padded_def Let_def split: option.splits)
  have zero: "is_lower_hex CHR ''0''" by (simp add: is_lower_hex_def byte_code_def)
  have "is_lower_hex c" if "c \<in> set (randomSuffix R)" for c
  proof (cases "rr_bytes R")
    case None
    then have "c \<in> set (show_hex_padded 8 (rr_UnixNano R))" "\<not> sint (rr_UnixNano R) < 0"
      using that assms by (auto simp: randomSuffix_def random_ok_def dest: in_set_takeD)
    then show ?thesis using zero show_hex_lower by (auto simp: show_hex_padded_def Let_def)
  next
    case (Some buf)
    then show ?thesis using that hex_encode_lower by (simp add: randomSuffix_def)
  qed
  then show "set (randomSuffix R) \<subseteq> {c. word_byte c}" using lower_hex_word by blast
qed

lemma suffix_ends:
  assumes "random_ok R"
  shows "randomSuffix R \<noteq> []" "hd (randomSuffix R) \<noteq> CHR ''_''" "last (randomSuffix R) \<noteq> CHR ''_''"
proof -
  show n: "randomSuffix R \<noteq> []" using random_suffix(1)[OF assms] by auto
  have "word_byte (hd (randomSuffix R))" "word_byte (last (randomSuffix R))"
    using random_suffix(2)[OF assms] hd_in_set[OF n] last_in_set[OF n] by blast+
  then show "hd (randomSuffix R) \<noteq> CHR ''_''" "last (randomSuffix R) \<noteq> CHR ''_''"
    using underscore_not_word by metis+
qed

definition database_name :: "string \<Rightarrow> string \<Rightarrow> bool" where
  "database_name suffix n \<longleftrightarrow> length n \<le> 64 \<and> set n \<subseteq> {c. word_byte c} \<union> {CHR ''_''} \<and> hd n \<noteq> CHR ''_'' \<and>
     (\<exists>r. n = r @ suffix)"

text \<open>Joining clean parts, cutting from the left and trimming again.\<close>

lemma joined_name:
  assumes "clean_name CHR ''_'' base" "clean_name CHR ''_'' name" "random_ok R"
  shows "set (str_join ''_'' [base, name, randomSuffix R]) \<subseteq> {c. word_byte c} \<union> {CHR ''_''}"
    "hd (str_join ''_'' [base, name, randomSuffix R]) \<noteq> CHR ''_''"
    "\<exists>r. str_join ''_'' [base, name, randomSuffix R] = r @ randomSuffix R"
proof -
  show "set (str_join ''_'' [base, name, randomSuffix R]) \<subseteq> {c. word_byte c} \<union> {CHR ''_''}"
    using assms random_suffix(2) by (fastforce simp: clean_name_def)
  show "hd (str_join ''_'' [base, name, randomSuffix R]) \<noteq> CHR ''_''"
    using assms by (simp add: clean_name_def)
  have "str_join ''_'' [base, name, randomSuffix R] = (base @ ''_'' @ name @ ''_'') @ randomSuffix R" by simp
  then show "\<exists>r. str_join ''_'' [base, name, randomSuffix R] = r @ randomSuffix R" by blast
qed

lemma trimmed_name:
  assumes "random_ok R" "n = r @ randomSuffix R" "set n \<subseteq> {c. word_byte c} \<union> {CHR ''_''}"
  shows "database_name (randomSuffix R) (str_trim CHR ''_'' (if 64 < length n then drop (length n - 64) n else n))"
proof -
  let ?v = "if 64 < length n then drop (length n - 64) n else n" and ?s = "randomSuffix R"
  have len: "length ?v \<le> 64" by simp
  have "length n - 64 \<le> length r"
    using assms(2) random_suffix(1)[OF assms(1)] by simp
  then have "?v = (if 64 < length n then drop (length n - 64) r else r) @ ?s"
    using assms(2) by simp
  then obtain q where v: "?v = q @ ?s" by blast
  obtain t where t: "str_trim CHR ''_'' (q @ ?s) = t @ ?s"
    using trim_by_suffix[of ?s "\<lambda>x. x = CHR ''_''" q] suffix_ends[OF assms(1)] by (auto simp: str_trim_def)
  have n: "t @ ?s \<noteq> []" using suffix_ends(1)[OF assms(1)] by simp
  have "hd (t @ ?s) \<noteq> CHR ''_''"
    using trim_by_ends[of "\<lambda>x. x = CHR ''_''" "q @ ?s"] t n by (simp add: str_trim_def)
  moreover have "length (t @ ?s) \<le> 64"
    using length_trim_by[of "\<lambda>x. x = CHR ''_''" "q @ ?s"] len v t by (simp add: str_trim_def)
  moreover have "set ?v \<subseteq> set n" by (auto dest: in_set_dropD)
  then have "set (t @ ?s) \<subseteq> {c. word_byte c} \<union> {CHR ''_''}"
    using set_trim_by[of "\<lambda>x. x = CHR ''_''" "q @ ?s"] assms(3) v t by (fastforce simp: str_trim_def)
  ultimately show ?thesis unfolding v t database_name_def by blast
qed

lemma cut_name: "clean_name CHR ''_'' base \<Longrightarrow> clean_name CHR ''_'' (let cut = str_trim CHR ''_'' (take m base) in if cut = [] then ''itest'' else cut)"
proof -
  assume b: "clean_name CHR ''_'' base"
  let ?cut = "str_trim CHR ''_'' (take m base)"
  have "clean_name CHR ''_'' ?cut" if "?cut \<noteq> []"
  proof -
    have "set ?cut \<subseteq> set base"
      using set_trim_by[of _ "take m base"] set_take_subset[of m base] by (auto simp: str_trim_def)
    then show ?thesis
      using trim_by_ends[OF that[unfolded str_trim_def]] b that by (auto simp: clean_name_def str_trim_def)
  qed
  then show ?thesis using clean_defaults(1) by (simp add: Let_def)
qed

lemma unique_name: "random_ok R \<Longrightarrow> database_name (randomSuffix R) (UniqueDatabaseName R baseName testName)"
proof -
  assume R: "random_ok R"
  let ?base = "sanitizeIdentifier baseName CHR ''_'' ''itest''" and ?name = "sanitizeIdentifier testName CHR ''_'' ''test''"
  have base: "clean_name CHR ''_'' ?base" and name: "clean_name CHR ''_'' ?name"
    by (simp_all add: sanitize_clean clean_defaults)
  show ?thesis
  proof (cases "length (str_join ''_'' [?base, ?name, randomSuffix R]) \<le> 64")
    case True
    then show ?thesis
      using joined_name[OF base name R] unfolding UniqueDatabaseName_def Let_def database_name_def by simp
  next
    case False
    define room where "room = 64 - int (length ?name) - int (length (randomSuffix R)) - 2"
    define m where "m = nat (if room < 8 then 8 else room)"
    define base1 where "base1 = (if m < length ?base
      then (let cut = str_trim CHR ''_'' (take m ?base) in if cut = [] then ''itest'' else cut) else ?base)"
    have "clean_name CHR ''_'' base1" using base cut_name[OF base] by (simp add: base1_def)
    from joined_name[OF this name R] trimmed_name[OF R]
    have "database_name (randomSuffix R) (str_trim CHR ''_''
        (let v = str_join ''_'' [base1, ?name, randomSuffix R] in if 64 < length v then drop (length v - 64) v else v))"
      unfolding Let_def by blast
    then show ?thesis
      using False unfolding UniqueDatabaseName_def Let_def base1_def m_def room_def by (simp only: if_False)
  qed
qed

text \<open>A generated database name always fits: it has at most the 64 bytes MySQL allows, is made of lower
  case letters, digits and underscores, does not start with an underscore, and ends with the whole
  random suffix, however long the base and the test names are and whatever bytes they hold.\<close>

theorem database_name_fits:
  assumes "random_ok R"
  shows "length (UniqueDatabaseName R baseName testName) \<le> 64 \<and>
    (\<forall>c. c \<in> set (UniqueDatabaseName R baseName testName) \<longrightarrow> word_byte c \<or> c = CHR ''_'') \<and>
    hd (UniqueDatabaseName R baseName testName) \<noteq> CHR ''_'' \<and>
    (\<exists>r. UniqueDatabaseName R baseName testName = r @ randomSuffix R)"
  using unique_name[OF assms, of baseName testName] unfolding database_name_def by blast

text \<open>A base of seventy bytes.\<close>

definition sample_random :: random_read where
  "sample_random = \<lparr> rr_bytes = Some [161, 178, 195, 212], rr_UnixNano = 0 \<rparr>"

theorem database_name_fits_witness:
  "length (UniqueDatabaseName sample_random (replicate 70 CHR ''a'') ''doctor'') \<le> 64 \<and>
   (\<exists>r. UniqueDatabaseName sample_random (replicate 70 CHR ''a'') ''doctor'' = r @ randomSuffix sample_random)"
  using database_name_fits[of sample_random "replicate 70 CHR ''a''" "''doctor''"]
  by (simp add: random_ok_def sample_random_def)

end
