(* ===== verification/EnvLoad.thy ===== *)
theory EnvLoad
  imports EnvSearch
begin

text \<open>
  Loading the settings: the dot-env reader against the writer of its format, the precedence of shell,
  file and default, and that what the doctor prints does not depend on the passwords.
\<close>

section \<open>The dot-env format\<close>

definition dotenv_line :: "string \<times> string \<Rightarrow> string" where
  "dotenv_line kv = fst kv @ ''='' @ [CHR 0x22] @ snd kv @ [CHR 0x22]"

definition dotenv_entry :: "string \<times> string \<Rightarrow> bool" where
  "dotenv_entry kv \<longleftrightarrow> (case kv of (k, v) \<Rightarrow>
     k \<noteq> [] \<and> CHR ''='' \<notin> set k \<and> CHR 0x0A \<notin> set k \<and> hd k \<noteq> CHR ''#'' \<and> \<not> is_space (hd k) \<and> \<not> is_space (last k) \<and>
     CHR 0x0A \<notin> set v \<and>
     (v = [] \<or> hd v \<noteq> CHR 0x22 \<and> last v \<noteq> CHR 0x22 \<and> (hd v \<noteq> CHR 0x27 \<or> last v \<noteq> CHR 0x27)))"

lemma dotenv_bytes [simp]: "\<not> is_space CHR 0x22" "CHR 0x22 \<noteq> CHR 0x27" "\<not> is_space CHR ''=''"
  by (simp_all add: is_space_def byte_code_def)

lemma trim_quotes: "(v = [] \<or> hd v \<noteq> q \<and> last v \<noteq> q) \<Longrightarrow> str_trim q (q # v @ [q]) = v"
proof (cases "v = []")
  case False
  assume "v = [] \<or> hd v \<noteq> q \<and> last v \<noteq> q"
  then show ?thesis
    using False dropWhile_eq_self_iff[of "\<lambda>x. x = q" "v @ [q]"] dropWhile_eq_self_iff[of "\<lambda>x. x = q" "rev v"]
    by (simp add: str_trim_def trim_by_def hd_rev)
qed (simp add: str_trim_def trim_by_def)

lemma has_prefix_byte: "has_prefix s [c] \<longleftrightarrow> s \<noteq> [] \<and> hd s = c"
  by (cases s) (auto simp: has_prefix_def)

lemma has_suffix_byte: "has_suffix s [c] \<longleftrightarrow> s \<noteq> [] \<and> last s = c"
  by (simp add: has_suffix_def has_prefix_byte hd_rev)

lemma unquote_quoted:
  assumes "v = [] \<or> hd v \<noteq> CHR 0x22 \<and> last v \<noteq> CHR 0x22 \<and> (hd v \<noteq> CHR 0x27 \<or> last v \<noteq> CHR 0x27)"
  shows "unquote (CHR 0x22 # v @ [CHR 0x22]) = v"
proof -
  have "str_trim CHR 0x22 (CHR 0x22 # v @ [CHR 0x22]) = v" using assms by (intro trim_quotes) auto
  moreover have "\<not> (has_prefix v [CHR 0x27] \<and> has_suffix v [CHR 0x27])"
    using assms by (auto simp: has_prefix_byte has_suffix_byte)
  ultimately show ?thesis by (auto simp: unquote_def Let_def has_prefix_byte has_suffix_byte)
qed

lemma read_dotenv_line:
  assumes "dotenv_entry kv"
  shows "read_lines path (dotenv_line kv # rest) values = read_lines path rest (values(fst kv \<mapsto> snd kv))"
proof -
  obtain k v where kv: "kv = (k, v)" by (cases kv)
  let ?q = "CHR 0x22 # v @ [CHR 0x22]"
  note e = assms[unfolded dotenv_entry_def kv, simplified]
  have line: "dotenv_line kv = k @ CHR ''='' # ?q" by (simp add: dotenv_line_def kv)
  have "trim_space (k @ CHR ''='' # ?q) = k @ CHR ''='' # ?q"
    unfolding trim_space_def by (rule trim_by_id) (use e in simp)
  moreover have "trim_space ?q = ?q" unfolding trim_space_def by (rule trim_by_id) simp
  moreover have "trim_space k = k" unfolding trim_space_def by (rule trim_by_id) (use e in simp)
  moreover have "\<not> has_prefix (k @ CHR ''='' # ?q) ''#''" using e by (cases k) (auto simp: has_prefix_def)
  moreover have "str_cut CHR ''='' (k @ CHR ''='' # ?q) = Some (k, ?q)" using e by simp
  moreover have "unquote ?q = v" by (rule unquote_quoted) (use e in auto)
  ultimately show ?thesis using e line by (simp add: kv Let_def)
qed

lemma read_dotenv_lines:
  "list_all dotenv_entry kvs \<Longrightarrow> read_lines path (map dotenv_line kvs) m = Inr (m ++ map_of (rev kvs))"
proof (induction kvs arbitrary: m)
  case (Cons kv kvs)
  then show ?case
    by (cases kv) (simp add: read_dotenv_line del: read_lines.simps(2))
qed simp

text \<open>The dot-env reader inverts the writer: for any list of keys with double-quoted values (values may
  have inner quotes, blanks at the ends, hash and equals signs), the file with one line per entry reads as
  the map in which the last entry of a key wins.\<close>

theorem dotenv_roundtrip:
  assumes "list_all dotenv_entry kvs"
    and "ho_ReadFile H path = FileContent (str_join [CHR 0x0A] (map dotenv_line kvs))"
  shows "readDotEnv H path = Inr (map_of (rev kvs))"
proof (cases "kvs = []")
  case True
  then show ?thesis using assms(2) by (simp add: readDotEnv_def trim_space_def trim_by_def)
next
  case False
  have "list_all (\<lambda>l. CHR 0x0A \<notin> set l) (map dotenv_line kvs)"
    using assms(1) by (auto simp: list_all_iff dotenv_line_def dotenv_entry_def)
  then have "str_split CHR 0x0A (str_join [CHR 0x0A] (map dotenv_line kvs)) = map dotenv_line kvs"
    using False by (intro str_split_join) simp_all
  then show ?thesis using assms read_dotenv_lines by (simp add: readDotEnv_def)
qed

theorem dotenv_roundtrip_witness:
  "readDotEnv (sample_host\<lparr> ho_ReadFile := (\<lambda>_. FileContent (str_join [CHR 0x0A] (map dotenv_line
     [(''K'', '' a=#b ''), (''K'', ''second''), (''J'', [])]))) \<rparr>) ''f'' =
   Inr (map_of [(''J'', []), (''K'', ''second''), (''K'', '' a=#b '')])"
  by (subst dotenv_roundtrip[where kvs = "[(''K'', '' a=#b ''), (''K'', ''second''), (''J'', [])]"])
    (simp_all add: dotenv_entry_def is_space_def byte_code_def)

section \<open>Precedence\<close>

definition setting :: "host \<Rightarrow> (string \<Rightarrow> string option) \<Rightarrow> string \<Rightarrow> string \<Rightarrow> string" where
  "setting H f key fallback = (case ho_LookupEnv H key of Some v \<Rightarrow> v
     | None \<Rightarrow> (case f key of Some v \<Rightarrow> v | None \<Rightarrow> fallback))"

definition setting_source :: "host \<Rightarrow> (string \<Rightarrow> string option) \<Rightarrow> string \<Rightarrow> bool \<Rightarrow> Source option" where
  "setting_source H f key defaulted =
     (if ho_LookupEnv H key \<noteq> None then Some SourceShell
      else if f key \<noteq> None then Some SourceFile
      else if defaulted then Some SourceDefault else None)"

definition recorded_source :: "host \<Rightarrow> (string \<Rightarrow> string option) \<Rightarrow> string \<Rightarrow> bool \<Rightarrow> sources \<Rightarrow> sources" where
  "recorded_source H f key defaulted sources =
     (case setting_source H f key defaulted of Some x \<Rightarrow> sources(key \<mapsto> x) | None \<Rightarrow> sources)"

lemma recorded_other [simp]: "k \<noteq> key \<Longrightarrow> recorded_source H f key d s k = s k"
  by (simp add: recorded_source_def split: option.split)

lemma recorded_same [simp]: "s key = None \<Longrightarrow> recorded_source H f key d s key = setting_source H f key d"
  by (simp add: recorded_source_def split: option.split)

lemma pickString_setting: "pickString H key f s = (setting H f key [], recorded_source H f key False s)"
  by (simp add: pickString_def setting_def recorded_source_def setting_source_def split: option.split)

lemma pickStringDefault_setting:
  "s key = None \<Longrightarrow> pickStringDefault H key f fallback s = (setting H f key fallback, recorded_source H f key True s)"
  by (auto simp: pickStringDefault_def pickString_def setting_def recorded_source_def setting_source_def split: option.split)

text \<open>The Redis database number, or the error its text gives.\<close>

definition redis_db :: "host \<Rightarrow> (string \<Rightarrow> string option) \<Rightarrow> i64 \<times> error option" where
  "redis_db H f = (case setting_source H f ''PAI_TEST_REDIS_DB'' False of
      None \<Rightarrow> (0, None)
    | Some source \<Rightarrow> parse_picked ''PAI_TEST_REDIS_DB'' source (setting H f ''PAI_TEST_REDIS_DB'' []) 0)"

lemma pickIntDefault_setting:
  "pickIntDefault H ''PAI_TEST_REDIS_DB'' f 0 s = (redis_db H f, recorded_source H f ''PAI_TEST_REDIS_DB'' True s)"
  by (simp add: pickIntDefault_def redis_db_def setting_def recorded_source_def setting_source_def split: option.split)

definition loaded_sources :: "host \<Rightarrow> (string \<Rightarrow> string option) \<Rightarrow> sources" where
  "loaded_sources H f k =
     (if k \<in> {''PAI_TEST_DATABASE_CONFIG'', ''PAI_TEST_REDIS_DB'', ''PAI_TEST_REDIS_PREFIX''} then setting_source H f k True
      else if k \<in> {''PAI_TEST_DATABASE_ADDR'', ''PAI_TEST_DATABASE_USERNAME'', ''PAI_TEST_DATABASE_PASSWORD'',
        ''PAI_TEST_DATABASE_DBNAME'', ''PAI_TEST_REDIS_ADDR'', ''PAI_TEST_REDIS_PASSWORD''} then setting_source H f k False
      else None)"

text \<open>The settings field by field: each the value of the shell, else of the file, else its default.\<close>

definition load_reference :: "host \<Rightarrow> string \<Rightarrow> (string \<Rightarrow> string option) \<Rightarrow> Env \<times> error option" where
  "load_reference H root f =
    (let env = \<lparr> en_DatabaseAddr = setting H f ''PAI_TEST_DATABASE_ADDR'' [],
         en_DatabaseUsername = setting H f ''PAI_TEST_DATABASE_USERNAME'' [],
         en_DatabasePassword = setting H f ''PAI_TEST_DATABASE_PASSWORD'' [],
         en_DatabaseBaseName = setting H f ''PAI_TEST_DATABASE_DBNAME'' [],
         en_DatabaseConfig = setting H f ''PAI_TEST_DATABASE_CONFIG'' defaultDatabaseConfig,
         en_RedisAddr = setting H f ''PAI_TEST_REDIS_ADDR'' [],
         en_RedisPassword = setting H f ''PAI_TEST_REDIS_PASSWORD'' [],
         en_RedisDB = fst (redis_db H f), en_RedisPrefix = setting H f ''PAI_TEST_REDIS_PREFIX'' ''itest'',
         en_EnvFile = path_join [root, ''.env.integration.local''], en_Sources = loaded_sources H f \<rparr>
     in case snd (redis_db H f) of
          None \<Rightarrow> (env, None)
        | Some err \<Rightarrow> (env\<lparr> en_RedisDB := 0, en_RedisPrefix := [],
            en_Sources := (loaded_sources H f)(''PAI_TEST_REDIS_PREFIX'' := None) \<rparr>, Some err))"

lemma load_settings:
  "readDotEnv H (path_join [root, ''.env.integration.local'']) = Inr f \<Longrightarrow> Load H root = load_reference H root f"
proof -
  assume f: "readDotEnv H (path_join [root, ''.env.integration.local'']) = Inr f"
  let ?s = "recorded_source H f ''PAI_TEST_REDIS_DB'' True (recorded_source H f ''PAI_TEST_REDIS_PASSWORD'' False
    (recorded_source H f ''PAI_TEST_REDIS_ADDR'' False (recorded_source H f ''PAI_TEST_DATABASE_CONFIG'' True
    (recorded_source H f ''PAI_TEST_DATABASE_DBNAME'' False (recorded_source H f ''PAI_TEST_DATABASE_PASSWORD'' False
    (recorded_source H f ''PAI_TEST_DATABASE_USERNAME'' False (recorded_source H f ''PAI_TEST_DATABASE_ADDR'' False
    (\<lambda>_. None))))))))"
  have s: "?s = (loaded_sources H f)(''PAI_TEST_REDIS_PREFIX'' := None)"
    by (rule ext) (simp add: loaded_sources_def)
  have t: "recorded_source H f ''PAI_TEST_REDIS_PREFIX'' True ?s = loaded_sources H f"
    unfolding s by (rule ext) (simp add: recorded_source_def loaded_sources_def setting_source_def)
  obtain db err where r: "redis_db H f = (db, err)" by (cases "redis_db H f")
  show ?thesis
    using f s t
    by (simp add: load_reference_def Load_def pickString_setting pickStringDefault_setting pickIntDefault_setting empty_env_def Let_def r
        split: option.split)
qed

text \<open>C39: Loading is a lookup with precedence: whatever the shell and the file hold, \<open>Load\<close> gives what the
  reference gives, in which every setting and its recorded source come from the shell if it has the
  variable (even an empty one), else from the file, else from the default.\<close>

theorem load_is_lookup:
  "Load H root = (case readDotEnv H (path_join [root, ''.env.integration.local'']) of
     Inl err \<Rightarrow> (empty_env, Some err) | Inr f \<Rightarrow> load_reference H root f)"
  using load_settings by (auto simp: Load_def Let_def split: sum.split)

section \<open>The doctor and the passwords\<close>

definition secret_keys :: "string set" where
  "secret_keys = {''PAI_TEST_DATABASE_PASSWORD'', ''PAI_TEST_REDIS_PASSWORD''}"

text \<open>Hosts whose shells differ in the two passwords only; neither makes an empty one of a set one.\<close>

definition same_but_secrets :: "host \<Rightarrow> host \<Rightarrow> bool" where
  "same_but_secrets H H' \<longleftrightarrow> ho_ReadFile H' = ho_ReadFile H \<and> ho_Stat H' = ho_Stat H \<and> ho_Getwd H' = ho_Getwd H \<and>
     (\<forall>k. (k \<notin> secret_keys \<longrightarrow> ho_LookupEnv H' k = ho_LookupEnv H k) \<and>
       map_option (\<lambda>v. v = []) (ho_LookupEnv H' k) = map_option (\<lambda>v. v = []) (ho_LookupEnv H k))"

lemma secrets_setting:
  assumes "same_but_secrets H H'"
  shows "k \<notin> secret_keys \<Longrightarrow> setting H' f k d = setting H f k d"
    and "setting H' f k d = [] \<longleftrightarrow> setting H f k d = []"
    and "setting_source H' f k b = setting_source H f k b"
    and "ho_LookupEnv H' ''GOWORK'' = ho_LookupEnv H ''GOWORK''"
proof -
  have k: "map_option (\<lambda>v. v = []) (ho_LookupEnv H' k) = map_option (\<lambda>v. v = []) (ho_LookupEnv H k)"
    using assms by (simp add: same_but_secrets_def)
  show "k \<notin> secret_keys \<Longrightarrow> setting H' f k d = setting H f k d" "ho_LookupEnv H' ''GOWORK'' = ho_LookupEnv H ''GOWORK''"
    using assms by (auto simp: same_but_secrets_def setting_def secret_keys_def)
  show "setting H' f k d = [] \<longleftrightarrow> setting H f k d = []" "setting_source H' f k b = setting_source H f k b"
    using k by (cases "ho_LookupEnv H k"; cases "ho_LookupEnv H' k"; simp add: setting_def setting_source_def split: option.split)+
qed

lemma root_stat: "ho_Stat H' = ho_Stat H \<Longrightarrow> find_root_from H' current = find_root_from H current"
proof (induction H current rule: find_root_from.induct)
  case (1 H current)
  have r: "isRepoRoot H' current = isRepoRoot H current"
    using "1.prems" by (simp add: isRepoRoot_def fileExists_def)
  show ?case
  proof (cases "isRepoRoot H current \<or> path_dir current = current")
    case True
    then show ?thesis using r by (auto simp: find_root_from.simps[of _ current])
  next
    case False
    then show ?thesis using r "1.IH"[OF _ refl _ "1.prems"] by (simp add: find_root_from.simps[of _ current])
  qed
qed

lemma secrets_root: "same_but_secrets H H' \<Longrightarrow> FindRepoRoot H' start = FindRepoRoot H start"
  using root_stat[of H' H] by (simp add: FindRepoRoot_def same_but_secrets_def split: sum.split)

lemma secrets_load:
  assumes "same_but_secrets H H'"
  shows "snd (Load H' root) = snd (Load H root)"
    and "Load H root = (e, None) \<Longrightarrow> Load H' root = (e', None) \<Longrightarrow>
      e' = e\<lparr> en_DatabasePassword := en_DatabasePassword e', en_RedisPassword := en_RedisPassword e' \<rparr> \<and>
      (en_DatabasePassword e' = [] \<longleftrightarrow> en_DatabasePassword e = []) \<and> (en_RedisPassword e' = [] \<longleftrightarrow> en_RedisPassword e = [])"
proof -
  note same = secrets_setting[OF assms]
  have read: "readDotEnv H' p = readDotEnv H p" for p
    using assms by (simp add: readDotEnv_def same_but_secrets_def)
  have plain: "setting H' f k d = setting H f k d" if "k \<noteq> ''PAI_TEST_DATABASE_PASSWORD''" "k \<noteq> ''PAI_TEST_REDIS_PASSWORD''" for f k d
    using same(1) that by (simp add: secret_keys_def)
  have srcs: "loaded_sources H' f = loaded_sources H f" for f
    by (rule ext) (simp add: loaded_sources_def same(3))
  have db: "redis_db H' f = redis_db H f" for f by (simp add: redis_db_def same(3) plain split: option.split)
  have "snd (Load H' root) = snd (Load H root) \<and> (Load H root = (e, None) \<longrightarrow> Load H' root = (e', None) \<longrightarrow>
      e' = e\<lparr> en_DatabasePassword := en_DatabasePassword e', en_RedisPassword := en_RedisPassword e' \<rparr> \<and>
      (en_DatabasePassword e' = [] \<longleftrightarrow> en_DatabasePassword e = []) \<and> (en_RedisPassword e' = [] \<longleftrightarrow> en_RedisPassword e = []))"
  proof (cases "readDotEnv H (path_join [root, ''.env.integration.local''])")
    case (Inl err)
    then show ?thesis using read by (simp add: Load_def Let_def)
  next
    case (Inr f)
    have L: "Load H root = load_reference H root f" "Load H' root = load_reference H' root f"
      using load_settings[OF Inr] load_settings[of H' root f] Inr by (simp_all add: read)
    show ?thesis
      unfolding L load_reference_def Let_def srcs db
      by (cases "snd (redis_db H f)") (auto simp: plain same(2))
  qed
  then show "snd (Load H' root) = snd (Load H root)"
    and "Load H root = (e, None) \<Longrightarrow> Load H' root = (e', None) \<Longrightarrow>
      e' = e\<lparr> en_DatabasePassword := en_DatabasePassword e', en_RedisPassword := en_RedisPassword e' \<rparr> \<and>
      (en_DatabasePassword e' = [] \<longleftrightarrow> en_DatabasePassword e = []) \<and> (en_RedisPassword e' = [] \<longleftrightarrow> en_RedisPassword e = [])"
    by blast+
qed

lemma summary_secrets:
  assumes "(p = []) = (en_DatabasePassword e = [])" "(q = []) = (en_RedisPassword e = [])"
  shows "Summary (e\<lparr> en_DatabasePassword := p, en_RedisPassword := q \<rparr>) a b g r = Summary e a b g r"
  using assms by (simp add: Summary_def sourced_def redactSecret_def)

lemma doctor_okE:
  assumes "doctor_main H R1 R2 = Inr lines"
  obtains wd root e where "ho_Getwd H = Inr wd" "FindRepoRoot H wd = Inr root" "Load H root = (e, None)"
    "lines = Summary e (UniqueDatabaseName R1 (en_DatabaseBaseName e) ''doctor'')
       (UniqueRedisPrefix R2 (en_RedisPrefix e) ''doctor'')
       (case ho_LookupEnv H ''GOWORK'' of Some g \<Rightarrow> g | None \<Rightarrow> []) False"
  using assms that
  by (auto simp: doctor_main_def simp del: sum.case_eq_if split: sum.splits prod.splits option.splits if_splits)

text \<open>The doctor keeps the passwords to itself: two runs on hosts that differ in the values of the two
  passwords only, and whose servers both let them in, print the same report.\<close>

theorem doctor_hides_passwords:
  assumes "same_but_secrets H H'" and "doctor_main H R1 R2 = Inr lines" and "doctor_main H' R1 R2 = Inr lines'"
  shows "lines' = lines"
proof -
  obtain wd root e where r: "ho_Getwd H = Inr wd" "FindRepoRoot H wd = Inr root" "Load H root = (e, None)"
    "lines = Summary e (UniqueDatabaseName R1 (en_DatabaseBaseName e) ''doctor'')
       (UniqueRedisPrefix R2 (en_RedisPrefix e) ''doctor'') (case ho_LookupEnv H ''GOWORK'' of Some g \<Rightarrow> g | None \<Rightarrow> []) False"
    using assms(2) by (rule doctor_okE)
  obtain wd' root' e' where r': "ho_Getwd H' = Inr wd'" "FindRepoRoot H' wd' = Inr root'" "Load H' root' = (e', None)"
    "lines' = Summary e' (UniqueDatabaseName R1 (en_DatabaseBaseName e') ''doctor'')
       (UniqueRedisPrefix R2 (en_RedisPrefix e') ''doctor'') (case ho_LookupEnv H' ''GOWORK'' of Some g \<Rightarrow> g | None \<Rightarrow> []) False"
    using assms(3) by (rule doctor_okE)
  have root: "root' = root" using r(1,2) r'(1,2) secrets_root[OF assms(1)] assms(1) by (simp add: same_but_secrets_def)
  note s = secrets_load(2)[OF assms(1) r(3) r'(3)[unfolded root]]
  define p where "p = en_DatabasePassword e'"
  define q where "q = en_RedisPassword e'"
  have e': "e' = e\<lparr> en_DatabasePassword := p, en_RedisPassword := q \<rparr>"
    "(p = []) = (en_DatabasePassword e = [])" "(q = []) = (en_RedisPassword e = [])"
    using s by (simp_all add: p_def q_def)
  show ?thesis
    unfolding r(4) r'(4) e'(1) summary_secrets[OF e'(2,3)] secrets_setting(4)[OF assms(1)] by simp
qed

definition other_host :: host where
  "other_host = sample_host\<lparr> ho_LookupEnv := sample_shell ''other'' \<rparr>"

lemma sample_same_but_secrets: "same_but_secrets sample_host other_host"
  by (simp add: same_but_secrets_def other_host_def secret_keys_def sample_shell_def)

lemma sample_loads:
  "\<exists>e. Load sample_host ''/repo'' = (e, None) \<and> en_DatabaseAddr e = ''db:3306'' \<and> en_DatabaseUsername e = ''root'' \<and>
     en_DatabaseBaseName e = ''mihomo'' \<and> en_RedisAddr e = []"
  "\<exists>e. Load other_host ''/repo'' = (e, None) \<and> en_DatabaseAddr e = ''db:3306'' \<and> en_DatabaseUsername e = ''root'' \<and>
     en_DatabaseBaseName e = ''mihomo'' \<and> en_RedisAddr e = []"
  by (simp_all add: load_settings[of _ _ "\<lambda>_. None"] readDotEnv_def other_host_def load_reference_def Let_def
      redis_db_def setting_source_def setting_def sample_shell_def)

lemma sample_check:
  assumes "en_DatabaseAddr e = ''db:3306''" "en_DatabaseUsername e = ''root''" "en_DatabaseBaseName e = ''mihomo''"
  shows "CheckMySQL sample_host e = None" "CheckMySQL other_host e = None"
  using assms by (simp_all add: CheckMySQL_def Let_def other_host_def trim_space_def trim_by_def is_space_def byte_code_def)

lemma sample_reports: "\<exists>lines. doctor_main sample_host R1 R2 = Inr lines" "\<exists>lines. doctor_main other_host R1 R2 = Inr lines"
proof -
  have root: "FindRepoRoot other_host ''/repo/cmd/doctor'' = Inr ''/repo''"
    using secrets_root[OF sample_same_but_secrets] sample_root by simp
  show "\<exists>lines. doctor_main sample_host R1 R2 = Inr lines" "\<exists>lines. doctor_main other_host R1 R2 = Inr lines"
    using sample_loads sample_check sample_root root by (auto simp: doctor_main_def other_host_def)
qed

theorem doctor_hides_passwords_witness:
  "\<exists>lines. doctor_main sample_host sample_random sample_random = Inr lines \<and>
     doctor_main other_host sample_random sample_random = Inr lines"
  using sample_reports doctor_hides_passwords[OF sample_same_but_secrets] by metis

end
