(* ===== verification/StatusResult.thy ===== *)
theory StatusResult
  imports UpdateResult
begin

text \<open>
  What a revalidation writes: the upstream's answer, classified, into the one row of the credential, and
  that the status a client reads afterwards is the one it was told.
\<close>

section \<open>Overwriting one row\<close>

definition put_row :: "u64 \<Rightarrow> CredentialRecord \<Rightarrow> CredentialRecord sqltable \<Rightarrow> CredentialRecord sqltable" where
  "put_row i r t = t\<lparr> tb_rows := map (\<lambda>x. if fst x = i then (fst x, r) else x) (tb_rows t) \<rparr>"

definition same_keys :: "CredentialRecord \<Rightarrow> CredentialRecord \<Rightarrow> bool" where
  "same_keys r r' \<longleftrightarrow> cd_BindingID r = cd_BindingID r' \<and> cd_PlatformAccountID r = cd_PlatformAccountID r' \<and>
     cd_Platform r = cd_Platform r' \<and> cd_AccountID r = cd_AccountID r'"

lemma upsert_over:
  assumes ok: "table_ok credential_keys t" and row: "(i, old) \<in> set (tb_rows t)" and same: "same_keys r old"
    and ups: "sql_upsert k d credential_keys ''uniq_credential_binding_id'' (\<lambda>new old. new) r t = Inr t'"
  shows "t' = put_row i r t"
  using ups
proof (cases rule: sql_upsert_cases)
  case insert
  have "conflicting d credential_keys ''uniq_credential_binding_id'' r old"
    using same by (cases d) (auto simp: conflicting_def clashes_credential same_keys_def clashes_def credential_keys_def)
  then show ?thesis using insert row by auto
next
  case (update x n)
  have "clashes credential_keys r (snd x)"
    using update(2) by (cases d) (auto simp: conflicting_def clashes_credential clashes_def credential_keys_def)
  then have "clashes credential_keys old (snd x)" using same by (auto simp: clashes_credential same_keys_def)
  then have "(i, old) = x"
    using unique_ok_inj[of credential_keys t "(i, old)" x] ok row update(1) by (simp add: table_ok_def)
  then have "fst x = i" by auto
  then have "tb_rows t' = tb_rows (put_row i r t)" "tb_next t' = tb_next (put_row i r t)"
    using sql_update_rows(1,2)[OF update(3)] by (auto simp: put_row_def)
  then show ?thesis by (cases t'; cases "put_row i r t") simp
qed

text \<open>A write outside a transaction: nothing, or what the statement does, and then an error only when the
  acknowledgement was lost.\<close>

lemma exec_outcomes:
  assumes "sql_exec E Background f w = (r, w')"
  shows "((\<exists>e. r = Inl e) \<and> w_db w' = w_db w) \<or>
    (\<exists>x k. f k (w_db w) = Inr (x, w_db w') \<and> (r = Inr x \<or> (\<exists>n e. r = Inl e \<and> fault E n = Some (FailAfter e))))"
  using assms
  by (auto simp: sql_exec_def interact_def Let_def db_view_def put_view_def split: option.splits fault.splits sum.splits)

lemma save_over:
  assumes ok: "database_ok (w_db w)" and row: "(i, old) \<in> set (tb_rows (db_credentials (w_db w)))"
    and same: "same_keys (record_of_credential c) old" and run: "CredentialRepo_Save E Background c w = (r, w')"
  shows "((\<exists>e. r = Inl e) \<and> w_db w' = w_db w) \<or>
    (w_db w' = (w_db w)\<lparr> db_credentials := put_row i (record_of_credential c) (db_credentials (w_db w)) \<rparr> \<and>
     (r = Inr () \<or> (\<exists>n e. r = Inl e \<and> fault E n = Some (FailAfter e))))"
proof -
  have t: "table_ok credential_keys (db_credentials (w_db w))" using ok by (simp add: database_ok_def)
  have "d = (w_db w)\<lparr> db_credentials := put_row i (record_of_credential c) (db_credentials (w_db w)) \<rparr>"
    if "on_credentials (row_checked E (credential_columns (record_of_credential c)) (sql_upsert k (dialect E) credential_keys
      ''uniq_credential_binding_id'' (\<lambda>new old. new) (record_of_credential c))) (w_db w) = Inr ((), d)" for k d
    using that upsert_over[OF t row same] by (auto simp: on_credentials_def map_sum_def split: sum.splits)
  then show ?thesis
    using exec_outcomes[OF run[unfolded CredentialRepo_Save_def Let_def]] by fastforce
qed

section \<open>Revalidation\<close>

text \<open>The row after the upstream's answer.\<close>

definition answered_row :: "bool \<Rightarrow> gotime \<Rightarrow> error + 'a \<Rightarrow> CredentialRecord \<Rightarrow> CredentialRecord" where
  "answered_row mark now answer r = (case answer of
      Inl err \<Rightarrow> r\<lparr> cd_LastValidatedAt := Some now, cd_Status := classifyCredentialStatus err \<rparr>
    | Inr _ \<Rightarrow> r\<lparr> cd_LastValidatedAt := Some now, cd_Status := ''active'',
        cd_LastRefreshedAt := (if mark then Some now else cd_LastRefreshedAt r) \<rparr>)"

definition answered_code :: "error + 'a \<Rightarrow> string" where
  "answered_code answer = (case answer of Inl err \<Rightarrow> classifyErrorCode err | Inr _ \<Rightarrow> [])"

lemma same_keys_answered [simp]: "same_keys (answered_row mark now answer r) r"
  by (simp add: same_keys_def answered_row_def split: sum.split)

lemma found_credential:
  assumes "getCredential (wired_status E bc client) Background k w = (Inr c, w')"
  shows "same_store w w'" "\<exists>i. (i, record_of_credential c) \<in> set (tb_rows (db_credentials (w_db w)))" "cr_PlatformAccountID c = k"
proof -
  obtain x where l: "CredentialRepo_GetByPlatformAccountID E Background k w = (Inr (Some c), x)" "w' = x"
    using assms by (auto simp: getCredential_def wired_status_def NewStatusUsecase_def CredentialRepo_def split: option.splits
        elim!: bind_io_okE)
  then show "same_store w w'" using leaves_storeD[OF lookup_store] by blast
  obtain z where z: "gorm_take E Background db_credentials (\<lambda>r. cd_PlatformAccountID r = k) w = (Inr z, w')" "c = credentialFromRecord (snd z)"
    using l by (auto simp: CredentialRepo_GetByPlatformAccountID_def elim!: bind_io_okE dest!: catch_not_found_okD)
  from read_results(1)[OF z(1)] z(2)
  show "\<exists>i. (i, record_of_credential c) \<in> set (tb_rows (db_credentials (w_db w)))" "cr_PlatformAccountID c = k"
    by (auto simp: db_view_def) (metis prod.collapse, simp add: credentialFromRecord_def)
qed

text \<open>What is known after a completed revalidation of the credential \<open>c\<close> in the world \<open>w\<close>.\<close>

definition revalidated :: "env \<Rightarrow> Bootstrap \<Rightarrow> world Client \<Rightarrow> string \<Rightarrow> bool \<Rightarrow> world \<Rightarrow> world \<Rightarrow>
    CredentialRecord \<Rightarrow> string \<Rightarrow> bool" where
  "revalidated E bc client k mark w w' new code \<longleftrightarrow> (\<exists>i old cookies now w1.
     (i, old) \<in> set (tb_rows (db_credentials (w_db w))) \<and> cd_PlatformAccountID old = k \<and>
     DecryptString (GetCredentialEncryptionKey (bs_Security bc)) (cd_CredentialBlob old) = Inr cookies \<and>
     (let answer = fst (cl_ValidateAndDiscover client Background cookies (cd_Region old) w1) in
        new = answered_row mark now answer old \<and> code = answered_code answer) \<and>
     w_db w' = (w_db w)\<lparr> db_credentials := put_row i new (db_credentials (w_db w)) \<rparr>)"

lemma wired_status_fields:
  "su_encryptionKey (wired_status E bc client) = GetCredentialEncryptionKey (bs_Security bc)"
  "su_hoyoClient (wired_status E bc client) = client" "su_credentials (wired_status E bc client) = CredentialRepo E"
  by (simp_all add: wired_status_def NewStatusUsecase_def)

text \<open>The three calls of a revalidation, and the credential it saves.\<close>

lemma revalidate_calls:
  assumes "revalidate E (wired_status E bc client) Background c mark w = (r, w')"
    and "DecryptString (GetCredentialEncryptionKey (bs_Security bc)) (cr_CredentialBlob c) = Inr cookies"
    and d: "cl_ValidateAndDiscover client Background cookies (cr_Region c) w = (answer, w2)"
    and c': "c' = credentialFromRecord (answered_row mark (clock E (ticks w2)) answer (record_of_credential c))"
    and "CredentialRepo_Save E Background c' (next_tick w2) = (s, w3)"
  shows "r = map_sum id (\<lambda>_. (toCredentialStatus (cr_Status c'), answered_code answer, c')) s" "w' = w3"
proof -
  have "c' = (case answer of
      Inl err \<Rightarrow> c\<lparr> cr_LastValidatedAt := Some (clock E (ticks w2)), cr_Status := classifyCredentialStatus err \<rparr>
    | Inr _ \<Rightarrow> (if mark then c\<lparr> cr_LastValidatedAt := Some (clock E (ticks w2)), cr_Status := ''active'',
          cr_LastRefreshedAt := Some (clock E (ticks w2)) \<rparr>
        else c\<lparr> cr_LastValidatedAt := Some (clock E (ticks w2)), cr_Status := ''active'' \<rparr>))"
    by (simp add: c' answered_row_def credentialFromRecord_def record_of_credential_def split: sum.split)
  moreover have "toCredentialStatus ''active'' = CREDENTIAL_STATUS_ACTIVE" by (simp add: toCredentialStatus_def)
  ultimately have "(r, w') = (map_sum id (\<lambda>_. (toCredentialStatus (cr_Status c'), answered_code answer, c')) s, w3)"
    using assms(1,2,5) d
    by (cases answer; cases s; cases mark) (auto simp: revalidate_def wired_status_fields bind_io_apply attempt_apply time_now_def
        Let_def then_io_apply CredentialRepo_def answered_code_def)
  then show "r = map_sum id (\<lambda>_. (toCredentialStatus (cr_Status c'), answered_code answer, c')) s" "w' = w3" by simp_all
qed

lemma revalidate_outcomes:
  assumes ok: "database_ok (w_db w)" and inert: "client_inert client"
    and get: "getCredential (wired_status E bc client) Background k w = (Inr c, w1)"
    and run: "revalidate E (wired_status E bc client) Background c mark w1 = (r, w')"
  shows "((\<exists>e. r = Inl e) \<and> w_db w' = w_db w) \<or>
    (\<exists>c' code. revalidated E bc client k mark w w' (record_of_credential c') code \<and>
      (r = Inr (toCredentialStatus (cr_Status c'), code, c') \<or> (\<exists>n e. r = Inl e \<and> fault E n = Some (FailAfter e))))"
proof -
  let ?key = "GetCredentialEncryptionKey (bs_Security bc)"
  note found = found_credential[OF get]
  have w1: "w_db w1 = w_db w" using found(1) by (simp add: same_store_def)
  show ?thesis
  proof (cases "DecryptString ?key (cr_CredentialBlob c)")
    case (Inl e)
    then show ?thesis using run w1 by (auto simp: revalidate_def wired_status_fields)
  next
    case (Inr cookies)
    obtain answer w2 where d: "cl_ValidateAndDiscover client Background cookies (cr_Region c) w1 = (answer, w2)" by fastforce
    have "same_store w1 w2" using inert leaves_storeD[where m = "cl_ValidateAndDiscover client Background cookies (cr_Region c)", OF _ d]
      by (simp add: client_inert_def)
    then have w2: "w_db w2 = w_db w" using w1 by (simp add: same_store_def)
    define c' where "c' = credentialFromRecord (answered_row mark (clock E (ticks w2)) answer (record_of_credential c))"
    obtain s w3 where save: "CredentialRepo_Save E Background c' (next_tick w2) = (s, w3)" by fastforce
    note shape = revalidate_calls[OF run Inr d c'_def save]
    obtain i where row: "(i, record_of_credential c) \<in> set (tb_rows (db_credentials (w_db w)))" using found(2) by blast
    have rec: "record_of_credential c' = answered_row mark (clock E (ticks w2)) answer (record_of_credential c)" by (simp add: c'_def)
    have prem: "database_ok (w_db (next_tick w2))" "(i, record_of_credential c) \<in> set (tb_rows (db_credentials (w_db (next_tick w2))))"
      "same_keys (record_of_credential c') (record_of_credential c)"
      using ok row w2 rec by simp_all
    have "revalidated E bc client k mark w w3 (record_of_credential c') (answered_code answer)"
      if "w_db w3 = (w_db w)\<lparr> db_credentials := put_row i (record_of_credential c') (db_credentials (w_db w)) \<rparr>"
      unfolding revalidated_def
      by (rule exI[of _ i], rule exI[of _ "record_of_credential c"], rule exI[of _ cookies], rule exI[of _ "clock E (ticks w2)"],
          rule exI[of _ w1]) (use row found(3) Inr d rec that in \<open>simp add: record_of_credential_def\<close>)
    then show ?thesis using save_over[OF prem save] shape w2 by auto
  qed
qed

lemma get_leaves: "getCredential (wired_status E bc client) Background k w = (r, w') \<Longrightarrow> w_db w' = w_db w"
  using leaves_storeD[where m = "getCredential (wired_status E bc client) Background k"]
  by (simp add: getCredential_def wired_status_def NewStatusUsecase_def CredentialRepo_def same_store_def
      leaves_bind leaves_value lookup_store split: option.split)

lemma refresh_outcomes:
  assumes "database_ok (w_db w)" and "client_inert client"
    and run: "StatusUsecase_RefreshCredential E (wired_status E bc client) Background k w = (r, w')"
  shows "((\<exists>e. r = Inl e) \<and> w_db w' = w_db w) \<or>
    (\<exists>new code. revalidated E bc client k True w w' new code \<and>
      (r = Inr \<lparr> rco_Status = toCredentialStatus (cd_Status new), rco_RefreshedAt = cd_LastRefreshedAt new \<rparr> \<or>
       (\<exists>n e. r = Inl e \<and> fault E n = Some (FailAfter e))))"
proof -
  obtain q w1 where g: "getCredential (wired_status E bc client) Background k w = (q, w1)" by fastforce
  note db = get_leaves[OF g]
  show ?thesis
  proof (cases q)
    case (Inl e)
    then show ?thesis using run g db by (auto simp: StatusUsecase_RefreshCredential_def)
  next
    case (Inr c)
    obtain s w2 where rv: "revalidate E (wired_status E bc client) Background c True w1 = (s, w2)" by fastforce
    have "(r, w') = (map_sum id (\<lambda>(st, _, c'). \<lparr> rco_Status = st, rco_RefreshedAt = cr_LastRefreshedAt c' \<rparr>) s, w2)"
      using run g rv Inr by (cases s) (auto simp: StatusUsecase_RefreshCredential_def bind_io_apply split: prod.splits)
    then show ?thesis
      using revalidate_outcomes[OF assms(1,2) g[unfolded Inr] rv]
      by (fastforce simp: record_of_credential_def)
  qed
qed

lemma validate_outcomes:
  assumes "database_ok (w_db w)" and "client_inert client"
    and run: "StatusUsecase_ValidateCredential E (wired_status E bc client) Background k w = (Inr out, w')"
  shows "\<exists>new code. revalidated E bc client k False w w' new code \<and>
    out = \<lparr> vco_Status = toCredentialStatus (cd_Status new), vco_ErrorCode = code \<rparr>"
proof -
  obtain c w1 where g: "getCredential (wired_status E bc client) Background k w = (Inr c, w1)"
    and s: "\<exists>st code c'. revalidate E (wired_status E bc client) Background c False w1 = (Inr (st, code, c'), w') \<and>
      out = \<lparr> vco_Status = st, vco_ErrorCode = code \<rparr>"
    using run by (auto simp: StatusUsecase_ValidateCredential_def elim!: bind_io_okE split: prod.splits)
  from s obtain st code c' where rv: "revalidate E (wired_status E bc client) Background c False w1 = (Inr (st, code, c'), w')"
    and out: "out = \<lparr> vco_Status = st, vco_ErrorCode = code \<rparr>" by blast
  from revalidate_outcomes[OF assms(1,2) g rv] out show ?thesis by (auto simp: record_of_credential_def)
qed

text \<open>C19: A refresh records the upstream's answer and nothing else. However RefreshCredential ends, the
  database is untouched and the caller gets an error, or exactly the row of the requested account key
  was rewritten: status and time of validation as the upstream's answer to the decrypted cookies says,
  the time of refresh only on success, every other column and row as before; the answer given to the
  caller is the row's.\<close>

theorem refresh_records_the_answer:
  assumes "database_ok (w_db w)" and "client_inert client"
    and "StatusUsecase_RefreshCredential E (wired_status E bc client) Background k w = (r, w')"
  shows "((\<exists>e. r = Inl e) \<and> w_db w' = w_db w) \<or>
    (\<exists>i old new cookies now w1.
      (i, old) \<in> set (tb_rows (db_credentials (w_db w))) \<and> cd_PlatformAccountID old = k \<and>
      DecryptString (GetCredentialEncryptionKey (bs_Security bc)) (cd_CredentialBlob old) = Inr cookies \<and>
      new = (case fst (cl_ValidateAndDiscover client Background cookies (cd_Region old) w1) of
          Inl err \<Rightarrow> old\<lparr> cd_LastValidatedAt := Some now, cd_Status := classifyCredentialStatus err \<rparr>
        | Inr _ \<Rightarrow> old\<lparr> cd_LastValidatedAt := Some now, cd_Status := ''active'', cd_LastRefreshedAt := Some now \<rparr>) \<and>
      w_db w' = (w_db w)\<lparr> db_credentials := put_row i new (db_credentials (w_db w)) \<rparr> \<and>
      (r = Inr \<lparr> rco_Status = toCredentialStatus (cd_Status new), rco_RefreshedAt = cd_LastRefreshedAt new \<rparr> \<or>
       (\<exists>n e. r = Inl e \<and> fault E n = Some (FailAfter e))))"
  using refresh_outcomes[OF assms] unfolding revalidated_def answered_row_def Let_def if_True by blast

text \<open>C20: A client reads the status it was told. After a ValidateCredential has answered, a status read of the
  same account that answers, as long as the database has not changed in between, reports the status of
  the answer and a time of validation; and the error code is empty exactly when the status is active.\<close>

theorem status_reads_back_validation:
  assumes "database_ok (w_db w)" and "client_inert client"
    and "StatusUsecase_ValidateCredential E (wired_status E bc client) Background k w = (Inr out, w1)"
    and "w_db w2 = w_db w1"
    and "StatusUsecase_GetCredentialStatus (wired_status E bc client) Background k w2 = (Inr st, w3)"
  shows "gso_Status st = vco_Status out \<and> gso_LastValidatedAt st \<noteq> None \<and>
    (vco_ErrorCode out = [] \<longleftrightarrow> vco_Status out = CREDENTIAL_STATUS_ACTIVE) \<and> vco_Status out \<noteq> CREDENTIAL_STATUS_UNSPECIFIED"
proof -
  obtain new code where v: "revalidated E bc client k False w w1 new code"
    and out: "out = \<lparr> vco_Status = toCredentialStatus (cd_Status new), vco_ErrorCode = code \<rparr>"
    using validate_outcomes[OF assms(1-3)] by blast
  then obtain i old cookies now wa where row: "(i, old) \<in> set (tb_rows (db_credentials (w_db w)))" "cd_PlatformAccountID old = k"
    and new: "new = answered_row False now (fst (cl_ValidateAndDiscover client Background cookies (cd_Region old) wa)) old"
    and code: "code = answered_code (fst (cl_ValidateAndDiscover client Background cookies (cd_Region old) wa))"
    and db: "w_db w1 = (w_db w)\<lparr> db_credentials := put_row i new (db_credentials (w_db w)) \<rparr>"
    by (auto simp: revalidated_def Let_def)
  have ok: "table_ok credential_keys (db_credentials (w_db w))" using assms(1) by (simp add: database_ok_def)
  obtain c where get: "getCredential (wired_status E bc client) Background k w2 = (Inr c, w3)"
    and st: "st = \<lparr> gso_Status = toCredentialStatus (cr_Status c), gso_LastValidatedAt = cr_LastValidatedAt c \<rparr>"
    using assms(5) by (auto simp: StatusUsecase_GetCredentialStatus_def elim!: bind_io_okE)
  note found = found_credential[OF get]
  obtain j where j: "(j, record_of_credential c) \<in> set (tb_rows (db_credentials (w_db w1)))" using found(2) assms(4) by auto
  have "record_of_credential c = new"
  proof -
    from j obtain x where x: "x \<in> set (tb_rows (db_credentials (w_db w)))"
      "(j, record_of_credential c) = (if fst x = i then (fst x, new) else x)"
      by (auto simp: db put_row_def)
    have "x = (i, old)" if "fst x \<noteq> i"
    proof -
      have "cd_PlatformAccountID (snd x) = k" using that x(2) found(3) by (auto simp: record_of_credential_def)
      then have "clashes credential_keys (snd x) (snd (i, old))" using row(2) by (simp add: clashes_credential)
      then show ?thesis
        using unique_ok_inj[of credential_keys "db_credentials (w_db w)" x "(i, old)"] ok x(1) row(1) by (simp add: table_ok_def)
    qed
    then show ?thesis using x(2) by (cases "fst x = i") auto
  qed
  then have "cr_Status c = cd_Status new" "cr_LastValidatedAt c = cd_LastValidatedAt new"
    by (auto simp: record_of_credential_def)
  then show ?thesis
    using out st new code
    by (auto simp: answered_row_def answered_code_def toCredentialStatus_def classifyCredentialStatus_def classifyErrorCode_def Let_def
        split: sum.split)
qed

text \<open>The bound world and a client that answers with a challenge.\<close>

definition challenging_client :: "world Client" where
  "challenging_client = UnconfiguredClient\<lparr> cl_ValidateAndDiscover := (\<lambda>_ _ _. fail (ErrText ''Challenge needed'')) \<rparr>"

lemma challenging_inert: "client_inert challenging_client"
  by (simp add: client_inert_def leaves_store_def challenging_client_def UnconfiguredClient_def)

lemma sample_get:
  "getCredential (wired_status (sample_env MySQL) sample_conf client) Background (FormatPlatformAccountID 1 ''10001'') bound_world =
     (Inr (credentialFromRecord bound_row), next_tick bound_world)"
  by (simp add: getCredential_def wired_status_def NewStatusUsecase_def CredentialRepo_def bound_credential_lookup bind_io_apply)

lemma answered_fits: "fits E (credential_columns (answered_row mark t answer bound_row))"
proof -
  have "varchar_fits 32 (classifyCredentialStatus err)" for err
    by (simp add: classifyCredentialStatus_def Let_def ascii_fits byte_code_def)
  then show ?thesis
    using bound_row_fits[of E]
    by (simp add: fits_def row_fits credential_columns_def column_fits answered_row_def split: sum.split)
qed

lemma sample_revalidate:
  assumes "\<And>cookies region w. cl_ValidateAndDiscover client Background cookies region w = (answer, w)"
  shows "\<exists>w' c. revalidate (sample_env MySQL) (wired_status (sample_env MySQL) sample_conf client) Background
      (credentialFromRecord bound_row) mark (next_tick bound_world) =
        (Inr (toCredentialStatus (cr_Status c), answered_code answer, c), w') \<and>
    record_of_credential c = answered_row mark 1 answer bound_row \<and>
    w_db w' = empty_database\<lparr> db_credentials := \<lparr> tb_next = 2, tb_rows = [(1, record_of_credential c)] \<rparr> \<rparr>"
proof -
  define c where "c = credentialFromRecord (answered_row mark 1 answer bound_row)"
  have c: "record_of_credential c = answered_row mark 1 answer bound_row" by (simp add: c_def)
  have "clashes credential_keys (record_of_credential c) bound_row"
    using same_keys_answered[of mark 1 answer bound_row] by (simp add: c clashes_credential same_keys_def)
  from bound_credential_save[OF _ _ this answered_fits[of "sample_env MySQL" mark 1 answer, folded c], of "next_tick (next_tick bound_world)"] obtain w' where
    save: "CredentialRepo_Save (sample_env MySQL) Background c (next_tick (next_tick bound_world)) = (Inr (), w')"
    and db: "w_db w' = empty_database\<lparr> db_credentials := \<lparr> tb_next = 2, tb_rows = [(1, record_of_credential c)] \<rparr> \<rparr>"
    by (simp add: bound_world_def)
  let ?c = "credentialFromRecord bound_row"
  have "cr_CredentialBlob ?c = cd_CredentialBlob bound_row" by (simp add: credentialFromRecord_def)
  note opened = bound_decrypts[unfolded sample_conf_key, folded this]
  have fields: "c = (case answer of
      Inl err \<Rightarrow> ?c\<lparr> cr_LastValidatedAt := Some 1, cr_Status := classifyCredentialStatus err \<rparr>
    | Inr _ \<Rightarrow> (if mark then ?c\<lparr> cr_LastValidatedAt := Some 1, cr_Status := ''active'', cr_LastRefreshedAt := Some 1 \<rparr>
        else ?c\<lparr> cr_LastValidatedAt := Some 1, cr_Status := ''active'' \<rparr>))"
    by (simp add: c_def answered_row_def credentialFromRecord_def split: sum.split)
  have "revalidate (sample_env MySQL) (wired_status (sample_env MySQL) sample_conf client) Background ?c mark (next_tick bound_world) =
        (Inr (toCredentialStatus (cr_Status c), answered_code answer, c), w')"
    using save unfolding fields
    by (cases answer; cases mark) (simp_all add: revalidate_def wired_status_def NewStatusUsecase_def CredentialRepo_def opened
        bind_io_apply attempt_apply assms time_now_def Let_def then_io_apply answered_code_def bound_world_def toCredentialStatus_def)
  then show ?thesis using c db by blast
qed

lemma sample_refreshes:
  "\<exists>w'. StatusUsecase_RefreshCredential (sample_env MySQL) (wired_status (sample_env MySQL) sample_conf StubClient) Background
     (FormatPlatformAccountID 1 ''10001'') bound_world = (Inr \<lparr> rco_Status = CREDENTIAL_STATUS_ACTIVE, rco_RefreshedAt = Some 1 \<rparr>, w')"
proof -
  obtain answer where stub: "\<And>cookies region (w::world). cl_ValidateAndDiscover StubClient Background cookies region w = (Inr answer, w)"
    by (simp add: StubClient_def ret_def)
  obtain w' c where run: "revalidate (sample_env MySQL) (wired_status (sample_env MySQL) sample_conf StubClient) Background
      (credentialFromRecord bound_row) True (next_tick bound_world) =
        (Inr (toCredentialStatus (cr_Status c), answered_code (Inr answer), c), w')"
    and c: "record_of_credential c = answered_row True 1 (Inr answer) bound_row"
    using sample_revalidate[of StubClient "Inr answer" True, OF stub] by blast
  have "cr_Status c = ''active''" "cr_LastRefreshedAt c = Some 1"
    using arg_cong[OF c, of cd_Status] arg_cong[OF c, of cd_LastRefreshedAt]
    by (simp_all add: answered_row_def record_of_credential_def)
  then show ?thesis
    using run by (simp add: StatusUsecase_RefreshCredential_def sample_get bind_io_apply toCredentialStatus_def)
qed

theorem refresh_records_the_answer_witness:
  "\<exists>w' i new. StatusUsecase_RefreshCredential (sample_env MySQL) (wired_status (sample_env MySQL) sample_conf StubClient) Background
     (FormatPlatformAccountID 1 ''10001'') bound_world =
       (Inr \<lparr> rco_Status = CREDENTIAL_STATUS_ACTIVE, rco_RefreshedAt = Some 1 \<rparr>, w') \<and>
     w_db w' = (w_db bound_world)\<lparr> db_credentials := put_row i new (db_credentials (w_db bound_world)) \<rparr>"
proof -
  obtain w' where run: "StatusUsecase_RefreshCredential (sample_env MySQL) (wired_status (sample_env MySQL) sample_conf StubClient)
     Background (FormatPlatformAccountID 1 ''10001'') bound_world =
       (Inr \<lparr> rco_Status = CREDENTIAL_STATUS_ACTIVE, rco_RefreshedAt = Some 1 \<rparr>, w')"
    using sample_refreshes by blast
  from refresh_records_the_answer[OF bound_world_ok _ run] run show ?thesis by auto
qed

lemma sample_challenged:
  "\<exists>w1 st w3. StatusUsecase_ValidateCredential (sample_env MySQL) (wired_status (sample_env MySQL) sample_conf challenging_client)
       Background (FormatPlatformAccountID 1 ''10001'') bound_world =
         (Inr \<lparr> vco_Status = CREDENTIAL_STATUS_CHALLENGE_REQUIRED, vco_ErrorCode = ''CHALLENGE_REQUIRED'' \<rparr>, w1) \<and>
     StatusUsecase_GetCredentialStatus (wired_status (sample_env MySQL) sample_conf challenging_client) Background
       (FormatPlatformAccountID 1 ''10001'') w1 = (Inr st, w3)"
proof -
  let ?uc = "wired_status (sample_env MySQL) sample_conf challenging_client" and ?k = "FormatPlatformAccountID 1 ''10001''"
  let ?answer = "Inl (ErrText ''Challenge needed'') :: error + string \<times> string \<times> DiscoveredProfile list"
  obtain w' c where run: "revalidate (sample_env MySQL) ?uc Background (credentialFromRecord bound_row) False (next_tick bound_world) =
        (Inr (toCredentialStatus (cr_Status c), answered_code ?answer, c), w')"
    and c: "record_of_credential c = answered_row False 1 ?answer bound_row"
    and db: "w_db w' = empty_database\<lparr> db_credentials := \<lparr> tb_next = 2, tb_rows = [(1, record_of_credential c)] \<rparr> \<rparr>"
    using sample_revalidate[of challenging_client ?answer False]
    by (fastforce simp: challenging_client_def fail_def)
  have words: "classifyCredentialStatus (ErrText ''Challenge needed'') = ''challenge_required''"
    "classifyErrorCode (ErrText ''Challenge needed'') = ''CHALLENGE_REQUIRED''" by code_simp+
  have "cr_Status c = ''challenge_required''" and k: "cd_PlatformAccountID (record_of_credential c) = ?k"
    using arg_cong[OF c, of cd_Status] arg_cong[OF c, of cd_PlatformAccountID]
    by (simp_all add: answered_row_def record_of_credential_def words)
  then have "StatusUsecase_ValidateCredential (sample_env MySQL) ?uc Background ?k bound_world =
      (Inr \<lparr> vco_Status = CREDENTIAL_STATUS_CHALLENGE_REQUIRED, vco_ErrorCode = ''CHALLENGE_REQUIRED'' \<rparr>, w')"
    using run by (simp add: StatusUsecase_ValidateCredential_def sample_get bind_io_apply toCredentialStatus_def answered_code_def words)
  moreover have "\<exists>st w3. StatusUsecase_GetCredentialStatus ?uc Background ?k w' = (Inr st, w3)"
    using db k by (simp add: StatusUsecase_GetCredentialStatus_def getCredential_def wired_status_def NewStatusUsecase_def
        CredentialRepo_def CredentialRepo_GetByPlatformAccountID_def gorm_take_def interact_def catch_not_found_def db_view_def
        sql_take_def sql_find_def Let_def bind_io_apply attempt_apply)
  ultimately show ?thesis by blast
qed

theorem status_reads_back_validation_witness:
  "\<exists>w1 st w3. StatusUsecase_ValidateCredential (sample_env MySQL) (wired_status (sample_env MySQL) sample_conf challenging_client)
       Background (FormatPlatformAccountID 1 ''10001'') bound_world =
         (Inr \<lparr> vco_Status = CREDENTIAL_STATUS_CHALLENGE_REQUIRED, vco_ErrorCode = ''CHALLENGE_REQUIRED'' \<rparr>, w1) \<and>
     StatusUsecase_GetCredentialStatus (wired_status (sample_env MySQL) sample_conf challenging_client) Background
       (FormatPlatformAccountID 1 ''10001'') w1 = (Inr st, w3) \<and> gso_Status st = CREDENTIAL_STATUS_CHALLENGE_REQUIRED"
proof -
  obtain w1 st w3 where v: "StatusUsecase_ValidateCredential (sample_env MySQL) (wired_status (sample_env MySQL) sample_conf challenging_client)
       Background (FormatPlatformAccountID 1 ''10001'') bound_world =
         (Inr \<lparr> vco_Status = CREDENTIAL_STATUS_CHALLENGE_REQUIRED, vco_ErrorCode = ''CHALLENGE_REQUIRED'' \<rparr>, w1)"
    and s: "StatusUsecase_GetCredentialStatus (wired_status (sample_env MySQL) sample_conf challenging_client) Background
       (FormatPlatformAccountID 1 ''10001'') w1 = (Inr st, w3)"
    using sample_challenged by blast
  from status_reads_back_validation[OF bound_world_ok challenging_inert v refl s] v s show ?thesis by auto
qed

end
