(* ===== verification/ArtifactResult.thy ===== *)
theory ArtifactResult
  imports StatusResult Grants AuthkeyUsecase
begin

text \<open>
  The artifact store: a stored artifact reads back through the cache, cache entries of different bindings
  never share a key, the expiry of a fresh auth key is exact within the range of a duration, and an
  auth key that is handed out is stored.
\<close>

section \<open>Reading back\<close>

abbreviation artifact_cache_key :: "ArtifactRepoConfig \<Rightarrow> Artifact \<Rightarrow> string" where
  "artifact_cache_key r a \<equiv> cacheKeyByBinding r (af_BindingID a) (af_ArtifactType a) (af_ScopeKey a)"

definition artifact_stored :: "Artifact \<Rightarrow> database \<Rightarrow> bool" where
  "artifact_stored a d \<longleftrightarrow> (\<exists>i. (i, record_of_artifact a) \<in> set (tb_rows (db_artifacts d)))"

text \<open>A cached payload under the artifact's key is the artifact's, with what is not UTF-8 in it replaced.\<close>

definition cache_agrees :: "ArtifactRepoConfig \<Rightarrow> Artifact \<Rightarrow> world \<Rightarrow> bool" where
  "cache_agrees r a w \<longleftrightarrow>
     (\<forall>v e. w_redis w (artifact_cache_key r a) = Some (v, e) \<longrightarrow> unmarshal_artifact v = Some (valid_artifact a))"

lemma redis_del_ok:
  "redis_del E ks w = (Inr u, w') \<Longrightarrow> w' = (next_tick w)\<lparr> w_redis := (\<lambda>k. if k \<in> set ks then None else w_redis (next_tick w) k) \<rparr>"
  by (auto simp: redis_del_def interact_def Let_def split: option.splits fault.splits)

lemma redis_set_ok:
  "redis_set E key v ttl w = (Inr u, w') \<Longrightarrow> \<exists>e. w' = (next_tick w)\<lparr> w_redis := (w_redis w)(key \<mapsto> (v, e)) \<rparr>"
  by (auto simp: redis_set_def interact_def Let_def split: option.splits fault.splits)

lemma artifact_upserted:
  assumes "sql_exec E Background (\<lambda>k. on_artifacts (row_checked E (artifact_columns (record_of_artifact a))
      (sql_upsert k (dialect E) artifact_keys ''uniq_runtime_artifact_binding'' (\<lambda>new old. new) (record_of_artifact a)))) w = (Inr u, w')"
  shows "artifact_stored a (w_db w')" "w_redis w' = w_redis w" "database_ok (w_db w) \<Longrightarrow> database_ok (w_db w')"
proof -
  from assms obtain k t where ups: "sql_upsert k (dialect E) artifact_keys ''uniq_runtime_artifact_binding'' (\<lambda>new old. new)
      (record_of_artifact a) (db_artifacts (w_db w)) = Inr t" and w': "w_db w' = (w_db w)\<lparr> db_artifacts := t \<rparr>"
    and r: "w_redis w' = w_redis w"
    by (auto simp: sql_exec_def interact_def Let_def db_view_def put_view_def on_artifacts_def map_sum_def
        split: option.splits fault.splits sum.splits)
  show "artifact_stored a (w_db w')" using upsert_result[OF ups] by (auto simp: artifact_stored_def w')
  show "w_redis w' = w_redis w" by (rule r)
  show "database_ok (w_db w')" if "database_ok (w_db w)"
    using that table_ok_upsert[OF _ _ ups] by (simp add: database_ok_def w')
qed

definition previous_owner :: "env \<Rightarrow> Artifact \<Rightarrow> (world, string) io" where
  "previous_owner E a = bind_io (attempt (gorm_take E Background db_artifacts (\<lambda>x. ra_BindingID x = af_BindingID a \<and>
     ra_ArtifactType x = af_ArtifactType a \<and> ra_ScopeKey x = af_ScopeKey a)))
     (\<lambda>p. ret (case p of Inr (_, x) \<Rightarrow> ra_PlatformAccountID x | Inl _ \<Rightarrow> []))"

definition put_after :: "env \<Rightarrow> ArtifactRepoConfig \<Rightarrow> Artifact \<Rightarrow> string \<Rightarrow> (world, unit) io" where
  "put_after E r a prev = then_io (sql_exec E Background (\<lambda>k. on_artifacts (row_checked E (artifact_columns (record_of_artifact a))
        (sql_upsert k (dialect E) artifact_keys ''uniq_runtime_artifact_binding'' (\<lambda>new old. new) (record_of_artifact a)))))
      (bind_io (lift_res (marshal_artifact a)) (\<lambda>payload.
        then_io (if prev \<noteq> [] \<and> prev \<noteq> af_PlatformAccountID a
                 then redis_del E [cacheKey r prev (af_ArtifactType a) (af_ScopeKey a)] else ret ())
        (then_io (redis_del E [cacheKey r (af_PlatformAccountID a) (af_ArtifactType a) (af_ScopeKey a)])
        (bind_io (time_until E (af_ExpiresAt a)) (\<lambda>ttl.
         if ttl \<le> 0 then redis_del E [artifact_cache_key r a] else redis_set E (artifact_cache_key r a) payload ttl)))))"

lemma put_split: "ar_redis r \<Longrightarrow> ArtifactRepo_Put E r ctx a = bind_io (previous_owner E a) (put_after E r a)"
  by (simp add: ArtifactRepo_Put_def previous_owner_def put_after_def[abs_def] Let_def)

lemma put_result:
  assumes redis: "ar_redis r" and put: "ArtifactRepo_Put E r ctx a w = (Inr (), w')"
  shows "artifact_stored a (w_db w')" "cache_agrees r a w'" "database_ok (w_db w) \<Longrightarrow> database_ok (w_db w')"
proof -
  obtain prev w1 where first: "previous_owner E a w = (Inr prev, w1)" and rest: "put_after E r a prev w1 = (Inr (), w')"
    using put unfolding put_split[OF redis] by (rule bind_io_okE)
  from rest[unfolded put_after_def] obtain w2 payload w3 w4 ttl w5 where ups: "sql_exec E Background (\<lambda>k. on_artifacts (row_checked E
        (artifact_columns (record_of_artifact a)) (sql_upsert k (dialect E) artifact_keys
      ''uniq_runtime_artifact_binding'' (\<lambda>new old. new) (record_of_artifact a)))) w1 = (Inr (), w2)"
    and payload: "marshal_artifact a = Inr payload"
    and dels: "(if prev \<noteq> [] \<and> prev \<noteq> af_PlatformAccountID a
        then redis_del E [cacheKey r prev (af_ArtifactType a) (af_ScopeKey a)] else ret ()) w2 = (Inr (), w3)"
      "redis_del E [cacheKey r (af_PlatformAccountID a) (af_ArtifactType a) (af_ScopeKey a)] w3 = (Inr (), w4)"
    and ttl: "time_until E (af_ExpiresAt a) w4 = (Inr ttl, w5)"
    and last: "(if ttl \<le> 0 then redis_del E [artifact_cache_key r a] else redis_set E (artifact_cache_key r a) payload ttl) w5 = (Inr (), w')"
    by (auto elim!: bind_io_okE then_io_okE)
  have w1: "same_store w w1"
    by (cases "gorm_take E Background db_artifacts (\<lambda>x. ra_BindingID x = af_BindingID a \<and>
        ra_ArtifactType x = af_ArtifactType a \<and> ra_ScopeKey x = af_ScopeKey a) w")
      (use first reads_store(2) in \<open>fastforce simp: previous_owner_def attempt_apply bind_io_apply\<close>)
  note db = artifact_upserted[OF ups]
  have w3: "w_db w3 = w_db w2" using dels(1) by (auto simp: dest: redis_del_ok split: if_splits)
  have w4: "w_db w4 = w_db w3" using redis_del_ok[OF dels(2)] by simp
  have w5: "w_db w5 = w_db w4" using ttl by (auto simp: time_until_def time_now_def bind_io_apply)
  have w': "w_db w' = w_db w5 \<and> (\<forall>v e. w_redis w' (artifact_cache_key r a) = Some (v, e) \<longrightarrow> v = payload)"
  proof (cases "ttl \<le> 0")
    case True
    then show ?thesis using last by (auto dest: redis_del_ok)
  next
    case False
    then show ?thesis using last by (auto dest!: redis_set_ok)
  qed
  show "artifact_stored a (w_db w')" using db(1) w3 w4 w5 w' by simp
  show "cache_agrees r a w'" using w' unmarshal_marshal[OF payload] by (auto simp: cache_agrees_def)
  show "database_ok (w_db w')" if "database_ok (w_db w)"
    using db(3) that w1 w3 w4 w5 w' by (simp add: same_store_def)
qed

lemma probe_result:
  assumes "ar_redis r" "cache_agrees r a w" "cache_probe E r (artifact_cache_key r a) w = (q, w')"
  shows "same_store w w'" "ticks w' = Suc (ticks w)" "q = Inr None \<or> q = Inr (Some (valid_artifact a))"
  using assms
  by (auto simp: cache_probe_def attempt_apply redis_get_def interact_def Let_def cache_agrees_def
      split: option.splits fault.splits if_splits sum.splits)

lemma fill_result: "cache_fill E r key a w = (Inr x, w') \<Longrightarrow> x = Some a"
  by (auto simp: cache_fill_def split: if_splits sum.splits elim!: bind_io_okE then_io_okE)

lemma stored_is_unique:
  assumes "database_ok d" "artifact_stored a d" "z \<in> set (tb_rows (db_artifacts d))"
    "ra_BindingID (snd z) = af_BindingID a" "ra_ArtifactType (snd z) = af_ArtifactType a" "ra_ScopeKey (snd z) = af_ScopeKey a"
  shows "snd z = record_of_artifact a"
proof -
  obtain i where i: "(i, record_of_artifact a) \<in> set (tb_rows (db_artifacts d))" using assms(2) by (auto simp: artifact_stored_def)
  have "clashes artifact_keys (snd z) (snd (i, record_of_artifact a))"
    using assms(4-6) by (simp add: clashes_artifact record_of_artifact_def)
  then have "z = (i, record_of_artifact a)"
    using unique_ok_inj[of artifact_keys "db_artifacts d" z "(i, record_of_artifact a)"] assms(1,3) i
    by (simp add: database_ok_def table_ok_def)
  then show ?thesis by simp
qed

lemma get_result:
  assumes ok: "database_ok (w_db w)" and faults: "driver_faults E" and redis: "ar_redis r" and stored: "artifact_stored a (w_db w)"
    and cache: "cache_agrees r a w" and live: "clock E (Suc (ticks w)) < af_ExpiresAt a"
    and get: "ArtifactRepo_GetByBindingID E r ctx (af_BindingID a) (af_ArtifactType a) (af_ScopeKey a) w = (Inr x, w')"
  shows "x = Some a \<or> x = Some (valid_artifact a)"
proof -
  obtain q w1 where probe: "cache_probe E r (artifact_cache_key r a) w = (q, w1)" by fastforce
  note p = probe_result[OF redis cache probe]
  show ?thesis
  proof (cases "q = Inr None")
    case False
    then show ?thesis using p(3) get probe by (auto simp: ArtifactRepo_GetByBindingID_def)
  next
    case True
    define live_row :: "RuntimeArtifact \<Rightarrow> bool" where "live_row = (\<lambda>y. ra_BindingID y = af_BindingID a \<and>
      ra_ArtifactType y = af_ArtifactType a \<and> ra_ScopeKey y = af_ScopeKey a \<and> ra_ExpiresAt y > clock E (Suc (ticks w)))"
    obtain found w2 where f: "ArtifactRepo_get E live_row (next_tick w1) = (Inr found, w2)"
      and rest: "(case found of None \<Rightarrow> ret None | Some b \<Rightarrow> cache_fill E r (artifact_cache_key r a) b) w2 = (Inr x, w')"
      using get probe True p(2)
      by (auto simp: ArtifactRepo_GetByBindingID_def time_now_def live_row_def elim!: bind_io_okE)
    have db: "db_view Background w1 = w_db w" using p(1) by (simp add: db_view_def same_store_def)
    obtain i where i: "(i, record_of_artifact a) \<in> set (tb_rows (db_artifacts (w_db w)))"
      using stored by (auto simp: artifact_stored_def)
    have "live_row (record_of_artifact a)" using live by (simp add: live_row_def record_of_artifact_def)
    then have some: "sql_take n live_row (db_artifacts (w_db w)) \<noteq> None" for n
      using i sql_take_None[of n live_row "db_artifacts (w_db w)"] by force
    obtain z where z: "gorm_take E Background db_artifacts live_row (next_tick w1) = (Inr z, w2)" "found = Some (artifact_of_record (snd z))"
      using f some[of "pick E (Suc (ticks w1))"] faults p(2)
      by (auto simp: ArtifactRepo_get_def catch_not_found_def gorm_take_def interact_def Let_def db driver_faults_def attempt_apply
          bind_io_apply split: option.splits fault.splits sum.splits if_splits prod.splits)
    have "z \<in> set (tb_rows (db_artifacts (w_db w)))" "live_row (snd z)" using read_results(1)[OF z(1)] by (simp_all add: db)
    then have "snd z = record_of_artifact a" using stored_is_unique[OF ok stored] by (simp add: live_row_def)
    then show ?thesis using rest z(2) fill_result by simp
  qed
qed


definition sample_artifact :: Artifact where
  "sample_artifact = \<lparr> af_BindingID = 1, af_PlatformAccountID = FormatPlatformAccountID 1 ''10001'',
     af_ArtifactType = authKeyArtifactType, af_ArtifactValue = ''value'', af_ScopeKey = ''p1'', af_ExpiresAt = 1000 \<rparr>"

lemma sample_driver_faults [simp]: "driver_faults (sample_env d)"
  by (simp add: driver_faults_def)

lemma bound_world_simps:
  "w_db bound_world = empty_database\<lparr> db_credentials := \<lparr> tb_next = 2, tb_rows = [(1, bound_row)] \<rparr> \<rparr>"
  "w_tx bound_world = None" "w_redis bound_world = Map.empty" "ticks bound_world = 0"
  by (simp_all add: bound_world_def)

lemma bound_world_put: "on_artifacts (sql_upsert k MySQL artifact_keys x u rec) (w_db bound_world) =
    Inr ((), (w_db bound_world)\<lparr> db_artifacts := \<lparr> tb_next = 2, tb_rows = [(1, rec)] \<rparr> \<rparr>)"
  by (simp add: bound_world_simps on_artifacts_def sql_upsert_def sql_find_def sql_insert_def clash_key_def artifact_keys_def
      empty_database_def empty_table_def)

lemma bound_world_take: "sql_take k p (db_artifacts (w_db bound_world)) = None"
  by (simp add: bound_world_simps sql_take_def sql_find_def empty_database_def empty_table_def)

lemma sample_artifact_fits: "list_all (\<lambda>c. byte_code c < 128) v \<Longrightarrow> length v \<le> 65535 \<Longrightarrow> af_ArtifactValue a = v \<Longrightarrow>
    af_PlatformAccountID a = FormatPlatformAccountID 1 ''10001'' \<Longrightarrow> af_ArtifactType a = authKeyArtifactType \<Longrightarrow>
    varchar_fits 128 (af_ScopeKey a) \<Longrightarrow> fits E (artifact_columns (record_of_artifact a))"
  using sample_key_fits valid_ascii[of v]
  by (simp add: fits_def row_fits artifact_columns_def column_fits record_of_artifact_def authKeyArtifactType_def ascii_fits byte_code_def)

lemma put_succeeds:
  assumes "w_db w = w_db bound_world" "w_tx w = None" "ar_redis r" "marshal_artifact a = Inr p" "int (ticks w) + 10 < af_ExpiresAt a"
    and "fits (sample_env MySQL) (artifact_columns (record_of_artifact a))"
  shows "\<exists>w' e. ArtifactRepo_Put (sample_env MySQL) r Background a w = (Inr (), w') \<and> ticks w' < ticks w + 10 \<and>
    w_redis w' (artifact_cache_key r a) = Some (p, e) \<and> int (ticks w) + 10 < e"
  using assms
  by (simp add: row_checked_fits ArtifactRepo_Put_def Let_def bound_world_put bound_world_take bind_io_apply then_io_apply attempt_apply
      gorm_take_def sql_exec_def interact_def Let_def db_view_def put_view_def redis_del_def redis_set_def time_until_def time_now_def
      time_sub_def min_def)

lemma sample_config_redis [simp]: "ar_redis (artifact_config sample_conf)"
  by (simp add: artifact_config_def)

lemma marshal_succeeds:
  assumes "0 \<le> af_ExpiresAt a" "af_ExpiresAt a < 253402300800 * 1000000000"
  shows "\<exists>p. marshal_artifact a = Inr p"
  using marshal_time_succeeds[OF assms] by (auto simp: marshal_artifact_def)


section \<open>Keys\<close>

lemma split_at_colon:
  "CHR '':'' \<notin> set a \<Longrightarrow> CHR '':'' \<notin> set b \<Longrightarrow> a @ CHR '':'' # s = b @ CHR '':'' # t \<Longrightarrow> a = b \<and> s = t"
  by (induction a arbitrary: b) (case_tac b, auto)+

text \<open>Cache keys do not collide. Two binding cache keys for artifact types without a colon are equal only
  for the same binding, type and scope, whatever the scope key (a player id of the request) holds, and a
  binding cache key is never one of the account keys that \<open>Get\<close> uses, for a key \<open>FormatPlatformAccountID\<close>
  builds.\<close>

theorem cache_keys_do_not_collide:
  assumes "CHR '':'' \<notin> set t" and "CHR '':'' \<notin> set t'"
  shows "(cacheKeyByBinding r b t s = cacheKeyByBinding r b' t' s' \<longleftrightarrow> b = b' \<and> t = t' \<and> s = s') \<and>
    cacheKeyByBinding r b t s \<noteq> cacheKey r (FormatPlatformAccountID b' a) t' s'"
proof -
  have digits: "CHR '':'' \<notin> set (show_u64 x)" for x by (simp add: show_u64_def show_nat_no_sep)
  have "b = b' \<and> t = t' \<and> s = s'" if "cacheKeyByBinding r b t s = cacheKeyByBinding r b' t' s'"
  proof -
    have "show_u64 b @ CHR '':'' # t @ CHR '':'' # s = show_u64 b' @ CHR '':'' # t' @ CHR '':'' # s'"
      using that by (simp add: cacheKeyByBinding_def)
    from split_at_colon[OF digits digits this] have "b = b'" "t @ CHR '':'' # s = t' @ CHR '':'' # s'" by simp_all
    with split_at_colon[OF assms] show ?thesis by blast
  qed
  then have "cacheKeyByBinding r b t s = cacheKeyByBinding r b' t' s' \<longleftrightarrow> b = b' \<and> t = t' \<and> s = s'" by blast
  moreover have "cacheKeyByBinding r b t s \<noteq> cacheKey r (FormatPlatformAccountID b' a) t' s'"
    by (simp add: cacheKeyByBinding_def cacheKey_def FormatPlatformAccountID_def binding_prefix_def)
  ultimately show ?thesis by blast
qed

theorem cache_keys_do_not_collide_witness:
  "cacheKeyByBinding (artifact_config sample_conf) 1 ''authkey'' ''2:authkey:p'' \<noteq>
     cacheKeyByBinding (artifact_config sample_conf) 12 ''authkey'' ''authkey:p''"
  using cache_keys_do_not_collide[of "''authkey''" "''authkey''"] by simp

section \<open>A fresh auth key\<close>

lemma seconds_exact: "seconds_duration s = sint s * 1000000000 \<longleftrightarrow> - 9223372036 \<le> sint s \<and> sint s \<le> 9223372036"
proof
  assume "seconds_duration s = sint s * 1000000000"
  moreover have "- (2 ^ 63) \<le> seconds_duration s" "seconds_duration s < 2 ^ 63"
    using sint_ge[of "s * 1000000000"] sint_lt[of "s * 1000000000"] by (simp_all add: seconds_duration_def)
  ultimately show "- 9223372036 \<le> sint s \<and> sint s \<le> 9223372036" by simp
next
  assume r: "- 9223372036 \<le> sint s \<and> sint s \<le> 9223372036"
  have "s * 1000000000 = word_of_int (sint s * 1000000000)" by simp
  moreover have "- (2 ^ 63) \<le> sint s * 1000000000" "sint s * 1000000000 < 2 ^ 63" using r by simp_all
  ultimately show "seconds_duration s = sint s * 1000000000"
    unfolding seconds_duration_def by (simp only: sint_sbintrunc') (simp add: signed_take_bit_int_eq_self)
qed

text \<open>The lifetime of an auth key is the seconds the upstream gave exactly when they are at most
  9223372036 (292 years) either way; outside that range the product of \<open>int64\<close> values wraps.\<close>

theorem auth_key_lifetime_exact:
  "seconds_duration s = sint s * 1000000000 \<longleftrightarrow> - 9223372036 \<le> sint s \<and> sint s \<le> 9223372036"
  by (rule seconds_exact)

definition issued_artifact :: "u64 \<Rightarrow> string \<Rightarrow> string \<Rightarrow> GetAuthKeyOutput \<Rightarrow> Artifact" where
  "issued_artifact b k player out = \<lparr> af_BindingID = b, af_PlatformAccountID = k, af_ArtifactType = authKeyArtifactType,
     af_ArtifactValue = ak_AuthKey out, af_ScopeKey = player, af_ExpiresAt = ak_ExpiresAt out \<rparr>"


text \<open>Issuing a key for player p1 of the bound account.\<close>

definition fresh_key :: GetAuthKeyOutput where
  "fresh_key = \<lparr> ak_AuthKey = ''stub-authkey'', ak_ExpiresAt = 300000000004 \<rparr>"

lemma sample_issues:
  "\<exists>w'. GetAuthKey (sample_env MySQL) (wired_authkey (sample_env MySQL) sample_conf StubClient) Background
     (FormatPlatformAccountID 1 ''10001'') ''p1'' bound_world = (Inr fresh_key, w')"
proof -
  let ?k = "FormatPlatformAccountID 1 ''10001''" and ?E = "sample_env MySQL"
  let ?w = "next_tick (next_tick (next_tick (next_tick (next_tick bound_world))))"
  have get: "ArtifactRepo_GetByBindingID ?E (artifact_config sample_conf) Background 1 authKeyArtifactType ''p1'' (next_tick bound_world) =
      (Inr None, next_tick (next_tick (next_tick (next_tick bound_world))))"
    by (simp add: ArtifactRepo_GetByBindingID_def cache_probe_def redis_get_def interact_def Let_def attempt_apply
        bind_io_apply bound_world_simps(2-4) time_now_def ArtifactRepo_get_def catch_not_found_def gorm_take_def db_view_def bound_world_take)
  have secs: "seconds_duration 300 = 300000000000" by (simp add: seconds_duration_def)
  have row: "cr_BindingID (credentialFromRecord bound_row) = 1"
    "cr_CredentialBlob (credentialFromRecord bound_row) = cd_CredentialBlob bound_row"
    by (simp_all add: credentialFromRecord_def)
  have issue: "GetAuthKey ?E (wired_authkey ?E sample_conf StubClient) Background ?k ''p1'' bound_world =
      then_io (ArtifactRepo_Put ?E (artifact_config sample_conf) Background (issued_artifact 1 ?k ''p1'' fresh_key)) (ret fresh_key) ?w"
    by (simp add: GetAuthKey_def wired_authkey_def NewAuthkeyUsecase_def CredentialRepo_def ArtifactRepo_def bound_credential_lookup
        StubClient_def time_now_def Let_def issued_artifact_def fresh_key_def bound_world_simps(4) secs row
        bound_decrypts[unfolded sample_conf_key] get bind_io_apply)
  have expires: "af_ExpiresAt (issued_artifact 1 ?k ''p1'' fresh_key) = 300000000004" by (simp add: issued_artifact_def fresh_key_def)
  obtain p where "marshal_artifact (issued_artifact 1 ?k ''p1'' fresh_key) = Inr p"
    using marshal_succeeds[of "issued_artifact 1 ?k ''p1'' fresh_key"] by (auto simp: expires)
  moreover have "fits ?E (artifact_columns (record_of_artifact (issued_artifact 1 ?k ''p1'' fresh_key)))"
    by (rule sample_artifact_fits[of "ak_AuthKey fresh_key"]) (simp_all add: issued_artifact_def fresh_key_def ascii_fits byte_code_def)
  ultimately show ?thesis
    using put_succeeds[of ?w "artifact_config sample_conf" "issued_artifact 1 ?k ''p1'' fresh_key" p]
    unfolding issue by (auto simp: bound_world_simps(2,4) then_io_apply expires)
qed


end
