(* ===== verification/DefaultProfile.thy ===== *)
theory DefaultProfile
  imports UpdateResult
begin

text \<open>
  Confirming the primary profile: the default flag of the binding moves to the confirmed profile in one
  transaction, or nothing changes. A player that is stored in two regions can never be confirmed.
\<close>

text \<open>The abstract update: within the binding exactly the rows of the player under the account key are
  default.\<close>

definition make_default :: "u64 \<Rightarrow> string \<Rightarrow> string \<Rightarrow> AccountProfile sqltable \<Rightarrow> AccountProfile sqltable" where
  "make_default b k player t = t\<lparr> tb_rows := map (\<lambda>x. (fst x,
     if ap_BindingID (snd x) = b
     then (snd x)\<lparr> ap_IsDefault := (ap_PlatformAccountID (snd x) = k \<and> ap_PlayerID (snd x) = player) \<rparr>
     else snd x)) (tb_rows t) \<rparr>"

definition set_default_in :: "env \<Rightarrow> u64 \<Rightarrow> string \<Rightarrow> string \<Rightarrow> ctx \<Rightarrow> (world, unit) io" where
  "set_default_in E bindingID platformAccountID playerID tx =
     then_io (sql_exec E tx (\<lambda>_. on_profiles (\<lambda>t. map_sum id snd
           (sql_update profile_keys (\<lambda>_ r. ap_BindingID r = bindingID \<and> ap_IsDefault r)
              (\<lambda>r. r\<lparr> ap_IsDefault := False \<rparr>) t))))
       (bind_io (map_error mapDefaultProfileDuplicateError
          (sql_exec E tx (\<lambda>_ d. map_sum id (\<lambda>(n, t). (n, d\<lparr> db_profiles := t \<rparr>))
             (sql_update profile_keys (\<lambda>_ r. ap_BindingID r = bindingID \<and>
                  ap_PlatformAccountID r = platformAccountID \<and> ap_PlayerID r = playerID)
                (\<lambda>r. r\<lparr> ap_IsDefault := True \<rparr>) (db_profiles d)))))
        (\<lambda>rowsAffected. if rowsAffected = 0 then fail ErrRecordNotFound else ret ()))"

lemma set_default_transaction:
  "ProfileRepo_SetDefaultByBindingAndPlayerID E Background b k player = begin_tx E (set_default_in E b k player)"
  by (simp add: ProfileRepo_SetDefaultByBindingAndPlayerID_def transaction_def fun_eq_iff set_default_in_def[abs_def])

lemma set_default_inside: "keeps (inside d0) (\<lambda>_ _. True) (\<lambda>_. True) (set_default_in E b k player WithTx)"
  unfolding set_default_in_def
  by (intro tx.io_then[OF tx.profile_update_step(1)] tx.io_bind[OF tx.io_map_error[OF tx.profile_update_step(2)]])
    (auto simp: profile_ok_def tx.io_ret tx.io_fail)

text \<open>The two updates one after the other.\<close>

lemma two_updates:
  assumes "sql_update profile_keys (\<lambda>_ r. ap_BindingID r = b \<and> ap_IsDefault r) (\<lambda>r. r\<lparr> ap_IsDefault := False \<rparr>) t = Inr (m, t1)"
    and "sql_update profile_keys (\<lambda>_ r. ap_BindingID r = b \<and> ap_PlatformAccountID r = k \<and> ap_PlayerID r = player)
      (\<lambda>r. r\<lparr> ap_IsDefault := True \<rparr>) t1 = Inr (n, t2)"
  shows "t2 = make_default b k player t"
    and "n > 0 \<Longrightarrow> \<exists>x \<in> set (tb_rows t2). ap_BindingID (snd x) = b \<and> ap_IsDefault (snd x)"
proof -
  have eq: "t2 = make_default b k player t" if "tb_next t2 = tb_next t" "tb_rows t2 = tb_rows (make_default b k player t)"
    using that by (cases t; cases t2) (simp add: make_default_def)
  show "t2 = make_default b k player t"
    by (rule eq) (auto simp: sql_update_rows(1,2)[OF assms(2)] sql_update_rows(1,2)[OF assms(1)] make_default_def)
  assume "n > 0"
  then have "filter (\<lambda>x. ap_BindingID (snd x) = b \<and> ap_PlatformAccountID (snd x) = k \<and> ap_PlayerID (snd x) = player) (tb_rows t1) \<noteq> []"
    using sql_update_rows(3)[OF assms(2)] by (simp add: sql_count_def case_prod_unfold)
  then obtain x where "x \<in> set (tb_rows t1)"
    "ap_BindingID (snd x) = b \<and> ap_PlatformAccountID (snd x) = k \<and> ap_PlayerID (snd x) = player"
    by (auto simp: filter_empty_conv)
  then show "\<exists>x \<in> set (tb_rows t2). ap_BindingID (snd x) = b \<and> ap_IsDefault (snd x)"
    using update_result[OF assms(2), of x] by (intro bexI[of _ "(fst x, (snd x)\<lparr> ap_IsDefault := True \<rparr>)"]) auto
qed

definition defaulted :: "database \<Rightarrow> u64 \<Rightarrow> string \<Rightarrow> string \<Rightarrow> database \<Rightarrow> bool" where
  "defaulted d b k player d' \<longleftrightarrow> d' = d\<lparr> db_profiles := make_default b k player (db_profiles d) \<rparr> \<and>
     (\<exists>x \<in> set (tb_rows (db_profiles d')). ap_BindingID (snd x) = b \<and> ap_IsDefault (snd x))"

lemma set_default_establishes:
  "establishes (in_tx (\<lambda>t. t = d)) (set_default_in E b k player WithTx) (\<lambda>_. in_tx (defaulted d b k player))"
proof -
  let ?first = "\<lambda>t. \<exists>m t1. t = d\<lparr> db_profiles := t1 \<rparr> \<and> sql_update profile_keys (\<lambda>_ r. ap_BindingID r = b \<and> ap_IsDefault r)
      (\<lambda>r. r\<lparr> ap_IsDefault := False \<rparr>) (db_profiles d) = Inr (m, t1)"
  let ?second = "\<lambda>n t. t = d\<lparr> db_profiles := make_default b k player (db_profiles d) \<rparr> \<and>
      (n > (0::nat) \<longrightarrow> (\<exists>x \<in> set (tb_rows (db_profiles t)). ap_BindingID (snd x) = b \<and> ap_IsDefault (snd x)))"
  have first: "establishes (in_tx (\<lambda>t. t = d)) (sql_exec E WithTx (\<lambda>_. on_profiles (\<lambda>t. map_sum id snd
           (sql_update profile_keys (\<lambda>_ r. ap_BindingID r = b \<and> ap_IsDefault r)
              (\<lambda>r. r\<lparr> ap_IsDefault := False \<rparr>) t)))) (\<lambda>_. in_tx ?first)"
    by (rule est_exec) (auto simp: on_profiles_def map_sum_def split: sum.splits)
  have second: "establishes (in_tx ?first) (sql_exec E WithTx (\<lambda>_ e. map_sum id (\<lambda>(n, t). (n, e\<lparr> db_profiles := t \<rparr>))
             (sql_update profile_keys (\<lambda>_ r. ap_BindingID r = b \<and>
                  ap_PlatformAccountID r = k \<and> ap_PlayerID r = player)
                (\<lambda>r. r\<lparr> ap_IsDefault := True \<rparr>) (db_profiles e)))) (\<lambda>n. in_tx (?second n))"
  proof (rule est_exec, elim exE conjE)
    fix j t n t' m t1
    assume t: "t = d\<lparr> db_profiles := t1 \<rparr>"
      and u1: "sql_update profile_keys (\<lambda>_ r. ap_BindingID r = b \<and> ap_IsDefault r) (\<lambda>r. r\<lparr> ap_IsDefault := False \<rparr>) (db_profiles d) = Inr (m, t1)"
      and run: "map_sum id (\<lambda>(n, t'). (n, t\<lparr> db_profiles := t' \<rparr>)) (sql_update profile_keys (\<lambda>_ r. ap_BindingID r = b \<and>
          ap_PlatformAccountID r = k \<and> ap_PlayerID r = player) (\<lambda>r. r\<lparr> ap_IsDefault := True \<rparr>) (db_profiles t)) = Inr (n, t')"
    from run t obtain t2 where u2: "sql_update profile_keys (\<lambda>_ r. ap_BindingID r = b \<and>
          ap_PlatformAccountID r = k \<and> ap_PlayerID r = player) (\<lambda>r. r\<lparr> ap_IsDefault := True \<rparr>) t1 = Inr (n, t2)"
      and t': "t' = d\<lparr> db_profiles := t2 \<rparr>"
      by (auto simp: map_sum_def split: sum.splits)
    show "?second n t'" using two_updates[OF u1 u2] t' by simp
  qed
  show ?thesis
    unfolding set_default_in_def
    by (rule est_then[OF first], rule est_bind[OF est_map_error[OF second]])
      (auto intro: est_fail est_ret simp: in_tx_def defaulted_def)
qed

lemma set_default_outcomes:
  assumes "database_ok (w_db w)"
    and "ProfileRepo_SetDefaultByBindingAndPlayerID E Background b k player w = (r, w')"
  shows "((\<exists>e. r = Inl e) \<and> w_db w' = w_db w) \<or>
    (defaulted (w_db w) b k player (w_db w') \<and> database_ok (w_db w') \<and>
     (r = Inr () \<or> (\<exists>n e. r = Inl e \<and> fault E n = Some (FailAfter e))))"
proof -
  have "committed_by E (set_default_in E b k player) w r w' \<Longrightarrow> defaulted (w_db w) b k player (w_db w') \<and> database_ok (w_db w') \<and>
     (r = Inr () \<or> (\<exists>n e. r = Inl e \<and> fault E n = Some (FailAfter e)))"
  proof -
    assume "committed_by E (set_default_in E b k player) w r w'"
    then obtain w2 where run: "set_default_in E b k player WithTx (tx_started w) = (Inr (), w2)"
      and w': "w_db w' = db_view WithTx w2" and r: "r = Inr () \<or> (\<exists>n e. r = Inl e \<and> fault E n = Some (FailAfter e))"
      by (auto simp: committed_by_def)
    have "in_tx (\<lambda>t. t = w_db w) (tx_started w)" by (simp add: in_tx_def tx_started_def)
    from establishesD[OF set_default_establishes this run] have "defaulted (w_db w) b k player (w_db w')"
      by (auto simp: in_tx_def w' db_view_def)
    moreover have "inside (w_db w) w2"
      by (rule keepsD(1)[OF set_default_inside tx_started_inside[OF assms(1)] run])
    then have "database_ok (w_db w')" by (auto simp: inside_def w' db_view_def)
    ultimately show ?thesis using r by blast
  qed
  then show ?thesis
    using begin_tx_atomic[where body = "set_default_in E b k player", OF assms(1) set_default_inside] assms(2)
    by (simp add: set_default_transaction) blast
qed

lemma one_default:
  assumes "database_ok d" "x \<in> set (tb_rows (db_profiles d))" "y \<in> set (tb_rows (db_profiles d))"
    "ap_BindingID (snd x) = ap_BindingID (snd y)" "ap_IsDefault (snd x)" "ap_IsDefault (snd y)"
  shows "x = y"
  using assms unique_ok_inj[of profile_keys "db_profiles d" x y]
  by (auto simp: database_ok_def table_ok_def clashes_profile)

lemma list_binding_store: "leaves_store (findProfileByBindingAndPlayerID (wired_profile E) ctx b k player)"
  unfolding findProfileByBindingAndPlayerID_def wired_profile_def NewProfileUsecase_def ProfileUsecase.select_convs
    ProfileRepo_def ProfileRepository.select_convs ProfileRepo_ListByBindingID_def Let_def
  by (auto intro!: leaves_bind leaves_reads leaves_value split: option.split)

lemma selected_profile:
  assumes "findProfileByBindingAndPlayerID (wired_profile E) ctx b k player w = (Inr (ps, p), w')"
  shows "pf_BindingID p = b \<and> pf_PlatformAccountID p = k \<and> pf_PlayerID p = player"
proof -
  obtain rs where fold: "foldl (\<lambda>sel p. if pf_PlayerID p = player then Some p else sel) None
      (filter (\<lambda>p. pf_PlatformAccountID p = k) (profilesFromRecords rs)) = Some p"
    and rs: "\<forall>x \<in> set rs. ap_BindingID (snd x) = b"
    using assms
    by (auto simp: findProfileByBindingAndPlayerID_def wired_profile_def NewProfileUsecase_def ProfileRepo_def
        ProfileRepo_ListByBindingID_def Let_def set_sql_find split: option.splits elim!: bind_io_okE dest!: read_results(3))
  have player: "q = None \<or> pf_PlayerID (the q) = player"
    if "foldl (\<lambda>sel p. if pf_PlayerID p = player then Some p else sel) init xs = q" "init = None \<or> pf_PlayerID (the init) = player"
    for q init and xs :: "Profile list"
    using that by (induction xs arbitrary: init) (auto split: if_splits)
  have "p \<in> set (filter (\<lambda>p. pf_PlatformAccountID p = k) (profilesFromRecords rs))"
    using last_match_set[OF fold] by simp
  moreover have "pf_BindingID p = b"
    using profilesFromRecords_bindings[of rs "\<lambda>b'. b' = b"] rs calculation by auto
  ultimately show ?thesis using player[OF fold] by simp
qed

lemma confirm_outcomes:
  assumes "database_ok (w_db w)"
    and "ConfirmPrimaryProfileWithScope (wired_profile E) Background guard k player w = (r, w')"
  shows "((\<exists>e. r = Inl e) \<and> w_db w' = w_db w) \<or>
    (RequirePlatformAccountID guard k = Inr () \<and> RequireBindingWide guard = Inr () \<and>
     defaulted (w_db w) (sg_BindingID guard) k player (w_db w') \<and> database_ok (w_db w') \<and>
     ((\<exists>s. r = Inr s \<and> ps_PlayerId s = player \<and> ps_PlatformAccountId s = k \<and> ps_IsDefault s) \<or>
      (\<exists>n e. r = Inl e \<and> fault E n = Some (FailAfter e))))"
proof -
  obtain q w1 where f: "findProfileByBindingAndPlayerID (wired_profile E) Background (sg_BindingID guard) k player w = (q, w1)"
    by fastforce
  have same: "w_db w1 = w_db w"
    using leaves_storeD[OF list_binding_store f] by (simp add: same_store_def)
  show ?thesis
  proof (cases "RequirePlatformAccountID guard k = Inr () \<and> RequireBindingWide guard = Inr () \<and>
      (\<exists>ps p. q = Inr (ps, p) \<and> RequireProfile guard (pf_BindingID p) (pf_ID p) = Inr ())")
    case False
    then show ?thesis
      using assms(2) f same
      by (cases "RequirePlatformAccountID guard k"; cases "RequireBindingWide guard"; cases q)
        (auto simp: ConfirmPrimaryProfileWithScope_def bind_io_apply then_io_apply split: sum.splits prod.splits)
  next
    case True
    then obtain ps p where q: "q = Inr (ps, p)" "RequireProfile guard (pf_BindingID p) (pf_ID p) = Inr ()" by blast
    note p = selected_profile[OF f[unfolded q(1)]]
    obtain s w2 where set: "ProfileRepo_SetDefaultByBindingAndPlayerID E Background (sg_BindingID guard) k player w1 = (s, w2)"
      by fastforce
    have repo: "prepo_SetDefaultByBindingAndPlayerID (pu_profileRepo (wired_profile E)) = ProfileRepo_SetDefaultByBindingAndPlayerID E"
      by (simp add: wired_profile_def NewProfileUsecase_def ProfileRepo_def)
    have guards: "RequirePlatformAccountID guard k = Inr ()" "RequireBindingWide guard = Inr ()"
      "RequireProfile guard (sg_BindingID guard) (pf_ID p) = Inr ()"
      using True q p by simp_all
    have "ConfirmPrimaryProfileWithScope (wired_profile E) Background guard k player w =
        then_io (ProfileRepo_SetDefaultByBindingAndPlayerID E Background (sg_BindingID guard) k player)
          (ret (toProfileSummary (p\<lparr> pf_IsDefault := True \<rparr>))) w1"
      unfolding ConfirmPrimaryProfileWithScope_def repo guards then_io_lift_Inr bind_io_Inr[where m = "findProfileByBindingAndPlayerID (wired_profile E) Background (sg_BindingID guard) k player", OF f[unfolded q(1)]]
      unfolding prod.case p[THEN conjunct1] guards then_io_lift_Inr ..
    then have run: "(r, w') = (map_sum id (\<lambda>_. toProfileSummary (p\<lparr> pf_IsDefault := True \<rparr>)) s, w2)"
      using assms(2) set by (cases s) (simp_all add: then_io_apply)
    have "database_ok (w_db w1)" using assms(1) same by simp
    from set_default_outcomes[OF this set] show ?thesis
      using run same True p by (auto simp: toProfileSummary_def)
  qed
qed

text \<open>C17: Confirming a primary profile is all or nothing. However it ends, the database is untouched and the
  caller gets an error, or only the profile table changed, by exactly this: within the guard's binding
  the rows of the player under the account key are default and no others, which is then exactly one
  row of the binding; the answer is that player's summary, marked default.\<close>

theorem confirm_moves_the_default:
  assumes "database_ok (w_db w)"
    and "ConfirmPrimaryProfileWithScope (wired_profile E) Background guard k player w = (r, w')"
  shows "((\<exists>e. r = Inl e) \<and> w_db w' = w_db w) \<or>
    (RequirePlatformAccountID guard k = Inr () \<and> RequireBindingWide guard = Inr () \<and>
     w_db w' = (w_db w)\<lparr> db_profiles := make_default (sg_BindingID guard) k player (db_profiles (w_db w)) \<rparr> \<and>
     (\<exists>!x. x \<in> set (tb_rows (db_profiles (w_db w'))) \<and> ap_BindingID (snd x) = sg_BindingID guard \<and> ap_IsDefault (snd x)) \<and>
     ((\<exists>s. r = Inr s \<and> ps_PlayerId s = player \<and> ps_PlatformAccountId s = k \<and> ps_IsDefault s) \<or>
      (\<exists>n e. r = Inl e \<and> fault E n = Some (FailAfter e))))"
  using confirm_outcomes[OF assms] one_default unfolding defaulted_def by metis

text \<open>C38: A player with profiles in two regions can never be made the primary profile: the update marks both
  rows, which the unique key on the default forbids, so every confirmation of that player fails and
  changes nothing.\<close>

theorem two_regions_cannot_be_confirmed:
  assumes "database_ok (w_db w)"
    and "x \<in> set (tb_rows (db_profiles (w_db w)))" "y \<in> set (tb_rows (db_profiles (w_db w)))"
    and "ap_BindingID (snd x) = sg_BindingID guard \<and> ap_PlatformAccountID (snd x) = k \<and> ap_PlayerID (snd x) = player"
    and "ap_BindingID (snd y) = sg_BindingID guard \<and> ap_PlatformAccountID (snd y) = k \<and> ap_PlayerID (snd y) = player"
    and "ap_Region (snd x) \<noteq> ap_Region (snd y)"
  shows "\<exists>e w'. ConfirmPrimaryProfileWithScope (wired_profile E) Background guard k player w = (Inl e, w') \<and> w_db w' = w_db w"
proof -
  obtain r w' where run: "ConfirmPrimaryProfileWithScope (wired_profile E) Background guard k player w = (r, w')" by fastforce
  have "\<not> (defaulted (w_db w) (sg_BindingID guard) k player (w_db w') \<and> database_ok (w_db w'))"
  proof
    assume d: "defaulted (w_db w) (sg_BindingID guard) k player (w_db w') \<and> database_ok (w_db w')"
    have "(fst z, (snd z)\<lparr> ap_IsDefault := True \<rparr>) \<in> set (tb_rows (db_profiles (w_db w')))"
      if "z \<in> {x, y}" for z
    proof -
      have "z \<in> set (tb_rows (db_profiles (w_db w)))" "ap_BindingID (snd z) = sg_BindingID guard"
        "ap_PlatformAccountID (snd z) = k" "ap_PlayerID (snd z) = player"
        using that assms(2-5) by auto
      then show ?thesis using d by (auto simp: defaulted_def make_default_def intro!: rev_image_eqI[of z])
    qed
    then have "(fst x, (snd x)\<lparr> ap_IsDefault := True \<rparr>) = (fst y, (snd y)\<lparr> ap_IsDefault := True \<rparr>)"
      using one_default[of "w_db w'" "(fst x, (snd x)\<lparr> ap_IsDefault := True \<rparr>)" "(fst y, (snd y)\<lparr> ap_IsDefault := True \<rparr>)"]
        d assms(4,5) by simp
    then have "ap_Region ((snd x)\<lparr> ap_IsDefault := True \<rparr>) = ap_Region ((snd y)\<lparr> ap_IsDefault := True \<rparr>)" by simp
    then show False using assms(6) by simp
  qed
  then show ?thesis using confirm_outcomes[OF assms(1) run] run by blast
qed

text \<open>Binding 2 with a player stored in the given regions.\<close>

definition sample_profile :: "string \<Rightarrow> AccountProfile" where
  "sample_profile region = \<lparr> ap_BindingID = 2, ap_PlatformAccountID = FormatPlatformAccountID 2 ''20002'',
     ap_GameBiz = ''hk4e_cn'', ap_Region = region, ap_PlayerID = ''p1'', ap_Nickname = ''n'', ap_Level = 60,
     ap_IsDefault = False, ap_DiscoveredAt = 0 \<rparr>"

definition regions_world :: "(u64 \<times> string) list \<Rightarrow> world" where
  "regions_world regions = empty_world\<lparr> w_db := empty_database\<lparr> db_profiles :=
     \<lparr> tb_next = 9, tb_rows = map (\<lambda>(i, region). (i, sample_profile region)) regions \<rparr> \<rparr> \<rparr>"

lemma regions_world_ok: "database_ok (w_db (regions_world [(1, ''cn'')]))" "database_ok (w_db (regions_world [(1, ''cn''), (2, ''os'')]))"
  by (simp_all add: regions_world_def sample_profile_def database_ok_def empty_database_def table_ok_def ids_ok_def
      unique_ok_def empty_table_def clashes_profile)

lemma sample_confirms:
  "\<exists>s w'. ConfirmPrimaryProfileWithScope (wired_profile (sample_env MySQL)) Background sample_guard
     (FormatPlatformAccountID 2 ''20002'') ''p1'' (regions_world [(1, ''cn'')]) = (Inr s, w')"
proof -
  have "case fst (ConfirmPrimaryProfileWithScope (wired_profile (sample_env MySQL)) Background sample_guard
     (FormatPlatformAccountID 2 ''20002'') ''p1'' (regions_world [(1, ''cn'')])) of Inr _ \<Rightarrow> True | Inl _ \<Rightarrow> False"
    by code_simp
  then show ?thesis by (auto simp: fst_def split: sum.splits prod.splits)
qed

theorem confirm_moves_the_default_witness:
  "\<exists>s w'. ConfirmPrimaryProfileWithScope (wired_profile (sample_env MySQL)) Background sample_guard
     (FormatPlatformAccountID 2 ''20002'') ''p1'' (regions_world [(1, ''cn'')]) = (Inr s, w') \<and> ps_IsDefault s \<and>
     (\<exists>!x. x \<in> set (tb_rows (db_profiles (w_db w'))) \<and> ap_BindingID (snd x) = 2 \<and> ap_IsDefault (snd x))"
proof -
  obtain s w' where run: "ConfirmPrimaryProfileWithScope (wired_profile (sample_env MySQL)) Background sample_guard
     (FormatPlatformAccountID 2 ''20002'') ''p1'' (regions_world [(1, ''cn'')]) = (Inr s, w')"
    using sample_confirms by blast
  have g: "sg_BindingID sample_guard = 2" by (simp add: sample_guard_def)
  from confirm_moves_the_default[OF regions_world_ok(1) run, unfolded g sum.simps] run show ?thesis by fast
qed

theorem two_regions_cannot_be_confirmed_witness:
  "\<exists>e w'. ConfirmPrimaryProfileWithScope (wired_profile (sample_env MySQL)) Background sample_guard
     (FormatPlatformAccountID 2 ''20002'') ''p1'' (regions_world [(1, ''cn''), (2, ''os'')]) = (Inl e, w') \<and>
     w_db w' = w_db (regions_world [(1, ''cn''), (2, ''os'')])"
  by (rule two_regions_cannot_be_confirmed[OF regions_world_ok(2), of "(1, sample_profile ''cn'')" "(2, sample_profile ''os'')"])
    (simp_all add: regions_world_def sample_profile_def sample_guard_def)

end
