(* ===== verification/StoreFacts.thy ===== *)
theory StoreFacts
  imports ArtifactResult DefaultProfile Access
begin

text \<open>
  Further facts about single repository operations and answers: what an upsert does under MySQL when the
  upstream account is already bound, that a device is always stored as valid, what the scoped profile
  list shows, the loop that removes stale profiles, and the list of actions the platform describes.
\<close>

section \<open>An account that is already bound\<close>

definition holds_account :: "Credential \<Rightarrow> CredentialRecord \<Rightarrow> bool" where
  "holds_account c r \<longleftrightarrow> cd_Platform r = cr_Platform c \<and> cd_AccountID r = cr_AccountID c \<and> cd_BindingID r \<noteq> cr_BindingID c"

definition key_free :: "Credential \<Rightarrow> database \<Rightarrow> bool" where
  "key_free c d \<longleftrightarrow> (\<forall>x \<in> set (tb_rows (db_credentials d)). cd_BindingID (snd x) \<noteq> cr_BindingID c \<and>
     cd_PlatformAccountID (snd x) \<noteq> cr_PlatformAccountID c)"

lemma takeover_upsert:
  assumes t: "table_ok credential_keys t" and row: "(i, old) \<in> set (tb_rows t)" "holds_account c old"
    and free: "\<forall>x \<in> set (tb_rows t). cd_BindingID (snd x) \<noteq> cr_BindingID c \<and> cd_PlatformAccountID (snd x) \<noteq> cr_PlatformAccountID c"
  shows "sql_upsert k MySQL credential_keys target (\<lambda>new old. new) (record_of_credential c) t = Inr t' \<Longrightarrow> t' = put_row i (record_of_credential c) t"
    and "sql_upsert k SQLite credential_keys ''uniq_credential_binding_id'' (\<lambda>new old. new) (record_of_credential c) t \<noteq> Inr t'"
proof -
  have clash: "x = (i, old)" if "x \<in> set (tb_rows t)" "clashes credential_keys (record_of_credential c) (snd x)" for x
  proof -
    have "clashes credential_keys (snd x) (snd (i, old))"
      using that row(2) free by (auto simp: clashes_credential record_of_credential_def holds_account_def)
    then show ?thesis using unique_ok_inj[of credential_keys t x "(i, old)"] t that(1) row(1) by (simp add: table_ok_def)
  qed
  have old: "clashes credential_keys (record_of_credential c) old"
    using row(2) by (simp add: clashes_credential record_of_credential_def holds_account_def)
  {
    assume ups: "sql_upsert k MySQL credential_keys target (\<lambda>new old. new) (record_of_credential c) t = Inr t'"
    then show "t' = put_row i (record_of_credential c) t"
    proof (cases rule: sql_upsert_cases)
      case insert
      then show ?thesis using row(1) old by (auto simp: conflicting_def)
    next
      case (update x n)
      then have "fst x = i" using clash by (fastforce simp: conflicting_def)
      then have "tb_rows t' = tb_rows (put_row i (record_of_credential c) t)" "tb_next t' = tb_next (put_row i (record_of_credential c) t)"
        using sql_update_rows(1,2)[OF update(3)] by (auto simp: put_row_def)
      then show ?thesis by (cases t'; cases "put_row i (record_of_credential c) t") simp
    qed
  }
  show "sql_upsert k SQLite credential_keys ''uniq_credential_binding_id'' (\<lambda>new old. new) (record_of_credential c) t \<noteq> Inr t'"
  proof
    assume ups: "sql_upsert k SQLite credential_keys ''uniq_credential_binding_id'' (\<lambda>new old. new) (record_of_credential c) t = Inr t'"
    then show False
    proof (cases rule: sql_upsert_cases)
      case insert
      then show ?thesis using row(1) old sql_insert_ok_iff[of credential_keys "record_of_credential c" t] by force
    next
      case (update x n)
      then show ?thesis using free by (auto simp: conflicting_def clashes_def credential_keys_def record_of_credential_def)
    qed
  qed
qed

text \<open>C37: Under MySQL the credential store lets a binding take over an account. A save without error of a
  credential whose upstream account another binding holds overwrites the row of that other binding and
  leaves it without a credential, although the statement names the binding id as the conflict; under
  SQLite, where the tests run, the same save fails and changes nothing.\<close>

theorem save_takes_over_a_bound_account:
  assumes "database_ok (w_db w)" and "(i, old) \<in> set (tb_rows (db_credentials (w_db w)))" and "holds_account c old"
    and "key_free c (w_db w)" and "CredentialRepo_Save E Background c w = (r, w')"
  shows "(dialect E = MySQL \<and> r = Inr () \<longrightarrow>
      w_db w' = (w_db w)\<lparr> db_credentials := put_row i (record_of_credential c) (db_credentials (w_db w)) \<rparr> \<and>
      (\<forall>x \<in> set (tb_rows (db_credentials (w_db w'))). cd_BindingID (snd x) \<noteq> cd_BindingID old)) \<and>
    (dialect E = SQLite \<longrightarrow> (\<exists>e. r = Inl e) \<and> w_db w' = w_db w)"
proof -
  let ?t = "db_credentials (w_db w)" and ?f = "\<lambda>k. on_credentials (row_checked E
      (credential_columns (record_of_credential c)) (sql_upsert k (dialect E) credential_keys
      ''uniq_credential_binding_id'' (\<lambda>new old. new) (record_of_credential c)))"
  have t: "table_ok credential_keys ?t" using assms(1) by (simp add: database_ok_def)
  note up = takeover_upsert[OF t assms(2,3) assms(4)[unfolded key_free_def]]
  have run: "((\<exists>e. r = Inl e) \<and> w_db w' = w_db w) \<or> (\<exists>x k. ?f k (w_db w) = Inr (x, w_db w') \<and> (r = Inr x \<or> (\<exists>n e. r = Inl e)))"
    using exec_outcomes[OF assms(5)[unfolded CredentialRepo_Save_def Let_def]] by blast
  have my: "w_db w' = (w_db w)\<lparr> db_credentials := put_row i (record_of_credential c) ?t \<rparr>" if "dialect E = MySQL" "r = Inr ()"
    using run that up(1) by (auto simp: on_table_ok)
  have lite: "(\<exists>e. r = Inl e) \<and> w_db w' = w_db w" if "dialect E = SQLite"
    using run that up(2) by (auto simp: on_table_ok)
  have gone: "cd_BindingID (snd y) \<noteq> cd_BindingID old" if y: "y \<in> set (tb_rows (put_row i (record_of_credential c) ?t))" for y
  proof
    assume same: "cd_BindingID (snd y) = cd_BindingID old"
    have "y \<in> (\<lambda>x. if fst x = i then (fst x, record_of_credential c) else x) ` set (tb_rows ?t)"
      using y by (simp add: put_row_def)
    then obtain x where x: "x \<in> set (tb_rows ?t)" "y = (if fst x = i then (fst x, record_of_credential c) else x)"
      by (rule imageE)
    show False
    proof (cases "fst x = i")
      case True
      then show ?thesis using x same assms(3) by (simp add: holds_account_def record_of_credential_def)
    next
      case False
      then have "clashes credential_keys (snd x) (snd (i, old))" using x same by (simp add: clashes_credential)
      then have "x = (i, old)" using unique_ok_inj[of credential_keys ?t x "(i, old)"] t x(1) assms(2) by (simp add: table_ok_def)
      then show ?thesis using False by simp
    qed
  qed
  show ?thesis using my lite gone by auto
qed

text \<open>Binding 3 binds the account of binding 1.\<close>

definition taking_credential :: Credential where
  "taking_credential = (credentialFromRecord bound_row)\<lparr> cr_BindingID := 3, cr_PlatformAccountID := FormatPlatformAccountID 3 ''10001'' \<rparr>"

theorem save_takes_over_a_bound_account_witness:
  "\<exists>w'. CredentialRepo_Save (sample_env MySQL) Background taking_credential bound_world = (Inr (), w') \<and>
     (\<forall>x \<in> set (tb_rows (db_credentials (w_db w'))). cd_BindingID (snd x) \<noteq> 1)"
proof -
  have "clashes credential_keys (record_of_credential taking_credential) bound_row"
    by (simp add: clashes_credential taking_credential_def credentialFromRecord_def record_of_credential_def)
  moreover have "fits (sample_env MySQL) (credential_columns (record_of_credential taking_credential))"
  proof -
    have "FormatPlatformAccountID 3 ''10001'' = ''binding_3_10001''" by code_simp
    then have "varchar_fits 64 (FormatPlatformAccountID 3 ''10001'')" by (simp add: ascii_fits byte_code_def)
    then show ?thesis
      using bound_row_fits[of "sample_env MySQL"]
      by (simp add: fits_def row_fits credential_columns_def column_fits taking_credential_def credentialFromRecord_def record_of_credential_def)
  qed
  ultimately obtain w' where
    run: "CredentialRepo_Save (sample_env MySQL) Background taking_credential bound_world = (Inr (), w')"
    using bound_credential_save[OF refl] by (auto simp: bound_world_simps)
  have old: "(1, bound_row) \<in> set (tb_rows (db_credentials (w_db bound_world)))" by (simp add: bound_world_def)
  have "holds_account taking_credential bound_row" "key_free taking_credential (w_db bound_world)"
    by (simp_all add: holds_account_def key_free_def taking_credential_def credentialFromRecord_def bound_row_def bound_world_def
        FormatPlatformAccountID_def)
  from save_takes_over_a_bound_account[OF bound_world_ok old this run] run show ?thesis by (simp add: bound_row_def)
qed

section \<open>Devices\<close>

text \<open>A device is always stored as valid. Whatever the validity flag of the device given to Save, every
  device row the save adds or rewrites is valid: the column's default takes the place of the flag's
  zero value.\<close>

theorem device_saved_as_valid:
  assumes "DeviceRepo_Save E Background d w = (r, w')" and "x \<in> set (tb_rows (db_devices (w_db w')))"
    and "x \<notin> set (tb_rows (db_devices (w_db w)))"
  shows "dr_IsValid (snd x)"
proof -
  have new: "dr_IsValid (record_of_device d)" by (simp add: record_of_device_def create_default_def)
  have run: "w_db w' = w_db w \<or> (\<exists>u k. on_devices (row_checked E (device_columns (record_of_device d))
      (sql_upsert k (dialect E) device_keys ''uniq_device_record_binding'' device_assign (record_of_device d))) (w_db w) = Inr (u, w_db w'))"
    using exec_outcomes[OF assms(1)[unfolded DeviceRepo_Save_def Let_def]] by blast
  then obtain k t where ups: "sql_upsert k (dialect E) device_keys ''uniq_device_record_binding'' device_assign
      (record_of_device d) (db_devices (w_db w)) = Inr t" and t: "db_devices (w_db w') = t"
    using assms(2,3) by (auto simp: on_table_ok)
  from ups show ?thesis
  proof (cases rule: sql_upsert_cases)
    case insert
    then show ?thesis using assms(2,3) t new by (auto simp: sql_insert_rows(1))
  next
    case (update y n)
    then show ?thesis
      using assms(2,3) t new by (auto simp: sql_update_rows(1)[OF update(3)] device_assign_def split: if_splits)
  qed
qed

definition sample_device :: Device where
  "sample_device = \<lparr> dv_BindingID = 1, dv_PlatformAccountID = ''k'', dv_DeviceID = ''d'', dv_DeviceFP = ''fp'', dv_DeviceName = None,
     dv_IsValid = False, dv_LastSeenAt = None \<rparr>"

lemma stale_device_fits: "fits E (device_columns (record_of_device sample_device))"
  by (simp add: fits_def row_fits device_columns_def column_fits record_of_device_def sample_device_def ascii_fits byte_code_def)

lemma sample_device_saved: "\<exists>w'. DeviceRepo_Save (sample_env MySQL) Background sample_device empty_world = (Inr (), w') \<and>
    (1, record_of_device sample_device) \<in> set (tb_rows (db_devices (w_db w')))"
  by (simp add: DeviceRepo_Save_def row_checked_fits stale_device_fits sql_exec_def interact_def Let_def db_view_def put_view_def on_devices_def sql_upsert_def sql_find_def
      sql_insert_def clash_key_def device_keys_def empty_database_def empty_table_def)

theorem device_saved_as_valid_witness:
  "\<not> dv_IsValid sample_device \<and> (\<exists>w' x. DeviceRepo_Save (sample_env MySQL) Background sample_device empty_world = (Inr (), w') \<and>
     x \<in> set (tb_rows (db_devices (w_db w'))) \<and> dr_IsValid (snd x))"
proof -
  obtain w' where run: "DeviceRepo_Save (sample_env MySQL) Background sample_device empty_world = (Inr (), w')"
    and x: "(1, record_of_device sample_device) \<in> set (tb_rows (db_devices (w_db w')))" using sample_device_saved by blast
  have "(1, record_of_device sample_device) \<notin> set (tb_rows (db_devices (w_db empty_world)))"
    by (simp add: empty_database_def empty_table_def)
  from device_saved_as_valid[OF run x this] run x show ?thesis by (auto simp: sample_device_def)
qed

section \<open>What a ticket for one profile shows\<close>

lemma records_filter:
  assumes "\<And>i r. P (hd (profilesFromRecords [(i, r)])) \<longleftrightarrow> Q (i, r)"
  shows "filter P (profilesFromRecords rs) = profilesFromRecords (filter Q rs)"
  using assms by (induction rs) (auto simp: profilesFromRecords_def)

lemma scoped_list:
  assumes "listScopedProfiles (wired_profile E) Background guard k w = (Inr ps, w')"
  shows "key_binding k = Some (sg_BindingID guard) \<and>
    ps = profilesFromRecords (filter (\<lambda>x. ap_BindingID (snd x) = sg_BindingID guard \<and>
      ap_PlatformAccountID (snd x) = k \<and> (sg_ProfileID guard \<noteq> 0 \<longrightarrow> fst x = sg_ProfileID guard)) (tb_rows (db_profiles (w_db w)))) \<and>
    (sg_ProfileID guard \<noteq> 0 \<longrightarrow> ps \<noteq> [])"
proof -
  let ?rows = "filter (\<lambda>x. ap_BindingID (snd x) = sg_BindingID guard) (tb_rows (db_profiles (w_db w)))"
  let ?mine = "filter (\<lambda>x. ap_PlatformAccountID (snd x) = k) ?rows"
  obtain all w1 where guard: "RequirePlatformAccountID guard k = Inr ()"
    and list: "ProfileRepo_ListByBindingID E Background (sg_BindingID guard) w = (Inr all, w1)"
    and rest: "(let profiles = filter (\<lambda>p. pf_PlatformAccountID p = k) all in
      if sg_ProfileID guard = 0 then ret profiles
      else let filtered = filter (\<lambda>p. RequireProfile guard (pf_BindingID p) (pf_ID p) = Inr ()) profiles in
           if filtered = [] then fail ErrProfileScopeDenied else ret filtered) w1 = (Inr ps, w')"
    using assms by (auto simp: listScopedProfiles_def wired_profile_def NewProfileUsecase_def ProfileRepo_def
        simp del: RequirePlatformAccountID_ok RequireProfile_ok elim!: bind_io_okE then_io_okE)
  have all: "all = profilesFromRecords ?rows"
    using list by (auto simp: ProfileRepo_ListByBindingID_def db_view_def sql_find_def elim!: bind_io_okE dest!: read_results(3))
  have mine: "filter (\<lambda>p. pf_PlatformAccountID p = k) (profilesFromRecords ?rows) = profilesFromRecords ?mine"
    by (rule records_filter) (simp add: profilesFromRecords_def)
  have narrow: "filter (\<lambda>p. RequireProfile guard (pf_BindingID p) (pf_ID p) = Inr ()) (profilesFromRecords ?mine) =
      profilesFromRecords (filter (\<lambda>x. RequireProfile guard (ap_BindingID (snd x)) (fst x) = Inr ()) ?mine)"
    by (rule records_filter) (simp add: profilesFromRecords_def)
  have result: "ps = (if sg_ProfileID guard = 0 then profilesFromRecords ?mine
      else profilesFromRecords (filter (\<lambda>x. RequireProfile guard (ap_BindingID (snd x)) (fst x) = Inr ()) ?mine)) \<and>
      (sg_ProfileID guard \<noteq> 0 \<longrightarrow> ps \<noteq> [])"
    using rest unfolding all mine Let_def narrow by (cases "sg_ProfileID guard = 0") (auto split: if_splits)
  have "filter (\<lambda>x. RequireProfile guard (ap_BindingID (snd x)) (fst x) = Inr ()) ?mine =
      filter (\<lambda>x. ap_BindingID (snd x) = sg_BindingID guard \<and> ap_PlatformAccountID (snd x) = k \<and>
        (sg_ProfileID guard \<noteq> 0 \<longrightarrow> fst x = sg_ProfileID guard)) (tb_rows (db_profiles (w_db w)))"
    using guard by (auto intro!: filter_cong)
  moreover have "?mine = filter (\<lambda>x. ap_BindingID (snd x) = sg_BindingID guard \<and> ap_PlatformAccountID (snd x) = k)
      (tb_rows (db_profiles (w_db w)))"
    by (auto intro!: filter_cong)
  ultimately show ?thesis using result guard by (cases "sg_ProfileID guard = 0") auto
qed

text \<open>The scoped profile list shows exactly the stored profiles of the guard's binding under the
  requested account key, in the order of their ids; with a ticket for a single profile, that profile
  alone, and never an empty list.\<close>

theorem scoped_list_shows_exactly:
  assumes "ListProfilesWithScope (wired_profile E) Background guard k w = (Inr out, w')"
  shows "key_binding k = Some (sg_BindingID guard) \<and>
    out = map toProfileSummary (profilesFromRecords (filter (\<lambda>x. ap_BindingID (snd x) = sg_BindingID guard \<and>
      ap_PlatformAccountID (snd x) = k \<and> (sg_ProfileID guard \<noteq> 0 \<longrightarrow> fst x = sg_ProfileID guard)) (tb_rows (db_profiles (w_db w))))) \<and>
    (sg_ProfileID guard \<noteq> 0 \<longrightarrow> out \<noteq> [])"
proof -
  obtain ps where "listScopedProfiles (wired_profile E) Background guard k w = (Inr ps, w')" "out = map toProfileSummary ps"
    using assms by (auto simp: ListProfilesWithScope_def elim!: bind_io_okE)
  then show ?thesis using scoped_list[of E guard k w ps w'] by auto
qed

definition profile_guard :: ScopeGuard where
  "profile_guard = \<lparr> sg_AllowedActions = {ActionProfileRead}, sg_BindingID = 2, sg_ProfileID = 2 \<rparr>"

lemma sample_lists: "\<exists>out w'. ListProfilesWithScope (wired_profile (sample_env MySQL)) Background profile_guard
    (FormatPlatformAccountID 2 ''20002'') (regions_world [(1, ''cn''), (2, ''os'')]) = (Inr out, w') \<and> map ps_Region out = [''os'']"
proof -
  have "case fst (ListProfilesWithScope (wired_profile (sample_env MySQL)) Background profile_guard
    (FormatPlatformAccountID 2 ''20002'') (regions_world [(1, ''cn''), (2, ''os'')])) of Inr out \<Rightarrow> map ps_Region out = [''os''] | _ \<Rightarrow> False"
    by code_simp
  then show ?thesis
    by (cases "ListProfilesWithScope (wired_profile (sample_env MySQL)) Background profile_guard
      (FormatPlatformAccountID 2 ''20002'') (regions_world [(1, ''cn''), (2, ''os'')])") (auto split: sum.splits)
qed

theorem scoped_list_shows_exactly_witness:
  "\<exists>out w'. ListProfilesWithScope (wired_profile (sample_env MySQL)) Background profile_guard
     (FormatPlatformAccountID 2 ''20002'') (regions_world [(1, ''cn''), (2, ''os'')]) = (Inr out, w') \<and> map ps_Region out = [''os''] \<and>
     out = map toProfileSummary (profilesFromRecords (filter (\<lambda>x. ap_BindingID (snd x) = 2 \<and>
       ap_PlatformAccountID (snd x) = FormatPlatformAccountID 2 ''20002'' \<and> fst x = 2)
       (tb_rows (db_profiles (w_db (regions_world [(1, ''cn''), (2, ''os'')]))))))"
proof -
  obtain out w' where run: "ListProfilesWithScope (wired_profile (sample_env MySQL)) Background profile_guard
    (FormatPlatformAccountID 2 ''20002'') (regions_world [(1, ''cn''), (2, ''os'')]) = (Inr out, w')" "map ps_Region out = [''os'']"
    using sample_lists by (elim exE conjE) (rule that)
  have "sg_BindingID profile_guard = 2" "sg_ProfileID profile_guard = 2" "(2::u64) \<noteq> 0" by (simp_all add: profile_guard_def)
  with scoped_list_shows_exactly[OF run(1)] run show ?thesis by simp
qed

section \<open>Removing stale profiles\<close>

definition stale :: "string \<Rightarrow> ProfileIdentity list \<Rightarrow> AccountProfile \<Rightarrow> bool" where
  "stale k keep r \<longleftrightarrow> ap_PlatformAccountID r = k \<and>
     \<not> list_ex (\<lambda>i. ap_PlayerID r = pi_PlayerID i \<and> ap_Region r = pi_Region i) keep"

definition without_stale :: "string \<Rightarrow> ProfileIdentity list \<Rightarrow> database \<Rightarrow> database" where
  "without_stale k keep d = d\<lparr> db_profiles := sql_delete (stale k keep) (db_profiles d) \<rparr>"

lemma colon_keys:
  assumes "CHR '':'' \<notin> set p" "\<forall>i \<in> set keep. CHR '':'' \<notin> set (pi_PlayerID i)"
  shows "p @ '':'' @ region \<in> (\<lambda>i. pi_PlayerID i @ '':'' @ pi_Region i) ` set keep \<longleftrightarrow>
    list_ex (\<lambda>i. p = pi_PlayerID i \<and> region = pi_Region i) keep"
proof
  assume "p @ '':'' @ region \<in> (\<lambda>i. pi_PlayerID i @ '':'' @ pi_Region i) ` set keep"
  then obtain i where i: "i \<in> set keep" "p @ '':'' @ region = pi_PlayerID i @ '':'' @ pi_Region i" by blast
  have "p = pi_PlayerID i \<and> region = pi_Region i"
    using split_at_colon[OF assms(1), of "pi_PlayerID i" region "pi_Region i"] i assms(2) by simp
  with i(1) show "list_ex (\<lambda>i. p = pi_PlayerID i \<and> region = pi_Region i) keep" by (auto simp: list_ex_iff)
qed (auto simp: list_ex_iff)

definition delete_ids :: "u64 set \<Rightarrow> database \<Rightarrow> database" where
  "delete_ids S d = d\<lparr> db_profiles := (db_profiles d)\<lparr> tb_rows := filter (\<lambda>x. fst x \<notin> S) (tb_rows (db_profiles d)) \<rparr> \<rparr>"

lemma delete_ids_compose: "delete_ids S (delete_ids T d) = delete_ids (T \<union> S) d" "delete_ids {} d = d"
  by (simp_all add: delete_ids_def conj_commute)

lemma removal_loop:
  "establishes (in_tx (\<lambda>t. t = d))
     (foreach (\<lambda>x. if kept x then ret () else sql_exec E WithTx (\<lambda>_. on_profiles (\<lambda>t. Inr (sql_delete_id (fst x) t)))) xs)
     (\<lambda>_. in_tx (\<lambda>t. t = delete_ids {fst x | x. x \<in> set xs \<and> \<not> kept x} d))"
proof (induction xs arbitrary: d)
  case Nil
  show ?case unfolding foreach.simps by (rule est_ret) (simp add: delete_ids_compose)
next
  case (Cons x xs)
  define gone where "gone = (if kept x then {} else {fst x})"
  have step: "establishes (in_tx (\<lambda>t. t = d))
      (if kept x then ret () else sql_exec E WithTx (\<lambda>_. on_profiles (\<lambda>t. Inr (sql_delete_id (fst x) t))))
      (\<lambda>_. in_tx (\<lambda>t. t = delete_ids gone d))"
  proof (cases "kept x")
    case True
    then show ?thesis by (auto intro: est_ret simp: gone_def delete_ids_compose)
  next
    case False
    then show ?thesis
      by (simp add: gone_def) (rule est_exec, auto simp: on_table_ok delete_ids_def sql_delete_id_def)
  qed
  have "{fst y | y. y \<in> set (x # xs) \<and> \<not> kept y} = gone \<union> {fst y | y. y \<in> set xs \<and> \<not> kept y}"
    unfolding gone_def list.set by (cases "kept x"; simp only: if_True if_False not_False_eq_True; blast)
  then show ?case using est_then[OF step Cons.IH] by (simp add: delete_ids_compose)
qed

lemma removal_result:
  assumes "table_ok profile_keys (db_profiles d)" and "\<And>x. x \<in> set (tb_rows (db_profiles d)) \<Longrightarrow> ap_PlatformAccountID (snd x) = k \<Longrightarrow>
      kept x \<longleftrightarrow> \<not> stale k keep (snd x)"
  shows "delete_ids {fst x | x. x \<in> set (sql_find (\<lambda>r. ap_PlatformAccountID r = k) (db_profiles d)) \<and> \<not> kept x} d = without_stale k keep d"
proof -
  have "fst y \<notin> {fst x | x. x \<in> set (sql_find (\<lambda>r. ap_PlatformAccountID r = k) (db_profiles d)) \<and> \<not> kept x} \<longleftrightarrow> \<not> stale k keep (snd y)"
    if y: "y \<in> set (tb_rows (db_profiles d))" for y
  proof -
    have same: "x = y" if "x \<in> set (tb_rows (db_profiles d))" "fst x = fst y" for x
      using that y assms(1) ids_ok_inj[of "db_profiles d" x y] by (simp add: table_ok_def)
    have "fst y \<in> {fst x | x. x \<in> set (sql_find (\<lambda>r. ap_PlatformAccountID r = k) (db_profiles d)) \<and> \<not> kept x} \<longleftrightarrow>
        ap_PlatformAccountID (snd y) = k \<and> \<not> kept y"
      unfolding mem_Collect_eq set_sql_find using same y by metis
    then show ?thesis using assms(2)[OF y] by (cases "ap_PlatformAccountID (snd y) = k") (simp_all add: stale_def)
  qed
  then have "filter (\<lambda>x. fst x \<notin> {fst x | x. x \<in> set (sql_find (\<lambda>r. ap_PlatformAccountID r = k) (db_profiles d)) \<and> \<not> kept x})
      (tb_rows (db_profiles d)) = filter (\<lambda>x. \<not> stale k keep (snd x)) (tb_rows (db_profiles d))"
    by (intro filter_cong) auto
  then show ?thesis by (simp add: delete_ids_def without_stale_def sql_delete_def)
qed



section \<open>What the platform says of itself\<close>

definition one_request_each :: "request list" where
  "one_request_each = [Account_Status None, Account_ListProfiles None, Account_Confirm None, Account_AuthKey None,
     Account_Summary None, Account_Bind None, Account_Update None, Account_Refresh None, Account_Delete None,
     Account_UpsertDevice None, Platform_Invalidate None]"

lemma described_by_requests: "dpr_SupportedActions Generic_DescribePlatform = concat (map required_actions one_request_each)"
  by (simp add: one_request_each_def Generic_DescribePlatform_def)

text \<open>DescribePlatform lists the actions the service checks: an action is listed exactly when some request
  requires it, and none is listed twice.\<close>

theorem description_lists_required_actions:
  "set (dpr_SupportedActions Generic_DescribePlatform) = (\<Union>req. set (required_actions req)) \<and>
   distinct (dpr_SupportedActions Generic_DescribePlatform)"
proof
  have "set (required_actions req) \<subseteq> set (dpr_SupportedActions Generic_DescribePlatform)" for req
    by (cases req rule: required_actions.cases) (simp_all add: Generic_DescribePlatform_def)
  moreover have "set (dpr_SupportedActions Generic_DescribePlatform) \<subseteq> (\<Union>req. set (required_actions req))"
    unfolding described_by_requests by (auto simp del: required_actions.simps)
  ultimately show "set (dpr_SupportedActions Generic_DescribePlatform) = (\<Union>req. set (required_actions req))" by blast
  show "distinct (dpr_SupportedActions Generic_DescribePlatform)" by code_simp
qed

end
