(* ===== verification/AccountView.thy ===== *)
theory AccountView
  imports StoreFacts
begin

text \<open>
  What a caller sees of an account: the summary after a bind, the primary profile, and the device that
  an upsert stores.
\<close>

section \<open>The summary of a bound account\<close>

lemma device_listed:
  assumes "DeviceRepo_ListByBindingID E Background b w = (Inr ds, w')"
  shows "ds = devicesFromRecords (sql_find (\<lambda>r. dr_BindingID r = b) (db_devices (w_db w)))" "w_db w' = w_db w"
proof -
  obtain xs where xs: "gorm_find E Background db_devices (\<lambda>r. dr_BindingID r = b) w = (Inr xs, w')" "ds = devicesFromRecords xs"
    using assms by (auto simp: DeviceRepo_ListByBindingID_def elim!: bind_io_okE)
  then show "ds = devicesFromRecords (sql_find (\<lambda>r. dr_BindingID r = b) (db_devices (w_db w)))" "w_db w' = w_db w"
    using read_results(3)[OF xs(1)] reads_store(4)[OF xs(1)] by (simp_all add: db_view_def same_store_def)
qed

lemma profiles_listed:
  assumes "ProfileRepo_ListByBindingID E Background b w = (Inr ps, w')"
  shows "ps = profilesFromRecords (sql_find (\<lambda>r. ap_BindingID r = b) (db_profiles (w_db w)))"
  using assms
  by (auto simp: ProfileRepo_ListByBindingID_def db_view_def elim!: bind_io_okE dest!: read_results(3))

definition binding_summary :: "database \<Rightarrow> CredentialRecord \<Rightarrow> CredentialSummaryOutput" where
  "binding_summary d c = summary_output (credentialFromRecord c)
     (devicesFromRecords (sql_find (\<lambda>r. dr_BindingID r = cd_BindingID c) (db_devices d)))
     (map toProfileSummary (profilesFromRecords (sql_find (\<lambda>r. ap_BindingID r = cd_BindingID c) (db_profiles d))))"

lemma scoped_summary:
  assumes "ManagementUsecase_GetCredentialSummaryWithScope (wired_management E bc client) Background guard k w = (Inr s, w')"
  shows "key_binding k = Some (sg_BindingID guard) \<and> sg_ProfileID guard = 0 \<and>
    (\<exists>i c. (i, c) \<in> set (tb_rows (db_credentials (w_db w))) \<and> cd_BindingID c = sg_BindingID guard \<and>
      cd_PlatformAccountID c = k \<and> s = binding_summary (w_db w) c)"
proof -
  let ?b = "sg_BindingID guard"
  obtain c w1 where guard: "RequirePlatformAccountID guard k = Inr ()" "RequireBindingWide guard = Inr ()"
    and look: "CredentialRepo_GetByBindingID E Background ?b w = (Inr (Some c), w1)" and key: "cr_PlatformAccountID c = k"
    and rest: "bind_io (DeviceRepo_ListByBindingID E Background ?b) (\<lambda>devices.
      bind_io (ProfileRepo_ListByBindingID E Background ?b) (\<lambda>profiles.
      ret (summary_output c devices (map toProfileSummary profiles)))) w1 = (Inr s, w')"
    using assms
    by (auto simp: ManagementUsecase_GetCredentialSummaryWithScope_def wired_management_def NewManagementUsecase_def
        CredentialRepo_def DeviceRepo_def ProfileRepo_def simp del: RequirePlatformAccountID_ok RequireBindingWide_ok
        elim!: bind_io_okE[where m = "CredentialRepo_GetByBindingID E Background ?b"] then_io_okE split: option.splits if_splits)
  obtain x where x: "x \<in> set (tb_rows (db_credentials (w_db w)))" "cd_BindingID (snd x) = ?b" "c = credentialFromRecord (snd x)"
    using credential_found(2)[OF look refl] by (auto simp: db_view_def)
  have db: "w_db w1 = w_db w" using credential_found(1)[OF look] by (simp add: same_store_def)
  obtain ds ps w2 w3 where lists: "DeviceRepo_ListByBindingID E Background ?b w1 = (Inr ds, w2)"
      "ProfileRepo_ListByBindingID E Background ?b w2 = (Inr ps, w3)" and s: "s = summary_output c ds (map toProfileSummary ps)"
    using rest by (auto elim!: bind_io_okE)
  have "s = binding_summary (w_db w) (snd x)"
    using device_listed[OF lists(1)] profiles_listed[OF lists(2)] s x db by (simp add: binding_summary_def)
  moreover have "cd_PlatformAccountID (snd x) = k" using key x(3) by (simp add: credentialFromRecord_def)
  moreover have "(fst x, snd x) \<in> set (tb_rows (db_credentials (w_db w)))" using x(1) by simp
  ultimately have "\<exists>i c. (i, c) \<in> set (tb_rows (db_credentials (w_db w))) \<and> cd_BindingID c = ?b \<and>
      cd_PlatformAccountID c = k \<and> s = binding_summary (w_db w) c"
    using x(2) by blast
  then show ?thesis using guard by simp
qed

lemma bound_summary:
  assumes bound: "bound_as input prepared out d" and ok: "database_ok d"
    and row: "(i, c) \<in> set (tb_rows (db_credentials d))" "cd_BindingID c = bi_BindingID input"
  shows "so_PlatformAccountID (binding_summary d c) = bo_PlatformAccountID out"
    and "so_Status (binding_summary d c) = CREDENTIAL_STATUS_ACTIVE"
    and "so_LastValidatedAt (binding_summary d c) \<noteq> None"
    and "\<exists>v \<in> set (so_Devices (binding_summary d c)). dv_DeviceID v = bi_DeviceID input \<and> dv_DeviceFP v = bi_DeviceFP input \<and> dv_IsValid v"
    and "list_all (\<lambda>p. \<exists>q \<in> set (so_Profiles (binding_summary d c)). ps_PlayerId q = dp_PlayerID p \<and> ps_Region q = dp_Region p)
      (bp_discoveredProfiles prepared)"
proof -
  obtain now where state: "bound_state input prepared now d" and out: "bo_PlatformAccountID out = bp_platformAccountID prepared"
    using bound by (auto simp: bound_as_def)
  obtain j where j: "(j, record_of_credential (bound_credential input prepared now)) \<in> set (tb_rows (db_credentials d))"
    using state by (auto simp: bound_state_def has_credential_def)
  have "clashes credential_keys c (record_of_credential (bound_credential input prepared now))"
    using row(2) by (simp add: clashes_credential record_of_credential_def bound_credential_def)
  then have c: "c = record_of_credential (bound_credential input prepared now)"
    using unique_ok_inj[of credential_keys "db_credentials d" "(i, c)" "(j, record_of_credential (bound_credential input prepared now))"]
      ok row(1) j by (simp add: database_ok_def table_ok_def)
  show "so_PlatformAccountID (binding_summary d c) = bo_PlatformAccountID out"
    "so_Status (binding_summary d c) = CREDENTIAL_STATUS_ACTIVE" "so_LastValidatedAt (binding_summary d c) \<noteq> None"
    unfolding binding_summary_def c credentialFromRecord_inverse using out
    by (simp_all add: summary_output_def bound_credential_def toCredentialStatus_def)
  obtain n where "(n, record_of_device (bound_device input prepared now)) \<in> set (tb_rows (db_devices d))"
    using state by (auto simp: bound_state_def has_device_def)
  then show "\<exists>v \<in> set (so_Devices (binding_summary d c)). dv_DeviceID v = bi_DeviceID input \<and> dv_DeviceFP v = bi_DeviceFP input \<and> dv_IsValid v"
    using row(2)
    by (force simp: binding_summary_def summary_output_def devicesFromRecords_def set_sql_find record_of_device_def
        bound_device_def create_default_def)
  show "list_all (\<lambda>p. \<exists>q \<in> set (so_Profiles (binding_summary d c)). ps_PlayerId q = dp_PlayerID p \<and> ps_Region q = dp_Region p)
      (bp_discoveredProfiles prepared)"
    unfolding list_all_iff
  proof
    fix p assume "p \<in> set (bp_discoveredProfiles prepared)"
    then obtain n r where "(n, r) \<in> set (tb_rows (db_profiles d))" "ap_BindingID r = bi_BindingID input"
      "ap_PlayerID r = dp_PlayerID p" "ap_Region r = dp_Region p"
      using state by (fastforce simp: bound_state_def list_all_iff has_profile_def profile_row_def)
    then show "\<exists>q \<in> set (so_Profiles (binding_summary d c)). ps_PlayerId q = dp_PlayerID p \<and> ps_Region q = dp_Region p"
      using row(2) by (force simp: binding_summary_def summary_output_def profilesFromRecords_def set_sql_find toProfileSummary_def)
  qed
qed

text \<open>C8: A caller reads back what a bind has stored. The scoped summary that answers for the account key of a
  finished bind, as long as the database has not changed in between, names that key, status active and a
  time of validation, and lists the submitted device as valid and every profile the upstream reported.\<close>

theorem bound_account_is_shown:
  assumes "database_ok (w_db w)" and "client_inert client"
    and "BindCredential E (wired_bind E bc client) Background input w = (Inr (Some out), w1)" and "w_db w2 = w_db w1"
    and "ManagementUsecase_GetCredentialSummaryWithScope (wired_management E bc client) Background guard
      (bo_PlatformAccountID out) w2 = (Inr s, w3)"
  shows "so_PlatformAccountID s = bo_PlatformAccountID out \<and> so_Status s = CREDENTIAL_STATUS_ACTIVE \<and>
    so_LastValidatedAt s \<noteq> None \<and>
    (\<exists>v \<in> set (so_Devices s). dv_DeviceID v = bi_DeviceID input \<and> dv_DeviceFP v = bi_DeviceFP input \<and> dv_IsValid v) \<and>
    (\<exists>a region ds. fst (cl_ValidateAndDiscover client Background (bi_CookieBundleJSON input) (bi_RegionHint input) w) = Inr (a, region, ds) \<and>
      bo_PlatformAccountID out = FormatPlatformAccountID (bi_BindingID input) a \<and>
      list_all (\<lambda>p. \<exists>q \<in> set (so_Profiles s). ps_PlayerId q = dp_PlayerID p \<and> ps_Region q = dp_Region p) ds)"
proof -
  obtain out' prepared u where out: "Some out = Some out'" and bound: "bound_as input prepared out' (w_db w1)"
    and prep: "prepareBindCredential E (wired_bind E bc client) Background input w = (Inr prepared, u)"
    and ok: "database_ok (w_db w1)"
    using bind_committed[OF assms(1,2,3)] by metis
  have key: "bo_PlatformAccountID out = FormatPlatformAccountID (bi_BindingID input) (bp_accountID prepared)"
    using bound out prepared_fields[OF prep] by (auto simp: bound_as_def)
  obtain i c where row: "(i, c) \<in> set (tb_rows (db_credentials (w_db w1)))" "cd_BindingID c = bi_BindingID input"
    and s: "s = binding_summary (w_db w1) c"
    using scoped_summary[OF assms(5)] key assms(4) by auto
  show ?thesis using bound_summary[OF bound ok row] prepared_fields[OF prep] key out unfolding s by auto
qed

definition binding_guard :: ScopeGuard where
  "binding_guard = \<lparr> sg_AllowedActions = {ActionCredentialRead}, sg_BindingID = 1, sg_ProfileID = 0 \<rparr>"

lemma healthy_find:
  "healthy E \<Longrightarrow> gorm_find E Background sel p u = (Inr (sql_find p (sel (w_db u))), next_tick u)"
  by (simp add: gorm_find_def sql_query_def interact_def healthy_def db_view_def Let_def)

lemma summary_returns:
  assumes "healthy E" "database_ok (w_db w)" "credential_of (w_db w) (sg_BindingID guard) k"
    and "key_binding k = Some (sg_BindingID guard)" "sg_BindingID guard \<noteq> 0" "sg_ProfileID guard = 0"
  shows "\<exists>s w'. ManagementUsecase_GetCredentialSummaryWithScope (wired_management E bc client) Background guard k w = (Inr s, w')"
proof -
  obtain c w1 where "CredentialRepo_GetByBindingID E Background (sg_BindingID guard) w = (Inr (Some c), w1)" "cr_PlatformAccountID c = k"
    using credential_lookup_succeeds[of E Background w "sg_BindingID guard" k] assms(1-3) by (auto simp: db_view_def)
  moreover have "RequirePlatformAccountID guard k = Inr ()" "RequireBindingWide guard = Inr ()" using assms(4-6) by simp_all
  ultimately show ?thesis
    by (simp del: RequirePlatformAccountID_ok RequireBindingWide_ok add: ManagementUsecase_GetCredentialSummaryWithScope_def wired_management_def NewManagementUsecase_def
        CredentialRepo_def DeviceRepo_def ProfileRepo_def DeviceRepo_ListByBindingID_def ProfileRepo_ListByBindingID_def healthy_find[OF assms(1)] bind_io_apply)
qed

theorem bound_account_is_shown_witness:
  "\<exists>out w1 s w3. BindCredential (sample_env MySQL) (wired_bind (sample_env MySQL) sample_conf StubClient) Background
     sample_input sample_world = (Inr (Some out), w1) \<and>
     ManagementUsecase_GetCredentialSummaryWithScope (wired_management (sample_env MySQL) sample_conf StubClient) Background
       binding_guard (bo_PlatformAccountID out) w1 = (Inr s, w3) \<and>
     so_Status s = CREDENTIAL_STATUS_ACTIVE \<and> (\<exists>q \<in> set (so_Profiles s). ps_PlayerId q = ''1008611'')"
proof -
  let ?E = "sample_env MySQL"
  let ?uc = "wired_bind ?E sample_conf StubClient"
  have ok: "database_ok (w_db sample_world)" using sample_world_good by (simp add: good_world_def)
  have inert: "client_inert StubClient" by simp
  have "\<exists>result w'. BindCredential ?E ?uc Background sample_input sample_world = (Inr result, w')"
    by (rule bind_returns[OF _ _ _ _ sample_discovers]) (simp_all add: sample_bindable sample_texts_fit)
  then obtain result w1 where bind: "BindCredential ?E ?uc Background sample_input sample_world = (Inr result, w1)" by blast
  obtain out prepared u where out: "result = Some out" and bound: "bound_as sample_input prepared out (w_db w1)"
    and prep: "prepareBindCredential ?E ?uc Background sample_input sample_world = (Inr prepared, u)" and ok1: "database_ok (w_db w1)"
    using bind_committed[OF ok inert bind] by metis
  obtain i now where "(i, record_of_credential (bound_credential sample_input prepared now)) \<in> set (tb_rows (db_credentials (w_db w1)))"
    using bound by (auto simp: bound_as_def bound_state_def has_credential_def)
  then have cred: "credential_of (w_db w1) 1 (bo_PlatformAccountID out)"
    using bound by (force simp: credential_of_def list_ex_iff bound_as_def record_of_credential_def bound_credential_def)
  have key: "bo_PlatformAccountID out = FormatPlatformAccountID 1 (bp_accountID prepared)"
    using bound prepared_fields[OF prep] by (simp add: bound_as_def)
  obtain s w3 where run: "ManagementUsecase_GetCredentialSummaryWithScope (wired_management ?E sample_conf StubClient) Background
      binding_guard (bo_PlatformAccountID out) w1 = (Inr s, w3)"
    using summary_returns[of ?E w1 binding_guard "bo_PlatformAccountID out" sample_conf StubClient] ok1 cred key
    by (auto simp: binding_guard_def)
  from bound_account_is_shown[OF ok inert bind[unfolded out] refl run] bind out run show ?thesis by (auto simp: sample_discovers)
qed

section \<open>The primary profile\<close>

definition in_scope :: "ScopeGuard \<Rightarrow> string \<Rightarrow> u64 \<times> AccountProfile \<Rightarrow> bool" where
  "in_scope guard k x \<longleftrightarrow> ap_BindingID (snd x) = sg_BindingID guard \<and> ap_PlatformAccountID (snd x) = k \<and>
     (sg_ProfileID guard \<noteq> 0 \<longrightarrow> fst x = sg_ProfileID guard)"

lemma primary_of_rows:
  assumes "sorted_wrt (\<lambda>x y. unat (fst x) < unat (fst y)) rs"
  shows "case primary_profile (profilesFromRecords rs) of
      None \<Rightarrow> rs = []
    | Some p \<Rightarrow> \<exists>x \<in> set rs. p = hd (profilesFromRecords [x]) \<and>
        (ap_IsDefault (snd x) \<or> (\<forall>y \<in> set rs. \<not> ap_IsDefault (snd y) \<and> fst x \<le> fst y))"
proof (cases rs)
  case (Cons x xs)
  have one: "profilesFromRecords rs = map (\<lambda>x. hd (profilesFromRecords [x])) rs"
    by (induction rs) (auto simp: profilesFromRecords_def)
  have flag: "pf_IsDefault (hd (profilesFromRecords [y])) = ap_IsDefault (snd y)" for y
    by (simp add: profilesFromRecords_def case_prod_unfold)
  show ?thesis
  proof (cases "List.find pf_IsDefault (profilesFromRecords rs)")
    case None
    then have "\<forall>y \<in> set rs. \<not> ap_IsDefault (snd y)" unfolding one find_None_iff by (auto simp: flag)
    moreover have "\<forall>y \<in> set rs. fst x \<le> fst y" using assms Cons by (auto simp: word_le_nat_alt less_imp_le)
    ultimately show ?thesis using None Cons one by (auto simp: primary_profile_def)
  next
    case (Some q)
    then obtain i where "i < length rs" "q = hd (profilesFromRecords [rs ! i])" "ap_IsDefault (snd (rs ! i))"
      unfolding one find_Some_iff by (auto simp: flag)
    then obtain y where "y \<in> set rs" "q = hd (profilesFromRecords [y])" "ap_IsDefault (snd y)" using nth_mem by blast
    then show ?thesis using Some Cons one by (auto simp: primary_profile_def)
  qed
qed (simp add: profilesFromRecords_def primary_profile_def)

text \<open>C18: The primary profile of an account is the default one among the profiles the ticket covers; when none
  of them is the default, the one with the smallest id; and there is no answer exactly when no profile is
  covered.\<close>

theorem primary_profile_is_default_or_first:
  assumes "database_ok (w_db w)" and "GetPrimaryProfileWithScope (wired_profile E) Background guard k w = (Inr r, w')"
  shows "case r of
      None \<Rightarrow> \<forall>x \<in> set (tb_rows (db_profiles (w_db w))). \<not> in_scope guard k x
    | Some p \<Rightarrow> \<exists>x \<in> set (tb_rows (db_profiles (w_db w))). in_scope guard k x \<and>
        p = toProfileSummary (hd (profilesFromRecords [x])) \<and>
        (ap_IsDefault (snd x) \<or> (\<forall>y \<in> set (tb_rows (db_profiles (w_db w))). in_scope guard k y \<longrightarrow>
           \<not> ap_IsDefault (snd y) \<and> fst x \<le> fst y))"
proof -
  let ?rs = "filter (in_scope guard k) (tb_rows (db_profiles (w_db w)))"
  obtain ps where ps: "listScopedProfiles (wired_profile E) Background guard k w = (Inr ps, w')"
    and r: "r = map_option toProfileSummary (primary_profile ps)"
    using assms(2) by (auto simp: GetPrimaryProfileWithScope_def elim!: bind_io_okE)
  have rows: "ps = profilesFromRecords ?rs" using scoped_list[OF ps] by (simp add: in_scope_def[abs_def])
  have "sorted_wrt (\<lambda>x y. unat (fst x) < unat (fst y)) ?rs"
    using assms(1) by (auto simp: database_ok_def table_ok_def ids_ok_def intro: sorted_wrt_filter)
  from primary_of_rows[OF this] show ?thesis
    unfolding r rows by (cases "primary_profile (profilesFromRecords ?rs)") (auto simp: filter_empty_conv)
qed

text \<open>With a ticket for profile 2 alone, which is not the default, that profile is the primary one.\<close>

theorem primary_profile_is_default_or_first_witness:
  "\<exists>p w'. GetPrimaryProfileWithScope (wired_profile (sample_env MySQL)) Background profile_guard
     (FormatPlatformAccountID 2 ''20002'') (regions_world [(1, ''cn''), (2, ''os'')]) = (Inr (Some p), w') \<and> ps_Region p = ''os'' \<and>
     (\<exists>x \<in> set (tb_rows (db_profiles (w_db (regions_world [(1, ''cn''), (2, ''os'')])))).
        in_scope profile_guard (FormatPlatformAccountID 2 ''20002'') x \<and> p = toProfileSummary (hd (profilesFromRecords [x])))"
proof -
  let ?run = "GetPrimaryProfileWithScope (wired_profile (sample_env MySQL)) Background profile_guard
    (FormatPlatformAccountID 2 ''20002'') (regions_world [(1, ''cn''), (2, ''os'')])"
  have "case fst ?run of Inr (Some p) \<Rightarrow> ps_Region p = ''os'' | _ \<Rightarrow> False" by code_simp
  then obtain p w' where run: "?run = (Inr (Some p), w')" "ps_Region p = ''os''"
    by (cases ?run) (auto split: sum.splits option.splits)
  from primary_profile_is_default_or_first[OF regions_world_ok(2) run(1)] run show ?thesis by auto
qed

section \<open>Storing a device\<close>

definition upserted_device :: "CredentialRecord \<Rightarrow> string \<Rightarrow> string \<Rightarrow> string \<Rightarrow> gotime \<Rightarrow> DeviceRecord" where
  "upserted_device c deviceID deviceFP deviceName now = \<lparr>
     dr_BindingID = cd_BindingID c, dr_PlatformAccountID = cd_PlatformAccountID c, dr_DeviceID = deviceID, dr_DeviceFP = deviceFP,
     dr_DeviceName = (if deviceName = [] then None else Some deviceName), dr_IsValid = True, dr_LastSeenAt = Some now \<rparr>"

definition other_devices :: "CredentialRecord \<Rightarrow> string \<Rightarrow> database \<Rightarrow> (u64 \<times> DeviceRecord) list" where
  "other_devices c deviceID d =
     filter (\<lambda>x. dr_BindingID (snd x) \<noteq> cd_BindingID c \<or> dr_DeviceID (snd x) \<noteq> deviceID) (tb_rows (db_devices d))"

lemma filter_map_same:
  "(\<And>y. y \<in> set ys \<Longrightarrow> f y = y \<or> \<not> P y \<and> \<not> P (f y)) \<Longrightarrow> filter P (map f ys) = filter P ys"
  by (induction ys) fastforce+

lemma device_upserted:
  assumes ok: "table_ok device_keys t" and ups: "sql_upsert n d device_keys ''uniq_device_record_binding'' device_assign r t = Inr t'"
  defines "others \<equiv> filter (\<lambda>x. dr_BindingID (snd x) \<noteq> dr_BindingID r \<or> dr_DeviceID (snd x) \<noteq> dr_DeviceID r)"
  shows "(\<exists>j. (j, r) \<in> set (tb_rows t')) \<and> others (tb_rows t') = others (tb_rows t)"
  using ups
proof (cases rule: sql_upsert_cases)
  case insert
  then show ?thesis by (auto simp: sql_insert_rows(1) others_def)
next
  case (update x n)
  have key: "dr_BindingID (snd x) = dr_BindingID r" "dr_DeviceID (snd x) = dr_DeviceID r"
    using update(2) by (cases d; auto simp: conflicting_def clashes_device clashes_def device_keys_def)+
  have rows: "tb_rows t' = map (\<lambda>y. if fst y = fst x then (fst y, device_assign r (snd y)) else y) (tb_rows t)"
    using sql_update_rows(1)[OF update(3)] by simp
  have same: "y = x" if "y \<in> set (tb_rows t)" "fst y = fst x" for y
    using ids_ok_inj[of t y x] ok that update(1) by (simp add: table_ok_def)
  have "device_assign r (snd x) = r" using key by (cases r; cases "snd x") (simp add: device_assign_def)
  then have "(fst x, r) \<in> set (tb_rows t')" using update(1) unfolding rows by force
  moreover have "others (map (\<lambda>y. if fst y = fst x then (fst y, device_assign r (snd y)) else y) (tb_rows t)) = others (tb_rows t)"
    unfolding others_def
  proof (rule filter_map_same)
    fix y assume "y \<in> set (tb_rows t)"
    then have "y = x" if "fst y = fst x" using that by (rule same)
    then show "(if fst y = fst x then (fst y, device_assign r (snd y)) else y) = y \<or>
        \<not> (dr_BindingID (snd y) \<noteq> dr_BindingID r \<or> dr_DeviceID (snd y) \<noteq> dr_DeviceID r) \<and>
        \<not> (dr_BindingID (snd (if fst y = fst x then (fst y, device_assign r (snd y)) else y)) \<noteq> dr_BindingID r \<or>
          dr_DeviceID (snd (if fst y = fst x then (fst y, device_assign r (snd y)) else y)) \<noteq> dr_DeviceID r)"
      using key by (cases "fst y = fst x") (simp_all add: device_assign_def)
  qed
  ultimately show ?thesis using rows by auto
qed

text \<open>C25: An upserted device belongs to the account's binding. However UpsertDevice ends, either the caller gets an
  error and nothing is stored, or the device table, and nothing else, has changed: it holds the device
  under the binding and the key of the credential, valid and seen now, and every other device is as
  before; an error with the second outcome can only be a lost acknowledgement.\<close>

theorem upserted_device_is_stored:
  assumes "database_ok (w_db w)"
    and "UpsertDevice E (wired_bind E bc client) Background k deviceID deviceFP deviceName w = (r, w')"
  shows "((\<exists>e. r = Inl e) \<and> w_db w' = w_db w) \<or>
    (\<exists>i c now j. (i, c) \<in> set (tb_rows (db_credentials (w_db w))) \<and> cd_PlatformAccountID c = k \<and>
      (j, upserted_device c deviceID deviceFP deviceName now) \<in> set (tb_rows (db_devices (w_db w'))) \<and>
      other_devices c deviceID (w_db w') = other_devices c deviceID (w_db w) \<and>
      w_db w' = (w_db w)\<lparr> db_devices := db_devices (w_db w') \<rparr> \<and>
      (r = Inr () \<or> (\<exists>n e. r = Inl e \<and> fault E n = Some (FailAfter e))))"
proof -
  obtain q w1 where look: "CredentialRepo_GetByPlatformAccountID E Background k w = (q, w1)" by fastforce
  have db: "w_db w1 = w_db w" using leaves_storeD[OF lookup_store look] by (simp add: same_store_def)
  show ?thesis
  proof (cases "\<exists>c. q = Inr (Some c)")
    case False
    then have "(\<exists>e. r = Inl e) \<and> w' = w1"
      using assms(2) look by (cases q) (auto simp: UpsertDevice_def wired_bind_def NewBindUsecase_def CredentialRepo_def split: option.splits)
    then show ?thesis using db by simp
  next
    case True
    then obtain c where q: "q = Inr (Some c)" by blast
    obtain z where z: "gorm_take E Background db_credentials (\<lambda>r. cd_PlatformAccountID r = k) w = (Inr z, w1)" "c = credentialFromRecord (snd z)"
      using look q by (auto simp: CredentialRepo_GetByPlatformAccountID_def elim!: bind_io_okE dest!: catch_not_found_okD)
    have row: "(fst z, snd z) \<in> set (tb_rows (db_credentials (w_db w)))" "cd_PlatformAccountID (snd z) = k"
      using read_results(1)[OF z(1)] by (simp_all add: db_view_def)
    obtain now where save: "DeviceRepo_Save E Background \<lparr> dv_BindingID = cr_BindingID c, dv_PlatformAccountID = k,
        dv_DeviceID = deviceID, dv_DeviceFP = deviceFP, dv_DeviceName = (if deviceName \<noteq> [] then Some deviceName else None),
        dv_IsValid = True, dv_LastSeenAt = Some now \<rparr> (next_tick w1) = (r, w')"
      using assms(2) look q by (auto simp: UpsertDevice_def wired_bind_def NewBindUsecase_def CredentialRepo_def DeviceRepo_def
          time_now_def bind_io_apply)
    let ?r = "upserted_device (snd z) deviceID deviceFP deviceName now"
    have "record_of_device \<lparr> dv_BindingID = cr_BindingID c, dv_PlatformAccountID = k,
        dv_DeviceID = deviceID, dv_DeviceFP = deviceFP, dv_DeviceName = (if deviceName \<noteq> [] then Some deviceName else None),
        dv_IsValid = True, dv_LastSeenAt = Some now \<rparr> = ?r"
      using row(2) z(2) by (simp add: record_of_device_def upserted_device_def create_default_def credentialFromRecord_def)
    then have "((\<exists>e. r = Inl e) \<and> w_db w' = w_db w) \<or>
      (\<exists>n t. sql_upsert n (dialect E) device_keys ''uniq_device_record_binding'' device_assign ?r (db_devices (w_db w)) = Inr t \<and>
        w_db w' = (w_db w)\<lparr> db_devices := t \<rparr> \<and> (r = Inr () \<or> (\<exists>n e. r = Inl e \<and> fault E n = Some (FailAfter e))))"
      using exec_outcomes[OF save[unfolded DeviceRepo_Save_def Let_def]] db by (auto simp: on_table_ok)
    moreover have "(\<exists>j. (j, ?r) \<in> set (tb_rows t)) \<and> other_devices (snd z) deviceID ((w_db w)\<lparr> db_devices := t \<rparr>) =
        other_devices (snd z) deviceID (w_db w)"
      if "sql_upsert n (dialect E) device_keys ''uniq_device_record_binding'' device_assign ?r (db_devices (w_db w)) = Inr t" for n t
      using device_upserted[OF _ that] assms(1) by (simp add: database_ok_def other_devices_def upserted_device_def)
    ultimately show ?thesis using row by fastforce
  qed
qed

lemma bound_device_save: "fits (sample_env MySQL) (device_columns (record_of_device d)) \<Longrightarrow>
    \<exists>w'. DeviceRepo_Save (sample_env MySQL) Background d (next_tick (next_tick bound_world)) = (Inr (), w')"
  by (simp add: DeviceRepo_Save_def row_checked_fits sql_exec_def interact_def Let_def db_view_def put_view_def on_devices_def sql_upsert_def sql_find_def
      sql_insert_def clash_key_def device_keys_def bound_world_simps empty_database_def empty_table_def)

lemma sample_device_fits: "fits E (device_columns (record_of_device \<lparr> dv_BindingID = i,
    dv_PlatformAccountID = FormatPlatformAccountID 1 ''10001'', dv_DeviceID = ''d'', dv_DeviceFP = ''fp'',
    dv_DeviceName = Some ''phone'', dv_IsValid = valid, dv_LastSeenAt = seen \<rparr>))"
  using sample_key_fits by (simp add: fits_def row_fits device_columns_def column_fits record_of_device_def ascii_fits byte_code_def)

theorem upserted_device_is_stored_witness:
  "\<exists>w' now j. UpsertDevice (sample_env MySQL) (wired_bind (sample_env MySQL) sample_conf StubClient) Background
     (FormatPlatformAccountID 1 ''10001'') ''d'' ''fp'' ''phone'' bound_world = (Inr (), w') \<and>
     (j, upserted_device bound_row ''d'' ''fp'' ''phone'' now) \<in> set (tb_rows (db_devices (w_db w')))"
proof -
  let ?run = "UpsertDevice (sample_env MySQL) (wired_bind (sample_env MySQL) sample_conf StubClient) Background
     (FormatPlatformAccountID 1 ''10001'') ''d'' ''fp'' ''phone'' bound_world"
  have "\<exists>w'. ?run = (Inr (), w')"
    using bound_device_save[OF sample_device_fits]
    by (simp add: UpsertDevice_def wired_bind_def NewBindUsecase_def CredentialRepo_def DeviceRepo_def bound_credential_lookup
        time_now_def bind_io_apply)
  then obtain w' where run: "?run = (Inr (), w')" by blast
  have "tb_rows (db_credentials (w_db bound_world)) = [(1, bound_row)]" by (simp add: bound_world_def)
  with upserted_device_is_stored[OF bound_world_ok run] run show ?thesis by auto
qed

end
