(* ===== verification/Migrations.thy ===== *)
theory Migrations
  imports Reachability GoText
begin

text \<open>
  The migrations \<open>initialize/migrate/sql/000001\<close> to \<open>000007\<close>, up and down, as an external tool runs
  them: the tables before and after \<open>binding_id\<close> became the owner of every row, the prechecks with their
  messages, the parsing of the binding out of the account key in SQL, the joins that hand it to devices
  and artifacts, and the unique keys that are added and dropped. A migration that fails is its error: the
  tool stops there and marks the schema dirty.

  A table's \<open>binding_id\<close> column is kept beside the columns it was created with, and is NULL where the
  column has just been added or does not exist. Texts are compared byte by byte, except that \<open>REGEXP\<close>
  ignores the case of the letters of the prefix, as the collation of the tables makes it; the line
  terminators that \<open>.\<close> does not match are those of ASCII. An ordinary statement fails as MySQL in strict
  mode does.
\<close>

section \<open>The tables before binding_id\<close>

record LegacyCredential =
  lc_PlatformAccountID :: string
  lc_Platform :: string
  lc_AccountID :: string
  lc_Region :: string
  lc_CredentialBlob :: string
  lc_CredentialVersion :: string
  lc_Status :: string
  lc_LastValidatedAt :: "gotime option"
  lc_LastRefreshedAt :: "gotime option"
  lc_ExpiresAt :: "gotime option"

record LegacyDevice =
  ld_PlatformAccountID :: string
  ld_DeviceID :: string
  ld_DeviceFP :: string
  ld_DeviceName :: "string option"
  ld_IsValid :: bool
  ld_LastSeenAt :: "gotime option"

record LegacyProfile =
  lp_PlatformAccountID :: string
  lp_GameBiz :: string
  lp_Region :: string
  lp_PlayerID :: string
  lp_Nickname :: string
  lp_Level :: i64
  lp_IsDefault :: bool
  lp_DiscoveredAt :: gotime

record LegacyArtifact =
  la_PlatformAccountID :: string
  la_ArtifactType :: string
  la_ArtifactValue :: string
  la_ScopeKey :: string
  la_ExpiresAt :: gotime

type_synonym 'r rows = "(u64 option \<times> 'r) sqltable"

record schema_state =
  mt_credentials :: "LegacyCredential rows option"
  mt_devices :: "LegacyDevice rows option"
  mt_profiles :: "LegacyProfile rows option"
  mt_artifacts :: "LegacyArtifact rows option"
  mt_invalidations :: "ConsumerGrantInvalidation sqltable option"

datatype migration_error =
    Signal string
  | NoSuchTable string
  | DuplicateEntry string
  | NullValue string
  | OutOfRange string

definition and_then :: "'e + 'a \<Rightarrow> ('a \<Rightarrow> 'e + 'b) \<Rightarrow> 'e + 'b" where
  "and_then r f = (case r of Inl e \<Rightarrow> Inl e | Inr x \<Rightarrow> f x)"

definition the_table :: "string \<Rightarrow> 't option \<Rightarrow> migration_error + 't" where
  "the_table name t = (case t of None \<Rightarrow> Inl (NoSuchTable name) | Some t \<Rightarrow> Inr t)"

definition signal_if :: "bool \<Rightarrow> string \<Rightarrow> migration_error + unit" where
  "signal_if bad message = (if bad then Inl (Signal message) else Inr ())"

section \<open>Parsing the binding in SQL\<close>

definition line_end :: "char \<Rightarrow> bool" where
  "line_end c \<longleftrightarrow> 10 \<le> byte_code c \<and> byte_code c \<le> 13"

text \<open>\<open>.+$\<close>: some text without a line terminator, up to the end or to a last line terminator.\<close>

definition before_line_end :: "string \<Rightarrow> string" where
  "before_line_end s =
     (if 2 \<le> length s \<and> drop (length s - 2) s = [CHR 0x0D, CHR 0x0A] then take (length s - 2) s
      else if s \<noteq> [] \<and> line_end (last s) then butlast s else s)"

definition dot_plus_end :: "string \<Rightarrow> bool" where
  "dot_plus_end s \<longleftrightarrow> before_line_end s \<noteq> [] \<and> list_all (\<lambda>c. \<not> line_end c) (before_line_end s)"

text \<open>\<open>key REGEXP '^<prefix>[1-9][0-9]*_.+$'\<close>.\<close>

definition regexp_ref :: "string \<Rightarrow> string \<Rightarrow> bool" where
  "regexp_ref prefix key \<longleftrightarrow> to_lower (take (length prefix) key) = prefix \<and>
     (let rest = drop (length prefix) key; number = takeWhile is_digit rest in
      number \<noteq> [] \<and> hd number \<noteq> CHR ''0'' \<and>
      (case dropWhile is_digit rest of [] \<Rightarrow> False | c # account \<Rightarrow> c = CHR ''_'' \<and> dot_plus_end account))"

text \<open>\<open>SUBSTRING_INDEX(s, '_', n)\<close> and \<open>SUBSTRING_INDEX(s, '_', -1)\<close>, and \<open>CAST(s AS UNSIGNED)\<close> of a text.\<close>

definition substring_before :: "nat \<Rightarrow> string \<Rightarrow> string" where
  "substring_before n s = str_join ''_'' (take n (str_split (CHR ''_'') s))"

definition substring_last :: "string \<Rightarrow> string" where
  "substring_last s = last (str_split (CHR ''_'') s)"

definition unsigned_of :: "string \<Rightarrow> nat" where
  "unsigned_of s = dec_value 0 (takeWhile is_digit s)"

text \<open>The \<open>CASE\<close> of the migration; \<open>None\<close> is NULL. A cast beyond the range is the largest number, with a
  warning, which is an error in an \<open>UPDATE\<close>.\<close>

definition parsed_number :: "string \<Rightarrow> nat option" where
  "parsed_number key =
     (if regexp_ref binding_prefix key then Some (unsigned_of (substring_last (substring_before 2 key)))
      else if regexp_ref hoyo_prefix key then Some (unsigned_of (substring_last (substring_before 3 key)))
      else None)"

definition saturated :: "nat \<Rightarrow> nat" where
  "saturated n = min n (2 ^ 64 - 1)"

definition parsed_binding :: "string \<Rightarrow> migration_error + u64 option" where
  "parsed_binding key = (case parsed_number key of
      None \<Rightarrow> Inr None
    | Some n \<Rightarrow> if n < 2 ^ 64 then Inr (Some (of_nat n)) else Inl (OutOfRange ''binding_id''))"

section \<open>Statements\<close>

text \<open>\<open>UPDATE ... SET binding_id = f(row) WHERE binding_id IS NULL\<close>, over the rows in order.\<close>

fun update_null :: "('r \<Rightarrow> migration_error + u64 option) \<Rightarrow> (u64 \<times> u64 option \<times> 'r) list \<Rightarrow>
    migration_error + (u64 \<times> u64 option \<times> 'r) list" where
  "update_null f [] = Inr []"
| "update_null f ((i, b, r) # xs) =
     and_then (if b = None then f r else Inr b) (\<lambda>b'. map_sum id ((#) (i, b', r)) (update_null f xs))"

definition set_null_bindings :: "('r \<Rightarrow> migration_error + u64 option) \<Rightarrow> 'r rows \<Rightarrow> migration_error + 'r rows" where
  "set_null_bindings f t = map_sum id (\<lambda>rs. t\<lparr> tb_rows := rs \<rparr>) (update_null f (tb_rows t))"

text \<open>\<open>UPDATE ... JOIN credential_records\<close> on the account key: rows without a partner stay as they are.\<close>

definition credential_binding :: "LegacyCredential rows \<Rightarrow> string \<Rightarrow> u64 option" where
  "credential_binding creds key =
     (case List.find (\<lambda>x. lc_PlatformAccountID (snd (snd x)) = key) (tb_rows creds) of
        None \<Rightarrow> None | Some (_, b, _) \<Rightarrow> b)"

definition join_bindings :: "('r \<Rightarrow> u64 option) \<Rightarrow> 'r rows \<Rightarrow> 'r rows" where
  "join_bindings f t = t\<lparr> tb_rows := map (\<lambda>(i, b, r). (i, (case f r of None \<Rightarrow> b | Some v \<Rightarrow> Some v), r)) (tb_rows t) \<rparr>"

definition drop_bindings :: "'r rows \<Rightarrow> 'r rows" where
  "drop_bindings t = t\<lparr> tb_rows := map (\<lambda>(i, b, r). (i, None, r)) (tb_rows t) \<rparr>"

definition has_duplicate :: "('r \<Rightarrow> 'r \<Rightarrow> bool) \<Rightarrow> 'r sqltable \<Rightarrow> bool" where
  "has_duplicate same t \<longleftrightarrow> \<not> sorted_wrt (\<lambda>x y. \<not> same (snd x) (snd y)) (tb_rows t)"

definition not_null :: "string \<Rightarrow> 'r rows \<Rightarrow> migration_error + 'r rows" where
  "not_null name t = (if list_all (\<lambda>x. fst (snd x) \<noteq> None) (tb_rows t) then Inr t else Inl (NullValue name))"

definition add_unique :: "string \<Rightarrow> ('r \<Rightarrow> 'r \<Rightarrow> bool) \<Rightarrow> 'r sqltable \<Rightarrow> migration_error + 'r sqltable" where
  "add_unique name same t = (if has_duplicate same t then Inl (DuplicateEntry name) else Inr t)"

text \<open>The unique keys the tables were created with, and those on \<open>binding_id\<close>.\<close>

definition uniq_platform_account_id :: "u64 option \<times> LegacyCredential \<Rightarrow> u64 option \<times> LegacyCredential \<Rightarrow> bool" where
  "uniq_platform_account_id a b \<longleftrightarrow> lc_PlatformAccountID (snd a) = lc_PlatformAccountID (snd b)"

definition uniq_platform_account :: "u64 option \<times> LegacyCredential \<Rightarrow> u64 option \<times> LegacyCredential \<Rightarrow> bool" where
  "uniq_platform_account a b \<longleftrightarrow> lc_Platform (snd a) = lc_Platform (snd b) \<and> lc_AccountID (snd a) = lc_AccountID (snd b)"

definition uniq_credential_binding_id :: "u64 option \<times> 'r \<Rightarrow> u64 option \<times> 'r \<Rightarrow> bool" where
  "uniq_credential_binding_id a b \<longleftrightarrow> fst a \<noteq> None \<and> fst a = fst b"

definition uniq_device_record :: "u64 option \<times> LegacyDevice \<Rightarrow> u64 option \<times> LegacyDevice \<Rightarrow> bool" where
  "uniq_device_record a b \<longleftrightarrow>
     ld_PlatformAccountID (snd a) = ld_PlatformAccountID (snd b) \<and> ld_DeviceID (snd a) = ld_DeviceID (snd b)"

definition uniq_device_record_binding :: "u64 option \<times> LegacyDevice \<Rightarrow> u64 option \<times> LegacyDevice \<Rightarrow> bool" where
  "uniq_device_record_binding a b \<longleftrightarrow> fst a \<noteq> None \<and> fst a = fst b \<and> ld_DeviceID (snd a) = ld_DeviceID (snd b)"

definition uniq_platform_profile :: "u64 option \<times> LegacyProfile \<Rightarrow> u64 option \<times> LegacyProfile \<Rightarrow> bool" where
  "uniq_platform_profile a b \<longleftrightarrow> lp_PlatformAccountID (snd a) = lp_PlatformAccountID (snd b) \<and>
     lp_PlayerID (snd a) = lp_PlayerID (snd b) \<and> lp_Region (snd a) = lp_Region (snd b)"

definition uniq_profile_binding_player_region :: "u64 option \<times> LegacyProfile \<Rightarrow> u64 option \<times> LegacyProfile \<Rightarrow> bool" where
  "uniq_profile_binding_player_region a b \<longleftrightarrow> fst a \<noteq> None \<and> fst a = fst b \<and>
     lp_PlayerID (snd a) = lp_PlayerID (snd b) \<and> lp_Region (snd a) = lp_Region (snd b)"

definition uniq_default_profile_per_binding :: "u64 option \<times> LegacyProfile \<Rightarrow> u64 option \<times> LegacyProfile \<Rightarrow> bool" where
  "uniq_default_profile_per_binding a b \<longleftrightarrow> fst a \<noteq> None \<and> fst a = fst b \<and> lp_IsDefault (snd a) \<and> lp_IsDefault (snd b)"

definition uniq_runtime_artifact :: "u64 option \<times> LegacyArtifact \<Rightarrow> u64 option \<times> LegacyArtifact \<Rightarrow> bool" where
  "uniq_runtime_artifact a b \<longleftrightarrow> la_PlatformAccountID (snd a) = la_PlatformAccountID (snd b) \<and>
     la_ArtifactType (snd a) = la_ArtifactType (snd b) \<and> la_ScopeKey (snd a) = la_ScopeKey (snd b)"

definition uniq_runtime_artifact_binding :: "u64 option \<times> LegacyArtifact \<Rightarrow> u64 option \<times> LegacyArtifact \<Rightarrow> bool" where
  "uniq_runtime_artifact_binding a b \<longleftrightarrow> fst a \<noteq> None \<and> fst a = fst b \<and>
     la_ArtifactType (snd a) = la_ArtifactType (snd b) \<and> la_ScopeKey (snd a) = la_ScopeKey (snd b)"

section \<open>The migrations\<close>

text \<open>\<open>CREATE TABLE IF NOT EXISTS\<close>.\<close>

definition create_table :: "'r sqltable option \<Rightarrow> 'r sqltable option" where
  "create_table t = (case t of None \<Rightarrow> Some empty_table | Some t \<Rightarrow> Some t)"

definition up_000001 :: "schema_state \<Rightarrow> migration_error + schema_state" where
  "up_000001 s = Inr (s\<lparr> mt_credentials := create_table (mt_credentials s) \<rparr>)"

definition up_000002 :: "schema_state \<Rightarrow> migration_error + schema_state" where
  "up_000002 s = Inr (s\<lparr> mt_devices := create_table (mt_devices s) \<rparr>)"

definition up_000003 :: "schema_state \<Rightarrow> migration_error + schema_state" where
  "up_000003 s = Inr (s\<lparr> mt_profiles := create_table (mt_profiles s) \<rparr>)"

definition up_000004 :: "schema_state \<Rightarrow> migration_error + schema_state" where
  "up_000004 s = Inr (s\<lparr> mt_artifacts := create_table (mt_artifacts s) \<rparr>)"

text \<open>The prechecks of \<open>000005\<close>: keys that name no binding, and two credentials for one binding.\<close>

definition malformed :: "('r \<Rightarrow> string) \<Rightarrow> 'r rows \<Rightarrow> bool" where
  "malformed key t \<longleftrightarrow> list_ex (\<lambda>x. parsed_number (key (snd (snd x))) = None) (tb_rows t)"

definition same_number :: "u64 option \<times> LegacyCredential \<Rightarrow> u64 option \<times> LegacyCredential \<Rightarrow> bool" where
  "same_number a b \<longleftrightarrow> parsed_number (lc_PlatformAccountID (snd a)) \<noteq> None \<and>
     parsed_number (lc_PlatformAccountID (snd b)) \<noteq> None \<and>
     map_option saturated (parsed_number (lc_PlatformAccountID (snd a))) =
     map_option saturated (parsed_number (lc_PlatformAccountID (snd b)))"

definition up_000005 :: "schema_state \<Rightarrow> migration_error + schema_state" where
  "up_000005 s =
     and_then (the_table ''credential_records'' (mt_credentials s)) (\<lambda>creds.
     and_then (signal_if (malformed lc_PlatformAccountID creds)
       ''migration 000005 failed: malformed credential_records platform_account_id values'') (\<lambda>_.
     and_then (signal_if (has_duplicate same_number creds)
       ''migration 000005 failed: duplicate parsed credential_records binding_id values'') (\<lambda>_.
     and_then (the_table ''account_profiles'' (mt_profiles s)) (\<lambda>profiles.
     and_then (signal_if (malformed lp_PlatformAccountID profiles)
       ''migration 000005 failed: malformed account_profiles platform_account_id values'') (\<lambda>_.
     and_then (set_null_bindings (parsed_binding \<circ> lc_PlatformAccountID) (drop_bindings creds)) (\<lambda>creds.
     and_then (not_null ''credential_records'' creds) (\<lambda>creds.
     and_then (add_unique ''uniq_credential_binding_id'' uniq_credential_binding_id creds) (\<lambda>creds.
     and_then (set_null_bindings (parsed_binding \<circ> lp_PlatformAccountID) (drop_bindings profiles)) (\<lambda>profiles.
     and_then (not_null ''account_profiles'' profiles) (\<lambda>profiles.
     Inr (s\<lparr> mt_credentials := Some creds, mt_profiles := Some profiles \<rparr>)))))))))))"

definition without_credential :: "('r \<Rightarrow> string) \<Rightarrow> LegacyCredential rows \<Rightarrow> 'r rows \<Rightarrow> bool" where
  "without_credential key creds t \<longleftrightarrow>
     list_ex (\<lambda>x. \<not> list_ex (\<lambda>c. lc_PlatformAccountID (snd (snd c)) = key (snd (snd x))) (tb_rows creds)) (tb_rows t)"

definition up_000006 :: "schema_state \<Rightarrow> migration_error + schema_state" where
  "up_000006 s =
     and_then (the_table ''account_profiles'' (mt_profiles s)) (\<lambda>profiles.
     and_then (signal_if (has_duplicate uniq_profile_binding_player_region profiles)
       ''migration 000006 failed: duplicate account_profiles rows for binding_id, player_id, region'') (\<lambda>_.
     and_then (the_table ''device_records'' (mt_devices s)) (\<lambda>devices.
     and_then (the_table ''credential_records'' (mt_credentials s)) (\<lambda>creds.
     and_then (signal_if (without_credential ld_PlatformAccountID creds devices)
       ''migration 000006 failed: device_records rows cannot be backfilled from credential_records'') (\<lambda>_.
     and_then (set_null_bindings (\<lambda>r. Inr (credential_binding creds (ld_PlatformAccountID r))) (drop_bindings devices)) (\<lambda>devices.
     and_then (not_null ''device_records'' devices) (\<lambda>devices.
     and_then (add_unique ''uniq_device_record_binding'' uniq_device_record_binding devices) (\<lambda>devices.
     and_then (add_unique ''uniq_profile_binding_player_region'' uniq_profile_binding_player_region profiles) (\<lambda>profiles.
     Inr (s\<lparr> mt_devices := Some devices, mt_profiles := Some profiles,
            mt_invalidations := create_table (mt_invalidations s) \<rparr>))))))))))"

text \<open>The artifacts that two credentials' rows would make equal once they are owned by a binding.\<close>

definition same_owned_artifact :: "LegacyCredential rows \<Rightarrow> u64 option \<times> LegacyArtifact \<Rightarrow> u64 option \<times> LegacyArtifact \<Rightarrow> bool" where
  "same_owned_artifact creds a b \<longleftrightarrow>
     credential_binding creds (la_PlatformAccountID (snd a)) \<noteq> None \<and>
     credential_binding creds (la_PlatformAccountID (snd a)) = credential_binding creds (la_PlatformAccountID (snd b)) \<and>
     la_ArtifactType (snd a) = la_ArtifactType (snd b) \<and> la_ScopeKey (snd a) = la_ScopeKey (snd b)"

definition up_000007 :: "schema_state \<Rightarrow> migration_error + schema_state" where
  "up_000007 s =
     and_then (the_table ''account_profiles'' (mt_profiles s)) (\<lambda>profiles.
     and_then (signal_if (has_duplicate uniq_default_profile_per_binding profiles)
       ''migration 000007 failed: multiple default account_profiles rows for binding_id'') (\<lambda>_.
     and_then (the_table ''runtime_artifacts'' (mt_artifacts s)) (\<lambda>artifacts.
     and_then (the_table ''credential_records'' (mt_credentials s)) (\<lambda>creds.
     and_then (signal_if (list_ex (\<lambda>x. credential_binding creds (la_PlatformAccountID (snd (snd x))) = None) (tb_rows artifacts))
       ''migration 000007 failed: runtime_artifacts rows without credential binding_id mapping'') (\<lambda>_.
     and_then (signal_if (has_duplicate (same_owned_artifact creds) artifacts)
       ''migration 000007 failed: duplicate runtime_artifacts rows for binding_id, artifact_type, scope_key'') (\<lambda>_.
     and_then (add_unique ''uniq_default_profile_per_binding'' uniq_default_profile_per_binding profiles) (\<lambda>profiles.
     and_then (not_null ''runtime_artifacts''
       (join_bindings (\<lambda>r. credential_binding creds (la_PlatformAccountID r)) (drop_bindings artifacts))) (\<lambda>artifacts.
     and_then (add_unique ''uniq_runtime_artifact_binding'' uniq_runtime_artifact_binding artifacts) (\<lambda>artifacts.
     Inr (s\<lparr> mt_profiles := Some profiles, mt_artifacts := Some artifacts \<rparr>))))))))))"

definition down_000007 :: "schema_state \<Rightarrow> migration_error + schema_state" where
  "down_000007 s =
     and_then (the_table ''runtime_artifacts'' (mt_artifacts s)) (\<lambda>artifacts.
     and_then (signal_if (has_duplicate uniq_runtime_artifact artifacts)
       ''migration 000007 rollback failed: runtime_artifacts rows would violate platform_account_id uniqueness'') (\<lambda>_.
     and_then (add_unique ''uniq_runtime_artifact'' uniq_runtime_artifact (drop_bindings artifacts)) (\<lambda>artifacts.
     and_then (the_table ''account_profiles'' (mt_profiles s)) (\<lambda>_.
     Inr (s\<lparr> mt_artifacts := Some artifacts \<rparr>)))))"

definition down_000006 :: "schema_state \<Rightarrow> migration_error + schema_state" where
  "down_000006 s =
     and_then (the_table ''account_profiles'' (mt_profiles s)) (\<lambda>profiles.
     and_then (add_unique ''uniq_platform_profile'' uniq_platform_profile profiles) (\<lambda>profiles.
     and_then (the_table ''device_records'' (mt_devices s)) (\<lambda>devices.
     and_then (add_unique ''uniq_device_record'' uniq_device_record (drop_bindings devices)) (\<lambda>devices.
     Inr (s\<lparr> mt_invalidations := None, mt_profiles := Some profiles, mt_devices := Some devices \<rparr>)))))"

definition down_000005 :: "schema_state \<Rightarrow> migration_error + schema_state" where
  "down_000005 s =
     and_then (the_table ''account_profiles'' (mt_profiles s)) (\<lambda>profiles.
     and_then (the_table ''credential_records'' (mt_credentials s)) (\<lambda>creds.
     Inr (s\<lparr> mt_profiles := Some (drop_bindings profiles), mt_credentials := Some (drop_bindings creds) \<rparr>)))"

text \<open>\<open>DROP TABLE IF EXISTS\<close>.\<close>

definition down_000004 :: "schema_state \<Rightarrow> migration_error + schema_state" where
  "down_000004 s = Inr (s\<lparr> mt_artifacts := None \<rparr>)"

definition down_000003 :: "schema_state \<Rightarrow> migration_error + schema_state" where
  "down_000003 s = Inr (s\<lparr> mt_profiles := None \<rparr>)"

definition down_000002 :: "schema_state \<Rightarrow> migration_error + schema_state" where
  "down_000002 s = Inr (s\<lparr> mt_devices := None \<rparr>)"

definition down_000001 :: "schema_state \<Rightarrow> migration_error + schema_state" where
  "down_000001 s = Inr (s\<lparr> mt_credentials := None \<rparr>)"

text \<open>The tool runs the files in order, up from the first and down from the last, and stops at an error.\<close>

fun run_migrations :: "(schema_state \<Rightarrow> migration_error + schema_state) list \<Rightarrow> schema_state \<Rightarrow> migration_error + schema_state" where
  "run_migrations [] s = Inr s"
| "run_migrations (m # ms) s = and_then (m s) (run_migrations ms)"

definition migrate_up :: "schema_state \<Rightarrow> migration_error + schema_state" where
  "migrate_up = run_migrations [up_000001, up_000002, up_000003, up_000004, up_000005, up_000006, up_000007]"

definition migrate_down :: "schema_state \<Rightarrow> migration_error + schema_state" where
  "migrate_down = run_migrations [down_000007, down_000006, down_000005]"

definition drop_schema :: "schema_state \<Rightarrow> migration_error + schema_state" where
  "drop_schema = run_migrations [down_000004, down_000003, down_000002, down_000001]"

end
