(* ===== verification/MigrationResult.thy ===== *)
theory MigrationResult
  imports Migrations
begin

text \<open>
  What the migrations make of an existing database: the tables of the service, in which every row has the
  binding its account key names; that after the prechecks no statement fails, except for a number beyond
  64 bits; and that the way down restores what was there.
\<close>

lemma and_then_ok: "and_then r f = Inr y \<longleftrightarrow> (\<exists>x. r = Inr x \<and> f x = Inr y)"
  by (simp add: and_then_def split: sum.split)

lemma and_then_err: "and_then r f = Inl e \<longleftrightarrow> r = Inl e \<or> (\<exists>x. r = Inr x \<and> f x = Inl e)"
  by (auto simp: and_then_def split: sum.split)

lemma and_then_simps [simp]: "and_then (Inr x) f = f x" "and_then (Inl e) f = Inl e"
  by (simp_all add: and_then_def)

lemma signal_if_ok [simp]: "signal_if bad m = Inr u \<longleftrightarrow> \<not> bad" "signal_if bad m = Inl e \<longleftrightarrow> bad \<and> e = Signal m"
  by (auto simp: signal_if_def)

section \<open>The binding in a key\<close>

definition key_number :: "string \<Rightarrow> u64 option" where
  "key_number key = (case parsed_number key of None \<Rightarrow> None | Some n \<Rightarrow> if n < 2 ^ 64 then Some (of_nat n) else None)"

lemma str_split_digits: "list_all is_digit ds \<Longrightarrow> CHR ''_'' \<notin> set ds"
  by (auto simp: list_all_iff)

text \<open>A key that the pattern matches is prefix, number, underscore and account.\<close>

lemma regexp_refE:
  assumes "regexp_ref prefix key" "has_prefix key prefix"
  obtains ds account where "key = prefix @ ds @ ''_'' @ account" "list_all is_digit ds" "ds \<noteq> []"
proof -
  obtain rest where key: "key = prefix @ rest" using assms(2) by (elim has_prefixE)
  obtain c account where c: "dropWhile is_digit rest = c # account" "c = CHR ''_''"
    using assms(1) by (auto simp: regexp_ref_def key Let_def split: list.splits)
  have "rest = takeWhile is_digit rest @ ''_'' @ account"
    using takeWhile_dropWhile_id[of is_digit rest] c by simp
  moreover have "list_all is_digit (takeWhile is_digit rest)" by (auto simp: list_all_iff dest: set_takeWhileD)
  moreover have "takeWhile is_digit rest \<noteq> []" using assms(1) by (auto simp: regexp_ref_def key Let_def)
  ultimately show thesis using that[of "takeWhile is_digit rest" account] key by metis
qed

lemma split_binding_key:
  assumes "list_all is_digit ds"
  shows "substring_last (substring_before 2 (binding_prefix @ ds @ ''_'' @ account)) = ds"
    and "substring_last (substring_before 3 (hoyo_prefix @ ds @ ''_'' @ account)) = ds"
proof -
  note ds = str_split_digits[OF assms]
  have "str_split (CHR ''_'') (''binding'' @ CHR ''_'' # ds @ CHR ''_'' # account) = ''binding'' # ds # str_split (CHR ''_'') account"
    using ds by (subst str_split_append) auto
  then have "take 2 (str_split (CHR ''_'') (binding_prefix @ ds @ ''_'' @ account)) = [''binding'', ds]"
    by (simp add: binding_prefix_def)
  then show "substring_last (substring_before 2 (binding_prefix @ ds @ ''_'' @ account)) = ds"
    using ds by (simp add: substring_before_def substring_last_def binding_prefix_def)
  have "str_split (CHR ''_'') (''hoyo'' @ CHR ''_'' # ''ref'' @ CHR ''_'' # ds @ CHR ''_'' # account) =
      ''hoyo'' # ''ref'' # ds # str_split (CHR ''_'') account"
    using ds by (simp del: append.simps add: str_split_append)
  then have "take 3 (str_split (CHR ''_'') (hoyo_prefix @ ds @ ''_'' @ account)) = [''hoyo'', ''ref'', ds]"
    by (simp add: hoyo_prefix_def numeral_3_eq_3)
  then show "substring_last (substring_before 3 (hoyo_prefix @ ds @ ''_'' @ account)) = ds"
    using ds by (simp add: substring_before_def substring_last_def)
qed

definition service_key :: "string \<Rightarrow> bool" where
  "service_key key \<longleftrightarrow> has_prefix key binding_prefix \<or> has_prefix key hoyo_prefix"

lemma other_prefix:
  "has_prefix key binding_prefix \<Longrightarrow> \<not> regexp_ref hoyo_prefix key"
  "has_prefix key hoyo_prefix \<Longrightarrow> \<not> regexp_ref binding_prefix key"
  by (auto elim!: has_prefixE simp: regexp_ref_def binding_prefix_def hoyo_prefix_def to_lower_def lower_byte_def byte_code_def)

lemma parsed_service_key:
  assumes "service_key key" "parsed_number key = Some n"
  obtains prefix ds account where "prefix \<in> {binding_prefix, hoyo_prefix}" "key = prefix @ ds @ ''_'' @ account"
    "list_all is_digit ds" "ds \<noteq> []" "n = dec_value 0 ds"
proof -
  have num: "unsigned_of ds = dec_value 0 ds" if "list_all is_digit ds" for ds
  proof -
    have "takeWhile is_digit ds = ds" using that by (simp add: takeWhile_eq_all_conv list_all_iff)
    then show ?thesis by (simp only: unsigned_of_def)
  qed
  show thesis
  proof (cases "has_prefix key binding_prefix")
    case True
    then have r: "regexp_ref binding_prefix key" using assms(2) other_prefix(1) by (auto simp: parsed_number_def split: if_splits)
    from r True show thesis
    proof (rule regexp_refE)
      fix ds account
      assume key: "key = binding_prefix @ ds @ ''_'' @ account" and ds: "list_all is_digit ds" "ds \<noteq> []"
      have "n = dec_value 0 ds" using assms(2) r split_binding_key(1)[OF ds(1)] num[OF ds(1)] by (simp add: parsed_number_def key)
      then show thesis using that[of binding_prefix ds account] key ds by simp
    qed
  next
    case False
    then have h: "has_prefix key hoyo_prefix" using assms(1) by (simp add: service_key_def)
    then have r: "regexp_ref hoyo_prefix key" "\<not> regexp_ref binding_prefix key"
      using assms(2) other_prefix(2) by (auto simp: parsed_number_def split: if_splits)
    from r(1) h show thesis
    proof (rule regexp_refE)
      fix ds account
      assume key: "key = hoyo_prefix @ ds @ ''_'' @ account" and ds: "list_all is_digit ds" "ds \<noteq> []"
      have "n = dec_value 0 ds" using assms(2) r split_binding_key(2)[OF ds(1)] num[OF ds(1)] by (simp add: parsed_number_def key)
      then show thesis using that[of hoyo_prefix ds account] key ds by simp
    qed
  qed
qed

text \<open>The number that SQL reads out of a key is the binding that the service reads out of it.\<close>

lemma key_number_binding:
  assumes "service_key key" "key_number key = Some b"
  shows "key_binding key = Some b"
proof -
  obtain n where n: "parsed_number key = Some n" "n < 2 ^ 64" "b = of_nat n"
    using assms(2) by (auto simp: key_number_def split: option.splits if_splits)
  from assms(1) n(1) show ?thesis
  proof (rule parsed_service_key)
    fix prefix ds account
    assume key: "prefix \<in> {binding_prefix, hoyo_prefix}" "key = prefix @ ds @ ''_'' @ account"
      and ds: "list_all is_digit ds" "ds \<noteq> []" "n = dec_value 0 ds"
    have "unat b = n" using n(2,3) by (simp add: unat_of_nat)
    then have "parse_uint ds = Inr b" using ds n(2) by (simp add: parse_uint_ok list_all_iff)
    then have "BindingIDFromPlatformAccountID key = Inr b" using key by (auto simp: parse_key_ok)
    then show ?thesis by (simp add: key_binding_def)
  qed
qed

section \<open>Statements on rows without a binding\<close>

definition owned :: "('r \<Rightarrow> u64 option) \<Rightarrow> 'r rows \<Rightarrow> 'r rows" where
  "owned f t = t\<lparr> tb_rows := map (\<lambda>(i, _, r). (i, f r, r)) (tb_rows t) \<rparr>"

lemma drop_owned [simp]: "drop_bindings (owned f t) = drop_bindings t"
  by (simp add: drop_bindings_def owned_def comp_def split_beta)

lemma joined: "join_bindings f (drop_bindings t) = owned f t"
  by (simp add: join_bindings_def drop_bindings_def owned_def comp_def split_beta option.case_eq_if)

lemma update_null_total: "update_null (\<lambda>r. Inr (g r)) (map (\<lambda>(i, _, r). (i, None, r)) xs) = Inr (map (\<lambda>(i, _, r). (i, g r, r)) xs)"
  by (induction xs) auto

lemma set_null_total: "set_null_bindings (\<lambda>r. Inr (g r)) (drop_bindings t) = Inr (owned g t)"
  by (simp add: set_null_bindings_def drop_bindings_def owned_def update_null_total)

lemma parsed_binding_Inr: "parsed_binding key = Inr b \<Longrightarrow> b = key_number key"
  by (auto simp: parsed_binding_def key_number_def split: option.splits if_splits)

lemma update_null_parsed:
  "update_null (parsed_binding \<circ> k) (map (\<lambda>(i, _, r). (i, None, r)) xs) =
    (if list_ex (\<lambda>x. \<exists>e. parsed_binding (k (snd (snd x))) = Inl e) xs then Inl (OutOfRange ''binding_id'')
     else Inr (map (\<lambda>(i, _, r). (i, key_number (k r), r)) xs))"
proof (induction xs)
  case (Cons x xs)
  obtain i b r where x: "x = (i, b, r)" by (cases x)
  show ?case
  proof (cases "parsed_binding (k r)")
    case (Inl e)
    then have "e = OutOfRange ''binding_id''" by (auto simp: parsed_binding_def split: option.splits if_splits)
    then show ?thesis using Inl by (simp add: x)
  next
    case (Inr b')
    then show ?thesis using Cons parsed_binding_Inr[OF Inr] by (simp add: x)
  qed
qed simp

lemma set_null_parsed:
  "set_null_bindings (parsed_binding \<circ> k) (drop_bindings t) =
    (if list_ex (\<lambda>x. \<exists>e. parsed_binding (k (snd (snd x))) = Inl e) (tb_rows t) then Inl (OutOfRange ''binding_id'')
     else Inr (owned (key_number \<circ> k) t))"
  using update_null_parsed[of k "tb_rows t"] by (simp add: set_null_bindings_def drop_bindings_def owned_def comp_def)

lemma not_null_ok [simp]: "not_null n t = Inr t' \<longleftrightarrow> t' = t \<and> list_all (\<lambda>x. fst (snd x) \<noteq> None) (tb_rows t)"
  by (auto simp: not_null_def)

lemma add_unique_ok [simp]: "add_unique n same t = Inr t' \<longleftrightarrow> t' = t \<and> \<not> has_duplicate same t"
  by (auto simp: add_unique_def)

lemma the_table_ok [simp]: "the_table n t = Inr t' \<longleftrightarrow> t = Some t'"
  by (auto simp: the_table_def split: option.split)

section \<open>What the way up leaves\<close>

text \<open>A schema as the service's first tables were: the four tables, no column \<open>binding_id\<close>.\<close>

definition legacy_table :: "(u64 option \<times> 'r \<Rightarrow> u64 option \<times> 'r \<Rightarrow> bool) list \<Rightarrow> 'r rows \<Rightarrow> bool" where
  "legacy_table same t \<longleftrightarrow> ids_ok t \<and> drop_bindings t = t \<and> list_all (\<lambda>s. \<not> has_duplicate s t) same"

definition legacy_schema :: "LegacyCredential rows \<Rightarrow> LegacyDevice rows \<Rightarrow> LegacyProfile rows \<Rightarrow> LegacyArtifact rows \<Rightarrow> schema_state" where
  "legacy_schema c d p a = \<lparr> mt_credentials = Some c, mt_devices = Some d, mt_profiles = Some p, mt_artifacts = Some a,
     mt_invalidations = None \<rparr>"

definition legacy_ok :: "LegacyCredential rows \<Rightarrow> LegacyDevice rows \<Rightarrow> LegacyProfile rows \<Rightarrow> LegacyArtifact rows \<Rightarrow> bool" where
  "legacy_ok c d p a \<longleftrightarrow> legacy_table [uniq_platform_account_id, uniq_platform_account] c \<and>
     legacy_table [uniq_device_record] d \<and> legacy_table [uniq_platform_profile] p \<and> legacy_table [uniq_runtime_artifact] a"

definition migrated_credentials :: "LegacyCredential rows \<Rightarrow> LegacyCredential rows" where
  "migrated_credentials c = owned (key_number \<circ> lc_PlatformAccountID) c"

definition migrated :: "LegacyCredential rows \<Rightarrow> LegacyDevice rows \<Rightarrow> LegacyProfile rows \<Rightarrow> LegacyArtifact rows \<Rightarrow> schema_state" where
  "migrated c d p a = (let c' = migrated_credentials c in
     \<lparr> mt_credentials = Some c', mt_devices = Some (owned (credential_binding c' \<circ> ld_PlatformAccountID) d),
       mt_profiles = Some (owned (key_number \<circ> lp_PlatformAccountID) p),
       mt_artifacts = Some (owned (credential_binding c' \<circ> la_PlatformAccountID) a),
       mt_invalidations = Some empty_table \<rparr>)"

definition all_owned :: "'r rows \<Rightarrow> bool" where
  "all_owned t \<longleftrightarrow> list_all (\<lambda>x. fst (snd x) \<noteq> None) (tb_rows t)"

lemma migrate_up_ok:
  assumes "migrate_up (legacy_schema c d p a) = Inr s"
  shows "s = migrated c d p a" "all_owned (migrated_credentials c)"
    "all_owned (owned (credential_binding (migrated_credentials c) \<circ> ld_PlatformAccountID) d)"
    "all_owned (owned (key_number \<circ> lp_PlatformAccountID) p)"
    "all_owned (owned (credential_binding (migrated_credentials c) \<circ> la_PlatformAccountID) a)"
    "\<not> has_duplicate uniq_credential_binding_id (migrated_credentials c)"
    "\<not> has_duplicate uniq_device_record_binding (owned (credential_binding (migrated_credentials c) \<circ> ld_PlatformAccountID) d)"
    "\<not> has_duplicate uniq_profile_binding_player_region (owned (key_number \<circ> lp_PlatformAccountID) p)"
    "\<not> has_duplicate uniq_default_profile_per_binding (owned (key_number \<circ> lp_PlatformAccountID) p)"
    "\<not> has_duplicate uniq_runtime_artifact_binding (owned (credential_binding (migrated_credentials c) \<circ> la_PlatformAccountID) a)"
proof -
  from assms obtain s5 s6 where five: "up_000005 (legacy_schema c d p a) = Inr s5" and six: "up_000006 s5 = Inr s6"
    and seven: "up_000007 s6 = Inr s"
    by (auto simp: migrate_up_def up_000001_def up_000002_def up_000003_def up_000004_def create_table_def legacy_schema_def and_then_ok)
  let ?c = "migrated_credentials c" and ?p = "owned (key_number \<circ> lp_PlatformAccountID) p"
  have s5: "s5 = (legacy_schema c d p a)\<lparr> mt_credentials := Some ?c, mt_profiles := Some ?p \<rparr>"
    and 5: "all_owned ?c" "\<not> has_duplicate uniq_credential_binding_id ?c" "all_owned ?p"
    using five
    by (auto simp: up_000005_def and_then_ok set_null_parsed legacy_schema_def all_owned_def migrated_credentials_def split: if_splits)
  let ?d = "owned (credential_binding ?c \<circ> ld_PlatformAccountID) d"
  have dev: "set_null_bindings (\<lambda>r. Inr (credential_binding ?c (ld_PlatformAccountID r))) (drop_bindings d) = Inr ?d"
    using set_null_total[of "credential_binding ?c \<circ> ld_PlatformAccountID" d] by (simp add: comp_def)
  have s6: "s6 = s5\<lparr> mt_devices := Some ?d, mt_profiles := Some ?p, mt_invalidations := Some empty_table \<rparr>"
    and 6: "all_owned ?d" "\<not> has_duplicate uniq_device_record_binding ?d" "\<not> has_duplicate uniq_profile_binding_player_region ?p"
    using six by (auto simp: up_000006_def and_then_ok s5 legacy_schema_def dev all_owned_def create_table_def)
  let ?a = "owned (credential_binding ?c \<circ> la_PlatformAccountID) a"
  have art: "join_bindings (\<lambda>r. credential_binding ?c (la_PlatformAccountID r)) (drop_bindings a) = ?a"
    using joined[of "credential_binding ?c \<circ> la_PlatformAccountID" a] by (simp add: comp_def)
  have s: "s = s6\<lparr> mt_profiles := Some ?p, mt_artifacts := Some ?a \<rparr>"
    and 7: "\<not> has_duplicate uniq_default_profile_per_binding ?p" "all_owned ?a" "\<not> has_duplicate uniq_runtime_artifact_binding ?a"
    using seven by (auto simp: up_000007_def and_then_ok s6 s5 legacy_schema_def art all_owned_def)
  show "s = migrated c d p a" by (simp add: s s6 s5 legacy_schema_def migrated_def Let_def)
  show "all_owned ?c" "all_owned ?d" "all_owned ?p" "all_owned ?a" "\<not> has_duplicate uniq_credential_binding_id ?c"
    "\<not> has_duplicate uniq_device_record_binding ?d" "\<not> has_duplicate uniq_profile_binding_player_region ?p"
    "\<not> has_duplicate uniq_default_profile_per_binding ?p" "\<not> has_duplicate uniq_runtime_artifact_binding ?a"
    by (fact 5 6 7)+
qed

section \<open>The database of the service\<close>

definition credential_row :: "u64 \<Rightarrow> LegacyCredential \<Rightarrow> CredentialRecord" where
  "credential_row b r = \<lparr> cd_BindingID = b, cd_PlatformAccountID = lc_PlatformAccountID r, cd_Platform = lc_Platform r,
     cd_AccountID = lc_AccountID r, cd_Region = lc_Region r, cd_CredentialBlob = lc_CredentialBlob r,
     cd_CredentialVersion = lc_CredentialVersion r, cd_Status = lc_Status r, cd_LastValidatedAt = lc_LastValidatedAt r,
     cd_LastRefreshedAt = lc_LastRefreshedAt r, cd_ExpiresAt = lc_ExpiresAt r \<rparr>"

definition device_row :: "u64 \<Rightarrow> LegacyDevice \<Rightarrow> DeviceRecord" where
  "device_row b r = \<lparr> dr_BindingID = b, dr_PlatformAccountID = ld_PlatformAccountID r, dr_DeviceID = ld_DeviceID r,
     dr_DeviceFP = ld_DeviceFP r, dr_DeviceName = ld_DeviceName r, dr_IsValid = ld_IsValid r, dr_LastSeenAt = ld_LastSeenAt r \<rparr>"

definition account_profile_row :: "u64 \<Rightarrow> LegacyProfile \<Rightarrow> AccountProfile" where
  "account_profile_row b r = \<lparr> ap_BindingID = b, ap_PlatformAccountID = lp_PlatformAccountID r, ap_GameBiz = lp_GameBiz r,
     ap_Region = lp_Region r, ap_PlayerID = lp_PlayerID r, ap_Nickname = lp_Nickname r, ap_Level = lp_Level r,
     ap_IsDefault = lp_IsDefault r, ap_DiscoveredAt = lp_DiscoveredAt r \<rparr>"

definition artifact_row :: "u64 \<Rightarrow> LegacyArtifact \<Rightarrow> RuntimeArtifact" where
  "artifact_row b r = \<lparr> ra_BindingID = b, ra_PlatformAccountID = la_PlatformAccountID r, ra_ArtifactType = la_ArtifactType r,
     ra_ArtifactValue = la_ArtifactValue r, ra_ScopeKey = la_ScopeKey r, ra_ExpiresAt = la_ExpiresAt r \<rparr>"

definition service_table :: "(u64 \<Rightarrow> 'r \<Rightarrow> 's) \<Rightarrow> 'r rows option \<Rightarrow> 's sqltable" where
  "service_table row t = (case t of
      None \<Rightarrow> empty_table
    | Some t \<Rightarrow> \<lparr> tb_next = tb_next t, tb_rows = map (\<lambda>(i, b, r). (i, row (case b of None \<Rightarrow> 0 | Some v \<Rightarrow> v) r)) (tb_rows t) \<rparr>)"

definition service_database :: "schema_state \<Rightarrow> database" where
  "service_database s = \<lparr> db_credentials = service_table credential_row (mt_credentials s),
     db_devices = service_table device_row (mt_devices s), db_profiles = service_table account_profile_row (mt_profiles s),
     db_artifacts = service_table artifact_row (mt_artifacts s),
     db_invalidations = (case mt_invalidations s of None \<Rightarrow> empty_table | Some t \<Rightarrow> t) \<rparr>"

lemma service_table_rows:
  "x \<in> set (tb_rows (service_table row (Some t))) \<longleftrightarrow>
    (\<exists>i b r. (i, b, r) \<in> set (tb_rows t) \<and> x = (i, row (case b of None \<Rightarrow> 0 | Some v \<Rightarrow> v) r))"
  by (force simp: service_table_def)

lemma ids_ok_service_table: "ids_ok t \<Longrightarrow> ids_ok (service_table row (Some t))"
  by (auto simp: ids_ok_def service_table_def sorted_wrt_map split_beta)

lemma ids_ok_owned: "ids_ok t \<Longrightarrow> ids_ok (owned f t)"
  by (auto simp: ids_ok_def owned_def sorted_wrt_map split_beta)

text \<open>A unique key of the service holds when its parts have no duplicate among the rows before.\<close>

lemma unique_service_table:
  assumes "\<And>same. same \<in> set ks \<Longrightarrow> \<not> has_duplicate same t" "all_owned t"
    and "\<And>x y. clashes keys (row (the (fst x)) (snd x)) (row (the (fst y)) (snd y)) \<Longrightarrow> fst x \<noteq> None \<Longrightarrow> fst y \<noteq> None \<Longrightarrow>
      \<exists>same \<in> set ks. same x y"
  shows "unique_ok keys (service_table row (Some t))"
proof -
  have no: "\<not> same (snd (tb_rows t ! i)) (snd (tb_rows t ! j))" if "same \<in> set ks" "i < j" "j < length (tb_rows t)" for same i j
    using assms(1)[OF that(1)] that(2,3) by (simp add: has_duplicate_def sorted_wrt_iff_nth_less)
  have some: "fst (snd (tb_rows t ! i)) \<noteq> None" if "i < length (tb_rows t)" for i
    using assms(2) that by (simp add: all_owned_def list_all_length)
  have "\<not> clashes keys (row (the (fst (snd (tb_rows t ! i)))) (snd (snd (tb_rows t ! i))))
      (row (the (fst (snd (tb_rows t ! j)))) (snd (snd (tb_rows t ! j))))" if "i < j" "j < length (tb_rows t)" for i j
    using assms(3)[of "snd (tb_rows t ! i)" "snd (tb_rows t ! j)"] no[OF _ that] some[of i] some[of j] that by auto
  moreover have "tb_rows (service_table row (Some t)) = map (\<lambda>x. (fst x, row (the (fst (snd x))) (snd (snd x)))) (tb_rows t)"
    using assms(2) by (auto simp: service_table_def all_owned_def list_all_iff split_beta)
  ultimately show ?thesis by (simp add: unique_ok_def sorted_wrt_map sorted_wrt_iff_nth_less)
qed

lemma created_keys_owned [simp]:
  "has_duplicate uniq_platform_account_id (owned f c) = has_duplicate uniq_platform_account_id c"
  "has_duplicate uniq_platform_account (owned f c) = has_duplicate uniq_platform_account c"
  "has_duplicate uniq_device_record (owned g d) = has_duplicate uniq_device_record d"
  "has_duplicate uniq_platform_profile (owned h p) = has_duplicate uniq_platform_profile p"
  "has_duplicate uniq_runtime_artifact (owned k a) = has_duplicate uniq_runtime_artifact a"
  by (simp_all add: has_duplicate_def owned_def sorted_wrt_map split_beta uniq_platform_account_id_def uniq_platform_account_def
      uniq_device_record_def uniq_platform_profile_def uniq_runtime_artifact_def)

text \<open>Rows of the new tables, and the key of a joined row.\<close>

lemma owned_rows: "x \<in> set (tb_rows (service_table row (Some (owned f t)))) \<Longrightarrow>
    \<exists>i b r. (i, b, r) \<in> set (tb_rows t) \<and> x = (i, row (case f r of None \<Rightarrow> 0 | Some v \<Rightarrow> v) r)"
  by (force simp: service_table_def owned_def)

lemma all_owned_some: "all_owned (owned f t) \<Longrightarrow> (i, b, r) \<in> set (tb_rows t) \<Longrightarrow> \<exists>v. f r = Some v"
  by (fastforce simp: all_owned_def owned_def list_all_iff)

lemma find_in: "List.find P xs = Some x \<Longrightarrow> x \<in> set xs \<and> P x"
  by (auto simp: find_Some_iff)

lemma joined_key:
  assumes "list_all (\<lambda>x. service_key (lc_PlatformAccountID (snd (snd x)))) (tb_rows c)"
    and "credential_binding (migrated_credentials c) key = Some b"
  shows "key_binding key = Some b"
proof -
  obtain x where find: "List.find (\<lambda>x. lc_PlatformAccountID (snd (snd x)) = key) (tb_rows (migrated_credentials c)) = Some x"
    and b: "fst (snd x) = Some b"
    using assms(2) by (auto simp: credential_binding_def split: option.splits)
  then have x: "x \<in> set (tb_rows (migrated_credentials c))" "lc_PlatformAccountID (snd (snd x)) = key" "fst (snd x) = Some b"
    by (auto simp: find_Some_iff)
  then obtain i b' r where "(i, b', r) \<in> set (tb_rows c)" "x = (i, key_number (lc_PlatformAccountID r), r)"
    by (auto simp: migrated_credentials_def owned_def)
  then show ?thesis using x assms(1) key_number_binding by (fastforce simp: list_all_iff)
qed

text \<open>The keys of a table match when those of the rows that were given a binding do.\<close>

lemma owned_match:
  assumes "all_owned (owned f t)" and "\<And>i b r v. (i, b, r) \<in> set (tb_rows t) \<Longrightarrow> f r = Some v \<Longrightarrow> K (row v r)"
  shows "\<forall>x \<in> set (tb_rows (service_table row (Some (owned f t)))). K (snd x)"
proof
  fix x assume "x \<in> set (tb_rows (service_table row (Some (owned f t))))"
  then obtain i b r where r: "(i, b, r) \<in> set (tb_rows t)" and x: "x = (i, row (case f r of None \<Rightarrow> 0 | Some v \<Rightarrow> v) r)"
    using owned_rows by blast
  obtain v where "f r = Some v" using all_owned_some[OF assms(1) r] by blast
  then show "K (snd x)" using assms(2)[OF r] x by simp
qed

lemma migrated_database_ok:
  assumes "legacy_ok c d p a" and "migrate_up (legacy_schema c d p a) = Inr s"
  shows "database_ok (service_database s)"
proof -
  note up = migrate_up_ok[OF assms(2)]
  let ?c = "migrated_credentials c" and ?p = "owned (key_number \<circ> lp_PlatformAccountID) p"
  let ?d = "owned (credential_binding ?c \<circ> ld_PlatformAccountID) d" and ?a = "owned (credential_binding ?c \<circ> la_PlatformAccountID) a"
  have ids: "ids_ok ?c" "ids_ok ?d" "ids_ok ?p" "ids_ok ?a"
    using assms(1) by (simp_all add: legacy_ok_def legacy_table_def ids_ok_owned migrated_credentials_def)
  have cred: "\<not> has_duplicate uniq_platform_account_id ?c" "\<not> has_duplicate uniq_platform_account ?c"
    using assms(1) by (simp_all add: migrated_credentials_def legacy_ok_def legacy_table_def)
  have "unique_ok credential_keys (service_table credential_row (Some ?c))"
    by (rule unique_service_table[where ks = "[uniq_platform_account_id, uniq_platform_account, uniq_credential_binding_id]"])
      (use cred up in \<open>auto simp: clashes_credential credential_row_def uniq_platform_account_id_def uniq_platform_account_def
        uniq_credential_binding_id_def\<close>)
  moreover have "unique_ok device_keys (service_table device_row (Some ?d))"
    by (rule unique_service_table[where ks = "[uniq_device_record_binding]"])
      (use up in \<open>auto simp: clashes_device device_row_def uniq_device_record_binding_def\<close>)
  moreover have "unique_ok profile_keys (service_table account_profile_row (Some ?p))"
    by (rule unique_service_table[where ks = "[uniq_profile_binding_player_region, uniq_default_profile_per_binding]"])
      (use up in \<open>auto simp: clashes_profile account_profile_row_def uniq_profile_binding_player_region_def
        uniq_default_profile_per_binding_def\<close>)
  moreover have "unique_ok artifact_keys (service_table artifact_row (Some ?a))"
    by (rule unique_service_table[where ks = "[uniq_runtime_artifact_binding]"])
      (use up in \<open>auto simp: clashes_artifact artifact_row_def uniq_runtime_artifact_binding_def\<close>)
  ultimately show ?thesis
    using ids by (simp add: database_ok_def table_ok_def service_database_def up(1) migrated_def Let_def ids_ok_service_table
        table_ok_empty[unfolded table_ok_def])
qed

lemma migrated_keys_match:
  assumes "list_all (\<lambda>x. service_key (lc_PlatformAccountID (snd (snd x)))) (tb_rows c)"
    and "list_all (\<lambda>x. service_key (lp_PlatformAccountID (snd (snd x)))) (tb_rows p)"
    and "migrate_up (legacy_schema c d p a) = Inr s"
  shows "keys_match (service_database s)"
proof -
  note up = migrate_up_ok[OF assms(3)]
  let ?c = "migrated_credentials c"
  have number: "key_binding key = Some v" if "service_key key" "key_number key = Some v" for key v
    using key_number_binding[of key] that by auto
  have "\<forall>x \<in> set (tb_rows (service_table credential_row (Some ?c))). key_binding (cd_PlatformAccountID (snd x)) = Some (cd_BindingID (snd x))"
    unfolding migrated_credentials_def
    by (rule owned_match) (use up(2) assms(1) number in \<open>auto simp: migrated_credentials_def credential_row_def list_all_iff o_def\<close>)
  moreover have "\<forall>x \<in> set (tb_rows (service_table device_row (Some (owned (credential_binding ?c \<circ> ld_PlatformAccountID) d)))).
      key_binding (dr_PlatformAccountID (snd x)) = Some (dr_BindingID (snd x))"
    by (rule owned_match) (use up(3) joined_key[OF assms(1)] in \<open>auto simp: device_row_def o_def\<close>)
  moreover have "\<forall>x \<in> set (tb_rows (service_table account_profile_row (Some (owned (key_number \<circ> lp_PlatformAccountID) p)))).
      key_binding (ap_PlatformAccountID (snd x)) = Some (ap_BindingID (snd x))"
    by (rule owned_match) (use up(4) assms(2) number in \<open>auto simp: account_profile_row_def list_all_iff o_def\<close>)
  moreover have "\<forall>x \<in> set (tb_rows (service_table artifact_row (Some (owned (credential_binding ?c \<circ> la_PlatformAccountID) a)))).
      key_binding (ra_PlatformAccountID (snd x)) = Some (ra_BindingID (snd x))"
    by (rule owned_match) (use up(5) joined_key[OF assms(1)] in \<open>auto simp: artifact_row_def o_def\<close>)
  ultimately show ?thesis
    by (simp add: keys_match_def service_database_def up(1) migrated_def Let_def)
qed


section \<open>What can stop the way up\<close>

lemma no_duplicate_owned:
  assumes "\<not> has_duplicate same' t"
    and "\<And>x y. x \<in> snd ` set (tb_rows t) \<Longrightarrow> y \<in> snd ` set (tb_rows t) \<Longrightarrow> same (f (snd x), snd x) (f (snd y), snd y) \<Longrightarrow> same' x y"
  shows "\<not> has_duplicate same (owned f t)"
proof -
  have "sorted_wrt (\<lambda>x y. \<not> same' (snd x) (snd y)) (tb_rows t)" using assms(1) by (simp add: has_duplicate_def)
  then have "sorted_wrt (\<lambda>x y. \<not> same (f (snd (snd x)), snd (snd x)) (f (snd (snd y)), snd (snd y))) (tb_rows t)"
    by (rule sorted_wrt_mono_rel[rotated]) (use assms(2) in blast)
  then show ?thesis by (simp add: has_duplicate_def owned_def sorted_wrt_map split_beta)
qed

lemma all_ownedI: "(\<And>i b r. (i, b, r) \<in> set (tb_rows t) \<Longrightarrow> f r \<noteq> None) \<Longrightarrow> all_owned (owned f t)"
  by (auto simp: all_owned_def owned_def list_all_iff)

definition in_range :: "('r \<Rightarrow> string) \<Rightarrow> 'r rows \<Rightarrow> bool" where
  "in_range k t \<longleftrightarrow> \<not> list_ex (\<lambda>x. \<exists>e. parsed_binding (k (snd (snd x))) = Inl e) (tb_rows t)"

lemma parsed_in_range:
  assumes "\<not> malformed k t" "in_range k t" "(i, b, r) \<in> set (tb_rows t)"
  obtains n where "parsed_number (k r) = Some n" "n < 2 ^ 64" "key_number (k r) = Some (of_nat n)"
proof -
  have "parsed_number (k r) \<noteq> None" using assms(1,3) by (fastforce simp: malformed_def list_ex_iff)
  then obtain n where n: "parsed_number (k r) = Some n" by auto
  have "n < 2 ^ 64"
  proof (rule ccontr)
    assume "\<not> n < 2 ^ 64"
    then have "parsed_binding (k r) = Inl (OutOfRange ''binding_id'')" using n by (simp add: parsed_binding_def)
    then show False using assms(2,3) by (fastforce simp: in_range_def list_ex_iff)
  qed
  then show thesis using that[of n] n by (simp add: key_number_def)
qed

lemma owned_in_range: "\<not> malformed k t \<Longrightarrow> in_range k t \<Longrightarrow> all_owned (owned (key_number \<circ> k) t)"
  by (rule all_ownedI) (metis comp_apply option.distinct(1) parsed_in_range)

lemma numbers_distinct:
  assumes "\<not> malformed lc_PlatformAccountID c" "in_range lc_PlatformAccountID c" "\<not> has_duplicate same_number c"
  shows "\<not> has_duplicate uniq_credential_binding_id (migrated_credentials c)"
  unfolding migrated_credentials_def
proof (rule no_duplicate_owned[OF assms(3)])
  fix x y
  assume "x \<in> snd ` set (tb_rows c)" "y \<in> snd ` set (tb_rows c)"
    and same: "uniq_credential_binding_id ((key_number \<circ> lc_PlatformAccountID) (snd x), snd x)
      ((key_number \<circ> lc_PlatformAccountID) (snd y), snd y)"
  then obtain i j where "(i, fst x, snd x) \<in> set (tb_rows c)" "(j, fst y, snd y) \<in> set (tb_rows c)" by force
  then obtain m n where m: "parsed_number (lc_PlatformAccountID (snd x)) = Some m" "m < 2 ^ 64"
      "key_number (lc_PlatformAccountID (snd x)) = Some (of_nat m)"
    and n: "parsed_number (lc_PlatformAccountID (snd y)) = Some n" "n < 2 ^ 64"
      "key_number (lc_PlatformAccountID (snd y)) = Some (of_nat n)"
    using parsed_in_range[OF assms(1,2)] by metis
  have "(of_nat m :: u64) = of_nat n" using same m(3) n(3) by (simp add: uniq_credential_binding_id_def)
  then have "unat (of_nat m :: u64) = unat (of_nat n :: u64)" by simp
  then have "m = n" using m(2) n(2) by (simp add: unat_of_nat)
  then show "same_number x y" using m n by (simp add: same_number_def)
qed

lemma credential_binding_row:
  assumes "credential_binding c key = Some b"
  shows "\<exists>x. x \<in> set (tb_rows c) \<and> lc_PlatformAccountID (snd (snd x)) = key \<and> fst (snd x) = Some b"
proof -
  obtain x where find: "List.find (\<lambda>x. lc_PlatformAccountID (snd (snd x)) = key) (tb_rows c) = Some x" and b: "fst (snd x) = Some b"
    using assms by (auto simp: credential_binding_def split: option.splits)
  show ?thesis using find_in[OF find] b by blast
qed

lemma credential_binding_inject:
  assumes "\<not> has_duplicate uniq_credential_binding_id c"
    and "credential_binding c k = credential_binding c k'" "credential_binding c k \<noteq> None"
  shows "k = k'"
proof -
  obtain b where b: "credential_binding c k = Some b" "credential_binding c k' = Some b" using assms(2,3) by auto
  obtain x y where x: "x \<in> set (tb_rows c)" "lc_PlatformAccountID (snd (snd x)) = k" "fst (snd x) = Some b"
    and y: "y \<in> set (tb_rows c)" "lc_PlatformAccountID (snd (snd y)) = k'" "fst (snd y) = Some b"
    using credential_binding_row[OF b(1)] credential_binding_row[OF b(2)] by blast
  have "sorted_wrt (\<lambda>x y. \<not> uniq_credential_binding_id (snd x) (snd y)) (tb_rows c)" using assms(1) by (simp add: has_duplicate_def)
  from sorted_wrt_same[OF this x(1) y(1)] show ?thesis using x y by (auto simp: uniq_credential_binding_id_def)
qed

lemma credential_binding_exists:
  assumes "all_owned c" "\<not> without_credential k c t" "(i, b, r) \<in> set (tb_rows t)"
  shows "credential_binding c (k r) \<noteq> None"
proof -
  have "\<exists>x \<in> set (tb_rows c). lc_PlatformAccountID (snd (snd x)) = k r"
    using assms(2,3) unfolding without_credential_def list_ex_iff by force
  then obtain x where find: "List.find (\<lambda>x. lc_PlatformAccountID (snd (snd x)) = k r) (tb_rows c) = Some x"
    by (cases "List.find (\<lambda>x. lc_PlatformAccountID (snd (snd x)) = k r) (tb_rows c)") (auto simp: find_None_iff)
  then have "x \<in> set (tb_rows c)" by (auto simp: find_Some_iff)
  then have "fst (snd x) \<noteq> None" using assms(1) by (auto simp: all_owned_def list_all_iff)
  then show ?thesis using find by (auto simp: credential_binding_def split: prod.splits)
qed

text \<open>After its prechecks each migration goes through.\<close>

lemma up_five_stops:
  assumes "up_000005 (legacy_schema c d p a) = Inl e"
  shows "(\<exists>m. e = Signal m) \<or> e = OutOfRange ''binding_id''"
proof (rule ccontr)
  assume no: "\<not> ?thesis"
  have err: "the_table n (Some t) = Inr t" for n and t :: "'t" by simp
  have ok: "\<not> malformed lc_PlatformAccountID c" "\<not> has_duplicate same_number c" "\<not> malformed lp_PlatformAccountID p"
    using assms no by (auto simp: up_000005_def legacy_schema_def and_then_err err)
  have one: "in_range lc_PlatformAccountID c"
    using assms no ok by (auto simp: up_000005_def legacy_schema_def err set_null_parsed in_range_def signal_if_def)
  have creds: "all_owned (migrated_credentials c)" "\<not> has_duplicate uniq_credential_binding_id (migrated_credentials c)"
    using owned_in_range[OF ok(1) one] numbers_distinct[OF ok(1) one ok(2)] by (simp_all add: migrated_credentials_def)
  have set: "set_null_bindings (parsed_binding \<circ> lc_PlatformAccountID) (drop_bindings c) = Inr (migrated_credentials c)"
    using one by (simp add: set_null_parsed in_range_def migrated_credentials_def)
  have step: "not_null ''credential_records'' (migrated_credentials c) = Inr (migrated_credentials c)"
    "add_unique ''uniq_credential_binding_id'' uniq_credential_binding_id (migrated_credentials c) = Inr (migrated_credentials c)"
    using creds by (simp_all add: all_owned_def)
  have two: "in_range lp_PlatformAccountID p"
    using assms no ok by (auto simp: up_000005_def legacy_schema_def err set step set_null_parsed[of lp_PlatformAccountID] in_range_def signal_if_def)
  have three: "not_null ''account_profiles'' (owned (key_number \<circ> lp_PlatformAccountID) p) = Inr (owned (key_number \<circ> lp_PlatformAccountID) p)"
    using owned_in_range[OF ok(3) two] by (simp add: all_owned_def)
  show False
    using assms ok two
    by (simp add: up_000005_def legacy_schema_def err set step three set_null_parsed[of lp_PlatformAccountID] in_range_def signal_if_def)
qed

lemma up_six_stops:
  assumes "up_000006 s = Inl e" "mt_credentials s = Some c" "mt_devices s = Some d" "mt_profiles s = Some p"
    and "all_owned c" "\<not> has_duplicate uniq_credential_binding_id c" "\<not> has_duplicate uniq_device_record d"
  shows "\<exists>m. e = Signal m"
proof (rule ccontr)
  assume no: "\<not> ?thesis"
  have tables: "the_table n (Some t) = Inr t" for n and t :: "'t" by simp
  have ok: "\<not> has_duplicate uniq_profile_binding_player_region p" "\<not> without_credential ld_PlatformAccountID c d"
    using assms(1-4) no by (auto simp: up_000006_def tables and_then_err)
  let ?d = "owned (credential_binding c \<circ> ld_PlatformAccountID) d"
  have set: "set_null_bindings (\<lambda>r. Inr (credential_binding c (ld_PlatformAccountID r))) (drop_bindings d) = Inr ?d"
    using set_null_total[of "credential_binding c \<circ> ld_PlatformAccountID" d] by (simp add: comp_def)
  have "all_owned ?d" using credential_binding_exists[OF assms(5) ok(2)] by (intro all_ownedI) simp
  then have one: "not_null ''device_records'' ?d = Inr ?d" by (simp add: all_owned_def)
  have "\<not> has_duplicate uniq_device_record_binding ?d"
  proof (rule no_duplicate_owned[OF assms(7)])
    fix x y :: "u64 option \<times> LegacyDevice"
    assume "uniq_device_record_binding ((credential_binding c \<circ> ld_PlatformAccountID) (snd x), snd x)
      ((credential_binding c \<circ> ld_PlatformAccountID) (snd y), snd y)"
    then have eq: "credential_binding c (ld_PlatformAccountID (snd x)) = credential_binding c (ld_PlatformAccountID (snd y))"
      "credential_binding c (ld_PlatformAccountID (snd x)) \<noteq> None" "ld_DeviceID (snd x) = ld_DeviceID (snd y)"
      by (simp_all add: uniq_device_record_binding_def) metis
    from credential_binding_inject[OF assms(6) eq(1,2)] eq(3) show "uniq_device_record x y" by (simp add: uniq_device_record_def)
  qed
  then have two: "add_unique ''uniq_device_record_binding'' uniq_device_record_binding ?d = Inr ?d" by simp
  have three: "add_unique ''uniq_profile_binding_player_region'' uniq_profile_binding_player_region p = Inr p" using ok(1) by simp
  show False using assms(1-4) ok by (simp add: up_000006_def tables set one two three signal_if_def)
qed

lemma up_seven_stops:
  assumes "up_000007 s = Inl e" "mt_credentials s = Some c" "mt_profiles s = Some p" "mt_artifacts s = Some a"
  shows "\<exists>m. e = Signal m"
proof (rule ccontr)
  assume no: "\<not> ?thesis"
  have tables: "the_table n (Some t) = Inr t" for n and t :: "'t" by simp
  have ok: "\<not> has_duplicate uniq_default_profile_per_binding p" "\<not> has_duplicate (same_owned_artifact c) a"
    and mapped: "\<not> list_ex (\<lambda>x. credential_binding c (la_PlatformAccountID (snd (snd x))) = None) (tb_rows a)"
    using assms no by (auto simp: up_000007_def tables and_then_err)
  let ?a = "owned (credential_binding c \<circ> la_PlatformAccountID) a"
  have join: "join_bindings (\<lambda>r. credential_binding c (la_PlatformAccountID r)) (drop_bindings a) = ?a"
    using joined[of "credential_binding c \<circ> la_PlatformAccountID" a] by (simp add: comp_def)
  have "all_owned ?a" using mapped by (intro all_ownedI) (auto simp: list_ex_iff)
  then have one: "not_null ''runtime_artifacts'' ?a = Inr ?a" by (simp add: all_owned_def)
  have "\<not> has_duplicate uniq_runtime_artifact_binding ?a"
    by (rule no_duplicate_owned[OF ok(2)]) (simp add: uniq_runtime_artifact_binding_def same_owned_artifact_def, metis)
  then have two: "add_unique ''uniq_runtime_artifact_binding'' uniq_runtime_artifact_binding ?a = Inr ?a" by simp
  have three: "add_unique ''uniq_default_profile_per_binding'' uniq_default_profile_per_binding p = Inr p" using ok(1) by simp
  show False using assms ok mapped by (simp add: up_000007_def tables join one two three signal_if_def)
qed

lemma up_first_four: "migrate_up (legacy_schema c d p a) =
    run_migrations [up_000005, up_000006, up_000007] (legacy_schema c d p a)"
  by (simp add: migrate_up_def up_000001_def up_000002_def up_000003_def up_000004_def create_table_def legacy_schema_def)

lemma after_five:
  assumes "up_000005 (legacy_schema c d p a) = Inr s"
  shows "s = (legacy_schema c d p a)\<lparr> mt_credentials := Some (migrated_credentials c),
      mt_profiles := Some (owned (key_number \<circ> lp_PlatformAccountID) p) \<rparr>"
    "all_owned (migrated_credentials c)" "\<not> has_duplicate uniq_credential_binding_id (migrated_credentials c)"
  using assms
  by (auto simp: up_000005_def and_then_ok set_null_parsed legacy_schema_def all_owned_def migrated_credentials_def split: if_splits)

text \<open>C34: The prechecks are complete. On tables of the service's first version, a way up that does not
  succeed stops with the message of one of the prechecks, or because a key carries a number beyond 64
  bits: no statement after a precheck fails for a NULL, a missing table or a duplicate of a new unique
  key.\<close>

theorem migration_stops_at_prechecks:
  assumes "legacy_ok c d p a" and "migrate_up (legacy_schema c d p a) = Inl e"
  shows "(\<exists>m. e = Signal m) \<or> e = OutOfRange ''binding_id''"
proof (cases "up_000005 (legacy_schema c d p a)")
  case (Inl e')
  then have "e' = e" using assms(2) by (simp add: up_first_four)
  then show ?thesis using up_five_stops Inl by simp
next
  case (Inr s5)
  note five = after_five[OF Inr]
  show ?thesis
  proof (cases "up_000006 s5")
    case (Inl e')
    then have "e' = e" using assms(2) Inr by (simp add: up_first_four)
    moreover have "\<not> has_duplicate uniq_device_record d" using assms(1) by (simp add: legacy_ok_def legacy_table_def)
    ultimately show ?thesis using up_six_stops[OF Inl _ _ _ five(2,3)] by (simp add: five(1) legacy_schema_def)
  next
    case six: (Inr s6)
    then have seven: "up_000007 s6 = Inl e" using assms(2) Inr by (simp add: up_first_four and_then_err)
    have "\<exists>p' d'. s6 = s5\<lparr> mt_devices := Some d', mt_profiles := Some p', mt_invalidations := Some empty_table \<rparr>"
      using six by (auto simp: up_000006_def and_then_ok five(1) legacy_schema_def create_table_def)
    then obtain p' d' where s6: "s6 = s5\<lparr> mt_devices := Some d', mt_profiles := Some p', mt_invalidations := Some empty_table \<rparr>"
      by blast
    then show ?thesis using up_seven_stops[OF seven, of "migrated_credentials c" p' a] by (simp add: five(1) legacy_schema_def)
  qed
qed


section \<open>A schema of the first version\<close>

definition one_row :: "'r \<Rightarrow> 'r rows" where
  "one_row r = \<lparr> tb_next = 2, tb_rows = [(1, None, r)] \<rparr>"

definition legacy_credential :: "string \<Rightarrow> LegacyCredential" where
  "legacy_credential key = \<lparr> lc_PlatformAccountID = key, lc_Platform = ''mihomo'', lc_AccountID = ''10001'',
     lc_Region = ''cn_gf01'', lc_CredentialBlob = ''{}'', lc_CredentialVersion = ''v1'', lc_Status = ''active'',
     lc_LastValidatedAt = None, lc_LastRefreshedAt = None, lc_ExpiresAt = None \<rparr>"

definition legacy_device :: "string \<Rightarrow> LegacyDevice" where
  "legacy_device key = \<lparr> ld_PlatformAccountID = key, ld_DeviceID = ''d1'', ld_DeviceFP = ''fp1'', ld_DeviceName = None,
     ld_IsValid = True, ld_LastSeenAt = None \<rparr>"

definition legacy_profile :: "string \<Rightarrow> LegacyProfile" where
  "legacy_profile key = \<lparr> lp_PlatformAccountID = key, lp_GameBiz = ''hk4e_cn'', lp_Region = ''cn_gf01'', lp_PlayerID = ''1008611'',
     lp_Nickname = ''Traveler'', lp_Level = 60, lp_IsDefault = True, lp_DiscoveredAt = 0 \<rparr>"

definition legacy_artifact :: "string \<Rightarrow> LegacyArtifact" where
  "legacy_artifact key = \<lparr> la_PlatformAccountID = key, la_ArtifactType = ''authkey'', la_ArtifactValue = ''value'',
     la_ScopeKey = ''1008611'', la_ExpiresAt = 0 \<rparr>"

definition sample_legacy :: "string \<Rightarrow> schema_state" where
  "sample_legacy k = legacy_schema (one_row (legacy_credential k)) (one_row (legacy_device k)) (one_row (legacy_profile k))
     (one_row (legacy_artifact k))"

lemma one_row_ok: "legacy_table same (one_row r)"
  by (simp add: legacy_table_def one_row_def ids_ok_def drop_bindings_def has_duplicate_def list_all_iff)

lemma sample_legacy_ok: "legacy_ok (one_row (legacy_credential k)) (one_row (legacy_device k)) (one_row (legacy_profile k))
    (one_row (legacy_artifact k))"
  by (simp add: legacy_ok_def one_row_ok)

lemma sample_number: "parsed_number ''hoyo_ref_42_10001'' = Some 42"
proof -
  have "regexp_ref hoyo_prefix ''hoyo_ref_42_10001''" "\<not> regexp_ref binding_prefix ''hoyo_ref_42_10001''"
    by (simp_all add: regexp_ref_def binding_prefix_def hoyo_prefix_def to_lower_def lower_byte_def
      byte_code_def Let_def is_digit_def dot_plus_end_def before_line_end_def line_end_def)
  moreover have "substring_last (substring_before 3 ''hoyo_ref_42_10001'') = ''42''"
    using split_binding_key(2)[of "''42''" "''10001''"] by (simp add: hoyo_prefix_def is_digit_def byte_code_def)
  ultimately show ?thesis by (simp add: parsed_number_def unsigned_of_def is_digit_def digit_value_def byte_code_def)
qed

lemma sample_malformed: "parsed_number ''legacy_10001'' = None"
  by (simp add: parsed_number_def regexp_ref_def binding_prefix_def hoyo_prefix_def to_lower_def lower_byte_def
      byte_code_def Let_def)
definition owned_row :: "'r \<Rightarrow> 'r rows" where
  "owned_row r = \<lparr> tb_next = 2, tb_rows = [(1, Some 42, r)] \<rparr>"

lemma sample_migrates: "\<exists>s. migrate_up (sample_legacy ''hoyo_ref_42_10001'') = Inr s"
proof -
  let ?k = "''hoyo_ref_42_10001''"
  have binding: "parsed_binding ?k = Inr (Some 42)" by (simp add: parsed_binding_def sample_number)
  note one = one_row_def owned_row_def has_duplicate_def add_unique_def not_null_def signal_if_def the_table_def drop_bindings_def
    legacy_credential_def legacy_device_def legacy_profile_def legacy_artifact_def credential_binding_def
  let ?five = "legacy_schema (owned_row (legacy_credential ?k)) (one_row (legacy_device ?k)) (owned_row (legacy_profile ?k))
    (one_row (legacy_artifact ?k))"
  let ?six = "(legacy_schema (owned_row (legacy_credential ?k)) (owned_row (legacy_device ?k)) (owned_row (legacy_profile ?k))
    (one_row (legacy_artifact ?k)))\<lparr> mt_invalidations := Some empty_table \<rparr>"
  have "up_000005 (sample_legacy ?k) = Inr ?five"
    by (simp add: up_000005_def sample_legacy_def legacy_schema_def malformed_def set_null_bindings_def binding sample_number one)
  moreover have "up_000006 ?five = Inr ?six"
    by (simp add: up_000006_def legacy_schema_def without_credential_def set_null_bindings_def create_table_def one)
  moreover have "\<exists>s. up_000007 ?six = Inr s"
    by (simp add: up_000007_def legacy_schema_def join_bindings_def one)
  ultimately show ?thesis by (auto simp: sample_legacy_def up_first_four)
qed


theorem migration_stops_at_prechecks_witness:
  "migrate_up (sample_legacy ''legacy_10001'') =
     Inl (Signal ''migration 000005 failed: malformed credential_records platform_account_id values'') \<and>
   (\<exists>e m. migrate_up (sample_legacy ''legacy_10001'') = Inl e \<and> e = Signal m)"
proof -
  have run: "migrate_up (sample_legacy ''legacy_10001'') =
      Inl (Signal ''migration 000005 failed: malformed credential_records platform_account_id values'')"
    by (simp add: sample_legacy_def up_first_four, simp add: up_000005_def legacy_schema_def the_table_def signal_if_def malformed_def
        one_row_def legacy_credential_def sample_malformed)
  from migration_stops_at_prechecks[OF sample_legacy_ok run[unfolded sample_legacy_def]] run show ?thesis by blast
qed


end
