(* ===== verification/Interfaces.thy ===== *)
theory Interfaces
  imports Samples
begin

text \<open>
  The three services over one another: the shared credential service and the generic platform service
  of the started process answer as the account service does, with the same effect on the world, so a
  caller of one interface sees what a caller of another has done.
\<close>

text \<open>A call with its result put into another message.\<close>

definition answer :: "('a \<Rightarrow> 'b) \<Rightarrow> ('w, 'e, 'a) call \<Rightarrow> ('w, 'e, 'b) call" where
  "answer f m = (\<lambda>w. map_prod (map_sum id f) id (m w))"

lemma answer_bind [simp]: "answer f (bind_io m k) = bind_io m (\<lambda>x. answer f (k x))"
  by (auto simp: answer_def bind_io_def fun_eq_iff split: prod.split sum.split)

lemma answer_then [simp]: "answer f (then_io m k) = then_io m (answer f k)"
  by (simp add: then_io_def)

lemma answer_ends [simp]: "answer f (ret x) = ret (f x)" "answer f (fail e) = fail e"
  by (simp_all add: answer_def fun_eq_iff)

text \<open>The same summary in the messages of the two contracts.\<close>

definition contract_summary :: "(CredentialStatus \<Rightarrow> 's) \<Rightarrow> CredentialSummary option \<Rightarrow> 's SummaryResponse" where
  "contract_summary status s = (let s = the s in
     \<lparr> sr_PlatformAccountId = cs_PlatformAccountId s, sr_Status = status (cs_Status s),
       sr_LastValidatedAt = cs_LastValidatedAt s, sr_LastRefreshedAt = cs_LastRefreshedAt s,
       sr_Devices = cs_Devices s, sr_Profiles = cs_Profiles s \<rparr>)"

lemma contract_profiles_same [simp]: "contract_profiles ps = ps"
  unfolding contract_profiles_def by (rule map_idI) simp

lemma contract_summaries:
  "toSharedCredentialSummary out = contract_summary toSharedCredentialStatus (toCredentialSummary (Some out))"
  "toGenericCredentialSummary out = contract_summary toGenericCredentialStatus (toCredentialSummary (Some out))"
  by (simp_all add: toSharedCredentialSummary_def toGenericCredentialSummary_def contract_summary_def toCredentialSummary_def
      contract_devices_def toDeviceSummaries_def)

section \<open>Guards that are checked twice\<close>

lemma map_error_lift: "map_error f (lift_res r) = lift_res (map_sum f id r)"
  by (simp add: fun_eq_iff map_error_apply)

lemma map_error_ends: "map_error f (fail e) = fail (f e)" "map_error f (ret x) = ret x"
  by (simp_all add: fun_eq_iff map_error_apply)

lemmas calls = map_error_lift map_error_ends

text \<open>Calls of handlers are equal when they are for every guard.\<close>

lemma verified_eq:
  assumes "\<And>claims. f claims = g claims"
  shows "bind_io m f = bind_io m g"
  using assms by presburger

lemma key_of_handler:
  "bind_io (mapped (lift_res (scopedGuardForPlatformAccount c k as))) f =
   bind_io (mapped (lift_res (scopedGuard c as))) (\<lambda>g. then_io (mapped (lift_res (RequirePlatformAccountID g k))) (f g))"
  by (simp add: scopedGuardForPlatformAccount_scoped calls fun_eq_iff bind_io_apply then_io_apply
      del: RequirePlatformAccountID_ok split: sum.split)

text \<open>A guard that a handler and the use case both check gives one answer.\<close>

lemma key_checked_twice:
  "then_io (mapped (lift_res r)) (bind_io (mapped (then_io (lift_res r) m)) f) = bind_io (mapped (then_io (lift_res r) m)) f"
  by (cases r) (simp_all add: calls)

lemma guards_checked_twice:
  "then_io (mapped (lift_res a)) (then_io (mapped (lift_res b)) (then_io (mapped (then_io (lift_res a) (then_io (lift_res b) m))) k)) =
   then_io (mapped (then_io (lift_res a) (then_io (lift_res b) m))) k"
  by (cases a; cases b) (simp_all add: fun_eq_iff then_io_apply map_error_apply)

section \<open>One interface over another\<close>

lemmas services = wired_credential_def wired_generic_def wired_account_def NewMihomoCredentialService_def
  NewGenericPlatformService_def NewMihomoAccountService_def

lemma summaries_agree:
  "MihomoCredential_GetCredentialSummary E jwt (wired_credential E bc client v) ctx req =
     answer (contract_summary toSharedCredentialStatus)
       (MihomoAccount_GetCredentialSummary E jwt (wired_account E bc client v) ctx req)"
  "Generic_GetCredentialSummary E jwt (wired_generic E bc client v) ctx req =
     answer (contract_summary toGenericCredentialStatus)
       (MihomoAccount_GetCredentialSummary E jwt (wired_account E bc client v) ctx req)"
  by (auto simp: MihomoCredential_GetCredentialSummary_def Generic_GetCredentialSummary_def MihomoAccount_GetCredentialSummary_def
      services key_of_handler ManagementUsecase_GetCredentialSummaryWithScope_def key_checked_twice
      contract_summaries split: option.split)

lemma bind_assoc: "bind_io (bind_io m f) k = bind_io m (\<lambda>x. bind_io (f x) k)"
  by (auto simp: fun_eq_iff bind_io_apply split: sum.split prod.split)

lemma then_assoc: "bind_io (then_io m n) k = then_io m (bind_io n k)"
  by (simp add: then_io_def bind_assoc)

lemma bound_cases: "bind_io (case b of None \<Rightarrow> m | Some x \<Rightarrow> n x) k = (case b of None \<Rightarrow> bind_io m k | Some x \<Rightarrow> bind_io (n x) k)"
  by (cases b) simp_all

lemma verified_handlers:
  assumes "VerifyContext E jwt v ctx ticket serviceTicketAudience w = (Inr claims, w1)"
  shows "bind_io (verifyServiceTicket E jwt v ctx ticket) f w = f claims w1"
  using assms by (simp add: verifyServiceTicket_def bind_io_apply map_error_apply)

text \<open>C31: The three services answer as one. In the started process the summary of the shared and of the
  generic service is the summary of the account service in their messages, and a refresh or a delete by
  the generic service, with the account key of the request or else that of the ticket, is the refresh or
  the delete of that account by the account service: the same answer or error, and the same world after
  it.\<close>

theorem interfaces_agree:
  assumes "VerifyContext E jwt v ctx (acr_ServiceTicket r) serviceTicketAudience w = (Inr claims, w1)"
    and "requested_account (acr_PlatformAccountId r) claims = Inr k"
  shows "MihomoCredential_GetCredentialSummary E jwt (wired_credential E bc client v) ctx (Some r) w =
      answer (contract_summary toSharedCredentialStatus)
        (MihomoAccount_GetCredentialSummary E jwt (wired_account E bc client v) ctx (Some r)) w \<and>
    Generic_GetCredentialSummary E jwt (wired_generic E bc client v) ctx (Some r) w =
      answer (contract_summary toGenericCredentialStatus)
        (MihomoAccount_GetCredentialSummary E jwt (wired_account E bc client v) ctx (Some r)) w \<and>
    Generic_RefreshCredential E jwt (wired_generic E bc client v) ctx (Some r) w =
      answer (\<lambda>a. (toGenericCredentialStatus (rcs_Status a), rcs_RefreshedAt a))
        (MihomoAccount_RefreshCredential E jwt (wired_account E bc client v) ctx (Some (r\<lparr> acr_PlatformAccountId := k \<rparr>))) w \<and>
    Generic_DeleteCredential E jwt (wired_generic E bc client v) ctx (Some r) w =
      MihomoAccount_DeleteCredential E jwt (wired_account E bc client v) ctx (Some (r\<lparr> acr_PlatformAccountId := k \<rparr>)) w"
proof -
  have refresh: "Generic_RefreshCredential E jwt (wired_generic E bc client v) ctx (Some r) w =
      answer (\<lambda>a. (toGenericCredentialStatus (rcs_Status a), rcs_RefreshedAt a))
        (MihomoAccount_RefreshCredential E jwt (wired_account E bc client v) ctx (Some (r\<lparr> acr_PlatformAccountId := k \<rparr>))) w"
    using assms
    by (simp add: Generic_RefreshCredential_def MihomoAccount_RefreshCredential_def services verified_handlers key_of_handler)
  have delete: "Generic_DeleteCredential E jwt (wired_generic E bc client v) ctx (Some r) w =
      MihomoAccount_DeleteCredential E jwt (wired_account E bc client v) ctx (Some (r\<lparr> acr_PlatformAccountId := k \<rparr>)) w"
    using assms
    by (simp add: Generic_DeleteCredential_def MihomoAccount_DeleteCredential_def services verified_handlers
        ManagementUsecase_DeleteCredentialWithScope_def guards_checked_twice)
  show ?thesis using summaries_agree refresh delete by metis
qed

section \<open>Putting a credential\<close>

text \<open>The request of the account service that a generic put stands for.\<close>

definition payload_device :: "genericCredentialPayload \<Rightarrow> DeviceInfo" where
  "payload_device p = \<lparr> di_DeviceId = gp_DeviceID p, di_DeviceFp = gp_DeviceFP p, di_DeviceName = gp_DeviceName p \<rparr>"

definition payload_update :: "PutCredentialRequest \<Rightarrow> genericCredentialPayload \<Rightarrow> UpdateCredentialRequest" where
  "payload_update r p = \<lparr> ucr_ServiceTicket = pcr_ServiceTicket r, ucr_PlatformAccountId = pcr_PlatformAccountId r,
     ucr_CookieBundleJson = gp_CookieBundle p, ucr_Device = Some (payload_device p), ucr_RegionHint = gp_RegionHint p \<rparr>"

definition payload_bind :: "PutCredentialRequest \<Rightarrow> genericCredentialPayload \<Rightarrow> BindCredentialRequest" where
  "payload_bind r p = \<lparr> bcr_ServiceTicket = pcr_ServiceTicket r, bcr_CookieBundleJson = gp_CookieBundle p,
     bcr_Device = Some (payload_device p), bcr_RegionHint = gp_RegionHint p \<rparr>"

text \<open>The guard of a binding-wide ticket.\<close>

definition binding_guard :: "ServiceTicketClaims \<Rightarrow> ScopeGuard" where
  "binding_guard claims =
     \<lparr> sg_AllowedActions = set (tc_Scopes claims), sg_BindingID = tc_BindingID claims, sg_ProfileID = 0 \<rparr>"

lemma binding_guards:
  assumes "tc_ProfileID claims = 0" "tc_Platform claims = ''mihomo''"
  shows "scopedGuard claims [] = Inr (binding_guard claims)"
    and "RequireBindingWide (binding_guard claims) = Inr ()"
    and "scopedGuard claims [action] = (case RequireAction (binding_guard claims) action of Inl e \<Rightarrow> Inl e | Inr _ \<Rightarrow> Inr (binding_guard claims))"
  using assms by (simp_all add: scopedGuard_def toScopeGuard_def binding_guard_def RequireBindingWide_def RequireAction_def)

text \<open>C32: A generic put is an update or a bind. For a ticket of the whole binding the payload is decoded
  first: one that does not decode is refused as an invalid argument with the decoder's error, and the
  world is left as the verification of the ticket left it. With an account key the put is the update of
  the account service with the fields of the payload, with the same answer, errors and world; without
  one it is the bind of the account service, followed by the summary of the account that was bound.\<close>

theorem put_is_update_or_bind:
  assumes "VerifyContext E jwt v ctx (pcr_ServiceTicket r) serviceTicketAudience w = (Inr claims, w1)"
    and "tc_ProfileID claims = 0" "tc_Platform claims = ''mihomo''"
  shows "Generic_PutCredential E jwt (wired_generic E bc client v) ctx (Some r) w =
    (case decodeGenericCredentialPayload (pcr_CredentialPayloadJson r) of
       Inl e \<Rightarrow> (Inl (status_error InvalidArgument (error_text e)), w1)
     | Inr p \<Rightarrow>
         if pcr_PlatformAccountId r \<noteq> []
         then answer (contract_summary toGenericCredentialStatus)
                (MihomoAccount_UpdateCredential E jwt (wired_account E bc client v) ctx (Some (payload_update r p))) w
         else bind_io (MihomoAccount_BindCredential E jwt (wired_account E bc client v) ctx (Some (payload_bind r p)))
                (\<lambda>bound. bind_io (mapped (ManagementUsecase_GetCredentialSummaryWithScope (wired_management E bc client) ctx
                   (binding_guard claims) (bcs_PlatformAccountId bound)))
                 (\<lambda>summary. ret (toGenericCredentialSummary summary))) w)"
proof -
  note guards = binding_guards[OF assms(2,3)]
  note handlers = Generic_PutCredential_def MihomoAccount_UpdateCredential_def MihomoAccount_BindCredential_def services
  note requests = payload_update_def payload_bind_def payload_device_def toBindCredentialInput_def Let_def
  show ?thesis
  proof (cases "decodeGenericCredentialPayload (pcr_CredentialPayloadJson r)")
    case (Inl e)
    then show ?thesis
      using assms(1) by (simp add: handlers verified_handlers guards calls)
  next
    case (Inr p)
    show ?thesis
    proof (cases "pcr_PlatformAccountId r = []")
      case True
      then show ?thesis
        using assms(1) Inr
        by (cases "RequireAction (binding_guard claims) ActionCredentialBind")
          (simp_all add: handlers bind_assoc then_assoc verified_handlers guards calls requests bound_cases toBindCredentialResponse_def
            del: RequireAction_ok)
    next
      case False
      then show ?thesis
        using assms(1) Inr
        by (cases "RequireAction (binding_guard claims) ActionCredentialUpdate")
          (simp_all add: handlers verified_handlers guards calls requests ManagementUsecase_UpdateCredentialWithScope_def
            key_checked_twice[unfolded map_error_lift] contract_summaries del: RequireAction_ok)
    qed
  qed
qed

text \<open>The published schema leaves one field of the payload out.\<close>

lemma schema_omits_region_hint:
  "\<exists>fields required. credential_schema = JObject [(''type'', JString ''object''), (''properties'', JObject fields), required] \<and>
     set (map fst fields) = set payload_fields - {''region_hint''}"
  by (auto simp: credential_schema_def payload_fields_def)

section \<open>At the sample process\<close>

lemma sample_ticket_verifies: "\<exists>claims w1. VerifyContext (sample_env d) sample_jwt (pr_verifier (sample_process d)) Background ''1''
    serviceTicketAudience empty_world = (Inr claims, w1) \<and> tc_ProfileID claims = 0 \<and> tc_Platform claims = ''mihomo''"
proof -
  have "parse_uint ''1'' = Inr 1" by code_simp
  then show ?thesis
    by (simp add: VerifyContext_def time_now_def bind_io_apply then_io_apply sample_jwt_def sample_decode_def sample_jwt_claims_def
        sample_process_def NewStaticKeyTicketVerifier_def NewTicketVerifierWithResolver_def verifier_keyfunc_def sample_token_def
        StaticPublicKeyResolver_Resolve_def NewStaticPublicKeyResolver_def check_claims_def check_consumer_grant_def claims_of_def)
qed

theorem interfaces_agree_witness:
  "Generic_DeleteCredential (sample_env MySQL) sample_jwt
       (wired_generic (sample_env MySQL) sample_conf StubClient (pr_verifier (sample_process MySQL))) Background
       (Some \<lparr> acr_ServiceTicket = ''1'', acr_PlatformAccountId = ''binding_1_a'' \<rparr>) empty_world =
   MihomoAccount_DeleteCredential (sample_env MySQL) sample_jwt
       (wired_account (sample_env MySQL) sample_conf StubClient (pr_verifier (sample_process MySQL))) Background
       (Some \<lparr> acr_ServiceTicket = ''1'', acr_PlatformAccountId = ''binding_1_a'' \<rparr>) empty_world"
proof -
  let ?r = "\<lparr> acr_ServiceTicket = ''1'', acr_PlatformAccountId = ''binding_1_a'' \<rparr> :: AccountRequest"
  obtain claims w1 where "VerifyContext (sample_env MySQL) sample_jwt (pr_verifier (sample_process MySQL)) Background ''1''
      serviceTicketAudience empty_world = (Inr claims, w1)"
    using sample_ticket_verifies by blast
  then have "VerifyContext (sample_env MySQL) sample_jwt (pr_verifier (sample_process MySQL)) Background (acr_ServiceTicket ?r)
      serviceTicketAudience empty_world = (Inr claims, w1)" by simp
  moreover have "requested_account (acr_PlatformAccountId ?r) claims = Inr ''binding_1_a''" by (simp add: requested_account_def)
  ultimately show ?thesis using interfaces_agree[of "sample_env MySQL" sample_jwt _ _ ?r] by simp
qed

theorem put_is_update_or_bind_witness:
  "\<exists>w1. Generic_PutCredential (sample_env MySQL) sample_jwt
       (wired_generic (sample_env MySQL) sample_conf StubClient (pr_verifier (sample_process MySQL))) Background
       (Some \<lparr> pcr_ServiceTicket = ''1'', pcr_PlatformAccountId = [], pcr_CredentialPayloadJson = [] \<rparr>) empty_world =
     (Inl (status_error InvalidArgument ''unexpected end of JSON input''), w1)"
proof -
  let ?r = "\<lparr> pcr_ServiceTicket = ''1'', pcr_PlatformAccountId = [], pcr_CredentialPayloadJson = [] \<rparr> :: PutCredentialRequest"
  obtain claims w1 where "VerifyContext (sample_env MySQL) sample_jwt (pr_verifier (sample_process MySQL)) Background
      (pcr_ServiceTicket ?r) serviceTicketAudience empty_world = (Inr claims, w1)"
    and "tc_ProfileID claims = 0" "tc_Platform claims = ''mihomo''"
    using sample_ticket_verifies[of MySQL] by auto
  note put = put_is_update_or_bind[OF this, of sample_conf StubClient]
  have "decodeGenericCredentialPayload [] = Inl (ErrText ''unexpected end of JSON input'')" by code_simp
  then show ?thesis using put by simp
qed

end
