(* ===== verification/CacheRace.thy ===== *)
theory CacheRace
  imports ArtifactResult
begin

text \<open>
  Two requests that interleave: a read of an artifact by another connection between the deletion of the
  cache keys of a binding, which the code does inside the transaction, and the commit of that
  transaction. The read finds the row that is still committed and writes it back to the cache, where it
  outlives the row.
\<close>

text \<open>What another connection does while a transaction is open: it acts on the committed database.\<close>

definition meanwhile :: "(world, 'a) io \<Rightarrow> (world, unit) io" where
  "meanwhile m = (\<lambda>w. (Inr (), (snd (m (w\<lparr> w_tx := None \<rparr>)))\<lparr> w_tx := w_tx w \<rparr>))"

definition delete_graph_while :: "env \<Rightarrow> ArtifactRepoConfig \<Rightarrow> u64 \<Rightarrow> (world, 'a) io \<Rightarrow> (world, unit) io" where
  "delete_graph_while E r bindingID m =
     begin_tx E (\<lambda>tx.
       then_io (ArtifactRepo_deleteByBindingID E r tx bindingID)
       (then_io (meanwhile m)
       (then_io (sql_exec E tx (\<lambda>_. on_profiles (\<lambda>t. Inr (sql_delete (\<lambda>x. ap_BindingID x = bindingID) t))))
       (then_io (sql_exec E tx (\<lambda>_. on_devices (\<lambda>t. Inr (sql_delete (\<lambda>x. dr_BindingID x = bindingID) t))))
       (sql_exec E tx (\<lambda>_. on_credentials (\<lambda>t. Inr (sql_delete (\<lambda>x. cd_BindingID x = bindingID) t))))))))"

lemma meanwhile_nothing: "meanwhile (ret x) = ret ()"
  by (simp add: meanwhile_def fun_eq_iff)

text \<open>With nothing in between it is the deletion of the code.\<close>

lemma delete_graph_alone: "delete_graph_while E r b (ret x) = ManagementRepo_DeleteCredentialGraphByBindingID E r ctx b"
proof -
  have "then_io (ret ()) k = k" for k :: "(world, unit) io" by (simp add: then_io_def)
  then show ?thesis by (simp add: delete_graph_while_def ManagementRepo_DeleteCredentialGraphByBindingID_def meanwhile_nothing)
qed

section \<open>The steps\<close>

definition healthy_until :: "env \<Rightarrow> gotime \<Rightarrow> bool" where
  "healthy_until E t \<longleftrightarrow> fault E = (\<lambda>_. None) \<and> mono (clock E) \<and> (\<forall>n. clock E n < t \<and> t - clock E n < 2 ^ 63) \<and> ttl_round E = id"

lemma healthy_steps:
  assumes "fault E = (\<lambda>_. None)"
  shows "interact E f w = f (ticks w) (next_tick w)"
  using assms by (simp add: interact_def Let_def)

lemma delete_rows_healthy:
  assumes "fault E = (\<lambda>_. None)" "w_tx w = Some d" "ar_redis r"
  shows "\<exists>w'. ArtifactRepo_deleteByBindingID E r WithTx b w = (Inr (), w') \<and> w_db w' = w_db w \<and>
    w_tx w' = Some (d\<lparr> db_artifacts := sql_delete (\<lambda>x. ra_BindingID x = b) (db_artifacts d) \<rparr>) \<and>
    (\<forall>x \<in> set (tb_rows (db_artifacts d)). ra_BindingID (snd x) = b \<longrightarrow>
       w_redis w' (cacheKeyByBinding r b (ra_ArtifactType (snd x)) (ra_ScopeKey (snd x))) = None)"
  using assms
  by (simp add: ArtifactRepo_deleteByBindingID_def recordsForBindingCacheDeletion_def deleteCacheKeys_def gorm_find_def
      sql_query_def sql_exec_def on_artifacts_def redis_del_def healthy_steps bind_io_apply then_io_apply db_view_def put_view_def
      sql_find_def cacheKeysForRecords_def concat_eq_Nil_conv) (fastforce simp: filter_empty_conv)

lemma rest_healthy:
  assumes "fault E = (\<lambda>_. None)" "w_tx w = Some d"
  shows "\<exists>w' d'. then_io (sql_exec E WithTx (\<lambda>_. on_profiles (\<lambda>t. Inr (sql_delete p t))))
       (then_io (sql_exec E WithTx (\<lambda>_. on_devices (\<lambda>t. Inr (sql_delete q t))))
       (sql_exec E WithTx (\<lambda>_. on_credentials (\<lambda>t. Inr (sql_delete s t))))) w = (Inr (), w') \<and>
     w_tx w' = Some d' \<and> db_artifacts d' = db_artifacts d \<and> w_redis w' = w_redis w"
  using assms
  by (simp add: sql_exec_def on_table_defs healthy_steps then_io_apply db_view_def put_view_def)

text \<open>A read that misses the cache and finds the live row writes it back, to stay until the row expires.\<close>

lemma take_stored:
  assumes "database_ok d" "artifact_stored a d" "now < af_ExpiresAt a"
  shows "\<exists>i. sql_take n (\<lambda>x. ra_BindingID x = af_BindingID a \<and> ra_ArtifactType x = af_ArtifactType a \<and>
    ra_ScopeKey x = af_ScopeKey a \<and> now < ra_ExpiresAt x) (db_artifacts d) = Some (i, record_of_artifact a)"
    (is "\<exists>i. ?take = _")
proof -
  obtain i where i: "(i, record_of_artifact a) \<in> set (tb_rows (db_artifacts d))" using assms(2) by (auto simp: artifact_stored_def)
  have "?take \<noteq> None" unfolding sql_take_None using i assms(3) by (force simp: record_of_artifact_def)
  then obtain x where x: "?take = Some x" by blast
  from sql_take_Some[OF x] have "snd x = record_of_artifact a" using stored_is_unique[OF assms(1,2), of x] by blast
  then show ?thesis using x by (metis prod.collapse)
qed

lemma read_fills:
  assumes "healthy_until E (af_ExpiresAt a)" "ar_redis r" "marshal_artifact a = Inr p" "database_ok (w_db w)"
    and "artifact_stored a (w_db w)" "w_redis w (artifact_cache_key r a) = None"
  shows "\<exists>w' e. ArtifactRepo_GetByBindingID E r ctx (af_BindingID a) (af_ArtifactType a) (af_ScopeKey a) w = (Inr (Some a), w') \<and>
    w_db w' = w_db w \<and> w_redis w' (artifact_cache_key r a) = Some (p, e) \<and> af_ExpiresAt a \<le> e"
proof -
  have E: "fault E = (\<lambda>_. None)" "ttl_round E = id" and t: "clock E n < af_ExpiresAt a" "af_ExpiresAt a - clock E n < 2 ^ 63"
    and mono: "clock E n \<le> clock E (Suc n)" for n
    using assms(1) by (simp_all add: healthy_until_def monoD)
  obtain i where i: "sql_take (pick E (Suc (Suc (ticks w)))) (\<lambda>x. ra_BindingID x = af_BindingID a \<and> ra_ArtifactType x = af_ArtifactType a \<and>
      ra_ScopeKey x = af_ScopeKey a \<and> clock E (Suc (ticks w)) < ra_ExpiresAt x) (db_artifacts (w_db w)) = Some (i, record_of_artifact a)"
    using take_stored[OF assms(4,5) t(1)] by blast
  let ?n = "Suc (Suc (Suc (ticks w)))"
  have ttl: "time_sub (af_ExpiresAt a) (clock E ?n) = af_ExpiresAt a - clock E ?n" "0 < af_ExpiresAt a - clock E ?n"
    using t[of ?n] by (simp_all add: time_sub_def)
  show ?thesis
    using assms(2,3,6) E i ttl mono[of ?n]
    by (simp add: ArtifactRepo_GetByBindingID_def cache_probe_def cache_fill_def redis_get_def redis_set_def healthy_steps
        bind_io_apply then_io_apply ArtifactRepo_get_def catch_not_found_def attempt_apply ignore_err_apply gorm_take_def
        time_until_def time_now_def db_view_def)
qed

lemma read_hits:
  assumes "fault E = (\<lambda>_. None)" "ar_redis r" "marshal_artifact a = Inr p"
    and "w_redis w (artifact_cache_key r a) = Some (p, e)" "clock E (ticks w) < e"
  shows "fst (ArtifactRepo_GetByBindingID E r ctx (af_BindingID a) (af_ArtifactType a) (af_ScopeKey a) w) = Inr (Some (valid_artifact a))"
  using assms unmarshal_marshal[OF assms(3)]
  by (simp add: ArtifactRepo_GetByBindingID_def cache_probe_def redis_get_def healthy_steps bind_io_apply attempt_apply)

text \<open>C24: A deleted artifact can be handed out again. On servers that do not fail, a delete of the binding in
  which another request reads an artifact of the binding, after the code has deleted the cache keys and
  before the commit, ends without error and without a row of the artifact, but the next read of it still
  returns it, from the cache. Without that read in between the delete is the one of the code.\<close>

theorem deleted_artifact_is_served:
  assumes "healthy_until E (af_ExpiresAt a)" and "ar_redis r" and "marshal_artifact a = Inr p"
    and "database_ok (w_db w)" and "artifact_stored a (w_db w)" and "w_tx w = None"
  shows "\<exists>w'. delete_graph_while E r (af_BindingID a)
      (ArtifactRepo_GetByBindingID E r Background (af_BindingID a) (af_ArtifactType a) (af_ScopeKey a)) w = (Inr (), w') \<and>
    \<not> artifact_stored a (w_db w') \<and>
    fst (ArtifactRepo_GetByBindingID E r ctx (af_BindingID a) (af_ArtifactType a) (af_ScopeKey a) w') = Inr (Some (valid_artifact a)) \<and>
    delete_graph_while E r (af_BindingID a) (ret x) = ManagementRepo_DeleteCredentialGraphByBindingID E r ctx (af_BindingID a)"
proof -
  have E: "fault E = (\<lambda>_. None)" and t: "clock E n < af_ExpiresAt a" for n using assms(1) by (simp_all add: healthy_until_def)
  obtain i where i: "(i, record_of_artifact a) \<in> set (tb_rows (db_artifacts (w_db w)))" using assms(5) by (auto simp: artifact_stored_def)
  let ?w0 = "(next_tick w)\<lparr> w_tx := Some (w_db w) \<rparr>"
  obtain w1 where del: "ArtifactRepo_deleteByBindingID E r WithTx (af_BindingID a) ?w0 = (Inr (), w1)" and w1: "w_db w1 = w_db w"
    "w_tx w1 = Some ((w_db w)\<lparr> db_artifacts := sql_delete (\<lambda>x. ra_BindingID x = af_BindingID a) (db_artifacts (w_db w)) \<rparr>)"
    "w_redis w1 (artifact_cache_key r a) = None"
    using delete_rows_healthy[OF E _ assms(2), of ?w0 "w_db w" "af_BindingID a"] i by (force simp: record_of_artifact_def)
  obtain w2 e where read: "ArtifactRepo_GetByBindingID E r Background (af_BindingID a) (af_ArtifactType a) (af_ScopeKey a)
      (w1\<lparr> w_tx := None \<rparr>) = (Inr (Some a), w2)" and w2: "w_redis w2 (artifact_cache_key r a) = Some (p, e)" "af_ExpiresAt a \<le> e"
    using read_fills[OF assms(1-3), of "w1\<lparr> w_tx := None \<rparr>" Background] assms(4,5) w1 by auto
  let ?w3 = "w2\<lparr> w_tx := w_tx w1 \<rparr>"
  obtain w4 d where rest: "then_io (sql_exec E WithTx (\<lambda>_. on_profiles (\<lambda>t. Inr (sql_delete (\<lambda>x. ap_BindingID x = af_BindingID a) t))))
       (then_io (sql_exec E WithTx (\<lambda>_. on_devices (\<lambda>t. Inr (sql_delete (\<lambda>x. dr_BindingID x = af_BindingID a) t))))
       (sql_exec E WithTx (\<lambda>_. on_credentials (\<lambda>t. Inr (sql_delete (\<lambda>x. cd_BindingID x = af_BindingID a) t))))) ?w3 = (Inr (), w4)"
    and w4: "w_tx w4 = Some d" "db_artifacts d = sql_delete (\<lambda>x. ra_BindingID x = af_BindingID a) (db_artifacts (w_db w))"
      "w_redis w4 = w_redis w2"
    using rest_healthy[OF E, of ?w3] w1 by fastforce
  let ?w5 = "(next_tick w4)\<lparr> w_tx := None, w_db := d \<rparr>"
  have "delete_graph_while E r (af_BindingID a)
      (ArtifactRepo_GetByBindingID E r Background (af_BindingID a) (af_ArtifactType a) (af_ScopeKey a)) w = (Inr (), ?w5)"
    using E assms(6) del read rest w4
    by (simp add: delete_graph_while_def begin_tx_def tx_commit_def then_io_apply meanwhile_def db_view_def Let_def)
  moreover have "\<not> artifact_stored a d" by (auto simp: artifact_stored_def w4 sql_delete_def record_of_artifact_def)
  moreover have "fst (ArtifactRepo_GetByBindingID E r ctx (af_BindingID a) (af_ArtifactType a) (af_ScopeKey a) ?w5) =
      Inr (Some (valid_artifact a))"
    using read_hits[OF E assms(2,3), of ?w5 e] w2 w4 t[of "ticks ?w5"] by auto
  ultimately show ?thesis using delete_graph_alone by auto
qed

definition stored_world :: world where
  "stored_world = empty_world\<lparr> w_db := empty_database\<lparr> db_artifacts :=
     \<lparr> tb_next = 2, tb_rows = [(1, record_of_artifact sample_artifact)] \<rparr> \<rparr> \<rparr>"

theorem deleted_artifact_is_served_witness:
  "\<exists>w' a. \<not> artifact_stored sample_artifact (w_db w') \<and>
     fst (ArtifactRepo_GetByBindingID ((sample_env MySQL)\<lparr> clock := (\<lambda>_. 0) \<rparr>) (artifact_config sample_conf) Background 1
       authKeyArtifactType ''p1'' w') = Inr (Some a)"
proof -
  let ?E = "(sample_env MySQL)\<lparr> clock := (\<lambda>_. 0) \<rparr>" and ?r = "artifact_config sample_conf"
  have fields: "af_BindingID sample_artifact = 1" "af_ArtifactType sample_artifact = authKeyArtifactType"
    "af_ScopeKey sample_artifact = ''p1''" "af_ExpiresAt sample_artifact = 1000"
    by (simp_all add: sample_artifact_def)
  obtain p where p: "marshal_artifact sample_artifact = Inr p" using marshal_succeeds[of sample_artifact] by (auto simp: fields)
  have E: "healthy_until ?E (af_ExpiresAt sample_artifact)" by (simp add: healthy_until_def fields mono_def)
  have ok: "database_ok (w_db stored_world)"
    by (simp add: stored_world_def database_ok_def empty_database_def table_ok_def ids_ok_def unique_ok_def empty_table_def)
  have "artifact_stored sample_artifact (w_db stored_world)" "w_tx stored_world = None"
    by (simp_all add: artifact_stored_def stored_world_def)
  from deleted_artifact_is_served[OF E sample_config_redis p ok this, of Background "()"] show ?thesis unfolding fields by blast
qed

end
