(* ===== verification/Widths.thy ===== *)
theory Widths
  imports ReadOnly
begin

text \<open>
  Stored values conform to the types of their columns. Under MySQL a statement that would write a value
  its column does not take fails, so every table keeps rows that fit, whatever the requests and the
  failures; the contracts of the services are interpreted once more to carry this from the statements
  to the requests.
\<close>

section \<open>Tables that fit\<close>

definition table_fits :: "('r \<Rightarrow> (string \<times> column) list) \<Rightarrow> 'r sqltable \<Rightarrow> bool" where
  "table_fits cols t \<longleftrightarrow> (\<forall>x \<in> set (tb_rows t). row_error (cols (snd x)) = None)"

definition database_fits :: "database \<Rightarrow> bool" where
  "database_fits d \<longleftrightarrow> table_fits credential_columns (db_credentials d) \<and> table_fits device_columns (db_devices d) \<and>
     table_fits profile_columns (db_profiles d) \<and> table_fits artifact_columns (db_artifacts d) \<and>
     table_fits invalidation_columns (db_invalidations d)"

lemma empty_database_fits: "database_fits empty_database"
  by (simp add: database_fits_def table_fits_def empty_database_def empty_table_def)

lemma delete_fits: "table_fits cols t \<Longrightarrow> table_fits cols (sql_delete p t)"
  by (auto simp: table_fits_def sql_delete_def)

lemma insert_fits: "table_fits cols t \<Longrightarrow> row_error (cols r) = None \<Longrightarrow> sql_insert ks r t = Inr t' \<Longrightarrow> table_fits cols t'"
  by (auto simp: table_fits_def sql_insert_rows(1))

lemma update_fits:
  assumes "table_fits cols t" and "\<And>r. row_error (cols r) = None \<Longrightarrow> row_error (cols (f r)) = None"
    and "sql_update ks p f t = Inr (n, t')"
  shows "table_fits cols t'"
  using assms by (auto simp: table_fits_def sql_update_rows(1)[OF assms(3)])

lemma upsert_fits:
  assumes "table_fits cols t" and "row_error (cols r) = None"
    and "\<And>old. row_error (cols old) = None \<Longrightarrow> row_error (cols (upd r old)) = None"
    and "sql_upsert k d ks target upd r t = Inr t'"
  shows "table_fits cols t'"
  using assms(4)
proof (cases rule: sql_upsert_cases)
  case insert
  then show ?thesis using insert_fits[OF assms(1,2)] by blast
next
  case (update x n)
  from update_fits[OF assms(1) assms(3) update(3)] show ?thesis by simp
qed

section \<open>Calls that keep a property of the databases\<close>

text \<open>A property of the committed database and of that of an open transaction.\<close>

definition views :: "(database \<Rightarrow> bool) \<Rightarrow> world \<Rightarrow> bool" where
  "views P w \<longleftrightarrow> P (w_db w) \<and> (\<forall>d. w_tx w = Some d \<longrightarrow> P d)"

abbreviation anywhere :: "world \<Rightarrow> world \<Rightarrow> bool" where
  "anywhere \<equiv> \<lambda>_ _. True"

lemma views_same: "same_store w w' \<Longrightarrow> views P w \<Longrightarrow> views P w'"
  by (simp add: views_def same_store_def)

lemma views_view: "views P w \<Longrightarrow> P (db_view ctx w)"
  by (auto simp: views_def db_view_def split: ctx.split option.split)

lemma views_put: "views P w \<Longrightarrow> P d \<Longrightarrow> views P (put_view ctx d w)"
  by (auto simp: views_def put_view_def split: ctx.split option.split)

interpretation views: runtime "views P" anywhere for P
  by unfold_locales (simp_all add: views_def)

lemma views_both:
  assumes "keeps (views P) R Q m" "keeps (views P') R' Q' m"
  shows "keeps (views (\<lambda>d. P d \<and> P' d)) anywhere Q m"
proof (rule keepsI)
  fix w r w'
  assume w: "views (\<lambda>d. P d \<and> P' d) w" and m: "m w = (r, w')"
  then have parts: "views P w" "views P' w" by (auto simp: views_def)
  have "views P w'" "views P' w'" "\<forall>x. r = Inr x \<longrightarrow> Q x"
    using keepsD(1,3)[OF assms(1) parts(1) m] keepsD(1)[OF assms(2) parts(2) m] by blast+
  then show "views (\<lambda>d. P d \<and> P' d) w' \<and> True \<and> (\<forall>x. r = Inr x \<longrightarrow> Q x)" by (simp add: views_def)
qed

lemma views_reading:
  assumes "keeps (views P) same_store Q m"
  shows "keeps (views (\<lambda>d. P d \<and> P' d)) anywhere Q m"
proof (rule keepsI)
  fix w r w'
  assume w: "views (\<lambda>d. P d \<and> P' d) w" and m: "m w = (r, w')"
  have part: "views P w" using w by (simp add: views_def)
  show "views (\<lambda>d. P d \<and> P' d) w' \<and> True \<and> (\<forall>x. r = Inr x \<longrightarrow> Q x)"
    using keepsD(2,3)[OF assms part m] views_same[OF _ w] by blast
qed

text \<open>A statement, a reading call, a command to the cache, a transaction.\<close>

lemma exec_views:
  assumes "\<And>k d x d'. P d \<Longrightarrow> f k d = Inr (x, d') \<Longrightarrow> P d'"
  shows "keeps (views P) anywhere (\<lambda>_. True) (sql_exec E ctx f)"
proof (rule keepsI)
  fix w r w'
  assume w: "views P w" and m: "sql_exec E ctx f w = (r, w')"
  have tick: "views P (next_tick w)" using w by (simp add: views_def)
  have "views P (put_view ctx d (next_tick w))" if "f k (db_view ctx w) = Inr (x, d)" for k x d
    using assms[OF views_view[OF w] that] tick by (rule views_put[rotated])
  then show "views P w' \<and> True \<and> (\<forall>x. r = Inr x \<longrightarrow> True)"
    using m tick by (auto simp: sql_exec_def interact_def Let_def split: option.splits fault.splits sum.splits)
qed

lemma reading_views: "leaves_store m \<Longrightarrow> keeps (views P) anywhere (\<lambda>_. True) m"
  by (auto simp: keeps_def leaves_store_def intro: views_same)

lemma reads_leave:
  "leaves_store (sql_query E ctx f)" "leaves_store (gorm_take E ctx sel p)" "leaves_store (gorm_first E ctx sel p)"
  "leaves_store (gorm_find E ctx sel p)" "leaves_store (catch_not_found (gorm_take E ctx sel p))"
  unfolding leaves_store_def
  by (auto intro: reads_store[OF prod.collapse[symmetric]] catch_not_found_store[OF reads_store(2) prod.collapse[symmetric]])

lemmas read_views = reads_leave[THEN reading_views]

lemma redis_views:
  "keeps (views P) anywhere (\<lambda>_. True) (redis_del E ks)" "keeps (views P) anywhere (\<lambda>_. True) (redis_set E key v ttl)"
  "keeps (views P) anywhere (\<lambda>_. True) (redis_get E key)"
  by (auto simp: keeps_def redis_del_def redis_set_def redis_get_def interact_def Let_def views_def split: option.splits fault.splits)

lemma begin_views:
  assumes "keeps (views P) anywhere Q (body WithTx)"
  shows "keeps (views P) anywhere Q (begin_tx E body)"
proof (rule keepsI)
  fix w r w'
  assume w: "views P w" and m: "begin_tx E body w = (r, w')"
  obtain r2 w2 where b: "body WithTx (tx_started w) = (r2, w2)" by fastforce
  have "views P (tx_started w)" using w by (simp add: views_def tx_started_def)
  note inside = keepsD(1,3)[OF assms this b]
  have "views P (next_tick w)" "views P (tx_restored w w2)" "views P (tx_committed w w2)"
    using w inside(1) views_view[OF inside(1)] by (auto simp: views_def tx_restored_def tx_committed_def)
  then show "views P w' \<and> True \<and> (\<forall>x. r = Inr x \<longrightarrow> Q x)"
    using m b inside(2) by (auto simp: begin_tx_steps split: option.splits fault.splits sum.splits)
qed

lemma transaction_views:
  assumes "keeps (views P) anywhere Q (body WithTx)"
  shows "keeps (views P) anywhere Q (transaction E ctx body)"
proof (rule keepsI)
  fix w r w'
  assume w: "views P w" and m: "transaction E ctx body w = (r, w')"
  show "views P w' \<and> True \<and> (\<forall>x. r = Inr x \<longrightarrow> Q x)"
  proof (cases "ctx = WithTx \<and> w_tx w \<noteq> None")
    case False
    then have "begin_tx E body w = (r, w')" using m by (auto simp: transaction_def)
    then show ?thesis using keepsD[OF begin_views[where body = body, OF assms] w] by blast
  next
    case True
    obtain r2 w2 where b: "body WithTx (next_tick w) = (r2, w2)" by fastforce
    have tick: "views P (next_tick w)" using w by (simp add: views_def)
    note inside = keepsD(1,3)[OF assms tick b]
    have "views P ((next_tick w2)\<lparr> w_tx := w_tx w \<rparr>)" "views P (next_tick w2)" using w inside(1) by (auto simp: views_def)
    then show ?thesis
      using m True b inside tick by (auto simp: transaction_def savepoint_def split: option.splits fault.splits sum.splits)
  qed
qed

section \<open>The repositories\<close>

text \<open>A statement on one table.\<close>

lemma write_fits:
  "(\<And>k t t'. table_fits credential_columns t \<Longrightarrow> f1 k t = Inr t' \<Longrightarrow> table_fits credential_columns t') \<Longrightarrow>
    keeps (views database_fits) anywhere (\<lambda>_. True) (sql_exec E ctx (\<lambda>k. on_credentials (f1 k)))"
  "(\<And>k t t'. table_fits device_columns t \<Longrightarrow> f2 k t = Inr t' \<Longrightarrow> table_fits device_columns t') \<Longrightarrow>
    keeps (views database_fits) anywhere (\<lambda>_. True) (sql_exec E ctx (\<lambda>k. on_devices (f2 k)))"
  "(\<And>k t t'. table_fits profile_columns t \<Longrightarrow> f3 k t = Inr t' \<Longrightarrow> table_fits profile_columns t') \<Longrightarrow>
    keeps (views database_fits) anywhere (\<lambda>_. True) (sql_exec E ctx (\<lambda>k. on_profiles (f3 k)))"
  "(\<And>k t t'. table_fits artifact_columns t \<Longrightarrow> f4 k t = Inr t' \<Longrightarrow> table_fits artifact_columns t') \<Longrightarrow>
    keeps (views database_fits) anywhere (\<lambda>_. True) (sql_exec E ctx (\<lambda>k. on_artifacts (f4 k)))"
  "(\<And>k t t'. table_fits invalidation_columns t \<Longrightarrow> f5 k t = Inr t' \<Longrightarrow> table_fits invalidation_columns t') \<Longrightarrow>
    keeps (views database_fits) anywhere (\<lambda>_. True) (sql_exec E ctx (\<lambda>k. on_invalidations (f5 k)))"
  by (rule exec_views; auto simp: on_table_ok database_fits_def)+

lemma delete_views:
  "keeps (views database_fits) anywhere (\<lambda>_. True) (sql_exec E ctx (\<lambda>_. on_credentials (\<lambda>t. Inr (sql_delete p1 t))))"
  "keeps (views database_fits) anywhere (\<lambda>_. True) (sql_exec E ctx (\<lambda>_. on_devices (\<lambda>t. Inr (sql_delete p2 t))))"
  "keeps (views database_fits) anywhere (\<lambda>_. True) (sql_exec E ctx (\<lambda>_. on_profiles (\<lambda>t. Inr (sql_delete p3 t))))"
  "keeps (views database_fits) anywhere (\<lambda>_. True) (sql_exec E ctx (\<lambda>_. on_artifacts (\<lambda>t. Inr (sql_delete p4 t))))"
  by (intro write_fits; auto intro: delete_fits)+

lemma removal_views:
  "keeps (views database_fits) anywhere (\<lambda>_. True) (CredentialRepo_DeleteByPlatformAccountID E ctx k)"
  "keeps (views database_fits) anywhere (\<lambda>_. True) (DeviceRepo_DeleteByPlatformAccountID E ctx k)"
  "keeps (views database_fits) anywhere (\<lambda>_. True) (ProfileRepo_DeleteByPlatformAccountID E ctx k)"
  "keeps (views database_fits) anywhere (\<lambda>_. True) (ProfileRepo_DeleteMissingByBindingID E ctx b keep)"
  by (simp_all add: CredentialRepo_DeleteByPlatformAccountID_def DeviceRepo_DeleteByPlatformAccountID_def
      ProfileRepo_DeleteByPlatformAccountID_def ProfileRepo_DeleteMissingByBindingID_def delete_views)

text \<open>What an update leaves of a row that fits.\<close>

lemma device_assign_fits:
  "row_error (device_columns new) = None \<Longrightarrow> row_error (device_columns old) = None \<Longrightarrow> row_error (device_columns (device_assign new old)) = None"
  by (simp add: row_fits device_columns_def device_assign_def split: option.splits)

lemma profile_assign_fits:
  "row_error (profile_columns new) = None \<Longrightarrow> row_error (profile_columns old) = None \<Longrightarrow> row_error (profile_columns (profile_assign new old)) = None"
  by (simp add: row_fits profile_columns_def profile_assign_def)

lemma default_assign_fits:
  "row_error (assigned_columns p) = None \<Longrightarrow> row_error (profile_columns old) = None \<Longrightarrow>
    row_error (profile_columns (old\<lparr> ap_PlatformAccountID := pf_PlatformAccountID p, ap_GameBiz := pf_GameBiz p,
      ap_Nickname := pf_Nickname p, ap_Level := pf_Level p, ap_IsDefault := True \<rparr>)) = None"
  by (simp add: row_fits profile_columns_def assigned_columns_def)

lemma default_flag_fits: "row_error (profile_columns (r\<lparr> ap_IsDefault := x \<rparr>)) = row_error (profile_columns r)"
  by (simp add: profile_columns_def)

lemma raised_fits:
  "row_error (invalidation_columns (r\<lparr> gi_MinimumGrantVersion := v, gi_InvalidatedAt := t \<rparr>)) = row_error (invalidation_columns r)"
  by (simp add: invalidation_columns_def)

lemma save_views:
  assumes "dialect E = MySQL"
  shows "keeps (views database_fits) anywhere (\<lambda>_. True) (CredentialRepo_Save E ctx c)"
    and "keeps (views database_fits) anywhere (\<lambda>_. True) (DeviceRepo_Save E ctx d)"
    and "keeps (views database_fits) anywhere (\<lambda>_. True) (GrantInvalidationRepo_Upsert E ctx b consumer v)"
  unfolding CredentialRepo_Save_def DeviceRepo_Save_def GrantInvalidationRepo_Upsert_def Let_def
  by (intro write_fits views.io_bind[OF views.now_keeps];
      auto simp: fits_def assms raised_fits elim!: upsert_fits[rotated 3] intro: device_assign_fits)+

lemma set_default_views:
  "keeps (views database_fits) anywhere (\<lambda>_. True) (ProfileRepo_SetDefaultByBindingAndPlayerID E ctx b k player)"
proof -
  have unset: "keeps (views database_fits) anywhere (\<lambda>_. True) (sql_exec E tx (\<lambda>_. on_profiles (\<lambda>t. map_sum id snd
      (sql_update profile_keys q (\<lambda>r. r\<lparr> ap_IsDefault := x \<rparr>) t))))" for tx q x
    by (rule write_fits) (auto simp: map_sum_def default_flag_fits split: sum.splits elim!: update_fits[rotated 2])
  have set: "keeps (views database_fits) anywhere (\<lambda>_. True) (sql_exec E tx (\<lambda>_ d. map_sum id (\<lambda>(n, t). (n, d\<lparr> db_profiles := t \<rparr>))
      (sql_update profile_keys q (\<lambda>r. r\<lparr> ap_IsDefault := x \<rparr>) (db_profiles d))))" for tx q x
    by (rule exec_views) (auto simp: map_sum_def default_flag_fits database_fits_def split: sum.splits elim!: update_fits[rotated 2])
  show ?thesis
    unfolding ProfileRepo_SetDefaultByBindingAndPlayerID_def
    by (intro transaction_views views.io_then[OF unset] views.io_bind[OF views.io_map_error[OF set]])
      (auto intro: views.io_ret views.io_fail)
qed

lemma profile_save_views:
  assumes "dialect E = MySQL"
  shows "keeps (views database_fits) anywhere (\<lambda>_. True) (ProfileRepo_Save E ctx p)"
proof -
  have fits: "fits E cs \<longleftrightarrow> row_error cs = None" for cs using assms by (simp add: fits_def)
  have check: "keeps (views database_fits) anywhere (\<lambda>_. True) (ensureNoConflictingDefaultProfile E ctx p i)" for i
    unfolding ensureNoConflictingDefaultProfile_def
    by (rule views.io_bind[OF read_views(1)]) (auto intro: views.io_ret views.io_fail)
  have overwrite: "keeps (views database_fits) anywhere (\<lambda>_. True) (sql_exec E ctx (\<lambda>_. on_profiles (row_checked E (assigned_columns p)
      (\<lambda>t. map_sum id snd (sql_update profile_keys q (\<lambda>r. r\<lparr> ap_PlatformAccountID := pf_PlatformAccountID p,
         ap_GameBiz := pf_GameBiz p, ap_Nickname := pf_Nickname p, ap_Level := pf_Level p, ap_IsDefault := True \<rparr>) t)))))" for q
    by (rule write_fits) (auto simp: fits map_sum_def default_assign_fits split: sum.splits elim!: update_fits[rotated 2])
  have insert: "keeps (views database_fits) anywhere (\<lambda>_. True)
      (sql_exec E ctx (\<lambda>_. on_profiles (row_checked E (profile_columns r) (sql_insert profile_keys r))))" for r
    by (rule write_fits) (auto simp: fits intro: insert_fits)
  have upsert: "keeps (views database_fits) anywhere (\<lambda>_. True) (sql_exec E ctx (\<lambda>k. on_profiles (row_checked E (profile_columns r)
      (sql_upsert k (dialect E) profile_keys target profile_assign r))))" for r target
    by (rule write_fits) (auto simp: fits elim!: upsert_fits[rotated 3] intro: profile_assign_fits)
  show ?thesis
    unfolding ProfileRepo_Save_def saveDefaultProfile_def Let_def
    by (auto intro!: upsert views.io_bind[OF read_views(5)] views.io_then[OF check] views.io_map_error overwrite insert)
qed

lemma artifact_views:
  shows "keeps (views database_fits) anywhere (\<lambda>_. True) (ArtifactRepo_deleteByBindingID E r ctx b)"
    and "keeps (views database_fits) anywhere (\<lambda>_. True) (ArtifactRepo_deleteByPlatformAccountID E r ctx k)"
    and "keeps (views P) anywhere (\<lambda>_. True) (ArtifactRepo_GetByBindingID E r ctx b ty sc)"
    and "dialect E = MySQL \<Longrightarrow> keeps (views database_fits) anywhere (\<lambda>_. True) (ArtifactRepo_Put E r ctx a)"
proof -
  have until: "keeps (views P) anywhere (\<lambda>_. True) (time_until E t)" for P t
    unfolding time_until_def by (rule views.io_bind[OF views.now_keeps]) (simp add: views.io_ret)
  show "keeps (views database_fits) anywhere (\<lambda>_. True) (ArtifactRepo_deleteByBindingID E r ctx b)"
    "keeps (views database_fits) anywhere (\<lambda>_. True) (ArtifactRepo_deleteByPlatformAccountID E r ctx k)"
    unfolding ArtifactRepo_deleteByBindingID_def ArtifactRepo_deleteByPlatformAccountID_def recordsForBindingCacheDeletion_def
      recordsForPlatformCacheDeletion_def deleteCacheKeys_def
    by (auto intro!: views.io_bind[OF read_views(4)] views.io_bind[OF views.io_bind[OF read_views(4) views.io_ret]]
        views.io_bind[OF views.io_ret] views.io_then[OF delete_views(4)] views.io_ret redis_views)
  have probe: "keeps (views P) anywhere (\<lambda>_. True) (cache_probe E r key)" for key
    unfolding cache_probe_def by (auto intro!: views.io_ret views.io_bind[OF views.io_attempt[OF redis_views(3)]] split: sum.split)
  have fill: "keeps (views P) anywhere (\<lambda>_. True) (cache_fill E r key a)" for key a
    unfolding cache_fill_def
    by (auto intro!: views.io_ret views.io_bind[OF until] views.io_then[OF views.io_ignore[OF redis_views(1)]]
        views.io_then[OF views.io_ignore[OF redis_views(2)]] split: sum.split)
  have row: "keeps (views P) anywhere (\<lambda>_. True) (ArtifactRepo_get E q)" for q
    unfolding ArtifactRepo_get_def by (rule views.io_bind[OF read_views(5)]) (simp add: views.io_ret)
  show "keeps (views P) anywhere (\<lambda>_. True) (ArtifactRepo_GetByBindingID E r ctx b ty sc)"
    unfolding ArtifactRepo_GetByBindingID_def
    by (auto intro!: views.io_bind[OF probe] views.io_bind[OF views.now_keeps] views.io_bind[OF row] fill views.io_ret
        split: option.split)
  assume strict: "dialect E = MySQL"
  have save: "keeps (views database_fits) anywhere (\<lambda>_. True) (sql_exec E ctx (\<lambda>k. on_artifacts (row_checked E (artifact_columns x)
      (sql_upsert k (dialect E) artifact_keys target (\<lambda>new old. new) x))))" for ctx x target
    by (rule write_fits) (auto simp: fits_def strict elim!: upsert_fits[rotated 3])
  have prev: "keeps (views P) anywhere (\<lambda>_. True) (if ar_redis r
      then bind_io (attempt (gorm_take E Background db_artifacts p)) (\<lambda>q. ret (f q)) else ret [])" for P p f
    by (auto intro!: views.io_ret views.io_bind[OF views.io_attempt[OF read_views(2)]])
  show "keeps (views database_fits) anywhere (\<lambda>_. True) (ArtifactRepo_Put E r ctx a)"
    unfolding ArtifactRepo_Put_def Let_def
    by (rule views.io_bind[OF prev], rule views.io_then[OF save])
      (auto intro!: views.io_ret views.io_lifted views.io_then[OF redis_views(1)] views.io_then[OF views.io_ret]
        views.io_bind[OF until] redis_views)
qed

lemma graph_views:
  "keeps (views database_fits) anywhere (\<lambda>_. True) (ManagementRepo_DeleteCredentialGraph E r ctx k)"
  "keeps (views database_fits) anywhere (\<lambda>_. True) (ManagementRepo_DeleteCredentialGraphByBindingID E r ctx b)"
  unfolding ManagementRepo_DeleteCredentialGraph_def ManagementRepo_DeleteCredentialGraphByBindingID_def bindingIDsForPlatformAccountID_def
  by (auto intro!: begin_views views.io_bind[OF views.io_bind[OF read_views(1) views.io_ret]] views.io_then[OF artifact_views(1)]
      views.io_then[OF delete_views(1)] views.io_then[OF delete_views(2)] views.io_then[OF delete_views(3)] delete_views
      views.io_then[where P = "\<lambda>_. True"] views.io_loop artifact_views)

section \<open>The services\<close>

abbreviation whole_database :: "database \<Rightarrow> bool" where
  "whole_database \<equiv> scope_ok (\<lambda>_. True) (\<lambda>_ _. True) (\<lambda>_ _. True)"

abbreviation fitting :: "world \<Rightarrow> bool" where
  "fitting \<equiv> views (\<lambda>d. whole_database d \<and> database_fits d)"

lemma whole_store_views: "whole_store = views whole_database"
  by (simp add: fun_eq_iff world_scope_def views_def)

text \<open>The contract of well-formedness and the one of the columns, of the same call.\<close>

lemma fitting_both:
  assumes "keeps whole_store R Q m" "keeps (views database_fits) anywhere (\<lambda>_. True) m"
  shows "keeps fitting anywhere Q m"
  using assms unfolding whole_store_views by (rule views_both)

lemma fitting_reading: "keeps whole_store same_store Q m \<Longrightarrow> keeps fitting anywhere Q m"
  unfolding whole_store_views by (rule views_reading)

locale strict_scope = read_scope E bc client jwt verifier
  for E bc client jwt verifier +
  assumes strict: "dialect E = MySQL"

sublocale strict_scope \<subseteq> strictly: services fitting anywhere "\<lambda>_. True" "\<lambda>_ _. True" "\<lambda>_ _. True"
  "\<lambda>_. True" True "CredentialRepo E" "DeviceRepo E" "ProfileRepo E" "ArtifactRepo E (artifact_config bc)"
  "ManagementRepo E (artifact_config bc)" client "CredentialRepo_WithinTransaction E" E jwt verifier
  "GrantInvalidationRepo_Upsert E" "\<lambda>_. True" "GetCredentialEncryptionKey (bs_Security bc)"
proof unfold_locales
  show "keeps fitting anywhere (\<lambda>_. True) (cl_IssueAuthKey client ctx cookies player)" for ctx cookies player
    using upstream_inert by (auto simp: client_inert_def intro: reading_views)
  show "keeps fitting anywhere (\<lambda>(a, _, _). True) (cl_ValidateAndDiscover client ctx cookies hint)" for ctx cookies hint
    using upstream_inert by (auto simp: client_inert_def split_def intro: reading_views)
  show "keeps fitting anywhere (\<lambda>c. True) (verifyServiceTicket E jwt verifier ctx raw)" for ctx raw
    unfolding verifyServiceTicket_def by (intro views.io_map_error reading_views verify_store)
  show "keeps fitting anywhere Q (CredentialRepo_WithinTransaction E ctx fn)" if "\<And>tx. True \<Longrightarrow> keeps fitting anywhere Q (fn tx)"
    for Q ctx and fn :: "ctx \<Rightarrow> (world, BindCredentialOutput option) io"
    unfolding CredentialRepo_WithinTransaction_def by (rule begin_views) (rule that, simp)
qed (simp_all add: CredentialRepo_def DeviceRepo_def ProfileRepo_def ArtifactRepo_def ManagementRepo_def
  reads.credential_get[simplified, THEN fitting_reading] reads.credential_lookup[simplified, THEN fitting_reading]
  reads.device_lists[simplified, THEN fitting_reading] reads.profile_list[simplified, THEN fitting_reading]
  reads.profile_list_key[simplified, THEN fitting_reading]
  fitting_both[OF deployed.store.credential_save[simplified] save_views(1)[OF strict]]
  fitting_both[OF deployed.store.credential_delete[simplified] removal_views(1)]
  fitting_both[OF deployed.store.device_save[simplified] save_views(2)[OF strict]]
  fitting_both[OF deployed.store.device_delete[simplified] removal_views(2)]
  fitting_both[OF deployed.store.profile_save[simplified] profile_save_views[OF strict]]
  fitting_both[OF deployed.store.profile_delete[simplified] removal_views(3)]
  fitting_both[OF deployed.store.profile_delete_missing[simplified] removal_views(4)]
  fitting_both[OF deployed.store.profile_set_default[simplified] set_default_views]
  fitting_both[OF deployed.store.artifact_delete(1)[simplified] artifact_views(1)]
  fitting_both[OF deployed.store.artifact_get(1)[simplified] artifact_views(3)]
  fitting_both[OF deployed.store.artifact_put[simplified] artifact_views(4)[OF strict]]
  fitting_both[OF deployed.store.delete_graph_binding_keeps[simplified] graph_views(2)]
  fitting_both[OF deployed.store.delete_graph_key_keeps[simplified] graph_views(1)]
  fitting_both[OF deployed.store.invalidation_upsert[simplified] save_views(3)[OF strict]])

context strict_scope
begin

lemma bind_fits: "keeps fitting anywhere (\<lambda>_. True) (BindCredential E (wired_bind E bc client) ctx input)"
proof -
  have "wired_bind E bc client = strictly.bind_uc client (GetCredentialEncryptionKey (bs_Security bc))"
    by (simp add: wired_bind_def NewBindUsecase_def)
  then show ?thesis by (simp add: strictly.bind_keeps)
qed

lemma serve_fits:
  assumes P: "pr_env P = E" "pr_conf P = bc" "pr_client P = client" "pr_jwt P = jwt" "main_verifier P = verifier"
  shows "keeps fitting anywhere (\<lambda>_. True) (serve P req)"
proof -
  have ans: "keeps fitting anywhere (\<lambda>_. True) (answered m)" if "keeps fitting anywhere (\<lambda>_. True) m"
    for m :: "(world, Status, 'x) call"
    unfolding answered_def using that by (rule views.io_bind) (rule views.io_ret, simp)
  show ?thesis
    by (cases req; simp add: P main_account_def main_credential_def main_generic_def wired_services; intro ans)
      (intro strictly.rpc_bind_keeps strictly.rpc_status_keeps strictly.rpc_validate_keeps strictly.rpc_refresh_keeps
        strictly.rpc_list_keeps strictly.rpc_primary_keeps strictly.rpc_auth_key_keeps strictly.rpc_summary_keeps
        strictly.rpc_update_keeps strictly.rpc_delete_keeps strictly.rpc_device_keeps strictly.rpc_confirm_keeps
        strictly.rpc_shared_summary_keeps strictly.generic_summary_keeps strictly.generic_put_keeps
        strictly.generic_refresh_keeps strictly.generic_delete_keeps strictly.generic_invalidate_keeps; simp)+
qed

end

text \<open>The deployed process over MySQL.\<close>

interpretation deployed_mysql: strict_scope "E\<lparr> dialect := MySQL \<rparr>" bc UnconfiguredClient jwt
  "WithGrantVersionLookup v (GrantInvalidationRepo_MinimumVersion E)"
  for E bc jwt v
  by unfold_locales (auto simp: WithGrantVersionLookup_def minimum_version_store)

lemma strict_scope_main:
  assumes "client_inert (pr_client P)" "dialect (pr_env P) = MySQL"
  shows "strict_scope (pr_env P) (pr_client P) (main_verifier P)"
  using assms by unfold_locales (auto simp: main_verifier_def WithGrantVersionLookup_def minimum_version_store)

lemma fitting_good: "good_world w \<Longrightarrow> fitting w \<longleftrightarrow> database_fits (w_db w)"
  by (simp add: views_def good_world_def scope_ok_all)

lemma serve_keeps_fitting:
  assumes "client_inert (pr_client P)" "dialect (pr_env P) = MySQL" "good_world w" "database_fits (w_db w)"
  shows "database_fits (w_db (snd (serve P req w)))"
proof -
  have "fitting w" using assms(3,4) by (simp add: fitting_good)
  from keepsD(1)[OF strict_scope.serve_fits[OF strict_scope_main[OF assms(1,2)] refl refl refl refl refl] this, of req "fst (serve P req w)"]
  show ?thesis by (simp add: views_def)
qed

section \<open>Reachable worlds over MySQL\<close>

inductive mysql_reachable :: "world \<Rightarrow> bool" where
  start: "w_db w = empty_database \<Longrightarrow> w_tx w = None \<Longrightarrow> mysql_reachable w"
| request: "mysql_reachable w \<Longrightarrow> client_inert (pr_client P) \<Longrightarrow> dialect (pr_env P) = MySQL \<Longrightarrow>
    mysql_reachable (snd (serve P req w))"
| time: "mysql_reachable w \<Longrightarrow> mysql_reachable (w\<lparr> ticks := n \<rparr>)"
| cache: "mysql_reachable w \<Longrightarrow> mysql_reachable (w\<lparr> w_redis := c \<rparr>)"

lemma mysql_reachable_reachable: "mysql_reachable w \<Longrightarrow> reachable w"
  by (induction rule: mysql_reachable.induct) (auto intro: reachable.intros)

lemma mysql_reachable_fits:
  assumes "mysql_reachable w"
  shows "database_fits (w_db w)"
  using assms
proof induction
  case (request w P req)
  then show ?case using serve_keeps_fitting reachable_good[OF mysql_reachable_reachable] by blast
qed (simp_all add: empty_database_fits)



end
