(* ===== verification/BindLimits.thy ===== *)
theory BindLimits
  imports Liveness Widths
begin

text \<open>
  What MySQL in strict mode takes of a bind: a statement that returns has been given texts that fit the
  columns of its table, so a bind that returns was within the bounds of the schema.
\<close>

section \<open>Statements that return\<close>

lemma exec_fits:
  assumes "sql_exec E ctx f w = (Inr x, w')" and "\<And>n t y. f n t = Inr y \<Longrightarrow> fits E cs"
  shows "fits E cs"
  using assms by (auto simp: sql_exec_def interact_def Let_def split: option.splits fault.splits sum.splits)

lemma on_table_row_checked:
  "on_credentials (row_checked E cs f) t = Inr y \<Longrightarrow> fits E cs"
  "on_devices (row_checked E cs g) t = Inr y \<Longrightarrow> fits E cs"
  "on_profiles (row_checked E cs h) t = Inr y \<Longrightarrow> fits E cs"
  by (auto simp: on_table_ok)

lemma saved_credential_fits:
  assumes "CredentialRepo_Save E ctx c w = (Inr x, w')"
  shows "fits E (credential_columns (record_of_credential c))"
  using assms unfolding CredentialRepo_Save_def Let_def by (rule exec_fits) (rule on_table_row_checked)

lemma saved_device_fits:
  assumes "DeviceRepo_Save E ctx d w = (Inr x, w')"
  shows "fits E (device_columns (record_of_device d))"
  using assms unfolding DeviceRepo_Save_def Let_def by (rule exec_fits) (rule on_table_row_checked)

text \<open>A default profile that has a row already keeps the region and the player of that row.\<close>

lemma saved_profile_fits:
  assumes "ProfileRepo_Save E ctx p w = (Inr x, w')"
  shows "fits E (assigned_columns p)"
proof -
  have new: "fits E (profile_columns (record_of_profile p)) \<Longrightarrow> fits E (assigned_columns p)"
    by (simp add: fits_def row_fits profile_columns_def assigned_columns_def record_of_profile_def)
  show ?thesis
  proof (cases "pf_IsDefault p")
    case True
    then have run: "saveDefaultProfile E ctx p (record_of_profile p) w = (Inr x, w')"
      using assms by (simp add: ProfileRepo_Save_def)
    show ?thesis
      using run unfolding saveDefaultProfile_def Let_def
      by (auto elim!: bind_io_okE then_io_okE dest!: map_error_okE exec_fits[OF _ on_table_row_checked(3)] new split: if_splits)
  next
    case False
    then show ?thesis
      using assms unfolding ProfileRepo_Save_def Let_def
      by (auto dest!: exec_fits[OF _ on_table_row_checked(3)] intro: new)
  qed
qed

lemma saved_profiles_fit:
  "save_profiles (ProfileRepo E) ctx mk i ds w = (Inr x, w') \<Longrightarrow> d \<in> set ds \<Longrightarrow> \<exists>j. fits E (assigned_columns (mk j d))"
  by (induction ds arbitrary: i w x) (auto simp: ProfileRepo_def elim!: then_io_okE bind_io_okE dest: saved_profile_fits)

lemma bound_rows_fit:
  assumes "bind_transaction E (wired_bind E bc client) input prepared WithTx w = (Inr x, w')"
  shows "\<exists>now. fits E (credential_columns (record_of_credential (bound_credential input prepared now))) \<and>
    fits E (device_columns (record_of_device (bound_device input prepared now))) \<and>
    (\<forall>d \<in> set (bp_discoveredProfiles prepared). \<exists>i. fits E (assigned_columns (bound_profile input prepared now i d)))"
proof -
  obtain y w1 where p: "bindPreparedCredential E (wired_bind E bc client) WithTx input (Some prepared) w = (Inr y, w1)"
    using assms unfolding bind_transaction_def by (rule bind_io_okE)
  then obtain now existing w2 w3 u w4 where c: "CredentialRepo_Save E WithTx (bound_credential input prepared now) w2 = (Inr u, w3)"
    and r: "bind_relations (wired_bind E bc client) WithTx input prepared now (previous_account existing prepared) w3 = (Inr y, w4)"
    unfolding wired_prepared by (auto elim!: bind_io_okE then_io_okE simp: on_error_def split: prod.splits sum.splits)
  from r have "\<exists>v w5. DeviceRepo_Save E WithTx (bound_device input prepared now) w3 = (Inr v, w5)"
    "\<exists>v w5 w6. save_profiles (ProfileRepo E) WithTx (bound_profile input prepared now) 0 (bp_discoveredProfiles prepared) w5 = (Inr v, w6)"
    unfolding bind_relations_def
    by (auto elim!: bind_io_okE then_io_okE simp: wired_bind_def NewBindUsecase_def DeviceRepo_def)
  then show ?thesis using saved_credential_fits[OF c] saved_device_fits saved_profiles_fit by fast
qed

section \<open>A bind that returns\<close>

lemma written_texts_fit:
  assumes "dialect E = MySQL" and "database_ok (w_db w)" and "client_inert client" and "rand_law E"
    and "BindCredential E (wired_bind E bc client) ctx input w = (Inr result, w')"
    and "fst (cl_ValidateAndDiscover client ctx (bi_CookieBundleJSON input) (bi_RegionHint input) w) = Inr (a, region, ds)"
  shows "varchar_fits 64 (FormatPlatformAccountID (bi_BindingID input) a) \<and> varchar_fits 64 a \<and> varchar_fits 32 region \<and>
    length (bi_CookieBundleJSON input) \<le> 49121 \<and>
    varchar_fits 64 (bi_DeviceID input) \<and> varchar_fits 64 (bi_DeviceFP input) \<and> varchar_fits 128 (bi_DeviceName input) \<and>
    list_all (\<lambda>d. varchar_fits 64 (dp_GameBiz d) \<and> varchar_fits 255 (dp_Nickname d)) ds"
proof -
  obtain prepared w1 where prep: "prepareBindCredential E (wired_bind E bc client) ctx input w = (Inr prepared, w1)"
    and com: "committed_by E (bind_transaction E (wired_bind E bc client) input prepared) w1 (Inr result) w'"
    using bind_outcomes[OF assms(2,3,5)] by blast
  have fields: "bp_platformAccountID prepared = FormatPlatformAccountID (bi_BindingID input) a"
    "bp_accountID prepared = a" "bp_region prepared = region" "bp_discoveredProfiles prepared = ds"
    using prepared_fields[OF prep] assms(6) by auto
  obtain w2 w3 :: world where "EncryptString E (GetCredentialEncryptionKey (bs_Security bc)) (bi_CookieBundleJSON input) w2 =
      (Inr (bp_encryptedBlob prepared), w3)"
    using prep by (auto simp: prepareBindCredential_def wired_bind_def NewBindUsecase_def Let_def split: if_splits elim!: bind_io_okE)
  note blob = blob_size(2)[OF assms(4) this]
  obtain w4 where "bind_transaction E (wired_bind E bc client) input prepared WithTx (tx_started w1) = (Inr result, w4)"
    using com by (auto simp: committed_by_def)
  from bound_rows_fit[OF this] obtain now where
    c: "fits E (credential_columns (record_of_credential (bound_credential input prepared now)))" and
    d: "fits E (device_columns (record_of_device (bound_device input prepared now)))" and
    p: "\<forall>d \<in> set ds. \<exists>i. fits E (assigned_columns (bound_profile input prepared now i d))"
    by (auto simp: fields)
  show ?thesis
    using c d p blob assms(1)
    by (auto simp: fits_def row_fits credential_columns_def device_columns_def assigned_columns_def column_fits fields list_all_iff
        record_of_credential_def record_of_device_def bound_credential_def bound_device_def bound_profile_def split: if_splits)
qed

text \<open>What a bind leaves behind conforms to the columns too, if what was there did.\<close>

lemma bind_keeps_fitting:
  assumes "dialect E = MySQL" and "client_inert client" and "good_world w" and "database_fits (w_db w)"
  shows "database_fits (w_db (snd (BindCredential E (wired_bind E bc client) ctx input w)))"
proof -
  have strict: "strict_scope E client (WithGrantVersionLookup v (GrantInvalidationRepo_MinimumVersion E))" for v
    using assms(1,2) by unfold_locales (auto simp: WithGrantVersionLookup_def minimum_version_store)
  have "keeps fitting anywhere (\<lambda>_. True) (BindCredential E (wired_bind E bc client) ctx input)"
    by (rule strict_scope.bind_fits[OF strict])
  moreover have "fitting w" using assms(3,4) by (simp add: fitting_good)
  ultimately have "fitting (snd (BindCredential E (wired_bind E bc client) ctx input w))"
    by (rule keepsD(1)) (rule prod.collapse[symmetric])
  then show ?thesis by (simp add: views_def)
qed

text \<open>C28: Under MySQL a bind on a database as the service leaves it returns only when its texts fit their
  columns, all of them valid UTF-8: the account key it makes and the account id have at most 64
  characters and the region 32; the cookie bundle has at most 49121 bytes (what is left of 65535 after
  encryption and base64); the device's id and fingerprint have at most 64 characters and its name 128;
  of every discovered profile the game and the player have at most 64, the region 32 and the nickname
  255.\<close>

theorem mysql_bind_fits_columns:
  assumes "dialect E = MySQL" and "good_world w" and "database_fits (w_db w)" and "client_inert client" and "rand_law E"
    and "BindCredential E (wired_bind E bc client) ctx input w = (Inr result, w')"
    and "fst (cl_ValidateAndDiscover client ctx (bi_CookieBundleJSON input) (bi_RegionHint input) w) = Inr (a, region, ds)"
  shows "bind_texts_fit E input a region ds"
proof -
  have ok: "database_ok (w_db w)" using assms(2) by (simp add: good_world_def)
  obtain out prepared w1 where bound: "bound_as input prepared out (w_db w')"
    and prep: "prepareBindCredential E (wired_bind E bc client) ctx input w = (Inr prepared, w1)"
    using bind_committed[OF ok assms(4,6)] by metis
  have "database_fits (w_db w')" using bind_keeps_fitting[OF assms(1,4,2,3), of bc ctx input] assms(6) by simp
  then have "varchar_fits 32 (dp_Region d) \<and> varchar_fits 64 (dp_PlayerID d)" if "d \<in> set ds" for d
    using bound that prepared_fields[OF prep] assms(7)
    by (fastforce simp: bound_as_def bound_state_def list_all_iff has_profile_def profile_row_def database_fits_def table_fits_def
        profile_columns_def row_fits column_fits)
  then show ?thesis
    using written_texts_fit[OF assms(1) ok assms(4-7)]
    by (auto simp: bind_texts_fit_def profile_texts_fit_def list_all_iff)
qed

lemma sample_world_fits: "database_fits (w_db sample_world)"
proof -
  have "varchar_fits 64 (FormatPlatformAccountID 2 ''20002'')"
  proof -
    have "FormatPlatformAccountID 2 ''20002'' = ''binding_2_20002''" by code_simp
    then show ?thesis by (simp add: ascii_fits byte_code_def)
  qed
  then show ?thesis
    by (simp add: database_fits_def table_fits_def sample_world_def sample_row_def empty_database_def empty_table_def
        row_fits credential_columns_def column_fits ascii_fits valid_ascii byte_code_def)
qed

theorem mysql_bind_fits_columns_witness:
  "(\<exists>result w'. BindCredential (sample_env MySQL) (wired_bind (sample_env MySQL) sample_conf StubClient) Background
     sample_input sample_world = (Inr result, w')) \<and> varchar_fits 64 (bi_DeviceID sample_input)"
proof -
  let ?run = "BindCredential (sample_env MySQL) (wired_bind (sample_env MySQL) sample_conf StubClient) Background sample_input sample_world"
  have "\<exists>result w'. ?run = (Inr result, w')"
    by (rule bind_returns[OF _ _ _ _ sample_discovers]) (simp_all add: sample_bindable sample_texts_fit)
  then obtain result w' where run: "?run = (Inr result, w')" by blast
  have "database_fits (w_db sample_world)" by (rule sample_world_fits)
  from mysql_bind_fits_columns[OF _ sample_world_good this _ _ run sample_discovers] run show ?thesis
    by (simp add: bind_texts_fit_def)
qed

end
