(* ===== verification/UpdateLiveness.thy ===== *)
theory UpdateLiveness
  imports AccountView UpdateResult
begin

text \<open>
  What a healthy system does with a replaced cookie bundle: the call returns, and the summary it answers
  with shows the account as the upstream has just reported it.
\<close>

section \<open>The transaction\<close>

lemma rets_establishes: "returns P m Q \<Longrightarrow> establishes P m S \<Longrightarrow> returns P m (\<lambda>x w. Q x w \<and> S x w)"
  unfolding returns_def establishes_def by fast

lemma prune_returns:
  assumes "healthy E" "key_binding k = Some b"
  shows "returns (in_tx (\<lambda>_. True)) (pruneStaleProfiles (wired_management E bc client) WithTx k outs) (\<lambda>_. in_tx (\<lambda>_. True))"
proof -
  have "returns (in_tx (\<lambda>_. True)) (ProfileRepo_DeleteMissingByBindingID E WithTx b keep) (\<lambda>_. in_tx (\<lambda>_. True))" for keep
    by (simp add: ProfileRepo_DeleteMissingByBindingID_def rets_delete[OF assms(1)])
  moreover have "BindingIDFromPlatformAccountID k = Inr b"
    using assms(2) by (simp add: key_binding_def split: sum.splits)
  ultimately show ?thesis
    by (simp add: pruneStaleProfiles_def wired_management_def NewManagementUsecase_def ProfileRepo_def Let_def bind_io_def returns_def)
qed

lemma update_transaction_returns:
  assumes E: "healthy E" and rows: "rows_fit E (ui_BindCredentialInput input) prepared"
    and k: "bp_platformAccountID prepared = ui_PlatformAccountID input"
    and key: "bp_platformAccountID prepared = FormatPlatformAccountID (bi_BindingID (ui_BindCredentialInput input)) (bp_accountID prepared)"
    and b: "bi_BindingID (ui_BindCredentialInput input) \<noteq> 0"
  shows "returns (in_tx (bindable (bi_BindingID (ui_BindCredentialInput input)) (bp_accountID prepared) (length (bp_discoveredProfiles prepared))))
    (update_transaction E (wired_management E bc client) input prepared WithTx)
    (\<lambda>_. in_tx (updated_state (ui_BindCredentialInput input) prepared))"
proof -
  let ?i = "ui_BindCredentialInput input"
  let ?P = "in_tx (bindable (bi_BindingID ?i) (bp_accountID prepared) (length (bp_discoveredProfiles prepared)))"
  have kb: "key_binding (ui_PlatformAccountID input) = Some (bi_BindingID ?i)"
    unfolding k[symmetric] using b by (subst key) simp
  have any: "establishes (in_tx (\<lambda>_. True)) m Q \<Longrightarrow> establishes ?P m Q" for m :: "(world, error, 'x) call" and Q
    by (auto simp: establishes_def in_tx_def)
  have "returns ?P (bindPreparedCredential E (wired_bind E bc client) WithTx ?i (Some prepared)) (\<lambda>_. in_tx (\<lambda>_. True))"
    by (rule rets_weaken[OF rets_establishes[OF bind_prepared_returns[OF E key rows] any[OF prepared_establishes]]])
      (auto simp: in_tx_def)
  then have "returns ?P (update_transaction E (wired_management E bc client) input prepared WithTx) (\<lambda>_ _. True)"
    unfolding update_transaction_def wired_management_repos
    by (rule rets_bind) (rule rets_then[OF prune_returns[OF E kb]], simp add: rets_ret)
  from rets_weaken[OF rets_establishes[OF this any[OF update_transaction_establishes[OF k kb]]]] show ?thesis by simp
qed

section \<open>The summary that answers\<close>

definition account_summary :: "database \<Rightarrow> CredentialRecord \<Rightarrow> CredentialSummaryOutput" where
  "account_summary d c = summary_output (credentialFromRecord c)
     (devicesFromRecords (sql_find (\<lambda>r. dr_PlatformAccountID r = cd_PlatformAccountID c) (db_devices d)))
     (map toProfileSummary (profilesFromRecords (sql_find (\<lambda>r. ap_PlatformAccountID r = cd_PlatformAccountID c) (db_profiles d))))"

lemma lookup_returns:
  assumes "healthy E" "database_ok (w_db w)" "(i, c) \<in> set (tb_rows (db_credentials (w_db w)))"
  shows "CredentialRepo_GetByPlatformAccountID E Background (cd_PlatformAccountID c) w =
    (Inr (Some (credentialFromRecord c)), next_tick w)"
proof -
  let ?t = "db_credentials (w_db w)" and ?p = "\<lambda>r. cd_PlatformAccountID r = cd_PlatformAccountID c"
  have "sql_take n ?p ?t \<noteq> None" for n unfolding sql_take_None using assms(3) by force
  moreover have "x = (i, c)" if "sql_take n ?p ?t = Some x" for n x
    using sql_take_Some[OF that] unique_ok_inj[of credential_keys ?t x "(i, c)"] assms(2,3)
    by (simp add: database_ok_def table_ok_def schema_clashes)
  ultimately have "sql_take n ?p ?t = Some (i, c)" for n by fastforce
  then show ?thesis
    using assms(1) by (simp add: CredentialRepo_GetByPlatformAccountID_def catch_not_found_def gorm_take_def interact_def healthy_def
        db_view_def Let_def bind_io_apply attempt_apply)
qed

lemma account_summary_returns:
  assumes "healthy E" "database_ok (w_db w)" "(i, c) \<in> set (tb_rows (db_credentials (w_db w)))"
  obtains w' where "ManagementUsecase_GetCredentialSummary (wired_management E bc client) Background (cd_PlatformAccountID c) w =
    (Inr (account_summary (w_db w) c), w')" "w_db w' = w_db w"
  using lookup_returns[OF assms] that
  by (simp add: ManagementUsecase_GetCredentialSummary_def wired_management_def NewManagementUsecase_def wired_profile_def
      NewProfileUsecase_def ListProfiles_def CredentialRepo_def DeviceRepo_def ProfileRepo_def DeviceRepo_ListByPlatformAccountID_def
      ProfileRepo_ListByPlatformAccountID_def healthy_find[OF assms(1)] bind_io_apply account_summary_def)

definition shown_profiles :: "CredentialSummaryOutput \<Rightarrow> (string \<times> string) set" where
  "shown_profiles s = (\<lambda>p. (ps_PlayerId p, ps_Region p)) ` set (so_Profiles s)"

text \<open>When the keys of the tables match, the summary of the new state shows exactly the discovered profiles.\<close>

lemma updated_summary:
  assumes state: "updated_state input prepared d" and keys: "keys_match d"
    and k: "bp_platformAccountID prepared = k" "key_binding k = Some (bi_BindingID input)"
  obtains i c where "(i, c) \<in> set (tb_rows (db_credentials d))" "cd_PlatformAccountID c = k"
    "so_PlatformAccountID (account_summary d c) = k" "so_Status (account_summary d c) = CREDENTIAL_STATUS_ACTIVE"
    "\<exists>v \<in> set (so_Devices (account_summary d c)). dv_DeviceID v = bi_DeviceID input \<and> dv_DeviceFP v = bi_DeviceFP input \<and> dv_IsValid v"
    "shown_profiles (account_summary d c) = set (names_of (bp_discoveredProfiles prepared))"
proof -
  let ?ds = "bp_discoveredProfiles prepared"
  obtain now where bound: "bound_state input prepared now d" and only: "only_profiles (bi_BindingID input) ?ds d"
    using state by (auto simp: updated_state_def)
  let ?c = "record_of_credential (bound_credential input prepared now)"
  obtain i where i: "(i, ?c) \<in> set (tb_rows (db_credentials d))" using bound by (auto simp: bound_state_def has_credential_def)
  have c: "cd_PlatformAccountID ?c = k" using k(1) by (simp add: record_of_credential_def bound_credential_def)
  have shown: "so_PlatformAccountID (account_summary d ?c) = k" "so_Status (account_summary d ?c) = CREDENTIAL_STATUS_ACTIVE"
    unfolding account_summary_def credentialFromRecord_inverse record_of_credential_inverse using k(1)
    by (simp_all add: summary_output_def bound_credential_def toCredentialStatus_def)
  obtain n where "(n, record_of_device (bound_device input prepared now)) \<in> set (tb_rows (db_devices d))"
    using bound by (auto simp: bound_state_def has_device_def)
  then have device: "\<exists>v \<in> set (so_Devices (account_summary d ?c)). dv_DeviceID v = bi_DeviceID input \<and> dv_DeviceFP v = bi_DeviceFP input \<and> dv_IsValid v"
    using k(1) c
    by (force simp: account_summary_def summary_output_def devicesFromRecords_def set_sql_find record_of_device_def
        bound_device_def create_default_def)
  have rows: "(\<exists>n r. (n, r) \<in> set (tb_rows (db_profiles d)) \<and> ap_PlatformAccountID r = k \<and> ap_PlayerID r = x \<and> ap_Region r = y) \<longleftrightarrow>
      (\<exists>p \<in> set ?ds. dp_PlayerID p = x \<and> dp_Region p = y)" for x y
  proof
    assume "\<exists>n r. (n, r) \<in> set (tb_rows (db_profiles d)) \<and> ap_PlatformAccountID r = k \<and> ap_PlayerID r = x \<and> ap_Region r = y"
    then obtain n r where r: "(n, r) \<in> set (tb_rows (db_profiles d))" "ap_PlatformAccountID r = k" "ap_PlayerID r = x" "ap_Region r = y"
      by blast
    have "ap_BindingID r = bi_BindingID input" using keys r(1,2) k(2) by (fastforce simp: keys_match_def)
    then show "\<exists>p \<in> set ?ds. dp_PlayerID p = x \<and> dp_Region p = y" using only r by (fastforce simp: only_profiles_def)
  next
    assume "\<exists>p \<in> set ?ds. dp_PlayerID p = x \<and> dp_Region p = y"
    then show "\<exists>n r. (n, r) \<in> set (tb_rows (db_profiles d)) \<and> ap_PlatformAccountID r = k \<and> ap_PlayerID r = x \<and> ap_Region r = y"
      using bound k(1) by (fastforce simp: bound_state_def list_all_iff has_profile_def profile_row_def)
  qed
  have "(x, y) \<in> shown_profiles (account_summary d ?c) \<longleftrightarrow>
      (\<exists>n r. (n, r) \<in> set (tb_rows (db_profiles d)) \<and> ap_PlatformAccountID r = k \<and> ap_PlayerID r = x \<and> ap_Region r = y)" for x y
    unfolding account_summary_def c
    by (force simp: shown_profiles_def summary_output_def profilesFromRecords_def set_sql_find toProfileSummary_def)
  then have "shown_profiles (account_summary d ?c) = set (names_of ?ds)" by (auto simp: rows names_of_def)
  with i c shown device show ?thesis by (rule that)
qed

section \<open>The whole update\<close>

context service_scope
begin

lemma wired_update_keeps:
  assumes "mine (bi_BindingID (ui_BindCredentialInput input))"
    and "key_binding (ui_PlatformAccountID input) = Some (bi_BindingID (ui_BindCredentialInput input))"
  shows "keeps (world_scope mine owns acct) (world_frame mine) (\<lambda>_. True)
    (ManagementUsecase_UpdateCredential E (wired_management E bc client) ctx input)"
  unfolding wired_management_def NewManagementUsecase_def wired_bind_def NewBindUsecase_def wired_profile_def NewProfileUsecase_def
  using assms by (intro update_keeps) simp_all

end

lemma update_well_formed:
  assumes "client_inert client" "good_world w"
    and key: "key_binding (ui_PlatformAccountID input) = Some (bi_BindingID (ui_BindCredentialInput input))"
  shows "good_world (snd (ManagementUsecase_UpdateCredential E (wired_management E bc client) Background input w))"
proof -
  let ?w' = "snd (ManagementUsecase_UpdateCredential E (wired_management E bc client) Background input w)"
  have scope: "service_scope (\<lambda>_. True) (\<lambda>b k. key_binding k = Some b) (\<lambda>_ _. True) E client jwt (NewTicketVerifier issuer pub) (\<lambda>_. False)"
    for jwt issuer pub
    by unfold_locales
      (simp_all add: assms(1) NewTicketVerifier_def NewStaticKeyTicketVerifier_def NewTicketVerifierWithResolver_def)
  have "keeps (world_scope (\<lambda>_. True) (\<lambda>b k. key_binding k = Some b) (\<lambda>_ _. True)) (world_frame (\<lambda>_. True)) (\<lambda>_. True)
      (ManagementUsecase_UpdateCredential E (wired_management E bc client) Background input)"
    by (rule service_scope.wired_update_keeps[OF scope TrueI key])
  moreover have "world_scope (\<lambda>_. True) (\<lambda>b k. key_binding k = Some b) (\<lambda>_ _. True) w"
    using assms(2) by (simp add: world_scope_def keys_match_scope good_world_def)
  ultimately have "world_scope (\<lambda>_. True) (\<lambda>b k. key_binding k = Some b) (\<lambda>_ _. True) ?w' \<and> world_frame (\<lambda>_. True) w ?w'"
    unfolding keeps_def by blast
  then show ?thesis using assms(2) by (simp add: world_scope_def world_frame_def keys_match_scope good_world_def)
qed


lemma bound_world_bindable: "bindable 1 ''10001'' (Suc 0) (w_db bound_world)"
  using bound_world_ok
  by (simp add: bindable_def keys_match_def account_free_def settled_def room_for_def bound_world_def empty_database_def empty_table_def)


end
