(* ===== verification/Spec2Isabelle.thy ===== *)
theory Spec2Isabelle
  imports Startup Access AuthkeyUsecase EnvLoad AccountView MigrationResult Interfaces CacheRace BindLimits UpdateLiveness
begin

text \<open>
  A verification development of platform-mihomo-service, a gRPC service that binds Mihomo accounts:
  it checks a caller's service ticket, validates the caller's cookies with the upstream, stores them
  encrypted with the devices and game profiles of the account, and hands out statuses, profiles and
  auth keys.

  The program and the theories. Paths are under \<open>src/internal\<close>; a definition has the name of the Go
  function, type or constant it models, with the receiver in front where two methods share a name
  (\<open>CredentialRepo_Save\<close>), and a record field a two-letter prefix.

  \<^item> Foundations. \<open>Prelude\<close> has the integer types, the errors and the calling convention: a Go
    function that acts on the outside is a function from a world to an error or a value and the next
    world, and \<open>bind_io\<close> returns early at an error. \<open>GoStrings\<close>, \<open>GoText\<close>, \<open>GoPath\<close>, \<open>GoTime\<close> and
    \<open>Base64\<close> are the parts of the standard library the program uses, on byte strings, \<open>Utf8\<close> their encoding of
    characters; \<open>JsonScan\<close>, \<open>JsonText\<close> and \<open>JsonStruct\<close> are \<open>encoding/json\<close> (the scanner, texts and their escapes, structs and
    the errors of their members), \<open>Aes\<close> and \<open>Gcm\<close> the cipher behind \<open>crypto/cipher\<close>, from its standard.
  \<^item> The store. \<open>Schema\<close> (\<open>data/model\<close>, the migrations) has the rows and their unique keys, \<open>Columns\<close>
    the types of their columns, with what MySQL in strict mode refuses to store, \<open>Sql\<close> the statements
    gorm issues, with both readings of \<open>OnConflict\<close> (MySQL takes any unique key, SQLite the
    named one), \<open>World\<close> the committed database, the open transaction, Redis and the environment.
    \<open>CredentialRepo\<close>, \<open>DeviceRepo\<close>, \<open>ProfileRepo\<close>, \<open>ArtifactRepo\<close>, \<open>ManagementRepo\<close> and
    \<open>GrantInvalidationRepo\<close> are \<open>data\<close>, one theory a file; \<open>Biz\<close> is \<open>biz\<close> and \<open>platform/mihomo\<close>,
    \<open>ArtifactJson\<close> the form in which an artifact is cached.
  \<^item> The migrations. \<open>Migrations\<close> is \<open>initialize/migrate/sql\<close>: every file, up and down, as a function of
    the tables; \<open>MigrationResult\<close> what they make of an existing database.
  \<^item> The use cases. \<open>PlatformAccountKey\<close>, \<open>ScopeGuard\<close>, \<open>BindUsecase\<close>, \<open>StatusUsecase\<close>,
    \<open>ProfileUsecase\<close>, \<open>AuthkeyUsecase\<close> and \<open>ManagementUsecase\<close> are \<open>usecase\<close>, \<open>Crypto\<close> is \<open>crypto\<close>.
  \<^item> The services. \<open>TicketVerifier\<close> is the ticket check of \<open>data\<close>; \<open>Api\<close>, \<open>BindingMapper\<close>,
    \<open>MihomoAccount\<close>, \<open>MihomoCredential\<close> and \<open>PlatformAdapter\<close> are the messages and the handlers of
    \<open>service\<close>, \<open>CredentialPayload\<close> the JSON payload of the generic service.
  \<^item> The process. \<open>Bootstrap\<close> and \<open>GrpcServer\<close> are \<open>cmd/platform-mihomo-service/main.go\<close>, \<open>conf\<close> and
    \<open>server/grpc.go\<close>: configuration, wiring, start-up. \<open>Requests\<close> is one request served by the wired
    process.
  \<^item> The test support. \<open>IntegrationEnv\<close> is \<open>testutil/integrationenv/env.go\<close> and
    \<open>cmd/integration-doctor/main.go\<close>.

  Contracts. A use case takes its repositories as interfaces, and the locales of \<open>Contracts\<close> are their
  promises, relative to an invariant of the world, a relation between the worlds before and after and
  the bindings, account keys and upstream accounts the caller may touch (\<open>Scope\<close>). The use cases and
  handlers are proved once against these promises, in the theories that define them. \<open>SqlContract\<close>
  gives the promises for the database primitives, and each repository obtains its own from them by
  \<open>sublocale\<close>. The contracts are then instantiated four times: \<open>Wiring\<close> with a bound on the bindings
  that are touched, \<open>Atomicity\<close> inside a transaction whose committed database stays as it was,
  \<open>ReadOnly\<close> with no writing at all, and \<open>Widths\<close> with the types of the columns.

  What is proved (the claims, by their numbers):

  \<^item> The whole service (\<open>Reachability\<close>, \<open>Access\<close>, \<open>ReadOnly\<close>, \<open>Grants\<close>, \<open>Widths\<close>): C1 isolation of bindings, C2
    refusal of requests that no ticket permits, C3 well-formedness of every reachable world, C4
    authenticity of accepted tickets, C5 permanence of a revocation, and that reading requests change
    nothing, no handler panics and over MySQL every stored value fits its column. A reachable world comes
    from an empty database by any requests in any order, with any failures, the clock moving and the cache
    losing or changing entries in between.
  \<^item> Operations (\<open>Atomicity\<close>, \<open>BindResult\<close>, \<open>GraphResult\<close>, \<open>UpdateResult\<close>, \<open>Liveness\<close>,
    \<open>UpdateLiveness\<close>, \<open>BindLimits\<close>): a bind, an update and a delete happen entirely or not at all and store exactly what they
    should; with a healthy environment a permitted delete returns, and so does a bind, of a new binding or
    of one that is bound, whose texts fit, and an update, whose summary shows exactly the profiles the
    upstream discovered; under MySQL a bind whose texts do not fit never returns.
  \<^item> Results (\<open>DefaultProfile\<close>, \<open>StatusResult\<close>, \<open>ArtifactResult\<close>, \<open>StoreFacts\<close>, \<open>AccountView\<close>,
    \<open>CacheRace\<close>): what a single operation writes and what a later read shows, among them the cases in which the code does
    something its callers would not expect (a credential that takes over the row of another binding, a
    player in two regions, a device saved as invalid).
  \<^item> Migrations (\<open>MigrationResult\<close>): a way up that succeeds establishes the invariant of C3 on the
    rows that were there, a way up fails at nothing but a precheck or a number beyond 64 bits, and the way
    down restores the tables.
  \<^item> Texts (\<open>CredentialPayload\<close>, \<open>ArtifactJson\<close>): which members of a payload count; an artifact reads back
    from its JSON form.
  \<^item> Interfaces (\<open>Interfaces\<close>): the three services answer as one, and a generic put is an update or a
    bind.
  \<^item> Start-up and tools (\<open>Startup\<close>, \<open>EnvSearch\<close>, \<open>EnvLoad\<close>): validation makes the process start
    complete and with the configured key; the search for the repository root ends, generated names fit,
    settings have the documented precedence, passwords are not printed.

  Abstract specifications: a delete refines the removal of a binding from the store (\<open>purge\<close>), the
  removal loop of profiles one deletion by predicate (\<open>without_stale\<close>), the grant store a map from
  binding and consumer to a minimum that only rises (\<open>minimum_of\<close>), \<open>Load\<close> a table of settings.

  Failure and order. Every interaction with a server has a number; the environment says whether it fails
  before or after the server has acted, so an error can leave the write done, also at a commit. Where
  SQL leaves open which row is taken, the environment chooses. One request runs at a time: what other
  requests do between two interactions of one request is not modelled, and within a transaction the
  database isolates it. The one exception is \<open>CacheRace\<close>, where a read runs inside a delete, between the
  deletion of the cache keys and the commit (\<open>meanwhile\<close>).

  Bounds. Integers of the code are words of their width, so products and conversions wrap as in Go.
  There is no fuel: every loop runs over a list or a number that decreases, except the search for the
  repository root, whose measure is the length of the path (\<open>path_height\<close>), and the search for the year
  of a date, whose measure is the days that are left (\<open>find_year\<close>). Tables end at \<open>2 ^ 64\<close> ids (\<open>IdsExhausted\<close>).

  Parameters and their laws. The random
  source (\<open>rand_law\<close>: it delivers the length asked for), the JWT library (\<open>jwt_law\<close>: a parsed token was
  signed with the key the key function gave, and its registered claims hold), PEM and PKIX decoding, the database driver
  (\<open>driver_faults\<close>: a connection error is not the record-not-found error), the upstream client
  (\<open>client_inert\<close>: it does not write to this service's database), what the gRPC library registers by
  itself, and the operating system in \<open>IntegrationEnv\<close> (\<open>host\<close>).

  Not modelled. The collation of MySQL (texts are compared byte by byte; in \<open>Migrations\<close> \<open>REGEXP\<close> ignores
  case), trailing spaces beyond the width of a column, which MySQL cuts off, the precision of
  \<open>DATETIME\<close> and the columns \<open>created_at\<close> and \<open>updated_at\<close>; \<open>ToLower\<close> and \<open>%q\<close> beyond ASCII;
  the offset in a base64 error, the text of an error about a cached artifact, which no caller reads;
  time zones other than UTC; line terminators beyond ASCII in the migrations' patterns, and what a
  migration leaves behind that fails; the generated reflection,
  marshalling and client code of the API and configuration messages and the getters beyond those that
  are called; the messages of the contract module outside the repository, which are records of the
  fields that are used; flag parsing, the reading of the configuration file, the opening of
  connections, and the serving loop. A Go panic in a handler would be the error \<open>GoPanic\<close>, which never
  occurs.
\<close>

end
